(* ===== verification/Prelude.thy ===== *)
theory Prelude
  imports Main "HOL-Library.AList" "HOL-Library.Multiset" "HOL-Library.List_Lexorder" "HOL-Library.Char_ord"
begin

text \<open>
  Shared vocabulary of the development.
  \<^item> Go maps are association lists with distinct keys: \<open>mget\<close>, \<open>mput\<close>, \<open>mdel\<close>,
    \<open>mkeys\<close>; \<open>len(m)\<close> is \<open>length m\<close>. The order in which Go's \<open>range\<close> visits a map
    is unspecified, so every loop over a map takes the visiting order as an argument of
    type \<open>range_order\<close>, and \<open>order_ok\<close> says it visits each key exactly once.
  \<^item> \<open>sort.Slice\<close> is \<open>sort_by\<close>, an insertion sort by the code's own \<open>less\<close>
    function; \<open>sort_by_unique\<close> shows that where \<open>lt\<close> is a strict total order on
    the elements the result is the only sorted permutation, so the choice of algorithm
    does not matter.
  \<^item> \<open>wrap64\<close> is the two's complement reading of an integer in 64 bits, used where
    the code's \<open>int64\<close> durations can overflow.
  \<^item> Times are integers: nanoseconds since the zero \<open>time.Time\<close>; durations are
    nanoseconds.
\<close>

named_theorems gomap "facts about association lists used as Go maps"
named_theorems gostr "facts about the string functions of the Go standard library"

type_synonym gtime = int
type_synonym gduration = int

definition zero_time :: gtime where
  "zero_time = 0"

subsection \<open>64-bit wrap-around\<close>

definition wrap64 :: "int \<Rightarrow> int" where
  "wrap64 x = (x + 2 ^ 63) mod 2 ^ 64 - 2 ^ 63"

lemma wrap64_id: "- (2 ^ 63) \<le> x \<Longrightarrow> x < 2 ^ 63 \<Longrightarrow> wrap64 x = x"
  by (simp add: wrap64_def)

lemma wrap64_range: "- (2 ^ 63) \<le> wrap64 x \<and> wrap64 x < 2 ^ 63"
proof -
  have "0 \<le> (x + 2 ^ 63) mod 2 ^ 64" "(x + 2 ^ 63) mod 2 ^ 64 < (2 ^ 64 :: int)"
    by simp_all
  then show ?thesis by (simp add: wrap64_def)
qed

lemma wrap64_cong: "wrap64 x mod 2 ^ 64 = x mod 2 ^ 64"
proof -
  have "wrap64 x mod 2 ^ 64 = ((x + 2 ^ 63) - 2 ^ 63) mod 2 ^ 64"
    unfolding wrap64_def by (rule mod_diff_left_eq)
  then show ?thesis by simp
qed

subsection \<open>Maps\<close>

type_synonym ('k, 'v) gomap = "('k \<times> 'v) list"
type_synonym 'k range_order = "'k list \<Rightarrow> 'k list"

abbreviation mget :: "('k, 'v) gomap \<Rightarrow> 'k \<Rightarrow> 'v option" where
  "mget m k \<equiv> map_of m k"

abbreviation mput :: "'k \<Rightarrow> 'v \<Rightarrow> ('k, 'v) gomap \<Rightarrow> ('k, 'v) gomap" where
  "mput k v m \<equiv> AList.update k v m"

abbreviation mdel :: "'k \<Rightarrow> ('k, 'v) gomap \<Rightarrow> ('k, 'v) gomap" where
  "mdel k m \<equiv> AList.delete k m"

abbreviation mkeys :: "('k, 'v) gomap \<Rightarrow> 'k list" where
  "mkeys m \<equiv> map fst m"

abbreviation mok :: "('k, 'v) gomap \<Rightarrow> bool" where
  "mok m \<equiv> distinct (map fst m)"

definition order_ok :: "'k range_order \<Rightarrow> bool" where
  "order_ok ord \<longleftrightarrow> (\<forall>ks. mset (ord ks) = mset ks)"

lemma order_ok_set [simp]: "order_ok ord \<Longrightarrow> set (ord ks) = set ks"
  by (metis order_ok_def set_mset_mset)

lemma order_ok_distinct [simp]: "order_ok ord \<Longrightarrow> distinct (ord ks) = distinct ks"
  by (metis order_ok_def mset_eq_imp_distinct_iff)

lemma order_ok_id [simp]: "order_ok (\<lambda>ks. ks)"
  by (simp add: order_ok_def)

lemma order_ok_rev [simp]: "order_ok rev"
  by (simp add: order_ok_def)

lemma mget_mput [gomap]: "mget (mput k v m) k' = (if k' = k then Some v else mget m k')"
  by (simp add: update_conv')

lemma mget_mdel [gomap]: "mget (mdel k m) k' = (if k' = k then None else mget m k')"
  by (simp add: delete_conv')

lemma mok_mput [gomap]: "mok m \<Longrightarrow> mok (mput k v m)"
  by (rule distinct_update)

lemma mok_mdel [gomap]: "mok m \<Longrightarrow> mok (mdel k m)"
  by (rule distinct_delete)

lemma mkeys_mput [gomap]: "fst ` set (mput k v m) = insert k (fst ` set m)"
  by (simp add: dom_update)

lemma mkeys_mdel [gomap]: "fst ` set (mdel k m) = fst ` set m - {k}"
  by (metis AList.delete_keys list.set_map set_removeAll)

lemma mget_None_iff: "mget m k = None \<longleftrightarrow> k \<notin> fst ` set m"
  by (rule map_of_eq_None_iff)

lemma mget_key: "mget m k = Some v \<Longrightarrow> k \<in> fst ` set m"
  by (force dest: map_of_SomeD)

lemma mget_Some_iff: "k \<in> fst ` set m \<longleftrightarrow> (\<exists>v. mget m k = Some v)"
  using mget_None_iff [of m k] by auto

lemma length_mput_new [gomap]: "mget m k = None \<Longrightarrow> length (mput k v m) = Suc (length m)"
  by (induction m) (auto split: if_splits)

lemma length_mput_old [gomap]: "mget m k = Some w \<Longrightarrow> length (mput k v m) = length m"
  by (induction m) (auto split: if_splits)

lemma length_mput_le: "length (mput k v m) \<le> Suc (length m)"
  by (induction m) auto

lemma length_mdel_le: "length (mdel k m) \<le> length m"
  by (rule length_delete_le)

lemma length_mdel [gomap]: "mok m \<Longrightarrow> mget m k = Some v \<Longrightarrow> Suc (length (mdel k m)) = length m"
proof (induction m)
  case Nil
  then show ?case by simp
next
  case (Cons kv m)
  obtain k' v' where kv: "kv = (k', v')" by (cases kv)
  show ?case
  proof (cases "k' = k")
    case True
    with Cons.prems kv have "k \<notin> fst ` set m" by simp
    then have "mdel k m = m" by simp
    with kv True show ?thesis by simp
  next
    case False
    with Cons kv show ?thesis by simp
  qed
qed

lemma mset_mput_new: "mget m k = None \<Longrightarrow> mset (mput k v m) = add_mset (k, v) (mset m)"
  by (induction m) (auto split: if_splits)

lemma mget_mem: "mok m \<Longrightarrow> mget m k = Some v \<longleftrightarrow> (k, v) \<in> set m"
  by (rule map_of_eq_Some_iff)

lemma mok_same_entries:
  assumes "mok m" "mok n" and eq: "\<And>k. mget m k = mget n k"
  shows "mset m = mset n"
proof -
  have "kv \<in> set m \<longleftrightarrow> kv \<in> set n" for kv
    using eq [of "fst kv"] mget_mem [OF assms(1), of "fst kv" "snd kv"]
      mget_mem [OF assms(2), of "fst kv" "snd kv"] by simp
  then have "set m = set n" by blast
  then show ?thesis
    using assms(1,2) by (simp add: distinct_map set_eq_iff_mset_eq_distinct)
qed

text \<open>The values of a map in the order a \<open>range\<close> loop visits them.\<close>

definition range_entries :: "'k range_order \<Rightarrow> ('k, 'v) gomap \<Rightarrow> ('k \<times> 'v) list" where
  "range_entries ord m = List.map_filter (\<lambda>k. map_option (\<lambda>v. (k, v)) (mget m k)) (ord (mkeys m))"

lemma set_map_filter: "set (List.map_filter f xs) = {y. \<exists>x \<in> set xs. f x = Some y}"
  by (induction xs) (auto simp: List.map_filter_simps split: option.splits)

lemma set_range_entries:
  assumes "order_ok ord" "mok m"
  shows "set (range_entries ord m) = set m"
proof -
  have "kv \<in> set (range_entries ord m) \<longleftrightarrow> kv \<in> set m" for kv
    using assms mget_mem [OF assms(2), of "fst kv" "snd kv"] mget_key [of m "fst kv"]
    by (cases kv) (auto simp: range_entries_def set_map_filter mget_mem)
  then show ?thesis by blast
qed

lemma map_filter_keys:
  assumes "set ks \<subseteq> fst ` set m"
  shows "map fst (List.map_filter (\<lambda>k. map_option (\<lambda>v. (k, v)) (mget m k)) ks) = ks"
  using assms
proof (induction ks)
  case Nil
  then show ?case by (simp add: List.map_filter_simps)
next
  case (Cons k ks)
  then obtain v where "mget m k = Some v" by (auto simp: mget_Some_iff)
  with Cons show ?case by (simp add: List.map_filter_simps)
qed

lemma keys_range_entries [simp]: "order_ok ord \<Longrightarrow> map fst (range_entries ord m) = ord (mkeys m)"
  by (simp add: range_entries_def map_filter_keys)

lemma mset_range_entries:
  assumes "order_ok ord" "mok m"
  shows "mset (range_entries ord m) = mset m"
proof -
  have "distinct (map fst (range_entries ord m))" using assms by simp
  then have "distinct (range_entries ord m)" by (simp add: distinct_map)
  moreover have "distinct m" using assms(2) by (simp add: distinct_map)
  ultimately show ?thesis
    by (simp add: set_range_entries [OF assms] flip: set_eq_iff_mset_eq_distinct)
qed

subsection \<open>Sorting\<close>

fun insert_by :: "('a \<Rightarrow> 'a \<Rightarrow> bool) \<Rightarrow> 'a \<Rightarrow> 'a list \<Rightarrow> 'a list" where
  "insert_by lt x [] = [x]"
| "insert_by lt x (y # ys) = (if lt y x then y # insert_by lt x ys else x # y # ys)"

fun sort_by :: "('a \<Rightarrow> 'a \<Rightarrow> bool) \<Rightarrow> 'a list \<Rightarrow> 'a list" where
  "sort_by lt [] = []"
| "sort_by lt (x # xs) = insert_by lt x (sort_by lt xs)"

lemma mset_insert_by [simp]: "mset (insert_by lt x xs) = add_mset x (mset xs)"
  by (induction xs) auto

lemma mset_sort_by [simp]: "mset (sort_by lt xs) = mset xs"
  by (induction xs) auto

lemma set_insert_by [simp]: "set (insert_by lt x xs) = insert x (set xs)"
  by (metis mset_insert_by set_mset_add_mset_insert set_mset_mset)

lemma set_sort_by [simp]: "set (sort_by lt xs) = set xs"
  by (metis mset_sort_by set_mset_mset)

lemma length_sort_by [simp]: "length (sort_by lt xs) = length xs"
  by (metis mset_sort_by size_mset)

text \<open>
  What \<open>sort.Slice\<close> needs of \<open>lt\<close>: a strict weak order. The result then has no
  element that is \<open>lt\<close> than an earlier one.
\<close>

definition weak_order :: "('a \<Rightarrow> 'a \<Rightarrow> bool) \<Rightarrow> bool" where
  "weak_order lt \<longleftrightarrow> (\<forall>x. \<not> lt x x) \<and> (\<forall>x y z. lt x y \<longrightarrow> lt y z \<longrightarrow> lt x z)
     \<and> (\<forall>x y z. lt x z \<longrightarrow> lt x y \<or> lt y z)"

lemma weak_order_asym: "weak_order lt \<Longrightarrow> lt x y \<Longrightarrow> \<not> lt y x"
  by (meson weak_order_def)

lemma sorted_insert_by:
  assumes "weak_order lt" "sorted_wrt (\<lambda>x y. \<not> lt y x) xs"
  shows "sorted_wrt (\<lambda>x y. \<not> lt y x) (insert_by lt x xs)"
  using assms(2)
proof (induction xs)
  case Nil
  then show ?case by simp
next
  case (Cons y ys)
  have neg: "\<not> lt z x" if "\<not> lt y x" "\<not> lt z y" for z
    using assms(1) that unfolding weak_order_def by blast
  show ?case
  proof (cases "lt y x")
    case True
    then have "\<not> lt x y" by (rule weak_order_asym [OF assms(1)])
    with True Cons show ?thesis by simp
  next
    case False
    with Cons neg show ?thesis by simp
  qed
qed

lemma sorted_sort_by: "weak_order lt \<Longrightarrow> sorted_wrt (\<lambda>x y. \<not> lt y x) (sort_by lt xs)"
  by (induction xs) (simp_all add: sorted_insert_by)

lemma sorted_unique:
  assumes "mset xs = mset ys"
    and "sorted_wrt (\<lambda>x y. \<not> lt y x) xs" "sorted_wrt (\<lambda>x y. \<not> lt y x) ys"
    and tot: "\<And>x y. x \<in> set xs \<Longrightarrow> y \<in> set xs \<Longrightarrow> \<not> lt x y \<Longrightarrow> \<not> lt y x \<Longrightarrow> x = y"
  shows "xs = ys"
  using assms
proof (induction xs arbitrary: ys)
  case Nil
  then show ?case by simp
next
  case (Cons x xs)
  obtain y ys' where ys: "ys = y # ys'"
    using Cons.prems(1) by (cases ys) auto
  have sets: "set ys = set (x # xs)" using Cons.prems(1) by (metis set_mset_mset)
  have "x = y"
  proof (rule ccontr)
    assume ne: "x \<noteq> y"
    have "x \<in> set ys'" "y \<in> set xs" using sets ne ys by auto
    then have "\<not> lt x y" "\<not> lt y x" using Cons.prems(2,3) ys by auto
    with Cons.prems(4) [of x y] \<open>y \<in> set xs\<close> ne show False by auto
  qed
  moreover have "xs = ys'"
    using Cons.prems ys \<open>x = y\<close> by (intro Cons.IH) auto
  ultimately show ?case using ys by simp
qed

lemma sort_by_unique:
  assumes "weak_order lt" "mset xs = mset ys"
    and "\<And>x y. x \<in> set xs \<Longrightarrow> y \<in> set xs \<Longrightarrow> \<not> lt x y \<Longrightarrow> \<not> lt y x \<Longrightarrow> x = y"
  shows "sort_by lt xs = sort_by lt ys"
  using assms by (intro sorted_unique [where lt = lt]) (auto simp: sorted_sort_by)

end
