(* ===== verification/Go_Strings.thy ===== *)
theory Go_Strings
  imports Prelude
begin

text \<open>
  The functions of Go's \<open>strings\<close> and \<open>strconv\<close> packages that the program calls, on
  byte strings (\<open>string\<close> is a list of 8-bit characters, as a Go string is a sequence of
  bytes). White space and letter case are those of ASCII: on strings with non-ASCII text Go
  also trims Unicode spaces and folds Unicode letters, which is outside the model.
  A call with an empty separator or pattern does not occur in the program and is not modelled.
\<close>

subsection \<open>Bytes\<close>

definition byte :: "char \<Rightarrow> nat" where
  "byte c = of_char c"

definition is_space :: "char \<Rightarrow> bool" where
  "is_space c \<longleftrightarrow> c \<in> {CHR '' '', CHR 0x09, CHR 0x0A, CHR 0x0B, CHR 0x0C, CHR 0x0D}"

definition is_digit :: "char \<Rightarrow> bool" where
  "is_digit c \<longleftrightarrow> 48 \<le> byte c \<and> byte c \<le> 57"

definition is_upper :: "char \<Rightarrow> bool" where
  "is_upper c \<longleftrightarrow> 65 \<le> byte c \<and> byte c \<le> 90"

definition is_lower :: "char \<Rightarrow> bool" where
  "is_lower c \<longleftrightarrow> 97 \<le> byte c \<and> byte c \<le> 122"

definition lower_char :: "char \<Rightarrow> char" where
  "lower_char c = (if is_upper c then char_of (byte c + 32) else c)"

lemma byte_less: "byte c < 256"
  by (simp add: byte_def)

lemma byte_lower_char: "byte (lower_char c) = (if is_upper c then byte c + 32 else byte c)"
  by (auto simp: lower_char_def byte_def is_upper_def)

lemma byte_inject: "byte c = byte d \<longleftrightarrow> c = d"
  by (simp add: byte_def)

lemma lower_char_not_upper: "\<not> is_upper (lower_char c)"
  by (simp add: is_upper_def byte_lower_char)

lemma lower_char_idem [simp]: "lower_char (lower_char c) = lower_char c"
  by (simp add: lower_char_def [of "lower_char c"] lower_char_not_upper)

lemma is_space_byte: "is_space c \<longleftrightarrow> byte c \<in> {32, 9, 10, 11, 12, 13}"
proof -
  have "is_space c \<longleftrightarrow> byte c \<in> byte ` {CHR '' '', CHR 0x09, CHR 0x0A, CHR 0x0B, CHR 0x0C, CHR 0x0D}"
    by (simp add: is_space_def byte_inject)
  then show ?thesis by (simp add: byte_def)
qed

lemma is_space_lower_char [simp]: "is_space (lower_char c) = is_space c"
  by (auto simp: is_space_byte byte_lower_char is_upper_def)

subsection \<open>Trimming and case\<close>

definition TrimLeft_space :: "string \<Rightarrow> string" where
  "TrimLeft_space s = dropWhile is_space s"

definition TrimSpace :: "string \<Rightarrow> string" where
  "TrimSpace s = rev (dropWhile is_space (rev (dropWhile is_space s)))"

definition ToLower :: "string \<Rightarrow> string" where
  "ToLower s = map lower_char s"

lemma TrimSpace_Nil [simp]: "TrimSpace [] = []"
  by (simp add: TrimSpace_def)

lemma ToLower_Nil [simp]: "ToLower [] = []"
  by (simp add: ToLower_def)

lemma ToLower_idem [simp]: "ToLower (ToLower s) = ToLower s"
  by (simp add: ToLower_def)

lemma dropWhile_idem: "dropWhile P (dropWhile P xs) = dropWhile P xs"
  by (induction xs) auto

lemma TrimSpace_ends:
  assumes "TrimSpace s \<noteq> []"
  shows "\<not> is_space (hd (TrimSpace s))" "\<not> is_space (last (TrimSpace s))"
proof -
  let ?l = "dropWhile is_space s"
  let ?r = "dropWhile is_space (rev ?l)"
  have ne: "?r \<noteq> []" using assms by (simp add: TrimSpace_def)
  then show "\<not> is_space (last (TrimSpace s))"
    by (simp add: TrimSpace_def last_rev) (metis hd_dropWhile dropWhile_eq_Nil_conv ne)
  obtain p where p: "rev ?l = p @ ?r" by (metis takeWhile_dropWhile_id)
  have "?l = rev ?r @ rev p" using p by (metis rev_append rev_rev_ident)
  then have "hd ?l = hd (rev ?r)" using ne by (metis hd_append2 rev_is_Nil_conv)
  moreover have "\<not> is_space (hd ?l)" using ne by (metis dropWhile.simps(1) hd_dropWhile rev.simps(1))
  ultimately show "\<not> is_space (hd (TrimSpace s))" by (simp add: TrimSpace_def)
qed

lemma TrimSpace_fixed:
  assumes "s = [] \<or> (\<not> is_space (hd s) \<and> \<not> is_space (last s))"
  shows "TrimSpace s = s"
proof (cases s)
  case Nil
  then show ?thesis by simp
next
  case (Cons c t)
  with assms have "dropWhile is_space s = s" by simp
  moreover have "dropWhile is_space (rev s) = rev s"
  proof (cases "rev s")
    case (Cons d r)
    then have "last s = d" by (metis last_rev list.sel(1) rev_rev_ident)
    with assms \<open>s = c # t\<close> Cons show ?thesis by simp
  qed simp
  ultimately show ?thesis by (simp add: TrimSpace_def)
qed

lemma TrimSpace_idem [simp]: "TrimSpace (TrimSpace s) = TrimSpace s"
  using TrimSpace_ends by (intro TrimSpace_fixed) blast

lemma dropWhile_map_lower:
  "dropWhile is_space (map lower_char s) = map lower_char (dropWhile is_space s)"
  by (induction s) auto

lemma TrimSpace_ToLower: "TrimSpace (ToLower s) = ToLower (TrimSpace s)"
  by (simp add: TrimSpace_def ToLower_def dropWhile_map_lower rev_map)

lemma ToLower_eq_Nil [simp]: "ToLower s = [] \<longleftrightarrow> s = []"
  by (simp add: ToLower_def)

subsection \<open>Prefixes, search, replacement\<close>

fun HasPrefix :: "string \<Rightarrow> string \<Rightarrow> bool" where
  "HasPrefix s [] = True"
| "HasPrefix [] (p # ps) = False"
| "HasPrefix (c # s) (p # ps) = (c = p \<and> HasPrefix s ps)"

definition HasSuffix :: "string \<Rightarrow> string \<Rightarrow> bool" where
  "HasSuffix s p = HasPrefix (rev s) (rev p)"

definition TrimPrefix :: "string \<Rightarrow> string \<Rightarrow> string" where
  "TrimPrefix s p = (if HasPrefix s p then drop (length p) s else s)"

definition TrimSuffix :: "string \<Rightarrow> string \<Rightarrow> string" where
  "TrimSuffix s p = (if HasSuffix s p then take (length s - length p) s else s)"

lemma HasPrefix_iff: "HasPrefix s p \<longleftrightarrow> (\<exists>t. s = p @ t)"
  by (induction s p rule: HasPrefix.induct) auto

lemma HasPrefix_append [simp]: "HasPrefix (p @ s) p"
  by (auto simp: HasPrefix_iff)

text \<open>\<open>strings.Index\<close>: the first position of a substring; \<open>None\<close> is Go's \<open>-1\<close>.\<close>

fun Index :: "string \<Rightarrow> string \<Rightarrow> nat option" where
  "Index [] p = (if p = [] then Some 0 else None)"
| "Index (c # s) p = (if HasPrefix (c # s) p then Some 0 else map_option Suc (Index s p))"

definition Contains :: "string \<Rightarrow> string \<Rightarrow> bool" where
  "Contains s p = (Index s p \<noteq> None)"

lemma Index_Some: "Index s p = Some i \<Longrightarrow> \<exists>t. s = take i s @ p @ t \<and> i + length p \<le> length s"
proof (induction s p arbitrary: i rule: Index.induct)
  case (1 p)
  then show ?case by (auto split: if_splits)
next
  case (2 c s p)
  show ?case
  proof (cases "HasPrefix (c # s) p")
    case True
    with 2 obtain t where "i = 0" "c # s = p @ t" by (auto simp: HasPrefix_iff)
    moreover from this have "length (c # s) = length p + length t" by (metis length_append)
    ultimately show ?thesis by simp
  next
    case False
    with 2 obtain j where "Index s p = Some j" "i = Suc j" by auto
    with 2 False show ?thesis by auto
  qed
qed

lemma Index_None: "Index s p = None \<Longrightarrow> s \<noteq> u @ p @ v"
proof (induction s p arbitrary: u rule: Index.induct)
  case (1 p)
  then show ?case by (auto split: if_splits)
next
  case (2 c s p)
  then have np: "\<not> HasPrefix (c # s) p" and "Index s p = None" by (auto split: if_splits)
  show ?case
  proof (cases u)
    case Nil
    with np show ?thesis by (auto simp: HasPrefix_iff)
  next
    case (Cons d u')
    with 2 np \<open>Index s p = None\<close> show ?thesis by auto
  qed
qed

text \<open>\<open>strings.ReplaceAll\<close>: non-overlapping occurrences from the left.\<close>

fun replace_skip :: "string \<Rightarrow> string \<Rightarrow> nat \<Rightarrow> string \<Rightarrow> string" where
  "replace_skip old new k [] = []"
| "replace_skip old new (Suc k) (c # s) = replace_skip old new k s"
| "replace_skip old new 0 (c # s) =
     (if HasPrefix (c # s) old then new @ replace_skip old new (length old - 1) s
      else c # replace_skip old new 0 s)"

definition ReplaceAll :: "string \<Rightarrow> string \<Rightarrow> string \<Rightarrow> string" where
  "ReplaceAll s old new = replace_skip old new 0 s"

lemma ReplaceAll_char: "ReplaceAll s [c] new = concat (map (\<lambda>d. if d = c then new else [d]) s)"
proof -
  have "replace_skip [c] new 0 s = concat (map (\<lambda>d. if d = c then new else [d]) s)"
    by (induction s) auto
  then show ?thesis by (simp add: ReplaceAll_def)
qed

subsection \<open>Splitting and joining\<close>

text \<open>\<open>strings.Split\<close> by a one-byte separator.\<close>

fun Split :: "char \<Rightarrow> string \<Rightarrow> string list" where
  "Split c [] = [[]]"
| "Split c (d # s) = (if d = c then [] # Split c s
     else (case Split c s of [] \<Rightarrow> [[d]] | w # ws \<Rightarrow> (d # w) # ws))"

fun Join :: "string list \<Rightarrow> string \<Rightarrow> string" where
  "Join [] sep = []"
| "Join [w] sep = w"
| "Join (w # ws) sep = w @ sep @ Join ws sep"

lemma Split_ne [simp]: "Split c s \<noteq> []"
  by (induction s) (auto split: list.splits)

lemma Join_Split: "Join (Split c s) [c] = s"
proof (induction s)
  case Nil
  then show ?case by simp
next
  case (Cons d s)
  obtain w ws where ws: "Split c s = w # ws" by (cases "Split c s") auto
  with Cons show ?case by (cases ws) auto
qed

lemma Split_no_sep: "w \<in> set (Split c s) \<Longrightarrow> c \<notin> set w"
  by (induction s arbitrary: w) (auto split: list.splits if_splits)

lemma Split_single: "c \<notin> set w \<Longrightarrow> Split c w = [w]"
  by (induction w) auto

lemma Split_append: "c \<notin> set w \<Longrightarrow> Split c (w @ c # s) = w # Split c s"
  by (induction w) auto

lemma Split_concat: "Split c (u @ c # v) = Split c u @ Split c v"
proof (induction u)
  case Nil
  then show ?case by simp
next
  case (Cons d u)
  then show ?case by (cases "Split c u") auto
qed

lemma Split_Join:
  assumes "ws \<noteq> []" "\<forall>w \<in> set ws. c \<notin> set w"
  shows "Split c (Join ws [c]) = ws"
  using assms
proof (induction ws)
  case Nil
  then show ?case by simp
next
  case (Cons w ws)
  then show ?case by (cases ws) (auto simp: Split_single Split_append)
qed

text \<open>\<open>strings.Fields\<close>: the maximal runs of non-space characters.\<close>

fun fields_acc :: "string \<Rightarrow> string \<Rightarrow> string list" where
  "fields_acc w [] = (if w = [] then [] else [w])"
| "fields_acc w (c # s) =
     (if is_space c then (if w = [] then fields_acc [] s else w # fields_acc [] s)
      else fields_acc (w @ [c]) s)"

definition Fields :: "string \<Rightarrow> string list" where
  "Fields s = fields_acc [] s"

definition Count_char :: "string \<Rightarrow> char \<Rightarrow> nat" where
  "Count_char s c = length (filter (\<lambda>d. d = c) s)"

text \<open>\<open>strings.LastIndex\<close> of a one-byte string.\<close>

fun LastIndex_char :: "string \<Rightarrow> char \<Rightarrow> nat option" where
  "LastIndex_char [] c = None"
| "LastIndex_char (d # s) c = (case LastIndex_char s c of Some i \<Rightarrow> Some (Suc i)
     | None \<Rightarrow> if d = c then Some 0 else None)"

lemma LastIndex_None: "LastIndex_char s c = None \<longleftrightarrow> c \<notin> set s"
  by (induction s) (auto split: option.splits if_splits)

lemma LastIndex_Some:
  "LastIndex_char s c = Some i \<Longrightarrow> i < length s \<and> s ! i = c \<and> c \<notin> set (drop (Suc i) s)"
  by (induction s arbitrary: i) (auto split: option.splits if_splits simp: LastIndex_None)

lemma LastIndex_append: "c \<notin> set t \<Longrightarrow> LastIndex_char (s @ c # t) c = Some (length s)"
  by (induction s) (auto simp: LastIndex_None split: option.splits)

subsection \<open>Numbers\<close>

text \<open>\<open>strconv.Itoa\<close> and \<open>%d\<close>: decimal digits with a leading minus sign.\<close>

fun digits_of :: "nat \<Rightarrow> string" where
  "digits_of n = (if n < 10 then [char_of (n + 48)] else digits_of (n div 10) @ [char_of (n mod 10 + 48)])"

declare digits_of.simps [simp del]

definition Itoa :: "int \<Rightarrow> string" where
  "Itoa i = (if i < 0 then CHR ''-'' # digits_of (nat (- i)) else digits_of (nat i))"

text \<open>
  \<open>strconv.Atoi\<close>: an optional sign and at least one digit; \<open>None\<close> is a syntax or a
  range error. The range is that of a 64-bit \<open>int\<close>.
\<close>

definition digits_value :: "string \<Rightarrow> nat" where
  "digits_value s = foldl (\<lambda>n c. 10 * n + (byte c - 48)) 0 s"

definition parse_digits :: "string \<Rightarrow> nat option" where
  "parse_digits s = (if s = [] \<or> \<not> list_all is_digit s then None else Some (digits_value s))"

definition Atoi :: "string \<Rightarrow> int option" where
  "Atoi s = (let (neg, ds) = (case s of
       [] \<Rightarrow> (False, [])
     | c # t \<Rightarrow> if c = CHR ''-'' then (True, t) else if c = CHR ''+'' then (False, t) else (False, s))
   in case parse_digits ds of None \<Rightarrow> None
      | Some n \<Rightarrow> let i = (if neg then - int n else int n)
          in if - (2 ^ 63) \<le> i \<and> i < 2 ^ 63 then Some i else None)"

lemma digits_value_snoc: "digits_value (s @ [c]) = 10 * digits_value s + (byte c - 48)"
  by (simp add: digits_value_def)

lemma byte_digit: "d < 10 \<Longrightarrow> byte (char_of (d + 48 :: nat)) = d + 48"
  by (simp add: byte_def)

lemma digits_of_ok: "digits_of n \<noteq> [] \<and> list_all is_digit (digits_of n) \<and> digits_value (digits_of n) = n"
proof (induction n rule: digits_of.induct)
  case (1 n)
  show ?case
  proof (cases "n < 10")
    case True
    then show ?thesis
      by (simp add: digits_of.simps [of n] is_digit_def digits_value_def byte_digit)
  next
    case False
    have "n mod 10 < 10" by simp
    then show ?thesis using 1 False
      by (simp add: digits_of.simps [of n] digits_value_snoc is_digit_def byte_digit)
  qed
qed

lemma parse_digits_of [simp]: "parse_digits (digits_of n) = Some n"
  using digits_of_ok [of n] by (simp add: parse_digits_def)

lemma digits_of_hd: "digits_of n = c # t \<Longrightarrow> is_digit c"
  using digits_of_ok [of n] by simp

lemma is_digit_not_sign: "is_digit c \<Longrightarrow> c \<noteq> CHR ''-'' \<and> c \<noteq> CHR ''+''"
  by (auto simp: is_digit_def byte_def)

text \<open>Printing an \<open>int\<close> in decimal and reading it back gives the same number.\<close>

lemma Atoi_Itoa: "- (2 ^ 63) \<le> i \<Longrightarrow> i < 2 ^ 63 \<Longrightarrow> Atoi (Itoa i) = Some i"
proof (cases "i < 0")
  case True
  assume "- (2 ^ 63) \<le> i" "i < 2 ^ 63"
  with True show ?thesis by (simp add: Atoi_def Itoa_def)
next
  case False
  assume "- (2 ^ 63) \<le> i" "i < 2 ^ 63"
  obtain c t where ct: "digits_of (nat i) = c # t"
    using digits_of_ok [of "nat i"] by (cases "digits_of (nat i)") auto
  have "parse_digits (c # t) = Some (nat i)" using ct parse_digits_of [of "nat i"] by simp
  with False ct is_digit_not_sign [OF digits_of_hd [OF ct]] \<open>i < 2 ^ 63\<close>
  show ?thesis by (simp add: Atoi_def Itoa_def)
qed

text \<open>Go's integer division and remainder round towards zero.\<close>

definition go_div :: "int \<Rightarrow> int \<Rightarrow> int" where
  "go_div a b = sgn a * sgn b * (\<bar>a\<bar> div \<bar>b\<bar>)"

definition go_mod :: "int \<Rightarrow> int \<Rightarrow> int" where
  "go_mod a b = a - go_div a b * b"

end
