(* ===== verification/Domain.thy ===== *)
theory Domain
  imports Go_Strings "HOL-Library.Word"
begin

text \<open>
  The provider-neutral data model of \<open>internal/domain/types.go\<close>: one record per struct, the
  field names prefixed by an abbreviation of the struct because record selectors are global.
  A pointer to a value that is only ever read (\<open>*int\<close>, \<open>*bool\<close>, \<open>*time.Time\<close>) is an
  \<open>option\<close>; a \<open>float64\<close> that is only copied is kept as its 64 bits; an \<open>error\<close> of a
  run event is its message.
\<close>

type_synonym float64 = "64 word"

record blocker =
  bl_ID :: string
  bl_Identifier :: string
  bl_State :: string

record work_item =
  wi_ID :: string
  wi_Identifier :: string
  wi_Title :: string
  wi_Description :: string
  wi_State :: string
  wi_Priority :: "int option"
  wi_BranchName :: string
  wi_URL :: string
  wi_AssigneeID :: string
  wi_Labels :: "string list"
  wi_BlockedBy :: "blocker list"
  wi_Routable :: "bool option"
  wi_CreatedAt :: "gtime option"
  wi_UpdatedAt :: "gtime option"

definition empty_item :: work_item where
  "empty_item = \<lparr>wi_ID = [], wi_Identifier = [], wi_Title = [], wi_Description = [],
     wi_State = [], wi_Priority = None, wi_BranchName = [], wi_URL = [], wi_AssigneeID = [],
     wi_Labels = [], wi_BlockedBy = [], wi_Routable = None, wi_CreatedAt = None,
     wi_UpdatedAt = None\<rparr>"

record codex_totals =
  ct_InputTokens :: int
  ct_OutputTokens :: int
  ct_TotalTokens :: int
  ct_SecondsRunning :: int

definition zero_totals :: codex_totals where
  "zero_totals = \<lparr>ct_InputTokens = 0, ct_OutputTokens = 0, ct_TotalTokens = 0,
     ct_SecondsRunning = 0\<rparr>"

record rate_limit_bucket =
  rb_Remaining :: "int option"
  rb_Limit :: "int option"
  rb_ResetInSeconds :: "int option"

record rate_limit_credits =
  rc_HasCredits :: "bool option"
  rc_Unlimited :: "bool option"
  rc_Balance :: "float64 option"

record rate_limits =
  rl_LimitID :: string
  rl_Primary :: "rate_limit_bucket option"
  rl_Secondary :: "rate_limit_bucket option"
  rl_Credits :: "rate_limit_credits option"

text \<open>
  \<open>RunEventKind\<close> is a string type with eight named constants. Any other string, the zero
  value included, is \<open>RunEventOther\<close>.
\<close>

datatype run_event_kind =
    RunEventWorkspaceCreated
  | RunEventWorkspacePathDiscovered
  | RunEventRunnerHostSelected
  | RunEventCodexEventReceived
  | RunEventTurnCompleted
  | RunEventRunCompleted
  | RunEventRunFailed
  | RunEventRetryScheduled
  | RunEventOther string

fun kind_string :: "run_event_kind \<Rightarrow> string" where
  "kind_string RunEventWorkspaceCreated = ''workspace_created''"
| "kind_string RunEventWorkspacePathDiscovered = ''workspace_path_discovered''"
| "kind_string RunEventRunnerHostSelected = ''runner_host_selected''"
| "kind_string RunEventCodexEventReceived = ''codex_event_received''"
| "kind_string RunEventTurnCompleted = ''turn_completed''"
| "kind_string RunEventRunCompleted = ''run_completed''"
| "kind_string RunEventRunFailed = ''run_failed''"
| "kind_string RunEventRetryScheduled = ''retry_scheduled''"
| "kind_string (RunEventOther s) = s"

record active_run =
  ar_ItemID :: string
  ar_ItemIdentifier :: string
  ar_State :: string
  ar_WorkerHost :: string
  ar_WorkspacePath :: string
  ar_SessionID :: string
  ar_TurnCount :: int
  ar_StartedAt :: gtime
  ar_LastEventAt :: "gtime option"
  ar_LastEventKind :: run_event_kind
  ar_LastEventMessage :: string
  ar_CodexTotals :: codex_totals

record retry_view =
  rv_ItemID :: string
  rv_ItemIdentifier :: string
  rv_Attempt :: int
  rv_DueAt :: gtime
  rv_LastError :: string
  rv_WorkerHost :: string
  rv_WorkspacePath :: string

record polling_state =
  ps_Checking :: bool
  ps_NextPollAt :: "gtime option"
  ps_Interval :: gduration

record snapshot =
  sn_Running :: "active_run list"
  sn_Retrying :: "retry_view list"
  sn_Polling :: polling_state
  sn_CodexTotals :: codex_totals
  sn_RateLimits :: "rate_limits option"

record run_event =
  ev_Kind :: run_event_kind
  ev_ItemID :: string
  ev_ItemIdentifier :: string
  ev_At :: gtime
  ev_Attempt :: int
  ev_WorkerHost :: string
  ev_WorkspacePath :: string
  ev_SessionID :: string
  ev_Message :: string
  ev_Err :: "string option"
  ev_CodexTotals :: codex_totals
  ev_RateLimits :: "rate_limits option"

end
