(* ===== verification/Runner_Hosts.thy ===== *)
theory Runner_Hosts
  imports Domain
begin

text \<open>
  \<open>internal/runner/host_selection.go\<close>: the stateless choice of a worker host for a run. The
  abstract contract is the locale \<open>host_admission\<close>: a selected host is configured and below
  the capacity bound, no host below the bound carries less load, and admission is refused only
  when every configured host is full.
\<close>

record host_load =
  hl_Host :: string
  hl_Running :: int

record host_selection =
  hs_Hosts :: "string list"
  hs_MaxPerHost :: "int option"

definition hasCapacity :: "host_selection \<Rightarrow> int \<Rightarrow> bool" where
  "hasCapacity s running = (case hs_MaxPerHost s of None \<Rightarrow> True | Some m \<Rightarrow> running < m)"

fun normalizeHosts :: "string list \<Rightarrow> string list" where
  "normalizeHosts [] = []"
| "normalizeHosts (h # hs) =
     (if TrimSpace h \<noteq> [] then TrimSpace h # normalizeHosts hs else normalizeHosts hs)"

text \<open>A read of an absent key of a Go \<open>map[string]int\<close> gives 0.\<close>

definition count_of :: "(string, int) gomap \<Rightarrow> string \<Rightarrow> int" where
  "count_of counts h = (case mget counts h of None \<Rightarrow> 0 | Some n \<Rightarrow> n)"

definition add_load :: "(string, int) gomap \<Rightarrow> host_load \<Rightarrow> (string, int) gomap" where
  "add_load counts l = (let host = TrimSpace (hl_Host l) in
     if host = [] \<or> hl_Running l \<le> 0 then counts
     else mput host (count_of counts host + hl_Running l) counts)"

definition hostCounts :: "host_load list \<Rightarrow> (string, int) gomap" where
  "hostCounts loads = foldl add_load [] loads"

fun containsHost :: "string list \<Rightarrow> string \<Rightarrow> bool" where
  "containsHost [] host = False"
| "containsHost (c # cs) host = (if c = host then True else containsHost cs host)"

fun best_host :: "host_selection \<Rightarrow> (string, int) gomap \<Rightarrow> string list \<Rightarrow> string \<Rightarrow> int \<Rightarrow> string \<times> int" where
  "best_host s counts [] bestHost bestLoad = (bestHost, bestLoad)"
| "best_host s counts (h # hs) bestHost bestLoad =
     (let load = count_of counts h in
      if \<not> hasCapacity s load then best_host s counts hs bestHost bestLoad
      else if bestHost = [] \<or> load < bestLoad then best_host s counts hs h load
      else best_host s counts hs bestHost bestLoad)"

definition Select :: "host_selection \<Rightarrow> string \<Rightarrow> host_load list \<Rightarrow> string \<times> bool" where
  "Select s preferred loads =
     (let hosts = normalizeHosts (hs_Hosts s) in
      if hosts = [] then ([], True)
      else let counts = hostCounts loads; preferred = TrimSpace preferred in
        if preferred \<noteq> [] \<and> containsHost hosts preferred
             \<and> hasCapacity s (count_of counts preferred) then (preferred, True)
        else let (bestHost, _) = best_host s counts hosts [] 0 in
          if bestHost = [] then ([], False) else (bestHost, True))"

subsection \<open>Lemmas\<close>

lemma normalizeHosts_eq: "normalizeHosts hs = filter (\<lambda>h. h \<noteq> []) (map TrimSpace hs)"
  by (induction hs) auto

lemma normalizeHosts_trimmed: "h \<in> set (normalizeHosts hs) \<Longrightarrow> h \<noteq> [] \<and> TrimSpace h = h"
  by (auto simp: normalizeHosts_eq)

lemma containsHost_iff [simp]: "containsHost hs h \<longleftrightarrow> h \<in> set hs"
  by (induction hs) auto

lemma count_of_add_load:
  "count_of (add_load counts l) h =
     count_of counts h + (if TrimSpace (hl_Host l) = h \<and> h \<noteq> [] \<and> 0 < hl_Running l then hl_Running l else 0)"
  by (auto simp: add_load_def count_of_def Let_def gomap)

lemma count_of_foldl:
  "count_of (foldl add_load counts loads) h = count_of counts h +
     sum_list (map hl_Running (filter (\<lambda>l. TrimSpace (hl_Host l) = h \<and> h \<noteq> [] \<and> 0 < hl_Running l) loads))"
  by (induction loads arbitrary: counts) (auto simp: count_of_add_load)

text \<open>The load the selector sees for a host: the sum of the reported positive loads.\<close>

definition load_of :: "host_load list \<Rightarrow> string \<Rightarrow> int" where
  "load_of loads h =
     sum_list (map hl_Running (filter (\<lambda>l. TrimSpace (hl_Host l) = h \<and> h \<noteq> [] \<and> 0 < hl_Running l) loads))"

lemma count_of_hostCounts: "count_of (hostCounts loads) h = load_of loads h"
  by (simp add: hostCounts_def count_of_foldl load_of_def count_of_def [of "[]"])

text \<open>The scan keeps a best host that is eligible and least loaded among those seen.\<close>

definition scan_ok :: "host_selection \<Rightarrow> (string, int) gomap \<Rightarrow> string list \<Rightarrow> string \<times> int \<Rightarrow> bool" where
  "scan_ok s counts seen r \<longleftrightarrow>
     (if fst r = [] then \<forall>h \<in> set seen. \<not> hasCapacity s (count_of counts h)
      else fst r \<in> set seen \<and> snd r = count_of counts (fst r) \<and> hasCapacity s (snd r)
        \<and> (\<forall>h \<in> set seen. hasCapacity s (count_of counts h) \<longrightarrow> snd r \<le> count_of counts h))"

lemma scan_ok_skip:
  "scan_ok s counts seen r \<Longrightarrow> \<not> hasCapacity s (count_of counts h) \<Longrightarrow> scan_ok s counts (seen @ [h]) r"
  by (auto simp: scan_ok_def split: if_splits)

lemma scan_ok_keep:
  "scan_ok s counts seen r \<Longrightarrow> fst r \<noteq> [] \<Longrightarrow> snd r \<le> count_of counts h \<Longrightarrow> scan_ok s counts (seen @ [h]) r"
  by (auto simp: scan_ok_def)

lemma scan_ok_take:
  assumes "scan_ok s counts seen (b, bl)" "h \<noteq> []" "hasCapacity s (count_of counts h)"
    and "b = [] \<or> count_of counts h < bl"
  shows "scan_ok s counts (seen @ [h]) (h, count_of counts h)"
proof (cases "b = []")
  case True
  with assms show ?thesis by (simp add: scan_ok_def)
next
  case False
  with assms show ?thesis by (fastforce simp: scan_ok_def)
qed

lemma best_host_scan:
  "\<forall>h \<in> set hs. h \<noteq> [] \<Longrightarrow> scan_ok s counts seen (b, bl) \<Longrightarrow>
     scan_ok s counts (seen @ hs) (best_host s counts hs b bl)"
proof (induction hs arbitrary: seen b bl)
  case Nil
  then show ?case by simp
next
  case (Cons h hs)
  let ?load = "count_of counts h"
  have ne: "\<forall>h \<in> set hs. h \<noteq> []" using Cons.prems by simp
  note step = Cons.IH [OF ne, of "seen @ [h]", simplified]
  consider "\<not> hasCapacity s ?load"
    | "hasCapacity s ?load" "b = [] \<or> ?load < bl"
    | "hasCapacity s ?load" "b \<noteq> []" "bl \<le> ?load" by fastforce
  then show ?case
  proof cases
    case 1
    then show ?thesis using step [OF scan_ok_skip [OF Cons.prems(2)]] by simp
  next
    case 2
    have "scan_ok s counts (seen @ [h]) (h, ?load)"
      using scan_ok_take [OF Cons.prems(2)] 2 Cons.prems(1) by simp
    then show ?thesis using step [of h ?load] 2 by simp
  next
    case 3
    have "scan_ok s counts (seen @ [h]) (b, bl)"
      using scan_ok_keep [OF Cons.prems(2)] 3 by simp
    then show ?thesis using step [of b bl] 3 by simp
  qed
qed

lemma best_host_cap:
  assumes "best_host s (hostCounts loads) (normalizeHosts (hs_Hosts s)) [] 0 = (b, bl)"
  shows "b \<noteq> [] \<Longrightarrow> b \<in> set (normalizeHosts (hs_Hosts s)) \<and> hasCapacity s (load_of loads b)
      \<and> (\<forall>h \<in> set (normalizeHosts (hs_Hosts s)). hasCapacity s (load_of loads h)
            \<longrightarrow> load_of loads b \<le> load_of loads h)"
    and "b = [] \<Longrightarrow> \<forall>h \<in> set (normalizeHosts (hs_Hosts s)). \<not> hasCapacity s (load_of loads h)"
proof -
  have ne: "\<forall>h \<in> set (normalizeHosts (hs_Hosts s)). h \<noteq> []"
    using normalizeHosts_trimmed by blast
  have "scan_ok s (hostCounts loads) (normalizeHosts (hs_Hosts s)) (b, bl)"
    using best_host_scan [OF ne, of s "hostCounts loads" "[]" "[]" 0] assms
    by (simp add: scan_ok_def)
  then show "b \<noteq> [] \<Longrightarrow> b \<in> set (normalizeHosts (hs_Hosts s)) \<and> hasCapacity s (load_of loads b)
      \<and> (\<forall>h \<in> set (normalizeHosts (hs_Hosts s)). hasCapacity s (load_of loads h)
            \<longrightarrow> load_of loads b \<le> load_of loads h)"
    and "b = [] \<Longrightarrow> \<forall>h \<in> set (normalizeHosts (hs_Hosts s)). \<not> hasCapacity s (load_of loads h)"
    by (auto simp: scan_ok_def count_of_hostCounts)
qed

subsection \<open>The contract\<close>

text \<open>
  What the orchestrator relies on, over an abstract selector: \<open>configured\<close> the usable hosts,
  \<open>eligible\<close> the capacity test at the given load, \<open>load\<close> the load of a host.
\<close>

locale host_admission =
  fixes select :: "'c \<Rightarrow> string \<Rightarrow> 'l \<Rightarrow> string \<times> bool"
    and configured :: "'c \<Rightarrow> string list"
    and eligible :: "'c \<Rightarrow> 'l \<Rightarrow> string \<Rightarrow> bool"
    and load :: "'l \<Rightarrow> string \<Rightarrow> int"
  assumes local_run: "configured c = [] \<Longrightarrow> select c p l = ([], True)"
    and selected: "configured c \<noteq> [] \<Longrightarrow> select c p l = (h, True) \<Longrightarrow>
      h \<in> set (configured c) \<and> eligible c l h"
    and preferred_first: "TrimSpace p \<in> set (configured c) \<Longrightarrow> eligible c l (TrimSpace p) \<Longrightarrow>
      select c p l = (TrimSpace p, True)"
    and least_loaded: "configured c \<noteq> [] \<Longrightarrow> select c p l = (h, True) \<Longrightarrow> h \<noteq> TrimSpace p \<Longrightarrow>
      h' \<in> set (configured c) \<Longrightarrow> eligible c l h' \<Longrightarrow> load l h \<le> load l h'"
    and refused: "select c p l = (h, False) \<longleftrightarrow>
      h = [] \<and> configured c \<noteq> [] \<and> (\<forall>h' \<in> set (configured c). \<not> eligible c l h')"
begin

lemma admitted_iff:
  "snd (select c p l) \<longleftrightarrow> configured c = [] \<or> (\<exists>h \<in> set (configured c). eligible c l h)"
proof (cases "select c p l")
  case (Pair h b)
  show ?thesis
  proof (cases b)
    case True
    then show ?thesis
      using Pair selected [of c p l h] by (cases "configured c = []") auto
  next
    case False
    then show ?thesis using Pair refused [of c p l h] by auto
  qed
qed

lemma admitted_host:
  "select c p l = (h, True) \<Longrightarrow> h = [] \<and> configured c = [] \<or> h \<in> set (configured c) \<and> eligible c l h"
  using selected [of c p l h] local_run [of c p l] by (cases "configured c = []") auto

end

text \<open>The selector of the code meets the contract.\<close>

interpretation hsel: host_admission Select "\<lambda>s. normalizeHosts (hs_Hosts s)"
  "\<lambda>s loads h. hasCapacity s (load_of loads h)" load_of
proof (unfold_locales, goal_cases)
  case (1 c p l)
  then show ?case by (simp add: Select_def)
next
  case (2 c p l h)
  obtain b bl where b: "best_host c (hostCounts l) (normalizeHosts (hs_Hosts c)) [] 0 = (b, bl)"
    by fastforce
  from 2 b best_host_cap(1) [OF b] show ?case
    by (auto simp: Select_def Let_def count_of_hostCounts split: if_splits)
next
  case (3 p c l)
  then have "TrimSpace p \<noteq> []" "normalizeHosts (hs_Hosts c) \<noteq> []"
    using normalizeHosts_trimmed by auto
  with 3 show ?case by (simp add: Select_def Let_def count_of_hostCounts)
next
  case (4 c p l h h')
  obtain b bl where b: "best_host c (hostCounts l) (normalizeHosts (hs_Hosts c)) [] 0 = (b, bl)"
    by fastforce
  from 4 b best_host_cap(1) [OF b] show ?case
    by (auto simp: Select_def Let_def count_of_hostCounts split: if_splits)
next
  case (5 c p l h)
  obtain b bl where b: "best_host c (hostCounts l) (normalizeHosts (hs_Hosts c)) [] 0 = (b, bl)"
    by fastforce
  from b best_host_cap [OF b] show ?case
    by (auto simp: Select_def Let_def count_of_hostCounts split: if_splits)
qed

subsection \<open>The property\<close>

text \<open>Admission to a worker host: a run is admitted exactly when no host is configured
  (it then runs locally) or some configured host has capacity left; an admitted run goes to a
  configured host with capacity, to the preferred host whenever that one has capacity, and otherwise
  to a host whose load is the least among those with capacity.\<close>

theorem Select_admission:
  "(snd (Select s p loads) \<longleftrightarrow> normalizeHosts (hs_Hosts s) = []
       \<or> (\<exists>h \<in> set (normalizeHosts (hs_Hosts s)). hasCapacity s (load_of loads h)))
   \<and> (\<forall>h. Select s p loads = (h, True) \<longrightarrow> h = [] \<and> normalizeHosts (hs_Hosts s) = []
       \<or> h \<in> set (normalizeHosts (hs_Hosts s)) \<and> hasCapacity s (load_of loads h)
         \<and> (h = TrimSpace p \<or> (\<forall>h' \<in> set (normalizeHosts (hs_Hosts s)).
              hasCapacity s (load_of loads h') \<longrightarrow> h' \<noteq> TrimSpace p \<and> load_of loads h \<le> load_of loads h')))"
proof (intro conjI allI impI)
  show "snd (Select s p loads) \<longleftrightarrow> normalizeHosts (hs_Hosts s) = []
       \<or> (\<exists>h \<in> set (normalizeHosts (hs_Hosts s)). hasCapacity s (load_of loads h))"
    by (rule hsel.admitted_iff)
  fix h assume sel: "Select s p loads = (h, True)"
  show "h = [] \<and> normalizeHosts (hs_Hosts s) = []
       \<or> h \<in> set (normalizeHosts (hs_Hosts s)) \<and> hasCapacity s (load_of loads h)
         \<and> (h = TrimSpace p \<or> (\<forall>h' \<in> set (normalizeHosts (hs_Hosts s)).
              hasCapacity s (load_of loads h') \<longrightarrow> h' \<noteq> TrimSpace p \<and> load_of loads h \<le> load_of loads h'))"
  proof (cases "normalizeHosts (hs_Hosts s) = []")
    case True
    then show ?thesis using hsel.admitted_host [OF sel] by simp
  next
    case False
    then have host: "h \<in> set (normalizeHosts (hs_Hosts s))" "hasCapacity s (load_of loads h)"
      using hsel.admitted_host [OF sel] by auto
    have "h' \<noteq> TrimSpace p \<and> load_of loads h \<le> load_of loads h'"
      if "h \<noteq> TrimSpace p" "h' \<in> set (normalizeHosts (hs_Hosts s))" "hasCapacity s (load_of loads h')" for h'
      using hsel.least_loaded [OF False sel] hsel.preferred_first [of p s loads] sel that by auto
    with host show ?thesis by blast
  qed
qed

theorem Select_admission_witness:
  "let s = \<lparr>hs_Hosts = [''h1'', '' h2 ''], hs_MaxPerHost = Some 2\<rparr>;
       loads = [\<lparr>hl_Host = ''h1'', hl_Running = 2\<rparr>, \<lparr>hl_Host = ''h2'', hl_Running = 1\<rparr>] in
     Select s ''h1'' loads = (''h2'', True) \<and> load_of loads ''h2'' < 2"
proof -
  let ?s = "\<lparr>hs_Hosts = [''h1'', '' h2 ''], hs_MaxPerHost = Some 2\<rparr>"
  let ?loads = "[\<lparr>hl_Host = ''h1'', hl_Running = 2\<rparr>, \<lparr>hl_Host = ''h2'', hl_Running = 1\<rparr>]"
  have sel: "Select ?s ''h1'' ?loads = (''h2'', True)" by code_simp
  have "normalizeHosts (hs_Hosts ?s) \<noteq> []" by code_simp
  then have "hasCapacity ?s (load_of ?loads ''h2'')"
    using conjunct2 [OF Select_admission, THEN spec, of ?s "''h1''" ?loads "''h2''"] sel by blast
  then show ?thesis using sel by (simp add: Let_def hasCapacity_def)
qed

end
