(* ===== verification/Go_Values.thy ===== *)
theory Go_Values
  imports Go_Strings Complex_Main
begin

text \<open>
  Dynamically typed values: what Go's \<open>any\<close> holds after decoding YAML or JSON. JSON objects and
  YAML maps with string keys are \<open>VMap\<close>; a YAML map with other keys (\<open>map[any]any\<close>) is
  \<open>VAnyMap\<close>; \<open>VNumber\<close> is a \<open>json.Number\<close>, kept as its text; a finite \<open>float64\<close> is a
  rational. Maps are association lists; a lookup takes the first binding.
\<close>

text \<open>A YAML key, with the text \<open>fmt.Sprint\<close> prints for it.\<close>

datatype ykey = KStr string | KInt int | KBool bool | KNull | KOther string

fun sprint_key :: "ykey \<Rightarrow> string" where
  "sprint_key (KStr s) = s"
| "sprint_key (KInt i) = Itoa i"
| "sprint_key (KBool b) = (if b then ''true'' else ''false'')"
| "sprint_key KNull = ''<nil>''"
| "sprint_key (KOther s) = s"

datatype gval =
    VNil
  | VBool bool
  | VInt int
  | VFloat rat
  | VNumber string
  | VStr string
  | VList "gval list"
  | VMap "(string \<times> gval) list"
  | VAnyMap "(ykey \<times> gval) list"

text \<open>Reading \<open>m[key]\<close> of a \<open>map[string]any\<close>: an absent key gives \<open>nil\<close>.\<close>

definition vget :: "(string \<times> gval) list \<Rightarrow> string \<Rightarrow> gval" where
  "vget m k = (case map_of m k of None \<Rightarrow> VNil | Some v \<Rightarrow> v)"

text \<open>The type assertion \<open>v.(map[string]any)\<close>; a failed one leaves the nil map.\<close>

fun as_map :: "gval \<Rightarrow> (string \<times> gval) list option" where
  "as_map (VMap m) = Some m"
| "as_map _ = None"

definition map_or_nil :: "gval \<Rightarrow> (string \<times> gval) list" where
  "map_or_nil v = (case as_map v of None \<Rightarrow> [] | Some m \<Rightarrow> m)"

fun as_list :: "gval \<Rightarrow> gval list option" where
  "as_list (VList vs) = Some vs"
| "as_list _ = None"

fun as_str :: "gval \<Rightarrow> string option" where
  "as_str (VStr s) = Some s"
| "as_str _ = None"

subsection \<open>Normalising configuration values\<close>

text \<open>
  \<open>normalizeYAMLValue\<close> of \<open>internal/config/workflow.go\<close>: every map becomes a
  \<open>map[string]any\<close>. Two keys of a \<open>map[any]any\<close> may print alike; Go then keeps the one its
  iteration visits last, here the last in the list.
\<close>

primrec put_all :: "(string \<times> gval) list \<Rightarrow> (string \<times> gval) list \<Rightarrow> (string \<times> gval) list" where
  "put_all acc [] = acc"
| "put_all acc (kv # m) = put_all (mput (fst kv) (snd kv) acc) m"

primrec normalizeYAMLValue :: "gval \<Rightarrow> gval" where
  "normalizeYAMLValue VNil = VNil"
| "normalizeYAMLValue (VBool b) = VBool b"
| "normalizeYAMLValue (VInt i) = VInt i"
| "normalizeYAMLValue (VFloat r) = VFloat r"
| "normalizeYAMLValue (VNumber s) = VNumber s"
| "normalizeYAMLValue (VStr s) = VStr s"
| "normalizeYAMLValue (VList vs) = VList (map normalizeYAMLValue vs)"
| "normalizeYAMLValue (VMap m) = VMap (map (map_prod id normalizeYAMLValue) m)"
| "normalizeYAMLValue (VAnyMap m) =
     VMap (put_all [] (map (map_prod sprint_key id) (map (map_prod id normalizeYAMLValue) m)))"

text \<open>\<open>dropNilConfigValue\<close> of \<open>internal/config/settings.go\<close>.\<close>

primrec dropNilConfigValue :: "gval \<Rightarrow> gval" where
  "dropNilConfigValue VNil = VNil"
| "dropNilConfigValue (VBool b) = VBool b"
| "dropNilConfigValue (VInt i) = VInt i"
| "dropNilConfigValue (VFloat r) = VFloat r"
| "dropNilConfigValue (VNumber s) = VNumber s"
| "dropNilConfigValue (VStr s) = VStr s"
| "dropNilConfigValue (VList vs) = VList (map dropNilConfigValue vs)"
| "dropNilConfigValue (VMap m) =
     VMap (filter (\<lambda>kv. snd kv \<noteq> VNil) (map (map_prod id dropNilConfigValue) m))"
| "dropNilConfigValue (VAnyMap m) = VAnyMap m"

text \<open>A value all of whose maps have string keys.\<close>

primrec string_keyed :: "gval \<Rightarrow> bool" where
  "string_keyed VNil = True"
| "string_keyed (VBool b) = True"
| "string_keyed (VInt i) = True"
| "string_keyed (VFloat r) = True"
| "string_keyed (VNumber s) = True"
| "string_keyed (VStr s) = True"
| "string_keyed (VList vs) = list_all id (map string_keyed vs)"
| "string_keyed (VMap m) = list_all (\<lambda>kv. snd kv) (map (map_prod id string_keyed) m)"
| "string_keyed (VAnyMap m) = False"

text \<open>A value none of whose maps, however deep, binds a key to \<open>nil\<close>.\<close>

primrec nil_free_maps :: "gval \<Rightarrow> bool" where
  "nil_free_maps VNil = True"
| "nil_free_maps (VBool b) = True"
| "nil_free_maps (VInt i) = True"
| "nil_free_maps (VFloat r) = True"
| "nil_free_maps (VNumber s) = True"
| "nil_free_maps (VStr s) = True"
| "nil_free_maps (VList vs) = list_all id (map nil_free_maps vs)"
| "nil_free_maps (VMap m) =
     (list_all (\<lambda>kv. snd kv) (map (map_prod id nil_free_maps) m) \<and> list_all (\<lambda>kv. snd kv \<noteq> VNil) m)"
| "nil_free_maps (VAnyMap m) = False"

lemma set_put_all: "kv \<in> set (put_all acc m) \<Longrightarrow> kv \<in> set acc \<union> set m"
proof (induction m arbitrary: acc)
  case Nil
  then show ?case by simp
next
  case (Cons kv' m)
  then have "kv \<in> set (mput (fst kv') (snd kv') acc) \<union> set m" by simp
  moreover have "set (mput k v a) \<subseteq> insert (k, v) (set a)" for k :: string and v :: gval and a
    by (induction a) auto
  ultimately show ?case by fastforce
qed

lemma normalizeYAMLValue_string_keyed: "string_keyed (normalizeYAMLValue v)"
proof (induction v)
  case (VAnyMap m)
  have "string_keyed x" if "(k, x) \<in> set (put_all [] (map (map_prod sprint_key id) (map (map_prod id normalizeYAMLValue) m)))" for k x
    using set_put_all [OF that] VAnyMap by (force simp: snds.simps)
  then show ?case by (auto simp: list_all_iff)
qed (auto simp: list_all_iff snds.simps)

lemma normalizeYAMLValue_fixed: "string_keyed v \<Longrightarrow> normalizeYAMLValue v = v"
proof (induction v)
  case (VList vs)
  then show ?case by (auto simp: list_all_iff intro: map_idI)
next
  case (VMap m)
  then show ?case by (fastforce simp: list_all_iff snds.simps intro: map_idI)
qed auto

lemma dropNil_string_keyed: "string_keyed v \<Longrightarrow> string_keyed (dropNilConfigValue v)"
  by (induction v) (force simp: list_all_iff snds.simps)+

lemma dropNil_nil_free: "string_keyed v \<Longrightarrow> nil_free_maps (dropNilConfigValue v)"
  by (induction v) (force simp: list_all_iff snds.simps)+

lemma dropNil_fixed: "nil_free_maps v \<Longrightarrow> dropNilConfigValue v = v"
proof (induction v)
  case (VList vs)
  then show ?case by (auto simp: list_all_iff intro: map_idI)
next
  case (VMap m)
  then have "map (map_prod id dropNilConfigValue) m = m"
    by (fastforce simp: list_all_iff snds.simps intro: map_idI)
  with VMap.prems show ?case by (simp add: list_all_iff filter_id_conv)
qed auto

end
