(* ===== verification/Go_Path.thy ===== *)
theory Go_Path
  imports Go_Strings "HOL-Library.Sublist"
begin

text \<open>
  Go's \<open>path/filepath\<close> on Unix, as the program uses it: \<open>Clean\<close>, \<open>Join\<close>, \<open>IsAbs\<close>,
  \<open>Abs\<close>, \<open>Rel\<close>. A path is split at \<open>/\<close> into its elements. \<open>abs_path\<close> prints a list of
  proper elements as a clean absolute path and \<open>elems\<close> reads it back; the lemmas reduce the
  functions on such paths to list operations.
\<close>

abbreviation slash :: char where
  "slash \<equiv> CHR ''/''"

abbreviation dotdot :: string where
  "dotdot \<equiv> ''..''"

definition IsAbs :: "string \<Rightarrow> bool" where
  "IsAbs p = HasPrefix p ''/''"

text \<open>
  The element loop of \<open>Clean\<close>: \<open>out\<close> is reversed. Empty and \<open>.\<close> elements are dropped,
  \<open>..\<close> removes the last element, is dropped at the root and kept at the front of a relative path.
\<close>

fun clean_elems :: "bool \<Rightarrow> string list \<Rightarrow> string list \<Rightarrow> string list" where
  "clean_elems rooted out [] = rev out"
| "clean_elems rooted out (e # es) =
     (if e = [] \<or> e = ''.'' then clean_elems rooted out es
      else if e = dotdot then
        (case out of
           [] \<Rightarrow> clean_elems rooted (if rooted then [] else [dotdot]) es
         | l # out' \<Rightarrow> if l = dotdot then clean_elems rooted (dotdot # out) es
                      else clean_elems rooted out' es)
      else clean_elems rooted (e # out) es)"

definition Clean :: "string \<Rightarrow> string" where
  "Clean p = (let rooted = IsAbs p; es = clean_elems rooted [] (Split slash p) in
     if rooted then slash # Join es ''/''
     else if es = [] then ''.'' else Join es ''/'')"

definition path_Join :: "string list \<Rightarrow> string" where
  "path_Join ws = (let ws' = filter (\<lambda>w. w \<noteq> []) ws in
     if ws' = [] then [] else Clean (Join ws' ''/''))"

text \<open>\<open>filepath.Abs\<close>: \<open>cwd\<close> is the result of \<open>os.Getwd\<close>, \<open>None\<close> its failure.\<close>

definition path_Abs :: "string option \<Rightarrow> string \<Rightarrow> string option" where
  "path_Abs cwd p = (if IsAbs p then Some (Clean p) else map_option (\<lambda>d. path_Join [d, p]) cwd)"

fun strip_common :: "string list \<Rightarrow> string list \<Rightarrow> string list \<times> string list" where
  "strip_common (b # bs) (t # ts) = (if b = t then strip_common bs ts else (b # bs, t # ts))"
| "strip_common bs ts = (bs, ts)"

text \<open>The elements of a clean path; the root and \<open>.\<close> have none.\<close>

definition elems :: "string \<Rightarrow> string list" where
  "elems p = filter (\<lambda>e. e \<noteq> [] \<and> e \<noteq> ''.'') (Split slash p)"

text \<open>
  \<open>filepath.Rel\<close>: \<open>None\<close> is its error (one path absolute and the other not, or a base
  that starts with \<open>..\<close> beyond the common prefix).
\<close>

definition path_Rel :: "string \<Rightarrow> string \<Rightarrow> string option" where
  "path_Rel base targ =
     (let b = Clean base; t = Clean targ in
      if b = t then Some ''.''
      else if IsAbs b \<noteq> IsAbs t then None
      else let (bs, ts) = strip_common (elems b) (elems t) in
        if bs \<noteq> [] \<and> hd bs = dotdot then None
        else Some (Join (replicate (length bs) dotdot @ ts) ''/''))"

subsection \<open>Clean absolute paths\<close>

text \<open>A proper element is non-empty, has no separator and is neither \<open>.\<close> nor \<open>..\<close>.\<close>

definition proper :: "string \<Rightarrow> bool" where
  "proper e \<longleftrightarrow> e \<noteq> [] \<and> slash \<notin> set e \<and> e \<noteq> ''.'' \<and> e \<noteq> dotdot"

definition abs_path :: "string list \<Rightarrow> string" where
  "abs_path es = slash # Join es ''/''"

lemma IsAbs_abs_path [simp]: "IsAbs (abs_path es)"
  by (simp add: IsAbs_def abs_path_def)

lemma Split_abs_path:
  "\<forall>e \<in> set es. proper e \<Longrightarrow> Split slash (abs_path es) = [] # (if es = [] then [[]] else es)"
  using Split_Join [of es slash] by (auto simp: abs_path_def proper_def)

lemma elems_abs_path [simp]: "\<forall>e \<in> set es. proper e \<Longrightarrow> elems (abs_path es) = es"
  by (auto simp: elems_def Split_abs_path proper_def filter_id_conv)

lemma abs_path_inject:
  "\<forall>e \<in> set es. proper e \<Longrightarrow> \<forall>e \<in> set fs. proper e \<Longrightarrow> abs_path es = abs_path fs \<longleftrightarrow> es = fs"
  by (metis elems_abs_path)

lemma clean_elems_proper:
  "\<forall>e \<in> set es. proper e \<Longrightarrow> clean_elems r out es = rev out @ es"
proof (induction es arbitrary: out)
  case Nil
  then show ?case by simp
next
  case (Cons e es)
  then have "e \<noteq> []" "e \<noteq> ''.''" "e \<noteq> dotdot" by (simp_all add: proper_def)
  with Cons.IH [of "e # out"] Cons.prems show ?case by simp
qed

lemma clean_elems_skip: "clean_elems r out ([] # es) = clean_elems r out es"
  by simp

lemma clean_elems_split:
  "\<forall>e \<in> set es. proper e \<Longrightarrow> clean_elems r [] ([] # (if es = [] then [[]] else es)) = es"
  using clean_elems_proper [of es r "[]"] by (cases "es = []") simp_all

lemma Clean_rooted: "IsAbs p \<Longrightarrow> Clean p = abs_path (clean_elems True [] (Split slash p))"
  by (simp add: Clean_def abs_path_def Let_def)

lemma Clean_abs_path [simp]:
  assumes "\<forall>e \<in> set es. proper e"
  shows "Clean (abs_path es) = abs_path es"
proof -
  have "Clean (abs_path es) = abs_path (clean_elems True [] (Split slash (abs_path es)))"
    by (rule Clean_rooted) (rule IsAbs_abs_path)
  also have "\<dots> = abs_path es" unfolding Split_abs_path [OF assms] clean_elems_split [OF assms] ..
  finally show ?thesis .
qed

lemma clean_elems_rooted:
  "\<forall>e \<in> set es. slash \<notin> set e \<Longrightarrow> \<forall>e \<in> set out. proper e \<Longrightarrow>
     \<forall>e \<in> set (clean_elems True out es). proper e"
proof (induction es arbitrary: out)
  case Nil
  then show ?case by simp
next
  case (Cons e es)
  have es: "\<forall>e \<in> set es. slash \<notin> set e" using Cons.prems by simp
  have out: "\<forall>e \<in> set (tl out). proper e" using Cons.prems by (cases out) simp_all
  have hd: "out \<noteq> [] \<Longrightarrow> hd out \<noteq> dotdot" using Cons.prems by (cases out) (simp_all add: proper_def)
  consider "e = [] \<or> e = ''.''" | "e = dotdot" | "proper e"
    using Cons.prems by (fastforce simp: proper_def)
  then show ?case
  proof cases
    case 1
    then show ?thesis using Cons.IH [OF es Cons.prems(2)] by auto
  next
    case 2
    then have "clean_elems True out (e # es) = clean_elems True (tl out) es"
      using hd by (cases out) simp_all
    then show ?thesis using Cons.IH [OF es out] by simp
  next
    case 3
    then have "clean_elems True out (e # es) = clean_elems True (e # out) es"
      by (simp add: proper_def)
    then show ?thesis using Cons.IH [OF es, of "e # out"] Cons.prems 3 by simp
  qed
qed

text \<open>Cleaning an absolute path always gives one printed from proper elements.\<close>

lemma Clean_abs:
  assumes "IsAbs p"
  obtains es where "Clean p = abs_path es" "\<forall>e \<in> set es. proper e"
proof -
  have "\<forall>e \<in> set (clean_elems True [] (Split slash p)). proper e"
    using clean_elems_rooted [of "Split slash p" "[]"] Split_no_sep by auto
  with assms show thesis by (intro that) (simp_all add: Clean_def abs_path_def Let_def)
qed

lemma Clean_idem_abs: "IsAbs p \<Longrightarrow> Clean (Clean p) = Clean p"
  by (metis Clean_abs Clean_abs_path)

lemma IsAbs_Clean: "IsAbs p \<Longrightarrow> IsAbs (Clean p)"
  by (metis Clean_abs IsAbs_abs_path)

lemma path_Abs_abs: "path_Abs cwd p = Some q \<Longrightarrow> (\<And>d. cwd = Some d \<Longrightarrow> IsAbs d) \<Longrightarrow> IsAbs q \<and> Clean q = q"
proof -
  assume q: "path_Abs cwd p = Some q" and c: "\<And>d. cwd = Some d \<Longrightarrow> IsAbs d"
  show ?thesis
  proof (cases "IsAbs p")
    case True
    with q show ?thesis by (auto simp: path_Abs_def IsAbs_Clean Clean_idem_abs)
  next
    case False
    with q obtain d where d: "cwd = Some d" "q = path_Join [d, p]" by (auto simp: path_Abs_def)
    from c [OF d(1)] obtain d' where d': "d = slash # d'" by (auto simp: IsAbs_def HasPrefix_iff)
    have "IsAbs (Join (filter (\<lambda>w. w \<noteq> []) [d, p]) ''/'')" using d' by (auto simp: IsAbs_def)
    then show ?thesis using d d' by (auto simp: path_Join_def IsAbs_Clean Clean_idem_abs)
  qed
qed

lemma strip_common_same: "strip_common (bs @ xs) (bs @ ys) = strip_common xs ys"
  by (induction bs) auto

lemma strip_common_prefix: "strip_common bs ts = (rb, rt) \<Longrightarrow> \<exists>c. bs = c @ rb \<and> ts = c @ rt"
proof (induction bs ts arbitrary: rb rt rule: strip_common.induct)
  case (1 b bs t ts)
  then show ?case by (cases "b = t") (auto intro: exI [where x = "t # _"])
qed auto

lemma strip_common_Nil_iff: "fst (strip_common bs ts) = [] \<longleftrightarrow> prefix bs ts"
  by (induction bs ts rule: strip_common.induct) auto

lemma Join_dotdot_prefix:
  "HasPrefix (Join (dotdot # ws) ''/'') ''../'' \<or> Join (dotdot # ws) ''/'' = dotdot"
  by (cases ws) auto

lemma Join_proper_head:
  assumes "proper w"
  shows "Join (w # ws) ''/'' \<noteq> dotdot \<and> \<not> HasPrefix (Join (w # ws) ''/'') ''../'' \<and> Join (w # ws) ''/'' \<noteq> ''.''"
proof -
  obtain t where t: "Join (w # ws) ''/'' = w @ t" "t = [] \<or> hd t = slash"
    by (cases ws) auto
  have "\<not> HasPrefix (w @ t) ''../''"
  proof
    assume "HasPrefix (w @ t) ''../''"
    then obtain u where "w @ t = CHR ''.'' # CHR ''.'' # slash # u" by (auto simp: HasPrefix_iff)
    with assms t(2) show False
      by (cases w; cases "tl w"; cases "tl (tl w)") (auto simp: proper_def)
  qed
  moreover have "w @ t \<noteq> dotdot" using assms t(2)
    by (cases w; cases "tl w"; cases t) (auto simp: proper_def append_eq_Cons_conv)
  moreover have "w @ t \<noteq> ''.''" using assms t(2)
    by (cases w; cases t) (auto simp: proper_def append_eq_Cons_conv)
  ultimately show ?thesis using t(1) by simp
qed

lemma path_Rel_abs_path:
  assumes "\<forall>e \<in> set bs. proper e" "\<forall>e \<in> set ts. proper e"
  shows "path_Rel (abs_path bs) (abs_path ts) =
    (if bs = ts then Some ''.'' else
       (let (rb, rt) = strip_common bs ts in Some (Join (replicate (length rb) dotdot @ rt) ''/'')))"
proof (cases "bs = ts")
  case True
  then show ?thesis using assms by (simp add: path_Rel_def)
next
  case False
  obtain rb rt where r: "strip_common bs ts = (rb, rt)" by fastforce
  then obtain c where "bs = c @ rb" using strip_common_prefix by blast
  with assms have "rb \<noteq> [] \<Longrightarrow> hd rb \<noteq> dotdot" by (auto simp: proper_def neq_Nil_conv)
  with False assms r show ?thesis by (auto simp: path_Rel_def abs_path_inject)
qed

text \<open>
  The containment test both \<open>internal/workspace\<close> and \<open>internal/codex\<close> make on the result
  of \<open>Rel\<close> is the prefix relation on elements.
\<close>

definition rel_inside :: "string \<Rightarrow> bool" where
  "rel_inside rel \<longleftrightarrow> rel \<noteq> dotdot \<and> \<not> HasPrefix rel ''../''"

lemma rel_inside_prefix:
  assumes "\<forall>e \<in> set bs. proper e" "\<forall>e \<in> set ts. proper e"
    and "path_Rel (abs_path bs) (abs_path ts) = Some rel"
  shows "rel = ''.'' \<longleftrightarrow> bs = ts" and "rel_inside rel \<longleftrightarrow> prefix bs ts"
proof -
  obtain rb rt where r: "strip_common bs ts = (rb, rt)" by fastforce
  then obtain c where c: "bs = c @ rb" "ts = c @ rt" using strip_common_prefix by blast
  have pre: "prefix bs ts \<longleftrightarrow> rb = []" using strip_common_Nil_iff [of bs ts] r by simp
  have "(rel = ''.'' \<longleftrightarrow> bs = ts) \<and> (rel_inside rel \<longleftrightarrow> prefix bs ts)"
  proof (cases "bs = ts")
    case True
    then have "rel = ''.''" using assms by (simp add: path_Rel_abs_path)
    then show ?thesis using True by (simp add: rel_inside_def)
  next
    case False
    then have rel: "rel = Join (replicate (length rb) dotdot @ rt) ''/''"
      using assms r by (simp add: path_Rel_abs_path)
    show ?thesis
    proof (cases rb)
      case Nil
      with False c obtain w ws where rt: "rt = w # ws" by (cases rt) auto
      with assms(2) c have "proper w" by simp
      then show ?thesis using False pre Nil rel rt Join_proper_head [of w ws]
        by (simp add: rel_inside_def)
    next
      case (Cons x xs)
      then obtain ws where ws: "replicate (length rb) dotdot @ rt = dotdot # ws" by auto
      then have "\<not> rel_inside rel" "rel \<noteq> ''.''"
        using rel Join_dotdot_prefix [of ws] by (auto simp: rel_inside_def)
      then show ?thesis using False pre Cons by simp
    qed
  qed
  then show "rel = ''.'' \<longleftrightarrow> bs = ts" and "rel_inside rel \<longleftrightarrow> prefix bs ts" by auto
qed

lemma Clean_append_elem:
  assumes "\<forall>e \<in> set es. proper e" "proper e"
  shows "path_Join [abs_path es, e] = abs_path (es @ [e])"
proof -
  have ne: "e \<noteq> []" "abs_path es \<noteq> []" using assms by (auto simp: proper_def abs_path_def)
  have e: "Split slash e = [e]" using assms(2) by (simp add: proper_def Split_single)
  have all: "\<forall>x \<in> set (es @ [e]). proper x" using assms by auto
  let ?p = "abs_path es @ slash # e"
  have split: "Split slash ?p = [] # (if es = [] then [[]] else es) @ [e]"
    using assms by (simp add: Split_concat e Split_abs_path)
  have "IsAbs ?p" by (simp add: abs_path_def IsAbs_def)
  moreover have "clean_elems True [] ([] # (if es = [] then [[]] else es) @ [e]) = es @ [e]"
    using clean_elems_split [OF all, of True] by (cases "es = []") (simp_all only: append.simps if_True if_False
        clean_elems_skip append_is_Nil_conv list.distinct simp_thms)
  ultimately have "Clean ?p = abs_path (es @ [e])" by (simp only: Clean_rooted split)
  then show ?thesis using ne by (simp add: path_Join_def)
qed

end
