(* ===== verification/Workflow_File.thy ===== *)
theory Workflow_File
  imports Go_Values Go_Path
begin

text \<open>
  \<open>internal/config/workflow.go\<close>: reading \<open>WORKFLOW.md\<close>, a prompt with optional YAML front
  matter between \<open>---\<close> lines. The YAML parser (\<open>gopkg.in/yaml.v3\<close>) and the operating system
  are parameters: \<open>yaml\<close> is \<open>yaml.Unmarshal\<close> into an \<open>any\<close>, \<open>read_file\<close> is
  \<open>os.ReadFile\<close>, \<open>cwd\<close> is \<open>os.Getwd\<close>.
\<close>

datatype error_code = ErrMissingWorkflowFile | ErrWorkflowParse | ErrWorkflowFrontMatterNotMap

fun code_string :: "error_code \<Rightarrow> string" where
  "code_string ErrMissingWorkflowFile = ''missing_workflow_file''"
| "code_string ErrWorkflowParse = ''workflow_parse_error''"
| "code_string ErrWorkflowFrontMatterNotMap = ''workflow_front_matter_not_a_map''"

text \<open>A \<open>*LoadError\<close> with its code, path and wrapped error, or any other error by its message.\<close>

datatype cfg_error = LoadError error_code string "string option" | CfgError string

text \<open>\<open>LoadError.Error\<close>; \<open>%v\<close> of a nil error prints \<open><nil>\<close>.\<close>

fun cfg_error_message :: "cfg_error \<Rightarrow> string" where
  "cfg_error_message (CfgError m) = m"
| "cfg_error_message (LoadError c p e) = (case c of
     ErrMissingWorkflowFile \<Rightarrow> code_string c @ '': '' @ p @ '': '' @ (case e of None \<Rightarrow> ''<nil>'' | Some m \<Rightarrow> m)
   | ErrWorkflowFrontMatterNotMap \<Rightarrow> code_string c
   | ErrWorkflowParse \<Rightarrow> (case e of None \<Rightarrow> code_string c | Some m \<Rightarrow> code_string c @ '': '' @ m))"

record workflow =
  wf_Path :: string
  wf_Config :: "(string \<times> gval) list"
  wf_Prompt :: string
  wf_PromptTemplate :: string

definition workflowFileName :: string where
  "workflowFileName = ''WORKFLOW.md''"

abbreviation nl :: char where
  "nl \<equiv> CHR 0x0A"

abbreviation cr :: char where
  "cr \<equiv> CHR 0x0D"

definition defaultPromptTemplate :: string where
  "defaultPromptTemplate = Join
     [''You are working on a Linear issue.'', [],
      ''Identifier: {{ issue.identifier }}'',
      ''Title: {{ issue.title }}'', [],
      ''Body:'',
      ''{% if issue.description %}'',
      ''{{ issue.description }}'',
      ''{% else %}'',
      ''No description provided.'',
      ''{% endif %}''] [nl]"

definition splitLines :: "string \<Rightarrow> string list" where
  "splitLines content = Split nl (ReplaceAll (ReplaceAll content [cr, nl] [nl]) [cr] [nl])"

fun take_front_matter :: "string list \<Rightarrow> string list \<Rightarrow> string list \<times> string list" where
  "take_front_matter acc [] = (acc, [])"
| "take_front_matter acc (l # ls) =
     (if l = ''---'' then (acc, ls) else take_front_matter (acc @ [l]) ls)"

definition splitFrontMatter :: "string \<Rightarrow> string list \<times> string list" where
  "splitFrontMatter content = (case splitLines content of
     [] \<Rightarrow> ([], [])
   | l # ls \<Rightarrow> if l \<noteq> ''---'' then ([], l # ls) else take_front_matter [] ls)"

definition decodeFrontMatter ::
  "(string \<Rightarrow> string + gval) \<Rightarrow> string list \<Rightarrow> cfg_error + (string \<times> gval) list" where
  "decodeFrontMatter yaml ls = (let content = TrimSpace (Join ls [nl]) in
     if content = [] then Inr []
     else case yaml content of
       Inl e \<Rightarrow> Inl (LoadError ErrWorkflowParse [] (Some e))
     | Inr raw \<Rightarrow> (case as_map (normalizeYAMLValue raw) of
           None \<Rightarrow> Inl (LoadError ErrWorkflowFrontMatterNotMap [] None)
         | Some config \<Rightarrow> Inr config))"

definition Parse :: "(string \<Rightarrow> string + gval) \<Rightarrow> string \<Rightarrow> string \<Rightarrow> cfg_error + workflow" where
  "Parse yaml content path = (let (frontMatterLines, promptLines) = splitFrontMatter content in
     case decodeFrontMatter yaml frontMatterLines of
       Inl e \<Rightarrow> Inl e
     | Inr config \<Rightarrow> let prompt = TrimSpace (Join promptLines [nl]) in
         Inr \<lparr>wf_Path = path, wf_Config = config, wf_Prompt = prompt, wf_PromptTemplate = prompt\<rparr>)"

definition EffectivePromptTemplate :: "workflow \<Rightarrow> string" where
  "EffectivePromptTemplate w =
     (if TrimSpace (wf_PromptTemplate w) = [] then defaultPromptTemplate else wf_PromptTemplate w)"

definition resolvedWorkflowPath :: "string + string \<Rightarrow> string \<Rightarrow> cfg_error + string" where
  "resolvedWorkflowPath cwd explicit =
     (if explicit \<noteq> [] then Inr explicit
      else case cwd of Inl e \<Rightarrow> Inl (CfgError e) | Inr d \<Rightarrow> Inr (path_Join [d, workflowFileName]))"

definition Load ::
  "string + string \<Rightarrow> (string \<Rightarrow> string + string) \<Rightarrow> (string \<Rightarrow> string + gval) \<Rightarrow> string \<Rightarrow> cfg_error + workflow" where
  "Load cwd read_file yaml path = (case resolvedWorkflowPath cwd path of
     Inl e \<Rightarrow> Inl e
   | Inr resolved \<Rightarrow> (case read_file resolved of
       Inl e \<Rightarrow> Inl (LoadError ErrMissingWorkflowFile resolved (Some e))
     | Inr content \<Rightarrow> Parse yaml content resolved))"

subsection \<open>Lines\<close>

text \<open>What line-ending normalisation means: \<open>\r\n\<close>, \<open>\r\<close> and \<open>\n\<close> each end a line.\<close>

fun unify_newlines :: "string \<Rightarrow> string" where
  "unify_newlines [] = []"
| "unify_newlines [c] = [if c = cr then nl else c]"
| "unify_newlines (c # d # s) =
     (if c = cr then nl # (if d = nl then unify_newlines s else unify_newlines (d # s))
      else c # unify_newlines (d # s))"

lemma ReplaceAll_crlf:
  "replace_skip [cr] [nl] 0 (replace_skip [cr, nl] [nl] 0 s) = unify_newlines s"
  by (induction s rule: unify_newlines.induct) auto

lemma splitLines_unify: "splitLines s = Split nl (unify_newlines s)"
  by (simp add: splitLines_def ReplaceAll_def ReplaceAll_crlf)

lemma unify_newlines_id: "cr \<notin> set s \<Longrightarrow> unify_newlines s = s"
  by (induction s rule: unify_newlines.induct) auto

lemma splitLines_Join:
  assumes "ls \<noteq> []" "\<forall>l \<in> set ls. nl \<notin> set l \<and> cr \<notin> set l"
  shows "splitLines (Join ls [nl]) = ls"
proof -
  have "cr \<notin> set (Join ls [nl])" using assms(2)
    by (induction ls "[nl]" rule: Join.induct) auto
  then show ?thesis using assms by (simp add: splitLines_unify unify_newlines_id Split_Join)
qed

lemma take_front_matter_eq:
  "''---'' \<notin> set fm \<Longrightarrow> take_front_matter acc (fm @ ''---'' # body) = (acc @ fm, body)"
  by (induction fm arbitrary: acc) auto

lemma take_front_matter_open:
  "''---'' \<notin> set fm \<Longrightarrow> take_front_matter acc fm = (acc @ fm, [])"
  by (induction fm arbitrary: acc) auto

subsection \<open>Properties\<close>

text \<open>A file printed as a \<open>---\<close> line, front matter lines none of which is
  \<open>---\<close>, a closing \<open>---\<close> line and a body is split back into exactly those front matter lines
  and that body.\<close>

theorem splitFrontMatter_roundtrip:
  assumes "\<forall>l \<in> set (fm @ body). nl \<notin> set l \<and> cr \<notin> set l" "''---'' \<notin> set fm"
  shows "splitFrontMatter (Join ([''---''] @ fm @ [''---''] @ body) [nl]) = (fm, body)"
proof -
  have "splitLines (Join ([''---''] @ fm @ [''---''] @ body) [nl]) = ''---'' # fm @ ''---'' # body"
    using assms(1) by (subst splitLines_Join) auto
  then show ?thesis
    by (simp add: splitFrontMatter_def take_front_matter_eq [OF assms(2), of "[]"])
qed

theorem splitFrontMatter_roundtrip_witness:
  "splitFrontMatter (Join ([''---''] @ [''a: 1'', ''b: 2''] @ [''---''] @ [''Work'', [], ''now'']) [nl])
     = ([''a: 1'', ''b: 2''], [''Work'', [], ''now''])"
  by (rule splitFrontMatter_roundtrip) simp_all

end
