(* ===== verification/Settings.thy ===== *)
theory Settings
  imports Workflow_File
begin

text \<open>
  \<open>internal/config/settings.go\<close>: the typed settings read from the front matter, with defaults,
  environment references and validation. The process environment is the record \<open>os_env\<close>;
  \<open>decode\<close> stands for \<open>yaml.Marshal\<close> followed by \<open>yaml.Unmarshal\<close> over the defaults
  (third-party code). The structs keep their field order, with a prefix per struct.
\<close>

record os_env =
  oe_lookup :: "string \<Rightarrow> string option"
  oe_temp :: string
  oe_home :: "string option"

definition Getenv :: "os_env \<Rightarrow> string \<Rightarrow> string" where
  "Getenv os name = (case oe_lookup os name of None \<Rightarrow> [] | Some v \<Rightarrow> v)"

text \<open>\<open>ProviderKind\<close> is a string type with two named constants.\<close>

type_synonym provider_kind = string

definition ProviderLinear :: provider_kind where
  "ProviderLinear = ''linear''"

definition ProviderMemory :: provider_kind where
  "ProviderMemory = ''memory''"

record provider_settings =
  pv_Kind :: provider_kind
  pv_Endpoint :: string
  pv_APIKey :: string
  pv_Project :: string
  pv_Assignee :: string
  pv_ActiveStates :: "string list"
  pv_TerminalStates :: "string list"

record polling_settings =
  po_IntervalMS :: int

record workspace_settings =
  wo_Root :: string

record worker_settings =
  wk_SSHHosts :: "string list"
  wk_MaxConcurrentAgentsPerHost :: "int option"

record agent_settings =
  ag_MaxConcurrentAgents :: int
  ag_MaxTurns :: int
  ag_MaxRetryBackoffMS :: int
  ag_MaxConcurrentAgentsByState :: "(string, int) gomap"

record codex_settings =
  cx_Command :: string
  cx_ApprovalPolicy :: gval
  cx_ThreadSandbox :: string
  cx_TurnSandboxPolicy :: "(string \<times> gval) list option"
  cx_TurnTimeoutMS :: int
  cx_ReadTimeoutMS :: int
  cx_StallTimeoutMS :: int

record hook_settings =
  hk_AfterCreate :: string
  hk_BeforeRun :: string
  hk_AfterRun :: string
  hk_BeforeRemove :: string
  hk_TimeoutMS :: int

record observability_settings =
  ob_DashboardEnabled :: bool
  ob_RefreshMS :: int
  ob_RenderIntervalMS :: int

record server_settings =
  sv_Port :: "int option"
  sv_Host :: string

record settings =
  st_Provider :: provider_settings
  st_Polling :: polling_settings
  st_Workspace :: workspace_settings
  st_Worker :: worker_settings
  st_Agent :: agent_settings
  st_Codex :: codex_settings
  st_Hooks :: hook_settings
  st_Observability :: observability_settings
  st_Server :: server_settings

text \<open>The decoded front matter, \<open>legacyWorkflowConfig\<close>.\<close>

record legacy_tracker =
  lt_Kind :: string
  lt_Endpoint :: string
  lt_APIKey :: string
  lt_ProjectSlug :: string
  lt_Assignee :: string
  lt_ActiveStates :: "string list"
  lt_TerminalStates :: "string list"

record legacy_agent =
  la_MaxConcurrentAgents :: int
  la_MaxTurns :: int
  la_MaxRetryBackoffMS :: int
  la_MaxConcurrentAgentsByState :: "(string, int) gomap"

record legacy_config =
  lc_Tracker :: legacy_tracker
  lc_Polling :: polling_settings
  lc_Workspace :: workspace_settings
  lc_Worker :: worker_settings
  lc_Agent :: legacy_agent
  lc_Codex :: codex_settings
  lc_Hooks :: hook_settings
  lc_Observability :: observability_settings
  lc_Server :: server_settings

subsection \<open>Environment references and paths\<close>

definition isEnvNameStart :: "char \<Rightarrow> bool" where
  "isEnvNameStart c \<longleftrightarrow> c = CHR ''_'' \<or> is_upper c \<or> is_lower c"

definition isEnvNameContinue :: "char \<Rightarrow> bool" where
  "isEnvNameContinue c \<longleftrightarrow> isEnvNameStart c \<or> is_digit c"

fun envReferenceName :: "string \<Rightarrow> string option" where
  "envReferenceName [] = None"
| "envReferenceName (d # name) =
     (if d \<noteq> CHR ''$'' then None
      else case name of [] \<Rightarrow> None
        | c # cs \<Rightarrow> if isEnvNameStart c \<and> list_all isEnvNameContinue cs then Some name else None)"

definition normalizeSecretValue :: "string \<Rightarrow> string" where
  "normalizeSecretValue v = TrimSpace v"

definition resolveSecretSetting :: "os_env \<Rightarrow> string \<Rightarrow> string \<Rightarrow> string" where
  "resolveSecretSetting os value fallbackEnvVar =
     (let fallback = normalizeSecretValue (Getenv os fallbackEnvVar) in
      if TrimSpace value = [] then fallback
      else case envReferenceName value of
        Some envName \<Rightarrow> (case oe_lookup os envName of
            None \<Rightarrow> fallback | Some envValue \<Rightarrow> normalizeSecretValue envValue)
      | None \<Rightarrow> normalizeSecretValue value)"

definition resolveEnvReferenceSetting :: "os_env \<Rightarrow> string \<Rightarrow> string" where
  "resolveEnvReferenceSetting os value =
     (let trimmed = TrimSpace value in
      case envReferenceName trimmed of
        Some envName \<Rightarrow> (case oe_lookup os envName of None \<Rightarrow> [] | Some v \<Rightarrow> TrimSpace v)
      | None \<Rightarrow> trimmed)"

definition expandHomeDir :: "os_env \<Rightarrow> string \<Rightarrow> string" where
  "expandHomeDir os path =
     (if path = ''~'' then
        (case oe_home os of None \<Rightarrow> path | Some home \<Rightarrow> if home = [] then path else home)
      else if HasPrefix path ''~/'' then
        (case oe_home os of None \<Rightarrow> path
         | Some home \<Rightarrow> if home = [] then path else path_Join [home, drop 2 path])
      else path)"

definition defaultWorkspaceRoot :: "os_env \<Rightarrow> string" where
  "defaultWorkspaceRoot os = path_Join [oe_temp os, ''symphony_workspaces'']"

definition resolveWorkspaceRoot :: "os_env \<Rightarrow> string \<Rightarrow> string" where
  "resolveWorkspaceRoot os value =
     (if TrimSpace value = [] then defaultWorkspaceRoot os
      else case envReferenceName value of
        Some envName \<Rightarrow> (case oe_lookup os envName of
            None \<Rightarrow> defaultWorkspaceRoot os
          | Some envValue \<Rightarrow> if TrimSpace envValue = [] then defaultWorkspaceRoot os
              else expandHomeDir os envValue)
      | None \<Rightarrow> expandHomeDir os value)"

subsection \<open>Defaults and decoding\<close>

definition defaultLegacyWorkflowConfig :: "os_env \<Rightarrow> legacy_config" where
  "defaultLegacyWorkflowConfig os =
    \<lparr>lc_Tracker = \<lparr>lt_Kind = [], lt_Endpoint = ''https://api.linear.app/graphql'', lt_APIKey = [],
       lt_ProjectSlug = [], lt_Assignee = [],
       lt_ActiveStates = [''Todo'', ''In Progress''],
       lt_TerminalStates = [''Closed'', ''Cancelled'', ''Canceled'', ''Duplicate'', ''Done'']\<rparr>,
     lc_Polling = \<lparr>po_IntervalMS = 30000\<rparr>,
     lc_Workspace = \<lparr>wo_Root = defaultWorkspaceRoot os\<rparr>,
     lc_Worker = \<lparr>wk_SSHHosts = [], wk_MaxConcurrentAgentsPerHost = None\<rparr>,
     lc_Agent = \<lparr>la_MaxConcurrentAgents = 10, la_MaxTurns = 20, la_MaxRetryBackoffMS = 300000,
       la_MaxConcurrentAgentsByState = []\<rparr>,
     lc_Codex = \<lparr>cx_Command = ''codex app-server'',
       cx_ApprovalPolicy = VMap [(''reject'', VMap [(''sandbox_approval'', VBool True),
          (''rules'', VBool True), (''mcp_elicitations'', VBool True)])],
       cx_ThreadSandbox = ''workspace-write'', cx_TurnSandboxPolicy = None,
       cx_TurnTimeoutMS = 3600000, cx_ReadTimeoutMS = 30000, cx_StallTimeoutMS = 300000\<rparr>,
     lc_Hooks = \<lparr>hk_AfterCreate = [], hk_BeforeRun = [], hk_AfterRun = [], hk_BeforeRemove = [],
       hk_TimeoutMS = 60000\<rparr>,
     lc_Observability = \<lparr>ob_DashboardEnabled = True, ob_RefreshMS = 1000, ob_RenderIntervalMS = 16\<rparr>,
     lc_Server = \<lparr>sv_Port = None, sv_Host = ''127.0.0.1''\<rparr>\<rparr>"

definition decodeLegacyWorkflowConfig ::
  "os_env \<Rightarrow> (gval \<Rightarrow> legacy_config \<Rightarrow> string + legacy_config) \<Rightarrow> (string \<times> gval) list \<Rightarrow> string + legacy_config" where
  "decodeLegacyWorkflowConfig os decode raw =
     (let cfg = defaultLegacyWorkflowConfig os in
      if raw = [] then Inr cfg
      else case as_map (dropNilConfigValue (normalizeYAMLValue (VMap raw))) of
        None \<Rightarrow> Inl ''invalid workflow config: root must be a map''
      | Some normalized \<Rightarrow> (case decode (VMap normalized) cfg of
            Inl e \<Rightarrow> Inl (''invalid workflow config: '' @ e)
          | Inr cfg' \<Rightarrow> Inr cfg'))"

fun put_limits :: "(string, int) gomap \<Rightarrow> (string \<times> int) list \<Rightarrow> (string, int) gomap" where
  "put_limits acc [] = acc"
| "put_limits acc ((state, limit) # m) = put_limits (mput (ToLower (TrimSpace state)) limit acc) m"

definition normalizeStateLimitKeys :: "string range_order \<Rightarrow> (string, int) gomap \<Rightarrow> (string, int) gomap" where
  "normalizeStateLimitKeys ord m = (if m = [] then [] else put_limits [] (range_entries ord m))"

definition normalizeOptionalMap :: "(string \<times> gval) list option \<Rightarrow> (string \<times> gval) list option" where
  "normalizeOptionalMap v = (case v of None \<Rightarrow> None | Some m \<Rightarrow> as_map (normalizeYAMLValue (VMap m)))"

subsection \<open>Validation\<close>

definition requirePositive :: "string \<Rightarrow> int \<Rightarrow> string option" where
  "requirePositive field value = (if value \<le> 0 then Some (field @ '' must be > 0'') else None)"

text \<open>The first failing check of a sequence of \<open>if err := ...; err != nil\<close> statements.\<close>

fun first_error :: "string option list \<Rightarrow> string option" where
  "first_error [] = None"
| "first_error (None # cs) = first_error cs"
| "first_error (Some e # cs) = Some e"

definition check :: "bool \<Rightarrow> string \<Rightarrow> string option" where
  "check bad msg = (if bad then Some msg else None)"

definition is_policy :: "gval \<Rightarrow> bool" where
  "is_policy v = (case v of VStr _ \<Rightarrow> True | VMap _ \<Rightarrow> True | _ \<Rightarrow> False)"

definition limit_checks :: "(string \<times> int) list \<Rightarrow> string option list" where
  "limit_checks m = concat (map (\<lambda>(state, limit).
     [check (TrimSpace state = []) ''agent.max_concurrent_agents_by_state keys must not be blank'',
      check (limit \<le> 0) ''agent.max_concurrent_agents_by_state values must be positive'']) m)"

definition validateSettings :: "string range_order \<Rightarrow> settings \<Rightarrow> string option" where
  "validateSettings ord s = first_error (
    [check (pv_Kind (st_Provider s) = []) ''provider.kind must not be blank'',
     check (pv_Kind (st_Provider s) \<noteq> ProviderLinear \<and> pv_Kind (st_Provider s) \<noteq> ProviderMemory)
       ''provider.kind must be one of [linear memory]'',
     check (pv_Kind (st_Provider s) = ProviderLinear \<and> TrimSpace (pv_APIKey (st_Provider s)) = [])
       ''provider.api_key is required for linear provider'',
     check (pv_Kind (st_Provider s) = ProviderLinear \<and> TrimSpace (pv_Project (st_Provider s)) = [])
       ''provider.project is required for linear provider'',
     check (cx_Command (st_Codex s) = []) ''codex.command must not be blank'',
     requirePositive ''polling.interval_ms'' (po_IntervalMS (st_Polling s)),
     requirePositive ''agent.max_concurrent_agents'' (ag_MaxConcurrentAgents (st_Agent s)),
     requirePositive ''agent.max_turns'' (ag_MaxTurns (st_Agent s)),
     requirePositive ''agent.max_retry_backoff_ms'' (ag_MaxRetryBackoffMS (st_Agent s)),
     (case wk_MaxConcurrentAgentsPerHost (st_Worker s) of None \<Rightarrow> None
      | Some n \<Rightarrow> requirePositive ''worker.max_concurrent_agents_per_host'' n),
     requirePositive ''codex.turn_timeout_ms'' (cx_TurnTimeoutMS (st_Codex s)),
     requirePositive ''codex.read_timeout_ms'' (cx_ReadTimeoutMS (st_Codex s)),
     check (cx_StallTimeoutMS (st_Codex s) < 0) ''codex.stall_timeout_ms must be >= 0'',
     requirePositive ''hooks.timeout_ms'' (hk_TimeoutMS (st_Hooks s)),
     requirePositive ''observability.refresh_ms'' (ob_RefreshMS (st_Observability s)),
     requirePositive ''observability.render_interval_ms'' (ob_RenderIntervalMS (st_Observability s)),
     (case sv_Port (st_Server s) of None \<Rightarrow> None
      | Some p \<Rightarrow> check (p < 0) ''server.port must be >= 0'')]
    @ limit_checks (range_entries ord (ag_MaxConcurrentAgentsByState (st_Agent s)))
    @ [check (\<not> is_policy (cx_ApprovalPolicy (st_Codex s))) ''codex.approval_policy must be a string or map''])"

definition settings_of_legacy :: "os_env \<Rightarrow> string range_order \<Rightarrow> legacy_config \<Rightarrow> settings" where
  "settings_of_legacy os ord l =
    \<lparr>st_Provider = \<lparr>pv_Kind = TrimSpace (lt_Kind (lc_Tracker l)),
       pv_Endpoint = TrimSpace (lt_Endpoint (lc_Tracker l)),
       pv_APIKey = resolveSecretSetting os (lt_APIKey (lc_Tracker l)) ''LINEAR_API_KEY'',
       pv_Project = resolveEnvReferenceSetting os (lt_ProjectSlug (lc_Tracker l)),
       pv_Assignee = resolveSecretSetting os (lt_Assignee (lc_Tracker l)) ''LINEAR_ASSIGNEE'',
       pv_ActiveStates = lt_ActiveStates (lc_Tracker l),
       pv_TerminalStates = lt_TerminalStates (lc_Tracker l)\<rparr>,
     st_Polling = lc_Polling l,
     st_Workspace = \<lparr>wo_Root = resolveWorkspaceRoot os (wo_Root (lc_Workspace l))\<rparr>,
     st_Worker = lc_Worker l,
     st_Agent = \<lparr>ag_MaxConcurrentAgents = la_MaxConcurrentAgents (lc_Agent l),
       ag_MaxTurns = la_MaxTurns (lc_Agent l),
       ag_MaxRetryBackoffMS = la_MaxRetryBackoffMS (lc_Agent l),
       ag_MaxConcurrentAgentsByState =
         normalizeStateLimitKeys ord (la_MaxConcurrentAgentsByState (lc_Agent l))\<rparr>,
     st_Codex = (lc_Codex l)\<lparr>cx_ApprovalPolicy := normalizeYAMLValue (cx_ApprovalPolicy (lc_Codex l)),
       cx_ThreadSandbox := TrimSpace (cx_ThreadSandbox (lc_Codex l)),
       cx_TurnSandboxPolicy := normalizeOptionalMap (cx_TurnSandboxPolicy (lc_Codex l))\<rparr>,
     st_Hooks = lc_Hooks l,
     st_Observability = lc_Observability l,
     st_Server = (lc_Server l)\<lparr>sv_Host := TrimSpace (sv_Host (lc_Server l))\<rparr>\<rparr>"

definition ParseSettings ::
  "os_env \<Rightarrow> (gval \<Rightarrow> legacy_config \<Rightarrow> string + legacy_config) \<Rightarrow> string range_order \<Rightarrow> string range_order \<Rightarrow>
     workflow \<Rightarrow> cfg_error + settings" where
  "ParseSettings os decode ord ord' w = (case decodeLegacyWorkflowConfig os decode (wf_Config w) of
     Inl e \<Rightarrow> Inl (CfgError e)
   | Inr legacy \<Rightarrow> let s = settings_of_legacy os ord legacy in
       (case validateSettings ord' s of Some e \<Rightarrow> Inl (CfgError e) | None \<Rightarrow> Inr s))"

subsection \<open>What validation accepts\<close>

text \<open>The specification of a valid configuration, as a predicate.\<close>

definition limits_ok :: "(string \<times> int) list \<Rightarrow> bool" where
  "limits_ok m \<longleftrightarrow> (\<forall>(state, limit) \<in> set m. TrimSpace state \<noteq> [] \<and> 0 < limit)"

definition provider_ok :: "provider_settings \<Rightarrow> bool" where
  "provider_ok p \<longleftrightarrow> pv_Kind p = ProviderMemory \<or>
     (pv_Kind p = ProviderLinear \<and> TrimSpace (pv_APIKey p) \<noteq> [] \<and> TrimSpace (pv_Project p) \<noteq> [])"

definition settings_ok :: "settings \<Rightarrow> bool" where
  "settings_ok s \<longleftrightarrow> provider_ok (st_Provider s) \<and> cx_Command (st_Codex s) \<noteq> []
     \<and> 0 < po_IntervalMS (st_Polling s) \<and> 0 < ag_MaxConcurrentAgents (st_Agent s)
     \<and> 0 < ag_MaxTurns (st_Agent s) \<and> 0 < ag_MaxRetryBackoffMS (st_Agent s)
     \<and> pred_option (\<lambda>n. 0 < n) (wk_MaxConcurrentAgentsPerHost (st_Worker s))
     \<and> 0 < cx_TurnTimeoutMS (st_Codex s) \<and> 0 < cx_ReadTimeoutMS (st_Codex s)
     \<and> 0 \<le> cx_StallTimeoutMS (st_Codex s) \<and> 0 < hk_TimeoutMS (st_Hooks s)
     \<and> 0 < ob_RefreshMS (st_Observability s) \<and> 0 < ob_RenderIntervalMS (st_Observability s)
     \<and> pred_option (\<lambda>p. 0 \<le> p) (sv_Port (st_Server s))
     \<and> limits_ok (ag_MaxConcurrentAgentsByState (st_Agent s))
     \<and> is_policy (cx_ApprovalPolicy (st_Codex s))"

lemma first_error_None: "first_error cs = None \<longleftrightarrow> (\<forall>c \<in> set cs. c = None)"
  by (induction cs rule: first_error.induct) auto

lemma check_None [simp]: "check b m = None \<longleftrightarrow> \<not> b"
  by (simp add: check_def)

lemma requirePositive_None [simp]: "requirePositive f v = None \<longleftrightarrow> 0 < v"
  by (auto simp: requirePositive_def)

lemma limit_checks_None: "(\<forall>c \<in> set (limit_checks m). c = None) \<longleftrightarrow> limits_ok m"
  by (fastforce simp: limit_checks_def limits_ok_def)

lemma case_option_None: "(case x of None \<Rightarrow> None | Some n \<Rightarrow> f n) = None \<longleftrightarrow> pred_option (\<lambda>n. f n = None) x"
  by (cases x) auto

lemma kinds_differ: "ProviderLinear \<noteq> ProviderMemory" "ProviderLinear \<noteq> []" "ProviderMemory \<noteq> []"
  by (simp_all add: ProviderLinear_def ProviderMemory_def)

lemma provider_ok_checks:
  "provider_ok p \<longleftrightarrow> \<not> pv_Kind p = [] \<and> \<not> (pv_Kind p \<noteq> ProviderLinear \<and> pv_Kind p \<noteq> ProviderMemory)
     \<and> \<not> (pv_Kind p = ProviderLinear \<and> TrimSpace (pv_APIKey p) = [])
     \<and> \<not> (pv_Kind p = ProviderLinear \<and> TrimSpace (pv_Project p) = [])"
  using kinds_differ by (auto simp: provider_ok_def)

lemma validate_sound:
  assumes "order_ok ord" "mok (ag_MaxConcurrentAgentsByState (st_Agent s))"
  shows "validateSettings ord s = None \<longleftrightarrow> settings_ok s"
proof -
  have "limits_ok (range_entries ord (ag_MaxConcurrentAgentsByState (st_Agent s)))
      \<longleftrightarrow> limits_ok (ag_MaxConcurrentAgentsByState (st_Agent s))"
    using assms by (simp add: limits_ok_def set_range_entries)
  then show ?thesis
    unfolding validateSettings_def settings_ok_def provider_ok_checks first_error_None
    by (auto simp: ball_Un limit_checks_None case_option_None not_less simp del: first_error.simps)
qed

text \<open>C31 (equivalence). Validation accepts exactly the settings that meet the written specification,
  in whatever order the map of per-state limits is visited.\<close>

theorem validateSettings_iff:
  assumes "order_ok ord" "mok (ag_MaxConcurrentAgentsByState (st_Agent s))"
  shows "validateSettings ord s = None \<longleftrightarrow> settings_ok s"
  using assms by (rule validate_sound)

lemma mok_put_limits: "mok acc \<Longrightarrow> mok (put_limits acc m)"
  by (induction acc m rule: put_limits.induct) (auto simp: gomap)

lemma put_limits_keys:
  "(k, v) \<in> set (put_limits acc m) \<Longrightarrow> (k, v) \<in> set acc \<or> (\<exists>s. k = ToLower (TrimSpace s))"
proof (induction acc m rule: put_limits.induct)
  case (2 acc state limit m)
  have "set (mput k' v' a) \<subseteq> insert (k', v') (set a)" for k' v' and a :: "(string, int) gomap"
    by (induction a) auto
  with 2 show ?case by fastforce
qed simp

lemma normalizeStateLimitKeys_ok: "mok (normalizeStateLimitKeys ord m)"
  by (simp add: normalizeStateLimitKeys_def mok_put_limits)

lemma normalizeStateLimitKeys_keys:
  "(k, v) \<in> set (normalizeStateLimitKeys ord m) \<Longrightarrow> ToLower (TrimSpace k) = k"
proof -
  assume "(k, v) \<in> set (normalizeStateLimitKeys ord m)"
  then obtain s where "k = ToLower (TrimSpace s)"
    using put_limits_keys [of k v "[]"] by (auto simp: normalizeStateLimitKeys_def split: if_splits)
  then show ?thesis by (simp add: TrimSpace_ToLower)
qed

lemma ParseSettings_ok:
  assumes "ParseSettings os decode ord ord' w = Inr s" "order_ok ord'"
  shows "settings_ok s"
proof -
  from assms(1) obtain l where s: "s = settings_of_legacy os ord l" and v: "validateSettings ord' s = None"
    by (auto simp: ParseSettings_def Let_def split: sum.splits option.splits)
  have "ag_MaxConcurrentAgentsByState (st_Agent s)
      = normalizeStateLimitKeys ord (la_MaxConcurrentAgentsByState (lc_Agent l))"
    by (simp add: s settings_of_legacy_def)
  then show ?thesis using v validate_sound [OF assms(2)] by (simp add: normalizeStateLimitKeys_ok)
qed

text \<open>C32 (type). Whatever the front matter, the YAML decoder and the environment hold, settings that
  \<open>ParseSettings\<close> returns are valid, their per-state limits are keyed by normalised state names
  with positive values, and the provider kind, the API key, the project and the assignee carry no
  surrounding white space.\<close>

theorem ParseSettings_valid:
  assumes "ParseSettings os decode ord ord' w = Inr s" "order_ok ord'"
  shows "settings_ok s
    \<and> (\<forall>(k, v) \<in> set (ag_MaxConcurrentAgentsByState (st_Agent s)). ToLower (TrimSpace k) = k \<and> k \<noteq> [] \<and> 0 < v)
    \<and> TrimSpace (pv_Kind (st_Provider s)) = pv_Kind (st_Provider s)
    \<and> TrimSpace (pv_APIKey (st_Provider s)) = pv_APIKey (st_Provider s)
    \<and> TrimSpace (pv_Project (st_Provider s)) = pv_Project (st_Provider s)
    \<and> TrimSpace (pv_Assignee (st_Provider s)) = pv_Assignee (st_Provider s)"
proof -
  from assms(1) obtain l where s: "s = settings_of_legacy os ord l"
    by (auto simp: ParseSettings_def Let_def split: sum.splits option.splits)
  let ?m = "ag_MaxConcurrentAgentsByState (st_Agent s)"
  have m: "?m = normalizeStateLimitKeys ord (la_MaxConcurrentAgentsByState (lc_Agent l))"
    by (simp add: s settings_of_legacy_def)
  have ok: "settings_ok s" using assms by (rule ParseSettings_ok)
  then have "limits_ok ?m" by (simp add: settings_ok_def)
  then have "\<forall>(k, v) \<in> set ?m. ToLower (TrimSpace k) = k \<and> k \<noteq> [] \<and> 0 < v"
    using normalizeStateLimitKeys_keys unfolding m by (fastforce simp: limits_ok_def)
  moreover have "TrimSpace (resolveSecretSetting os v e) = resolveSecretSetting os v e" for v e
    by (auto simp: resolveSecretSetting_def normalizeSecretValue_def Let_def split: option.splits)
  moreover have "TrimSpace (resolveEnvReferenceSetting os v) = resolveEnvReferenceSetting os v" for v
    by (auto simp: resolveEnvReferenceSetting_def Let_def split: option.splits)
  ultimately show ?thesis using ok by (simp add: s settings_of_legacy_def)
qed

subsection \<open>Witnesses\<close>

definition sample_os :: os_env where
  "sample_os = \<lparr>oe_lookup = (\<lambda>n. if n = ''LINEAR_API_KEY'' then Some '' key '' else None),
     oe_temp = ''/tmp'', oe_home = Some ''/home/u''\<rparr>"

definition sample_workflow :: workflow where
  "sample_workflow = \<lparr>wf_Path = ''WORKFLOW.md'', wf_Config = [(''tracker'', VStr ''memory'')],
     wf_Prompt = [], wf_PromptTemplate = []\<rparr>"

text \<open>A decoder that reads the tracker kind and two per-state limits.\<close>

definition sample_decode :: "gval \<Rightarrow> legacy_config \<Rightarrow> string + legacy_config" where
  "sample_decode v cfg = (case v of
     VMap m \<Rightarrow> (case vget m ''tracker'' of
         VStr k \<Rightarrow> Inr (cfg\<lparr>lc_Tracker := (lc_Tracker cfg)\<lparr>lt_Kind := k\<rparr>,
           lc_Agent := (lc_Agent cfg)\<lparr>la_MaxConcurrentAgentsByState := [('' Todo '', 2), (''Review'', 1)]\<rparr>\<rparr>)
       | _ \<Rightarrow> Inl ''no tracker'')
   | _ \<Rightarrow> Inl ''not a map'')"

definition sample_settings :: settings where
  "sample_settings = settings_of_legacy sample_os (\<lambda>ks. ks)
     (case sample_decode (VMap [(''tracker'', VStr ''memory'')]) (defaultLegacyWorkflowConfig sample_os) of
        Inr l \<Rightarrow> l | Inl _ \<Rightarrow> defaultLegacyWorkflowConfig sample_os)"

lemma sample_parse:
  "ParseSettings sample_os sample_decode (\<lambda>ks. ks) rev sample_workflow = Inr sample_settings"
  by code_simp

theorem validateSettings_iff_witness:
  "validateSettings rev sample_settings = None \<longleftrightarrow> settings_ok sample_settings"
proof (rule validateSettings_iff)
  show "mok (ag_MaxConcurrentAgentsByState (st_Agent sample_settings))" by code_simp
qed simp

theorem ParseSettings_valid_witness:
  "settings_ok sample_settings \<and>
     ag_MaxConcurrentAgentsByState (st_Agent sample_settings) = [(''todo'', 2), (''review'', 1)]"
proof
  show "settings_ok sample_settings"
    using ParseSettings_valid [OF sample_parse order_ok_rev] by blast
  show "ag_MaxConcurrentAgentsByState (st_Agent sample_settings) = [(''todo'', 2), (''review'', 1)]"
    by code_simp
qed

end
