(* ===== verification/Go_Time.thy ===== *)
theory Go_Time
  imports Go_Strings
begin

text \<open>
  The units of \<open>time.Duration\<close> and its printing. A configured number of milliseconds is
  multiplied in 64 bits, as \<open>time.Duration(ms) * time.Millisecond\<close> is.
\<close>

definition millisecond :: gduration where
  "millisecond = 1000000"

definition second :: gduration where
  "second = 1000000000"

definition millis :: "int \<Rightarrow> gduration" where
  "millis ms = wrap64 (ms * millisecond)"

text \<open>
  \<open>time.Duration.String\<close> for a non-negative duration in whole milliseconds, and \<open>Round\<close> to
  milliseconds (half up), as the program's messages print them.
\<close>

definition round_ms :: "gduration \<Rightarrow> gduration" where
  "round_ms d = ((d + 500000) div millisecond) * millisecond"

definition seconds_string :: "nat \<Rightarrow> string" where
  "seconds_string ms = (let f = ms mod 1000; digit = (\<lambda>n. char_of (n + 48 :: nat));
       ds = [digit (f div 100), digit (f div 10 mod 10), digit (f mod 10)];
       trimmed = rev (dropWhile (\<lambda>c. c = CHR ''0'') (rev ds))
     in digits_of (ms div 1000) @ (if trimmed = [] then [] else CHR ''.'' # trimmed) @ ''s'')"

definition duration_string :: "gduration \<Rightarrow> string" where
  "duration_string d = (let ms = nat (d div millisecond); mins = ms div 60000; rest = ms mod 60000 in
     if ms = 0 then ''0s''
     else if ms < 1000 then digits_of ms @ ''ms''
     else if mins = 0 then seconds_string rest
     else if mins < 60 then digits_of mins @ ''m'' @ seconds_string rest
     else digits_of (mins div 60) @ ''h'' @ digits_of (mins mod 60) @ ''m'' @ seconds_string rest)"

end
