(* ===== verification/Scheduler.thy ===== *)
theory Scheduler
  imports Runner_Hosts Settings Go_Time
begin

text \<open>
  \<open>internal/orchestrator/state.go\<close>: the scheduler state and every operation on it, in the
  order of the file. The record \<open>sched\<close> is \<open>schedulerState\<close> with two additions that stand
  for the world: \<open>sd_clock n\<close> is the \<open>n\<close>-th reading of the clock and \<open>sd_reads\<close> counts the
  readings made, so two calls of \<open>Now\<close> may differ; \<open>sd_calls\<close> is the log of the calls made
  to the injected functions. An injected function (\<open>serviceDeps\<close>) answers from the log so far,
  so it may answer the same request differently each time; \<open>None\<close> is a nil function. The
  orchestrator only reads or prints an error, so an error is its message.
\<close>

subsection \<open>Data\<close>

text \<open>\<open>Handle any\<close>: an opaque reference, \<open>None\<close> for nil.\<close>

type_synonym handle = "nat option"

record start_run_request =
  sq_Item :: work_item
  sq_Attempt :: int
  sq_PreferredHost :: string

record start_run_result =
  sr_Handle :: handle
  sr_WorkerHost :: string
  sr_WorkspacePath :: string
  sr_SessionID :: string

record stop_run_request =
  sp_ItemID :: string
  sp_ItemIdentifier :: string
  sp_Handle :: handle
  sp_CleanupWorkspace :: bool

record refresh_result =
  rr_Queued :: bool
  rr_Coalesced :: bool

record claimed_entry =
  ce_ItemID :: string
  ce_ItemIdentifier :: string
  ce_ClaimedAt :: gtime

record running_entry =
  re_Item :: work_item
  re_Attempt :: int
  re_StartedAt :: gtime
  re_LastEventAt :: "gtime option"
  re_LastEventKind :: run_event_kind
  re_LastEventMessage :: string
  re_SessionID :: string
  re_TurnCount :: int
  re_WorkerHost :: string
  re_WorkspacePath :: string
  re_CodexTotals :: codex_totals
  re_LastReportedTotals :: codex_totals
  re_Handle :: handle

record retry_entry =
  te_ItemID :: string
  te_ItemIdentifier :: string
  te_Attempt :: int
  te_DueAt :: gtime
  te_LastError :: string
  te_WorkerHost :: string
  te_WorkspacePath :: string
  te_Nonce :: nat

datatype call =
    CallListCandidates
  | CallRefresh "string list"
  | CallStart start_run_request
  | CallStop stop_run_request

record deps =
  dp_listCandidates :: "(call list \<Rightarrow> string + work_item list) option"
  dp_refreshItems :: "(call list \<Rightarrow> string list \<Rightarrow> string + work_item list) option"
  dp_startRun :: "(call list \<Rightarrow> start_run_request \<Rightarrow> string + start_run_result) option"
  dp_stopRun :: "(call list \<Rightarrow> stop_run_request \<Rightarrow> string option) option"
  dp_hostSelection :: "host_selection option"
  dp_admitRun :: "(string \<Rightarrow> string \<times> bool) option"

record sched =
  sd_clock :: "nat \<Rightarrow> gtime"
  sd_reads :: nat
  sd_interval :: gduration
  sd_maxConcurrent :: int
  sd_maxRetryBackoff :: gduration
  sd_stallTimeout :: gduration
  sd_activeStates :: "string set"
  sd_terminalStates :: "string set"
  sd_stateLimits :: "(string, int) gomap"
  sd_nextPollAt :: "gtime option"
  sd_checking :: bool
  sd_pollNonce :: nat
  sd_retryNonce :: nat
  sd_claimed :: "(string, claimed_entry) gomap"
  sd_running :: "(string, running_entry) gomap"
  sd_retrying :: "(string, retry_entry) gomap"
  sd_codexTotals :: codex_totals
  sd_rateLimits :: "rate_limits option"
  sd_calls :: "call list"

definition Now :: "sched \<Rightarrow> gtime" where
  "Now s = sd_clock s (sd_reads s)"

definition tick :: "sched \<Rightarrow> sched" where
  "tick s = s\<lparr>sd_reads := Suc (sd_reads s)\<rparr>"

definition log_call :: "call \<Rightarrow> sched \<Rightarrow> sched" where
  "log_call c s = s\<lparr>sd_calls := sd_calls s @ [c]\<rparr>"

subsection \<open>Construction\<close>

definition normalizeState :: "string \<Rightarrow> string" where
  "normalizeState value = ToLower (TrimSpace value)"

definition normalizeStateSet :: "string list \<Rightarrow> string set" where
  "normalizeStateSet values = set (filter (\<lambda>n. n \<noteq> []) (map normalizeState values))"

fun put_state_limits :: "(string, int) gomap \<Rightarrow> (string \<times> int) list \<Rightarrow> (string, int) gomap" where
  "put_state_limits out [] = out"
| "put_state_limits out ((key, value) # m) =
     put_state_limits (if normalizeState key \<noteq> [] then mput (normalizeState key) value out else out) m"

definition normalizeStateLimits :: "string range_order \<Rightarrow> (string, int) gomap \<Rightarrow> (string, int) gomap" where
  "normalizeStateLimits ord values = put_state_limits [] (range_entries ord values)"

definition newSchedulerState :: "settings \<Rightarrow> (nat \<Rightarrow> gtime) \<Rightarrow> string range_order \<Rightarrow> sched" where
  "newSchedulerState cfg clk ord =
    \<lparr>sd_clock = clk, sd_reads = 0,
     sd_interval = millis (po_IntervalMS (st_Polling cfg)),
     sd_maxConcurrent = ag_MaxConcurrentAgents (st_Agent cfg),
     sd_maxRetryBackoff = millis (ag_MaxRetryBackoffMS (st_Agent cfg)),
     sd_stallTimeout = millis (cx_StallTimeoutMS (st_Codex cfg)),
     sd_activeStates = normalizeStateSet (pv_ActiveStates (st_Provider cfg)),
     sd_terminalStates = normalizeStateSet (pv_TerminalStates (st_Provider cfg)),
     sd_stateLimits = normalizeStateLimits ord (ag_MaxConcurrentAgentsByState (st_Agent cfg)),
     sd_nextPollAt = None, sd_checking = False, sd_pollNonce = 0, sd_retryNonce = 0,
     sd_claimed = [], sd_running = [], sd_retrying = [],
     sd_codexTotals = zero_totals, sd_rateLimits = None, sd_calls = []\<rparr>"

subsection \<open>Poll bookkeeping\<close>

definition schedulePollAt :: "gtime \<Rightarrow> sched \<Rightarrow> nat \<times> sched" where
  "schedulePollAt t s = (let n = Suc (sd_pollNonce s) in
     (n, s\<lparr>sd_pollNonce := n, sd_nextPollAt := Some t\<rparr>))"

definition beginPoll :: "nat \<Rightarrow> sched \<Rightarrow> bool \<times> sched" where
  "beginPoll nonce s = (if nonce \<noteq> sd_pollNonce s then (False, s)
     else (True, s\<lparr>sd_checking := True, sd_nextPollAt := None\<rparr>))"

definition finishPoll :: "sched \<Rightarrow> sched" where
  "finishPoll s = (tick s)\<lparr>sd_nextPollAt := Some (Now s + sd_interval s), sd_checking := False,
     sd_pollNonce := Suc (sd_pollNonce s)\<rparr>"

definition requestRefresh :: "sched \<Rightarrow> refresh_result \<times> sched" where
  "requestRefresh s = (let now = Now s; s = tick s in
     if sd_checking s then (\<lparr>rr_Queued = True, rr_Coalesced = True\<rparr>, s)
     else if (case sd_nextPollAt s of None \<Rightarrow> False | Some t \<Rightarrow> t \<le> now)
       then (\<lparr>rr_Queued = True, rr_Coalesced = True\<rparr>, s)
     else (\<lparr>rr_Queued = True, rr_Coalesced = False\<rparr>, snd (schedulePollAt now s)))"

subsection \<open>Dispatch gates\<close>

definition isActive :: "sched \<Rightarrow> string \<Rightarrow> bool" where
  "isActive s state \<longleftrightarrow> normalizeState state \<in> sd_activeStates s"

definition isTerminal :: "sched \<Rightarrow> string \<Rightarrow> bool" where
  "isTerminal s state \<longleftrightarrow> normalizeState state \<in> sd_terminalStates s"

definition blockedTodo :: "work_item \<Rightarrow> string set \<Rightarrow> bool" where
  "blockedTodo item terminalStates \<longleftrightarrow>
     normalizeState (wi_State item) = ''todo'' \<and>
     list_ex (\<lambda>b. normalizeState (bl_State b) \<notin> terminalStates) (wi_BlockedBy item)"

definition isRetryCandidate :: "sched \<Rightarrow> work_item \<Rightarrow> bool" where
  "isRetryCandidate s item =
     (if TrimSpace (wi_ID item) = [] \<or> TrimSpace (wi_Identifier item) = []
         \<or> TrimSpace (wi_Title item) = [] \<or> TrimSpace (wi_State item) = [] then False
      else if isTerminal s (wi_State item) \<or> \<not> isActive s (wi_State item) then False
      else if wi_Routable item = Some False then False
      else \<not> blockedTodo item (sd_terminalStates s))"

definition runningCountForState :: "sched \<Rightarrow> string \<Rightarrow> int" where
  "runningCountForState s state = int (length
     (filter (\<lambda>(k, e). normalizeState (wi_State (re_Item e)) = normalizeState state) (sd_running s)))"

definition stateLimit :: "sched \<Rightarrow> string \<Rightarrow> int" where
  "stateLimit s state = count_of (sd_stateLimits s) (normalizeState state)"

definition at_capacity :: "sched \<Rightarrow> bool" where
  "at_capacity s \<longleftrightarrow> 0 < sd_maxConcurrent s \<and> sd_maxConcurrent s \<le> int (length (sd_running s))"

definition state_full :: "sched \<Rightarrow> string \<Rightarrow> bool" where
  "state_full s state \<longleftrightarrow> 0 < stateLimit s state \<and> stateLimit s state \<le> runningCountForState s state"

definition shouldDispatch :: "sched \<Rightarrow> work_item \<Rightarrow> bool" where
  "shouldDispatch s item =
     (if \<not> isRetryCandidate s item then False
      else if mget (sd_claimed s) (wi_ID item) \<noteq> None then False
      else if mget (sd_running s) (wi_ID item) \<noteq> None then False
      else if at_capacity s then False
      else if state_full s (wi_State item) then False
      else True)"

subsection \<open>Retry scheduling\<close>

fun retry_delay_loop :: "nat \<Rightarrow> gduration \<Rightarrow> gduration \<Rightarrow> gduration" where
  "retry_delay_loop 0 delay maxBackoff =
     (if 0 < maxBackoff \<and> maxBackoff < delay then maxBackoff else delay)"
| "retry_delay_loop (Suc k) delay maxBackoff =
     (let delay = wrap64 (delay * 2) in
      if 0 < maxBackoff \<and> maxBackoff \<le> delay then maxBackoff
      else retry_delay_loop k delay maxBackoff)"

text \<open>The \<open>for i := 1; i < attempt; i++\<close> loop makes \<open>attempt - 1\<close> rounds, none if that is negative.\<close>

definition failureRetryDelay :: "int \<Rightarrow> gduration \<Rightarrow> gduration" where
  "failureRetryDelay attempt maxBackoff = retry_delay_loop (nat (attempt - 1)) (10 * second) maxBackoff"

definition nextFailureAttempt :: "int \<Rightarrow> int" where
  "nextFailureAttempt current = (if 0 < current then current + 1 else 1)"

definition scheduleContinuationRetry :: "string \<Rightarrow> string \<Rightarrow> string \<Rightarrow> string \<Rightarrow> sched \<Rightarrow> sched" where
  "scheduleContinuationRetry itemID identifier workerHost workspacePath s =
     (let n = Suc (sd_retryNonce s); e =
        \<lparr>te_ItemID = itemID, te_ItemIdentifier = identifier, te_Attempt = 1,
         te_DueAt = Now s + second, te_LastError = [], te_WorkerHost = workerHost,
         te_WorkspacePath = workspacePath, te_Nonce = n\<rparr>
      in (tick s)\<lparr>sd_retryNonce := n, sd_retrying := mput itemID e (sd_retrying s)\<rparr>)"

definition scheduleFailureRetry ::
  "string \<Rightarrow> string \<Rightarrow> int \<Rightarrow> string \<Rightarrow> string \<Rightarrow> string \<Rightarrow> sched \<Rightarrow> sched" where
  "scheduleFailureRetry itemID identifier attempt lastError workerHost workspacePath s =
     (let attempt = (if attempt \<le> 0 then 1 else attempt);
          n = Suc (sd_retryNonce s);
          delay = failureRetryDelay attempt (sd_maxRetryBackoff s);
          e = \<lparr>te_ItemID = itemID, te_ItemIdentifier = identifier, te_Attempt = attempt,
               te_DueAt = Now s + delay, te_LastError = lastError, te_WorkerHost = workerHost,
               te_WorkspacePath = workspacePath, te_Nonce = n\<rparr>
      in (tick s)\<lparr>sd_retryNonce := n, sd_retrying := mput itemID e (sd_retrying s)\<rparr>)"

subsection \<open>Host admission\<close>

fun firstNonEmpty :: "string list \<Rightarrow> string" where
  "firstNonEmpty [] = []"
| "firstNonEmpty (v # vs) = (if TrimSpace v \<noteq> [] then v else firstNonEmpty vs)"

definition count_host :: "(string, int) gomap \<Rightarrow> running_entry \<Rightarrow> (string, int) gomap" where
  "count_host counts e = (let host = TrimSpace (re_WorkerHost e) in
     if host = [] then counts else mput host (count_of counts host + 1) counts)"

text \<open>Counting does not depend on the visiting order, so the loop visits the map as stored.\<close>

definition hostLoads :: "sched \<Rightarrow> host_load list" where
  "hostLoads s = (let counts = foldl count_host [] (map snd (sd_running s)) in
     map (\<lambda>h. \<lparr>hl_Host = h, hl_Running = count_of counts h\<rparr>) (sort_by (\<lambda>a b. a < b) (mkeys counts)))"

definition admitHost :: "deps \<Rightarrow> string \<Rightarrow> sched \<Rightarrow> string \<times> bool" where
  "admitHost d preferred s = (case dp_hostSelection d of
     Some hs \<Rightarrow> Select hs preferred (hostLoads s)
   | None \<Rightarrow> (case dp_admitRun d of None \<Rightarrow> (preferred, True) | Some f \<Rightarrow> f preferred))"

subsection \<open>Dispatch\<close>

definition call_start :: "deps \<Rightarrow> start_run_request \<Rightarrow> sched \<Rightarrow> (string + start_run_result) \<times> sched" where
  "call_start d q s = (case dp_startRun d of
     None \<Rightarrow> (Inr \<lparr>sr_Handle = None, sr_WorkerHost = sq_PreferredHost q, sr_WorkspacePath = [],
                  sr_SessionID = []\<rparr>, s)
   | Some f \<Rightarrow> (f (sd_calls s) q, log_call (CallStart q) s))"

definition start_entry :: "work_item \<Rightarrow> int \<Rightarrow> gtime \<Rightarrow> string \<Rightarrow> start_run_result \<Rightarrow> running_entry" where
  "start_entry item attempt started host r =
    \<lparr>re_Item = item, re_Attempt = attempt, re_StartedAt = started, re_LastEventAt = None,
     re_LastEventKind = RunEventOther [], re_LastEventMessage = [], re_SessionID = sr_SessionID r,
     re_TurnCount = 0, re_WorkerHost = firstNonEmpty [sr_WorkerHost r, host],
     re_WorkspacePath = sr_WorkspacePath r, re_CodexTotals = zero_totals,
     re_LastReportedTotals = zero_totals, re_Handle = sr_Handle r\<rparr>"

definition dispatchItem :: "deps \<Rightarrow> work_item \<Rightarrow> int \<Rightarrow> string \<Rightarrow> sched \<Rightarrow> bool \<times> sched" where
  "dispatchItem d item attempt preferredHost s =
     (let (host, admitted) = admitHost d preferredHost s in
      if \<not> admitted then (False, s)
      else case call_start d \<lparr>sq_Item = item, sq_Attempt = attempt, sq_PreferredHost = host\<rparr> s of
        (Inl err, s1) \<Rightarrow>
          (let nextAttempt = (if attempt \<le> 0 then 1 else attempt + 1) in
           (False, scheduleFailureRetry (wi_ID item) (wi_Identifier item) nextAttempt
                     (''failed to start run: '' @ err) host [] s1))
      | (Inr result, s1) \<Rightarrow>
          (let s2 = (tick s1)\<lparr>sd_claimed := mput (wi_ID item)
                 \<lparr>ce_ItemID = wi_ID item, ce_ItemIdentifier = wi_Identifier item, ce_ClaimedAt = Now s1\<rparr>
                 (sd_claimed s1)\<rparr>;
               s3 = (tick s2)\<lparr>sd_running := mput (wi_ID item)
                 (start_entry item attempt (Now s2) host result) (sd_running s2)\<rparr>
           in (True, s3\<lparr>sd_retrying := mdel (wi_ID item) (sd_retrying s3)\<rparr>)))"

definition revalidateCandidate :: "deps \<Rightarrow> string \<Rightarrow> sched \<Rightarrow> work_item option \<times> sched" where
  "revalidateCandidate d itemID s = (case dp_refreshItems d of
     None \<Rightarrow> (map_option re_Item (mget (sd_running s) itemID), s)
   | Some f \<Rightarrow> (let s1 = log_call (CallRefresh [itemID]) s in
       case f (sd_calls s) [itemID] of
         Inl e \<Rightarrow> (None, s1)
       | Inr [] \<Rightarrow> (None, s1)
       | Inr (item # _) \<Rightarrow> (if \<not> isRetryCandidate s1 item then None else Some item, s1)))"

definition priorityRank :: "int option \<Rightarrow> int" where
  "priorityRank p = (case p of None \<Rightarrow> 5 | Some n \<Rightarrow> if 1 \<le> n \<and> n \<le> 4 then n else 5)"

text \<open>\<open>time.Date(9999, 1, 1, 0, 0, 0, 0, time.UTC)\<close> in nanoseconds since the zero time.\<close>

definition far_future :: gtime where
  "far_future = 315506361600000000000"

definition createdAtKey :: "work_item \<Rightarrow> gtime" where
  "createdAtKey item = (case wi_CreatedAt item of Some t \<Rightarrow> t | None \<Rightarrow> far_future)"

definition candidate_less :: "work_item \<Rightarrow> work_item \<Rightarrow> bool" where
  "candidate_less a b =
     (let pa = priorityRank (wi_Priority a); pb = priorityRank (wi_Priority b) in
      if pa \<noteq> pb then pa < pb
      else let ta = createdAtKey a; tb = createdAtKey b in
        if ta \<noteq> tb then ta < tb
        else firstNonEmpty [wi_Identifier a, wi_ID a] < firstNonEmpty [wi_Identifier b, wi_ID b])"

definition sortCandidates :: "work_item list \<Rightarrow> work_item list" where
  "sortCandidates items = sort_by candidate_less items"

definition process_candidate :: "deps \<Rightarrow> work_item \<Rightarrow> sched \<Rightarrow> sched" where
  "process_candidate d item s =
     (if \<not> shouldDispatch s item then s
      else case revalidateCandidate d (wi_ID item) s of
        (None, s1) \<Rightarrow> s1
      | (Some refreshed, s1) \<Rightarrow> snd (dispatchItem d refreshed 0 [] s1))"

definition processCandidates :: "deps \<Rightarrow> work_item list \<Rightarrow> sched \<Rightarrow> sched" where
  "processCandidates d candidates s = fold (process_candidate d) (sortCandidates candidates) s"

subsection \<open>Worker events\<close>

definition hasTotals :: "codex_totals \<Rightarrow> bool" where
  "hasTotals t \<longleftrightarrow> t \<noteq> zero_totals"

definition totals_delta :: "codex_totals \<Rightarrow> codex_totals \<Rightarrow> codex_totals" where
  "totals_delta new old =
    \<lparr>ct_InputTokens = max 0 (ct_InputTokens new - ct_InputTokens old),
     ct_OutputTokens = max 0 (ct_OutputTokens new - ct_OutputTokens old),
     ct_TotalTokens = max 0 (ct_TotalTokens new - ct_TotalTokens old),
     ct_SecondsRunning = max 0 (ct_SecondsRunning new - ct_SecondsRunning old)\<rparr>"

definition totals_add :: "codex_totals \<Rightarrow> codex_totals \<Rightarrow> codex_totals" where
  "totals_add a b =
    \<lparr>ct_InputTokens = ct_InputTokens a + ct_InputTokens b,
     ct_OutputTokens = ct_OutputTokens a + ct_OutputTokens b,
     ct_TotalTokens = ct_TotalTokens a + ct_TotalTokens b,
     ct_SecondsRunning = ct_SecondsRunning a + ct_SecondsRunning b\<rparr>"

definition applyAggregateDelta :: "running_entry \<Rightarrow> codex_totals \<Rightarrow> sched \<Rightarrow> running_entry \<times> sched" where
  "applyAggregateDelta entry totals s =
     (let delta = totals_delta totals (re_LastReportedTotals entry) in
      (entry\<lparr>re_CodexTotals := totals, re_LastReportedTotals := totals\<rparr>,
       s\<lparr>sd_codexTotals := totals_add (sd_codexTotals s) delta\<rparr>))"

text \<open>The field updates at the top of \<open>applyRunEvent\<close>, before the token totals.\<close>

definition event_entry :: "run_event \<Rightarrow> running_entry \<Rightarrow> running_entry" where
  "event_entry ev e =
     (let e = (if ev_At ev \<noteq> zero_time then e\<lparr>re_LastEventAt := Some (ev_At ev)\<rparr> else e);
          e = e\<lparr>re_LastEventKind := ev_Kind ev, re_LastEventMessage := ev_Message ev\<rparr>;
          e = (if ev_WorkerHost ev \<noteq> [] then e\<lparr>re_WorkerHost := ev_WorkerHost ev\<rparr> else e);
          e = (if ev_WorkspacePath ev \<noteq> [] then e\<lparr>re_WorkspacePath := ev_WorkspacePath ev\<rparr> else e);
          e = (if ev_SessionID ev \<noteq> [] then e\<lparr>re_SessionID := ev_SessionID ev\<rparr> else e)
      in if ev_Kind ev = RunEventTurnCompleted then e\<lparr>re_TurnCount := re_TurnCount e + 1\<rparr> else e)"

definition applyRunEvent :: "run_event \<Rightarrow> sched \<Rightarrow> sched" where
  "applyRunEvent ev s = (case mget (sd_running s) (ev_ItemID ev) of
     None \<Rightarrow> s
   | Some entry0 \<Rightarrow>
      (let entry1 = event_entry ev entry0;
           (entry, s1) = (if hasTotals (ev_CodexTotals ev)
              then applyAggregateDelta entry1 (ev_CodexTotals ev) s else (entry1, s));
           s2 = (case ev_RateLimits ev of None \<Rightarrow> s1 | Some r \<Rightarrow> s1\<lparr>sd_rateLimits := Some r\<rparr>);
           gone = s2\<lparr>sd_running := mdel (ev_ItemID ev) (mput (ev_ItemID ev) entry (sd_running s2))\<rparr>
       in case ev_Kind ev of
            RunEventRunCompleted \<Rightarrow>
              scheduleContinuationRetry (wi_ID (re_Item entry)) (wi_Identifier (re_Item entry))
                (re_WorkerHost entry) (re_WorkspacePath entry) gone
          | RunEventRunFailed \<Rightarrow>
              scheduleFailureRetry (wi_ID (re_Item entry)) (wi_Identifier (re_Item entry))
                (nextFailureAttempt (re_Attempt entry))
                (case ev_Err ev of Some m \<Rightarrow> m | None \<Rightarrow> ev_Message ev)
                (re_WorkerHost entry) (re_WorkspacePath entry) gone
          | _ \<Rightarrow> s2\<lparr>sd_running := mput (ev_ItemID ev) entry (sd_running s2)\<rparr>))"

subsection \<open>Stopping and due retries\<close>

definition stopWithIntent :: "deps \<Rightarrow> string \<Rightarrow> string \<Rightarrow> handle \<Rightarrow> bool \<Rightarrow> sched \<Rightarrow> sched" where
  "stopWithIntent d itemID identifier h cleanup s = (case dp_stopRun d of
     None \<Rightarrow> s
   | Some f \<Rightarrow> log_call (CallStop \<lparr>sp_ItemID = itemID, sp_ItemIdentifier = identifier, sp_Handle = h,
                 sp_CleanupWorkspace = cleanup\<rparr>) s)"

datatype retry_status = retryReady | retryMissing | retryTerminal | retryIneligible | retryRefreshFailed

definition refreshRetryItem :: "deps \<Rightarrow> string \<Rightarrow> sched \<Rightarrow> (work_item \<times> retry_status) \<times> sched" where
  "refreshRetryItem d itemID s = (case dp_refreshItems d of
     None \<Rightarrow> ((empty_item, retryRefreshFailed), s)
   | Some f \<Rightarrow> (let s1 = log_call (CallRefresh [itemID]) s in
       case f (sd_calls s) [itemID] of
         Inl e \<Rightarrow> ((empty_item, retryRefreshFailed), s1)
       | Inr [] \<Rightarrow> ((empty_item, retryMissing), s1)
       | Inr (item # _) \<Rightarrow>
           (if isTerminal s1 (wi_State item) then ((item, retryTerminal), s1)
            else if \<not> isRetryCandidate s1 item then ((item, retryIneligible), s1)
            else ((item, retryReady), s1))))"

definition handleDueRetry :: "deps \<Rightarrow> string \<Rightarrow> nat \<Rightarrow> sched \<Rightarrow> sched" where
  "handleDueRetry d itemID nonce s = (case mget (sd_retrying s) itemID of
     None \<Rightarrow> s
   | Some entry \<Rightarrow>
      if te_Nonce entry \<noteq> nonce then s
      else let s0 = s\<lparr>sd_retrying := mdel itemID (sd_retrying s)\<rparr>;
               ((item, status), s1) = refreshRetryItem d itemID s0;
               unclaimed = s1\<lparr>sd_claimed := mdel itemID (sd_claimed s1)\<rparr>;
               no_slots = (\<lambda>t. scheduleFailureRetry itemID (wi_Identifier item) (te_Attempt entry + 1)
                  ''no available orchestrator slots'' (te_WorkerHost entry) (te_WorkspacePath entry) t)
        in case status of
             retryMissing \<Rightarrow> unclaimed
           | retryTerminal \<Rightarrow> stopWithIntent d itemID (te_ItemIdentifier entry) None True unclaimed
           | retryIneligible \<Rightarrow> stopWithIntent d itemID (te_ItemIdentifier entry) None False unclaimed
           | retryRefreshFailed \<Rightarrow>
               scheduleFailureRetry itemID (te_ItemIdentifier entry) (te_Attempt entry + 1)
                 ''retry refresh failed'' (te_WorkerHost entry) (te_WorkspacePath entry) s1
           | retryReady \<Rightarrow>
               (if at_capacity s1 then no_slots s1
                else if state_full s1 (wi_State item) then no_slots s1
                else case dispatchItem d item (te_Attempt entry) (te_WorkerHost entry) s1 of
                  (True, s2) \<Rightarrow> s2
                | (False, s2) \<Rightarrow> (if mget (sd_retrying s2) itemID = None then no_slots s2 else s2)))"

subsection \<open>Reconciliation\<close>

definition stall_one :: "deps \<Rightarrow> gtime \<Rightarrow> string \<times> running_entry \<Rightarrow> sched \<Rightarrow> sched" where
  "stall_one d now kv s = (let itemID = fst kv; entry = snd kv;
       lastActivity = (case re_LastEventAt entry of Some t \<Rightarrow> t | None \<Rightarrow> re_StartedAt entry) in
     if now - lastActivity \<le> sd_stallTimeout s then s
     else let duration = round_ms (now - lastActivity);
              s1 = s\<lparr>sd_running := mdel itemID (sd_running s)\<rparr>;
              s2 = stopWithIntent d itemID (wi_Identifier (re_Item entry)) (re_Handle entry) False s1
          in scheduleFailureRetry itemID (wi_Identifier (re_Item entry))
               (nextFailureAttempt (re_Attempt entry))
               (''stalled for '' @ duration_string duration @ '' without worker activity'')
               (re_WorkerHost entry) (re_WorkspacePath entry) s2)"

definition reconcileStalled :: "string range_order \<Rightarrow> deps \<Rightarrow> sched \<Rightarrow> sched" where
  "reconcileStalled ord d s = (if sd_stallTimeout s \<le> 0 then s
     else fold (stall_one d (Now s)) (range_entries ord (sd_running s)) (tick s))"

definition invalidateRun :: "deps \<Rightarrow> running_entry \<Rightarrow> bool \<Rightarrow> sched \<Rightarrow> sched" where
  "invalidateRun d entry cleanup s = (let id = wi_ID (re_Item entry) in
     stopWithIntent d id (wi_Identifier (re_Item entry)) (re_Handle entry) cleanup
       (s\<lparr>sd_running := mdel id (sd_running s), sd_claimed := mdel id (sd_claimed s),
          sd_retrying := mdel id (sd_retrying s)\<rparr>))"

definition visible_items :: "work_item list \<Rightarrow> (string, work_item) gomap" where
  "visible_items items = foldl (\<lambda>m item. mput (wi_ID item) item m) [] items"

definition reconcile_one :: "deps \<Rightarrow> (string, work_item) gomap \<Rightarrow> string \<times> running_entry \<Rightarrow> sched \<Rightarrow> sched" where
  "reconcile_one d visible kv s = (let itemID = fst kv; entry = snd kv in
     case mget visible itemID of
       None \<Rightarrow> invalidateRun d entry False s
     | Some item \<Rightarrow>
        (if isTerminal s (wi_State item) then invalidateRun d entry True s
         else if \<not> isActive s (wi_State item) then invalidateRun d entry False s
         else if wi_Routable item = Some False then invalidateRun d entry False s
         else s\<lparr>sd_running := mput itemID (entry\<lparr>re_Item := item\<rparr>) (sd_running s)\<rparr>))"

definition reconcileRunning :: "string range_order \<Rightarrow> string range_order \<Rightarrow> deps \<Rightarrow> sched \<Rightarrow> sched" where
  "reconcileRunning ord1 ord2 d s = (if sd_running s = [] then s
     else case dp_refreshItems d of
       None \<Rightarrow> s
     | Some f \<Rightarrow> (let ids = ord1 (mkeys (sd_running s)); s1 = log_call (CallRefresh ids) s in
         case f (sd_calls s) ids of
           Inl e \<Rightarrow> s1
         | Inr refreshed \<Rightarrow>
             fold (reconcile_one d (visible_items refreshed)) (range_entries ord2 (sd_running s1)) s1))"

subsection \<open>Snapshot\<close>

definition run_view :: "running_entry \<Rightarrow> active_run" where
  "run_view e =
    \<lparr>ar_ItemID = wi_ID (re_Item e), ar_ItemIdentifier = wi_Identifier (re_Item e),
     ar_State = wi_State (re_Item e), ar_WorkerHost = re_WorkerHost e,
     ar_WorkspacePath = re_WorkspacePath e, ar_SessionID = re_SessionID e,
     ar_TurnCount = re_TurnCount e, ar_StartedAt = re_StartedAt e,
     ar_LastEventAt = re_LastEventAt e, ar_LastEventKind = re_LastEventKind e,
     ar_LastEventMessage = re_LastEventMessage e, ar_CodexTotals = re_CodexTotals e\<rparr>"

definition retry_entry_view :: "retry_entry \<Rightarrow> retry_view" where
  "retry_entry_view e =
    \<lparr>rv_ItemID = te_ItemID e, rv_ItemIdentifier = te_ItemIdentifier e, rv_Attempt = te_Attempt e,
     rv_DueAt = te_DueAt e, rv_LastError = te_LastError e, rv_WorkerHost = te_WorkerHost e,
     rv_WorkspacePath = te_WorkspacePath e\<rparr>"

definition run_less :: "active_run \<Rightarrow> active_run \<Rightarrow> bool" where
  "run_less a b = (if ar_ItemIdentifier a \<noteq> ar_ItemIdentifier b then ar_ItemIdentifier a < ar_ItemIdentifier b
     else if ar_ItemID a \<noteq> ar_ItemID b then ar_ItemID a < ar_ItemID b
     else ar_StartedAt a < ar_StartedAt b)"

definition retry_less :: "retry_view \<Rightarrow> retry_view \<Rightarrow> bool" where
  "retry_less a b = (if rv_DueAt a \<noteq> rv_DueAt b then rv_DueAt a < rv_DueAt b
     else if rv_ItemIdentifier a \<noteq> rv_ItemIdentifier b then rv_ItemIdentifier a < rv_ItemIdentifier b
     else rv_ItemID a < rv_ItemID b)"

definition snapshot_of :: "string range_order \<Rightarrow> string range_order \<Rightarrow> sched \<Rightarrow> snapshot" where
  "snapshot_of ord1 ord2 s =
    \<lparr>sn_Running = sort_by run_less (map (run_view \<circ> snd) (range_entries ord1 (sd_running s))),
     sn_Retrying = sort_by retry_less (map (retry_entry_view \<circ> snd) (range_entries ord2 (sd_retrying s))),
     sn_Polling = \<lparr>ps_Checking = sd_checking s, ps_NextPollAt = sd_nextPollAt s,
                   ps_Interval = sd_interval s\<rparr>,
     sn_CodexTotals = sd_codexTotals s, sn_RateLimits = sd_rateLimits s\<rparr>"

end
