(* ===== verification/Scheduler_Inv.thy ===== *)
theory Scheduler_Inv
  imports Scheduler
begin

text \<open>
  The scheduler's well-formedness invariant and its preservation by every operation of
  \<open>state.go\<close>. \<open>refresh_sound\<close> is what the orchestrator assumes of the injected
  \<open>refreshItems\<close>: an item it returns has one of the requested IDs.
\<close>

declare map_of_eq_Some_iff [simp del]

definition refresh_sound :: "deps \<Rightarrow> bool" where
  "refresh_sound d \<longleftrightarrow> (\<forall>f cs ids items. dp_refreshItems d = Some f \<longrightarrow> f cs ids = Inr items \<longrightarrow>
     (\<forall>item \<in> set items. wi_ID item \<in> set ids))"

lemma refresh_soundD:
  "refresh_sound d \<Longrightarrow> dp_refreshItems d = Some f \<Longrightarrow> f cs ids = Inr items \<Longrightarrow> item \<in> set items \<Longrightarrow>
     wi_ID item \<in> set ids"
  unfolding refresh_sound_def by blast

text \<open>Maps are keyed by item ID and have distinct keys.\<close>

definition keyed :: "sched \<Rightarrow> bool" where
  "keyed s \<longleftrightarrow> mok (sd_claimed s) \<and> mok (sd_running s) \<and> mok (sd_retrying s)
     \<and> (\<forall>k c. mget (sd_claimed s) k = Some c \<longrightarrow> ce_ItemID c = k)
     \<and> (\<forall>k e. mget (sd_running s) k = Some e \<longrightarrow> wi_ID (re_Item e) = k)
     \<and> (\<forall>k e. mget (sd_retrying s) k = Some e \<longrightarrow> te_ItemID e = k)"

text \<open>A running item is claimed and has no retry pending.\<close>

definition phases :: "sched \<Rightarrow> bool" where
  "phases s \<longleftrightarrow> (\<forall>k e. mget (sd_running s) k = Some e \<longrightarrow>
     mget (sd_claimed s) k \<noteq> None \<and> mget (sd_retrying s) k = None)"

text \<open>Retry entries carry positive attempts and pairwise different nonces, none from the future.\<close>

definition retries_ok :: "sched \<Rightarrow> bool" where
  "retries_ok s \<longleftrightarrow>
     (\<forall>k e. mget (sd_retrying s) k = Some e \<longrightarrow> 1 \<le> te_Attempt e \<and> te_Nonce e \<le> sd_retryNonce s)
     \<and> (\<forall>k k' e e'. mget (sd_retrying s) k = Some e \<longrightarrow> mget (sd_retrying s) k' = Some e' \<longrightarrow>
          te_Nonce e = te_Nonce e' \<longrightarrow> k = k')"

definition within_capacity :: "sched \<Rightarrow> bool" where
  "within_capacity s \<longleftrightarrow> 0 < sd_maxConcurrent s \<longrightarrow> int (length (sd_running s)) \<le> sd_maxConcurrent s"

definition sched_inv :: "sched \<Rightarrow> bool" where
  "sched_inv s \<longleftrightarrow> keyed s \<and> phases s \<and> retries_ok s \<and> within_capacity s"

lemmas sched_inv_unfold = sched_inv_def keyed_def phases_def retries_ok_def within_capacity_def

text \<open>The invariant reads only these fields.\<close>

lemma sched_inv_cong:
  assumes "sd_claimed t = sd_claimed s" "sd_running t = sd_running s" "sd_retrying t = sd_retrying s"
    and "sd_retryNonce t = sd_retryNonce s" "sd_maxConcurrent t = sd_maxConcurrent s"
  shows "sched_inv t = sched_inv s"
  using assms by (simp add: sched_inv_unfold)

named_theorems sched_frame "operations that leave the maps alone"

lemma tick_fields [simp, sched_frame]:
  "sd_claimed (tick s) = sd_claimed s" "sd_running (tick s) = sd_running s"
  "sd_retrying (tick s) = sd_retrying s" "sd_retryNonce (tick s) = sd_retryNonce s"
  "sd_maxConcurrent (tick s) = sd_maxConcurrent s" "sd_calls (tick s) = sd_calls s"
  "sd_activeStates (tick s) = sd_activeStates s" "sd_terminalStates (tick s) = sd_terminalStates s"
  "sd_stateLimits (tick s) = sd_stateLimits s" "sd_maxRetryBackoff (tick s) = sd_maxRetryBackoff s"
  "sd_stallTimeout (tick s) = sd_stallTimeout s" "sd_checking (tick s) = sd_checking s"
  "sd_pollNonce (tick s) = sd_pollNonce s" "sd_nextPollAt (tick s) = sd_nextPollAt s"
  "sd_interval (tick s) = sd_interval s" "sd_clock (tick s) = sd_clock s"
  "sd_codexTotals (tick s) = sd_codexTotals s"
  by (simp_all add: tick_def)

lemma log_call_fields [simp, sched_frame]:
  "sd_claimed (log_call c s) = sd_claimed s" "sd_running (log_call c s) = sd_running s"
  "sd_retrying (log_call c s) = sd_retrying s" "sd_retryNonce (log_call c s) = sd_retryNonce s"
  "sd_maxConcurrent (log_call c s) = sd_maxConcurrent s"
  "sd_calls (log_call c s) = sd_calls s @ [c]"
  "sd_activeStates (log_call c s) = sd_activeStates s"
  "sd_terminalStates (log_call c s) = sd_terminalStates s"
  "sd_stateLimits (log_call c s) = sd_stateLimits s"
  "sd_maxRetryBackoff (log_call c s) = sd_maxRetryBackoff s"
  "sd_stallTimeout (log_call c s) = sd_stallTimeout s" "sd_checking (log_call c s) = sd_checking s"
  "sd_pollNonce (log_call c s) = sd_pollNonce s" "sd_nextPollAt (log_call c s) = sd_nextPollAt s"
  "sd_interval (log_call c s) = sd_interval s" "sd_clock (log_call c s) = sd_clock s"
  "sd_reads (log_call c s) = sd_reads s" "sd_codexTotals (log_call c s) = sd_codexTotals s"
  by (simp_all add: log_call_def)

lemma sched_inv_frame [simp]:
  "sched_inv (tick s) = sched_inv s" "sched_inv (log_call c s) = sched_inv s"
  "sched_inv (s\<lparr>sd_codexTotals := x\<rparr>) = sched_inv s" "sched_inv (s\<lparr>sd_rateLimits := y\<rparr>) = sched_inv s"
  "sched_inv (s\<lparr>sd_checking := b\<rparr>) = sched_inv s" "sched_inv (s\<lparr>sd_nextPollAt := z\<rparr>) = sched_inv s"
  "sched_inv (s\<lparr>sd_pollNonce := n\<rparr>) = sched_inv s"
  by (rule sched_inv_cong; simp)+

subsection \<open>Primitive changes\<close>

lemma inv_del_running: "sched_inv s \<Longrightarrow> sched_inv (s\<lparr>sd_running := mdel k (sd_running s)\<rparr>)"
  using length_mdel_le [of k "sd_running s"]
  by (auto simp: sched_inv_unfold gomap split: if_splits)

lemma inv_del_retrying: "sched_inv s \<Longrightarrow> sched_inv (s\<lparr>sd_retrying := mdel k (sd_retrying s)\<rparr>)"
  by (simp add: sched_inv_unfold gomap)

lemma inv_unclaim:
  "sched_inv s \<Longrightarrow> mget (sd_running s) k = None \<Longrightarrow> sched_inv (s\<lparr>sd_claimed := mdel k (sd_claimed s)\<rparr>)"
  by (auto simp: sched_inv_unfold gomap split: if_splits)

lemma inv_put_retry:
  assumes "sched_inv s" "mget (sd_running s) k = None"
    and "te_ItemID e = k" "1 \<le> te_Attempt e" "te_Nonce e = Suc (sd_retryNonce s)"
  shows "sched_inv (s\<lparr>sd_retryNonce := Suc (sd_retryNonce s), sd_retrying := mput k e (sd_retrying s)\<rparr>)"
proof -
  have fresh: "te_Nonce e' \<noteq> Suc (sd_retryNonce s)" "te_Nonce e' \<le> Suc (sd_retryNonce s)"
    if "mget (sd_retrying s) k' = Some e'" for k' e'
    using assms(1) that by (fastforce simp: sched_inv_unfold)+
  have "keyed s" "phases s" "retries_ok s" "within_capacity s"
    using assms(1) by (simp_all add: sched_inv_def)
  moreover from this assms have
    "keyed (s\<lparr>sd_retryNonce := Suc (sd_retryNonce s), sd_retrying := mput k e (sd_retrying s)\<rparr>)"
    "phases (s\<lparr>sd_retryNonce := Suc (sd_retryNonce s), sd_retrying := mput k e (sd_retrying s)\<rparr>)"
    by (auto simp: keyed_def phases_def gomap)
  moreover have
    "retries_ok (s\<lparr>sd_retryNonce := Suc (sd_retryNonce s), sd_retrying := mput k e (sd_retrying s)\<rparr>)"
    using assms fresh \<open>retries_ok s\<close> by (simp add: retries_ok_def gomap) metis
  ultimately show ?thesis by (simp add: sched_inv_def within_capacity_def)
qed

lemma inv_start:
  assumes "sched_inv s" "\<not> at_capacity s \<or> mget (sd_running s) k \<noteq> None"
    and "ce_ItemID c = k" "wi_ID (re_Item e) = k"
  shows "sched_inv (s\<lparr>sd_claimed := mput k c (sd_claimed s), sd_running := mput k e (sd_running s),
     sd_retrying := mdel k (sd_retrying s)\<rparr>)"
proof -
  have "0 < sd_maxConcurrent s \<Longrightarrow> int (length (mput k e (sd_running s))) \<le> sd_maxConcurrent s"
    using assms(1,2) length_mput_le [of k e "sd_running s"] length_mput_old [of "sd_running s" k _ e]
    by (auto simp: at_capacity_def sched_inv_def within_capacity_def)
  with assms show ?thesis
    by (auto simp: sched_inv_unfold gomap split: if_splits)
qed

lemma inv_start_state:
  assumes "sched_inv s" "\<not> at_capacity s \<or> mget (sd_running s) k \<noteq> None"
    and "sd_claimed t = mput k c (sd_claimed s)" "ce_ItemID c = k"
    and "sd_running t = mput k e (sd_running s)" "wi_ID (re_Item e) = k"
    and "sd_retrying t = mdel k (sd_retrying s)" "sd_retryNonce t = sd_retryNonce s"
    and "sd_maxConcurrent t = sd_maxConcurrent s"
  shows "sched_inv t"
  using inv_start [OF assms(1,2,4,6)] assms by (subst sched_inv_cong) simp_all

lemma inv_update_running:
  assumes "sched_inv s" "mget (sd_running s) k = Some e0" "wi_ID (re_Item e) = k"
  shows "sched_inv (s\<lparr>sd_running := mput k e (sd_running s)\<rparr>)"
  using assms by (auto simp: sched_inv_unfold gomap split: if_splits)

subsection \<open>Operations\<close>

lemma inv_newSchedulerState: "sched_inv (newSchedulerState cfg clk ord)"
  by (simp add: newSchedulerState_def sched_inv_unfold)

lemma inv_scheduleFailureRetry:
  assumes "sched_inv s" "mget (sd_running s) k = None"
  shows "sched_inv (scheduleFailureRetry k ident attempt err host path s)"
proof -
  have "sched_inv (tick s)" "mget (sd_running (tick s)) k = None" using assms by simp_all
  from inv_put_retry [OF this] show ?thesis
    by (simp add: scheduleFailureRetry_def Let_def)
qed

lemma inv_scheduleContinuationRetry:
  assumes "sched_inv s" "mget (sd_running s) k = None"
  shows "sched_inv (scheduleContinuationRetry k ident host path s)"
proof -
  have "sched_inv (tick s)" "mget (sd_running (tick s)) k = None" using assms by simp_all
  from inv_put_retry [OF this] show ?thesis
    by (simp add: scheduleContinuationRetry_def Let_def)
qed

lemma inv_stopWithIntent [simp]: "sched_inv (stopWithIntent d k i h c s) = sched_inv s"
  by (simp add: stopWithIntent_def split: option.split)

lemma stopWithIntent_fields [simp, sched_frame]:
  "sd_claimed (stopWithIntent d k i h c s) = sd_claimed s"
  "sd_running (stopWithIntent d k i h c s) = sd_running s"
  "sd_retrying (stopWithIntent d k i h c s) = sd_retrying s"
  "sd_retryNonce (stopWithIntent d k i h c s) = sd_retryNonce s"
  "sd_activeStates (stopWithIntent d k i h c s) = sd_activeStates s"
  "sd_terminalStates (stopWithIntent d k i h c s) = sd_terminalStates s"
  "sd_stallTimeout (stopWithIntent d k i h c s) = sd_stallTimeout s"
  "sd_checking (stopWithIntent d k i h c s) = sd_checking s"
  "sd_pollNonce (stopWithIntent d k i h c s) = sd_pollNonce s"
  "sd_maxConcurrent (stopWithIntent d k i h c s) = sd_maxConcurrent s"
  by (simp_all add: stopWithIntent_def split: option.split)

lemma call_start_state:
  "call_start d q s = (r, t) \<Longrightarrow> t = s \<or> t = log_call (CallStart q) s"
  by (auto simp: call_start_def split: option.splits)

lemma inv_dispatchItem:
  assumes "sched_inv s" "\<not> at_capacity s" "mget (sd_running s) (wi_ID item) = None"
  shows "sched_inv (snd (dispatchItem d item attempt preferred s))"
proof -
  obtain host admitted where ah: "admitHost d preferred s = (host, admitted)" by fastforce
  let ?q = "\<lparr>sq_Item = item, sq_Attempt = attempt, sq_PreferredHost = host\<rparr>"
  obtain r s1 where cs: "call_start d ?q s = (r, s1)" by fastforce
  have s1: "sched_inv s1" "\<not> at_capacity s1" "mget (sd_running s1) (wi_ID item) = None"
    using call_start_state [OF cs] assms by (auto simp: at_capacity_def)
  show ?thesis
  proof (cases r)
    case (Inl err)
    then show ?thesis
      using s1 assms(1) by (auto simp: dispatchItem_def ah cs inv_scheduleFailureRetry)
  next
    case (Inr result)
    note start = inv_start_state [OF s1(1) disjI1 [OF s1(2)], of _ "wi_ID item"]
    show ?thesis
      using Inr assms(1)
      by (auto simp: dispatchItem_def ah cs Let_def intro!: start) (simp_all add: start_entry_def)
  qed
qed

lemma revalidateCandidate_frame:
  assumes "revalidateCandidate d k s = (r, t)"
  shows "t = s \<or> t = log_call (CallRefresh [k]) s"
  using assms by (auto simp: revalidateCandidate_def Let_def split: option.splits sum.splits list.splits)

lemma revalidateCandidate_id:
  assumes "revalidateCandidate d k s = (Some item, t)" "refresh_sound d" "sched_inv s"
  shows "wi_ID item = k"
proof (cases "dp_refreshItems d")
  case None
  with assms show ?thesis
    by (auto simp: revalidateCandidate_def sched_inv_def keyed_def)
next
  case (Some f)
  with assms(1) obtain items where "f (sd_calls s) [k] = Inr items" "item \<in> set items"
    by (auto simp: revalidateCandidate_def Let_def split: sum.splits list.splits if_splits)
  with refresh_soundD [OF assms(2) Some] show ?thesis by fastforce
qed

lemma shouldDispatchD:
  "shouldDispatch s item \<Longrightarrow> isRetryCandidate s item \<and> mget (sd_claimed s) (wi_ID item) = None
     \<and> mget (sd_running s) (wi_ID item) = None \<and> \<not> at_capacity s \<and> \<not> state_full s (wi_State item)"
  by (auto simp: shouldDispatch_def split: if_splits)

lemma inv_process_candidate:
  assumes "sched_inv s" "refresh_sound d"
  shows "sched_inv (process_candidate d item s)"
proof (cases "shouldDispatch s item")
  case True
  note sd = shouldDispatchD [OF True]
  obtain r t where rt: "revalidateCandidate d (wi_ID item) s = (r, t)" by fastforce
  note t = revalidateCandidate_frame [OF rt]
  have inv: "sched_inv t" using t assms(1) by auto
  show ?thesis
  proof (cases r)
    case None
    with True rt inv show ?thesis by (simp add: process_candidate_def)
  next
    case (Some item')
    then have "wi_ID item' = wi_ID item" using revalidateCandidate_id rt assms by blast
    with sd t have "\<not> at_capacity t" "mget (sd_running t) (wi_ID item') = None"
      by (auto simp: at_capacity_def)
    with inv have "sched_inv (snd (dispatchItem d item' 0 [] t))" by (rule inv_dispatchItem)
    with True rt Some show ?thesis by (simp add: process_candidate_def)
  qed
qed (simp add: process_candidate_def assms)

lemma inv_fold: "(\<And>x s. x \<in> set xs \<Longrightarrow> P s \<Longrightarrow> P (f x s)) \<Longrightarrow> P s \<Longrightarrow> P (fold f xs s)"
  by (induction xs arbitrary: s) auto

lemma inv_processCandidates:
  "sched_inv s \<Longrightarrow> refresh_sound d \<Longrightarrow> sched_inv (processCandidates d items s)"
  unfolding processCandidates_def by (rule inv_fold) (simp_all add: inv_process_candidate)

lemma event_entry_item [simp]: "re_Item (event_entry ev e) = re_Item e"
  by (simp add: event_entry_def Let_def)

lemma inv_applyRunEvent:
  assumes "sched_inv s"
  shows "sched_inv (applyRunEvent ev s)"
proof (cases "mget (sd_running s) (ev_ItemID ev)")
  case None
  then show ?thesis using assms by (simp add: applyRunEvent_def)
next
  case (Some e0)
  let ?k = "ev_ItemID ev"
  have id: "wi_ID (re_Item e0) = ?k" using assms Some by (simp add: sched_inv_def keyed_def)
  obtain e s1 where es: "(if hasTotals (ev_CodexTotals ev)
      then applyAggregateDelta (event_entry ev e0) (ev_CodexTotals ev) s
      else (event_entry ev e0, s)) = (e, s1)" by fastforce
  have e: "re_Item e = re_Item e0" and s1: "sched_inv s1" "sd_running s1 = sd_running s"
    using es assms by (auto simp: applyAggregateDelta_def Let_def split: if_splits)
  define s2 where "s2 = (case ev_RateLimits ev of None \<Rightarrow> s1 | Some r \<Rightarrow> s1\<lparr>sd_rateLimits := Some r\<rparr>)"
  have s2: "sched_inv s2" "mget (sd_running s2) ?k = Some e0"
    using s1 Some by (auto simp: s2_def split: option.split)
  define up where "up = s2\<lparr>sd_running := mput ?k e (sd_running s2)\<rparr>"
  have up: "sched_inv up" unfolding up_def using s2 e id by (intro inv_update_running) simp_all
  define gone where "gone = up\<lparr>sd_running := mdel ?k (sd_running up)\<rparr>"
  have gone: "sched_inv gone" "mget (sd_running gone) ?k = None"
    unfolding gone_def using up by (simp_all add: inv_del_running gomap)
  have eq: "gone = s2\<lparr>sd_running := mdel ?k (mput ?k e (sd_running s2))\<rparr>"
    by (simp add: gone_def up_def)
  have "applyRunEvent ev s = (case ev_Kind ev of
            RunEventRunCompleted \<Rightarrow>
              scheduleContinuationRetry ?k (wi_Identifier (re_Item e)) (re_WorkerHost e) (re_WorkspacePath e) gone
          | RunEventRunFailed \<Rightarrow>
              scheduleFailureRetry ?k (wi_Identifier (re_Item e)) (nextFailureAttempt (re_Attempt e))
                (case ev_Err ev of Some m \<Rightarrow> m | None \<Rightarrow> ev_Message ev) (re_WorkerHost e) (re_WorkspacePath e) gone
          | _ \<Rightarrow> up)"
    unfolding applyRunEvent_def Some option.case Let_def es prod.case
    by (simp add: eq up_def s2_def e id split: run_event_kind.split)
  then show ?thesis
    using gone up inv_scheduleContinuationRetry inv_scheduleFailureRetry
    by (simp split: run_event_kind.split)
qed

lemma refreshRetryItem_frame:
  "refreshRetryItem d k s = ((item, status), t) \<Longrightarrow> t = s \<or> t = log_call (CallRefresh [k]) s"
  by (auto simp: refreshRetryItem_def Let_def split: option.splits sum.splits list.splits if_splits)

lemma refreshRetryItem_ready:
  assumes "refreshRetryItem d k s = ((item, retryReady), t)" "refresh_sound d"
  shows "wi_ID item = k \<and> isRetryCandidate t item"
proof -
  from assms(1) obtain f items where f: "dp_refreshItems d = Some f" "f (sd_calls s) [k] = Inr items"
    "item \<in> set items" "isRetryCandidate t item"
    by (auto simp: refreshRetryItem_def Let_def split: option.splits sum.splits list.splits if_splits)
  with refresh_soundD [OF assms(2)] show ?thesis by fastforce
qed

lemma dispatchItem_running_other:
  "k \<noteq> wi_ID item \<Longrightarrow> mget (sd_running (snd (dispatchItem d item a p s))) k = mget (sd_running s) k"
  by (auto simp: dispatchItem_def Let_def scheduleFailureRetry_def call_start_def gomap
      split: prod.splits sum.splits option.splits)

lemma dispatchItem_failed_running:
  "dispatchItem d item a p s = (False, t) \<Longrightarrow> sd_running t = sd_running s"
  by (auto simp: dispatchItem_def Let_def scheduleFailureRetry_def call_start_def
      split: prod.splits sum.splits option.splits if_splits)

lemma inv_handleDueRetry:
  assumes "sched_inv s" "refresh_sound d"
  shows "sched_inv (handleDueRetry d k nonce s)"
proof (cases "mget (sd_retrying s) k")
  case None
  then show ?thesis using assms by (simp add: handleDueRetry_def)
next
  case (Some entry)
  show ?thesis
  proof (cases "te_Nonce entry = nonce")
    case False
    then show ?thesis using assms Some by (simp add: handleDueRetry_def)
  next
    case True
    let ?s0 = "s\<lparr>sd_retrying := mdel k (sd_retrying s)\<rparr>"
    obtain item status s1 where r: "refreshRetryItem d k ?s0 = ((item, status), s1)"
      by (metis prod.exhaust)
    have run: "mget (sd_running s) k = None"
      using assms(1) Some by (force simp: sched_inv_def phases_def)
    have s1: "sched_inv s1" "mget (sd_running s1) k = None"
      using refreshRetryItem_frame [OF r] inv_del_retrying [OF assms(1), of k] run by auto
    note fail = inv_scheduleFailureRetry [OF s1]
    have unclaimed: "sched_inv (s1\<lparr>sd_claimed := mdel k (sd_claimed s1)\<rparr>)"
      by (rule inv_unclaim [OF s1])
    note unf = handleDueRetry_def Some option.case Let_def r prod.case
    show ?thesis
    proof (cases status)
      case retryReady
      have id: "wi_ID item = k" using refreshRetryItem_ready r assms(2) retryReady by blast
      show ?thesis
      proof (cases "at_capacity s1 \<or> state_full s1 (wi_State item)")
        case True
        then show ?thesis using retryReady \<open>te_Nonce entry = nonce\<close> fail unfolding unf by auto
      next
        case False
        obtain ok s2 where dsp: "dispatchItem d item (te_Attempt entry) (te_WorkerHost entry) s1 = (ok, s2)"
          by fastforce
        have s2: "sched_inv s2"
          using inv_dispatchItem [OF s1(1), of item d] False s1(2) id dsp by (metis snd_conv)
        show ?thesis
        proof (cases ok)
          case True
          then show ?thesis
            using retryReady \<open>te_Nonce entry = nonce\<close> False s2 unfolding unf by (simp add: dsp)
        next
          case no: False
          then have "mget (sd_running s2) k = None"
            using dispatchItem_failed_running dsp s1(2) by metis
          then show ?thesis
            using retryReady \<open>te_Nonce entry = nonce\<close> False s2 no inv_scheduleFailureRetry
            unfolding unf by (simp add: dsp)
        qed
      qed
    qed (use True unclaimed fail in \<open>simp_all add: unf\<close>)
  qed
qed

lemma inv_stall_one: "sched_inv s \<Longrightarrow> sched_inv (stall_one d now kv s)"
proof -
  assume "sched_inv s"
  then have "sched_inv (s\<lparr>sd_running := mdel (fst kv) (sd_running s)\<rparr>)" by (rule inv_del_running)
  then show ?thesis
    using \<open>sched_inv s\<close> by (simp add: stall_one_def Let_def inv_scheduleFailureRetry gomap)
qed

lemma inv_reconcileStalled: "sched_inv s \<Longrightarrow> sched_inv (reconcileStalled ord d s)"
  unfolding reconcileStalled_def by (auto intro: inv_fold inv_stall_one)

lemma inv_invalidateRun: "sched_inv s \<Longrightarrow> sched_inv (invalidateRun d entry cleanup s)"
proof -
  assume "sched_inv s"
  let ?k = "wi_ID (re_Item entry)"
  have "sched_inv (s\<lparr>sd_running := mdel ?k (sd_running s)\<rparr>)" (is "sched_inv ?a")
    using \<open>sched_inv s\<close> by (rule inv_del_running)
  then have "sched_inv (?a\<lparr>sd_claimed := mdel ?k (sd_claimed ?a)\<rparr>)" (is "sched_inv ?b")
    by (rule inv_unclaim) (simp add: gomap)
  then have "sched_inv (?b\<lparr>sd_retrying := mdel ?k (sd_retrying ?b)\<rparr>)" by (rule inv_del_retrying)
  then show ?thesis by (simp add: invalidateRun_def Let_def)
qed

lemma visible_items_id: "mget (visible_items items) k = Some item \<Longrightarrow> wi_ID item = k \<and> item \<in> set items"
proof -
  have "mget (foldl (\<lambda>m i. mput (wi_ID i) i m) m0 items) k = Some item \<Longrightarrow>
      (wi_ID item = k \<and> item \<in> set items) \<or> mget m0 k = Some item" for m0
    by (induction items arbitrary: m0) (fastforce simp: gomap split: if_splits)+
  then show "mget (visible_items items) k = Some item \<Longrightarrow> wi_ID item = k \<and> item \<in> set items"
    unfolding visible_items_def by fastforce
qed

subsection \<open>Reconciling the running runs\<close>

text \<open>
  What \<open>reconcileRunning\<close> decides about one run, given what the tracker now says of its item:
  \<open>reconcile_keeps\<close> whether it goes on, \<open>reconcile_stop\<close> how it is stopped otherwise.
\<close>

definition reconcile_keeps :: "sched \<Rightarrow> work_item option \<Rightarrow> bool" where
  "reconcile_keeps s v = (case v of None \<Rightarrow> False | Some item \<Rightarrow>
     \<not> isTerminal s (wi_State item) \<and> isActive s (wi_State item) \<and> wi_Routable item \<noteq> Some False)"

definition reconcile_cleanup :: "sched \<Rightarrow> work_item option \<Rightarrow> bool" where
  "reconcile_cleanup s v = (case v of None \<Rightarrow> False | Some item \<Rightarrow> isTerminal s (wi_State item))"

definition stop_call :: "running_entry \<Rightarrow> bool \<Rightarrow> call" where
  "stop_call e cleanup = CallStop \<lparr>sp_ItemID = wi_ID (re_Item e),
     sp_ItemIdentifier = wi_Identifier (re_Item e), sp_Handle = re_Handle e, sp_CleanupWorkspace = cleanup\<rparr>"

lemma reconcile_one_alt:
  "reconcile_one d vis (k, e) s =
     (if reconcile_keeps s (mget vis k)
      then s\<lparr>sd_running := mput k (e\<lparr>re_Item := the (mget vis k)\<rparr>) (sd_running s)\<rparr>
      else invalidateRun d e (reconcile_cleanup s (mget vis k)) s)"
  by (simp add: reconcile_one_def reconcile_keeps_def reconcile_cleanup_def Let_def split: option.split)

lemma invalidateRun_fields [simp]:
  "sd_running (invalidateRun d e c s) = mdel (wi_ID (re_Item e)) (sd_running s)"
  "sd_claimed (invalidateRun d e c s) = mdel (wi_ID (re_Item e)) (sd_claimed s)"
  "sd_retrying (invalidateRun d e c s) = mdel (wi_ID (re_Item e)) (sd_retrying s)"
  "sd_activeStates (invalidateRun d e c s) = sd_activeStates s"
  "sd_terminalStates (invalidateRun d e c s) = sd_terminalStates s"
  "sd_maxConcurrent (invalidateRun d e c s) = sd_maxConcurrent s"
  "sd_retryNonce (invalidateRun d e c s) = sd_retryNonce s"
  "sd_checking (invalidateRun d e c s) = sd_checking s"
  "sd_pollNonce (invalidateRun d e c s) = sd_pollNonce s"
  by (simp_all add: invalidateRun_def Let_def)

lemma invalidateRun_calls:
  "sd_calls (invalidateRun d e c s) = sd_calls s @ (if dp_stopRun d = None then [] else [stop_call e c])"
  by (simp add: invalidateRun_def stopWithIntent_def stop_call_def Let_def split: option.split)

lemma reconcile_one_states [simp]:
  "sd_activeStates (reconcile_one d vis kv s) = sd_activeStates s"
  "sd_terminalStates (reconcile_one d vis kv s) = sd_terminalStates s"
  "reconcile_keeps (reconcile_one d vis kv s) = reconcile_keeps s"
  "reconcile_cleanup (reconcile_one d vis kv s) = reconcile_cleanup s"
proof -
  obtain k e where kv: "kv = (k, e)" by fastforce
  show a: "sd_activeStates (reconcile_one d vis kv s) = sd_activeStates s"
    and t: "sd_terminalStates (reconcile_one d vis kv s) = sd_terminalStates s"
    by (simp_all add: kv reconcile_one_alt)
  show "reconcile_keeps (reconcile_one d vis kv s) = reconcile_keeps s"
    "reconcile_cleanup (reconcile_one d vis kv s) = reconcile_cleanup s"
    by (rule ext; simp add: reconcile_keeps_def reconcile_cleanup_def isActive_def isTerminal_def a t
        split: option.split)+
qed

definition visible_ok :: "(string, work_item) gomap \<Rightarrow> bool" where
  "visible_ok vis \<longleftrightarrow> (\<forall>k item. mget vis k = Some item \<longrightarrow> wi_ID item = k)"

lemma visible_ok_items: "visible_ok (visible_items items)"
  using visible_items_id by (auto simp: visible_ok_def)

lemma reconcile_one_other:
  "k' \<noteq> k \<Longrightarrow> wi_ID (re_Item e) = k \<Longrightarrow>
     mget (sd_running (reconcile_one d vis (k, e) s)) k' = mget (sd_running s) k'"
  by (simp add: reconcile_one_alt gomap)

lemma reconcile_one_maps:
  assumes "wi_ID (re_Item e) = k"
  shows "mget (sd_claimed (reconcile_one d vis (k, e) s)) k' =
      (if k' = k \<and> \<not> reconcile_keeps s (mget vis k) then None else mget (sd_claimed s) k')"
    and "mget (sd_retrying (reconcile_one d vis (k, e) s)) k' =
      (if k' = k \<and> \<not> reconcile_keeps s (mget vis k) then None else mget (sd_retrying s) k')"
    and "sd_calls (reconcile_one d vis (k, e) s) = sd_calls s @
      (if dp_stopRun d = None \<or> reconcile_keeps s (mget vis k) then []
       else [stop_call e (reconcile_cleanup s (mget vis k))])"
  using assms by (simp_all add: reconcile_one_alt invalidateRun_calls gomap)

lemma inv_reconcile_one:
  assumes "sched_inv s" "mget (sd_running s) k = Some e" "visible_ok vis"
  shows "sched_inv (reconcile_one d vis (k, e) s)"
proof (cases "reconcile_keeps s (mget vis k)")
  case True
  then obtain item where "mget vis k = Some item"
    by (auto simp: reconcile_keeps_def split: option.splits)
  with True assms show ?thesis
    by (simp add: reconcile_one_alt visible_ok_def inv_update_running)
qed (simp add: reconcile_one_alt inv_invalidateRun assms(1))

text \<open>The loop: entries not yet visited are still as they were.\<close>

definition pending_runs :: "(string \<times> running_entry) list \<Rightarrow> sched \<Rightarrow> bool" where
  "pending_runs kvs s \<longleftrightarrow> distinct (map fst kvs) \<and>
     (\<forall>(k, e) \<in> set kvs. mget (sd_running s) k = Some e \<and> wi_ID (re_Item e) = k)"

lemma pending_runs_step:
  assumes "pending_runs ((k, e) # kvs) s"
  shows "pending_runs kvs (reconcile_one d vis (k, e) s)"
proof -
  have id: "wi_ID (re_Item e) = k" and new: "k \<notin> fst ` set kvs" and d: "distinct (map fst kvs)"
    using assms by (auto simp: pending_runs_def)
  have "mget (sd_running (reconcile_one d vis (k, e) s)) k' = Some e' \<and> wi_ID (re_Item e') = k'"
    if "(k', e') \<in> set kvs" for k' e'
  proof -
    have "k' \<noteq> k" using that new by force
    with that id assms show ?thesis by (auto simp: pending_runs_def reconcile_one_other)
  qed
  with d show ?thesis by (auto simp: pending_runs_def)
qed

lemma pending_runs_range:
  assumes "sched_inv s" "order_ok ord" "sd_running s' = sd_running s"
  shows "pending_runs (range_entries ord (sd_running s)) s'"
proof -
  have ok: "mok (sd_running s)" using assms(1) by (simp add: sched_inv_def keyed_def)
  show ?thesis
    using assms ok by (auto simp: pending_runs_def set_range_entries mget_mem sched_inv_def keyed_def)
qed

lemma inv_reconcile_fold:
  "sched_inv s \<Longrightarrow> pending_runs kvs s \<Longrightarrow> visible_ok vis \<Longrightarrow> sched_inv (fold (reconcile_one d vis) kvs s)"
proof (induction kvs arbitrary: s)
  case (Cons kv kvs)
  obtain k e where kv: "kv = (k, e)" by fastforce
  have "mget (sd_running s) k = Some e" using Cons.prems(2) by (simp add: kv pending_runs_def)
  then have "sched_inv (reconcile_one d vis (k, e) s)"
    using Cons.prems by (intro inv_reconcile_one)
  with Cons kv pending_runs_step show ?case by fastforce
qed simp

text \<open>What the loop leaves: the running map, the claims, the retries and the stop calls.\<close>

definition reconciled_run :: "sched \<Rightarrow> (string, work_item) gomap \<Rightarrow> string \<Rightarrow> running_entry option" where
  "reconciled_run s vis k = (case mget (sd_running s) k of None \<Rightarrow> None
     | Some e \<Rightarrow> if reconcile_keeps s (mget vis k) then Some (e\<lparr>re_Item := the (mget vis k)\<rparr>) else None)"

definition drop_calls :: "sched \<Rightarrow> (string, work_item) gomap \<Rightarrow> (string \<times> running_entry) list \<Rightarrow> call list" where
  "drop_calls s vis kvs = map (\<lambda>(k, e). stop_call e (reconcile_cleanup s (mget vis k)))
     (filter (\<lambda>(k, e). \<not> reconcile_keeps s (mget vis k)) kvs)"

lemma reconciled_run_step:
  "k \<noteq> k1 \<Longrightarrow> wi_ID (re_Item e1) = k1 \<Longrightarrow>
     reconciled_run (reconcile_one d vis (k1, e1) s) vis k = reconciled_run s vis k"
  by (simp add: reconciled_run_def reconcile_one_other split: option.split)

lemma reconcile_fold_running:
  "pending_runs kvs s \<Longrightarrow> mget (sd_running (fold (reconcile_one d vis) kvs s)) k =
     (if k \<in> fst ` set kvs then reconciled_run s vis k else mget (sd_running s) k)"
proof (induction kvs arbitrary: s)
  case (Cons kv kvs)
  obtain k1 e1 where kv: "kv = (k1, e1)" by fastforce
  have p: "mget (sd_running s) k1 = Some e1" "wi_ID (re_Item e1) = k1" "k1 \<notin> fst ` set kvs"
    using Cons.prems by (auto simp: kv pending_runs_def)
  have "pending_runs kvs (reconcile_one d vis kv s)"
    using Cons.prems pending_runs_step by (simp add: kv)
  note IH = Cons.IH [OF this]
  show ?case
  proof (cases "k = k1")
    case True
    with IH p show ?thesis by (simp add: kv reconcile_one_alt reconciled_run_def gomap)
  next
    case False
    with IH p show ?thesis by (simp add: kv reconcile_one_other reconciled_run_step)
  qed
qed simp

lemma reconcile_fold_dropped:
  assumes "pending_runs kvs s"
  shows "mget (sd_claimed (fold (reconcile_one d vis) kvs s)) k =
     (if k \<in> fst ` set kvs \<and> \<not> reconcile_keeps s (mget vis k) then None else mget (sd_claimed s) k)"
    and "mget (sd_retrying (fold (reconcile_one d vis) kvs s)) k =
     (if k \<in> fst ` set kvs \<and> \<not> reconcile_keeps s (mget vis k) then None else mget (sd_retrying s) k)"
proof -
  have "mget (sd_claimed (fold (reconcile_one d vis) kvs s)) k =
     (if k \<in> fst ` set kvs \<and> \<not> reconcile_keeps s (mget vis k) then None else mget (sd_claimed s) k)
     \<and> mget (sd_retrying (fold (reconcile_one d vis) kvs s)) k =
     (if k \<in> fst ` set kvs \<and> \<not> reconcile_keeps s (mget vis k) then None else mget (sd_retrying s) k)"
    using assms
  proof (induction kvs arbitrary: s)
    case (Cons kv kvs)
    obtain k1 e1 where kv: "kv = (k1, e1)" by fastforce
    have p: "wi_ID (re_Item e1) = k1" "k1 \<notin> fst ` set kvs"
      using Cons.prems by (auto simp: kv pending_runs_def)
    have "pending_runs kvs (reconcile_one d vis kv s)"
      using Cons.prems pending_runs_step by (simp add: kv)
    from Cons.IH [OF this] p show ?case
      by (cases "k = k1") (simp_all add: kv reconcile_one_maps)
  qed simp
  then show "mget (sd_claimed (fold (reconcile_one d vis) kvs s)) k =
     (if k \<in> fst ` set kvs \<and> \<not> reconcile_keeps s (mget vis k) then None else mget (sd_claimed s) k)"
    and "mget (sd_retrying (fold (reconcile_one d vis) kvs s)) k =
     (if k \<in> fst ` set kvs \<and> \<not> reconcile_keeps s (mget vis k) then None else mget (sd_retrying s) k)"
    by blast+
qed

lemma reconcile_fold_calls:
  "dp_stopRun d = Some g \<Longrightarrow>
     sd_calls (fold (reconcile_one d vis) kvs s) = sd_calls s @ drop_calls s vis kvs"
proof (induction kvs arbitrary: s)
  case (Cons kv kvs)
  obtain k1 e1 where kv: "kv = (k1, e1)" by fastforce
  have "sd_calls (reconcile_one d vis kv s) @ drop_calls s vis kvs = sd_calls s @ drop_calls s vis (kv # kvs)"
    using Cons.prems by (auto simp: kv drop_calls_def reconcile_one_alt invalidateRun_calls)
  moreover have "drop_calls (reconcile_one d vis kv s) vis kvs = drop_calls s vis kvs"
    by (simp add: drop_calls_def)
  ultimately show ?case using Cons by simp
qed (simp add: drop_calls_def)

lemma inv_reconcileRunning:
  assumes "sched_inv s" "order_ok ord2"
  shows "sched_inv (reconcileRunning ord1 ord2 d s)"
proof -
  have "sched_inv (fold (reconcile_one d (visible_items items)) (range_entries ord2 (sd_running s))
      (log_call c s))" for items c
    using assms pending_runs_range [OF assms, of "log_call c s"]
    by (intro inv_reconcile_fold) (simp_all add: visible_ok_items)
  with assms(1) show ?thesis
    by (simp add: reconcileRunning_def Let_def split: option.split sum.split)
qed

end
