(* ===== verification/Orch_Service.thy ===== *)
theory Orch_Service
  imports Scheduler_Inv
begin

text \<open>
  \<open>internal/orchestrator/service.go\<close> and \<open>public.go\<close>: the service around the scheduler state.
  Every method runs under the service's mutex, so each is one atomic step. A timer made by
  \<open>AfterFunc\<close> is an entry of \<open>vc_timers\<close> and its handle is the index: \<open>Armed\<close> until it
  expires or is stopped; an expired timer has its callback started, which may have to wait for
  the mutex, and \<open>Stop\<close> no longer holds it back; \<open>Delivered\<close> once the callback has run. The
  relation \<open>svc_step\<close> interleaves expiries, callbacks and the public methods in any order.
\<close>

subsection \<open>Timers\<close>

datatype callback = PollTick nat | PollCycle nat | RetryTick string nat

datatype timer_status = Armed | Expired | Stopped | Delivered

record timer =
  tm_delay :: gduration
  tm_callback :: callback
  tm_status :: timer_status

definition pending :: "timer \<Rightarrow> bool" where
  "pending t \<longleftrightarrow> tm_status t = Armed \<or> tm_status t = Expired"

definition stop_timer :: "nat \<Rightarrow> timer list \<Rightarrow> timer list" where
  "stop_timer h ts = (if h < length ts \<and> tm_status (ts ! h) = Armed
     then ts[h := (ts ! h)\<lparr>tm_status := Stopped\<rparr>] else ts)"

definition stop_opt :: "handle \<Rightarrow> timer list \<Rightarrow> timer list" where
  "stop_opt h ts = (case h of None \<Rightarrow> ts | Some i \<Rightarrow> stop_timer i ts)"

subsection \<open>The service\<close>

record scheduled_retry =
  sc_nonce :: nat
  sc_timer :: nat

record service =
  vc_state :: sched
  vc_deps :: deps
  vc_timers :: "timer list"
  vc_pollTransitionDelay :: gduration
  vc_pollTimer :: "nat option"
  vc_pollCycleTimer :: "nat option"
  vc_retryTimers :: "(string, scheduled_retry) gomap"
  vc_closed :: bool

text \<open>The visiting orders of the map loops of one handler.\<close>

record orders =
  or_stalled :: "string range_order"
  or_ids :: "string range_order"
  or_running :: "string range_order"
  or_timers :: "string range_order"
  or_retries :: "string range_order"

definition orders_ok :: "orders \<Rightarrow> bool" where
  "orders_ok r \<longleftrightarrow> order_ok (or_stalled r) \<and> order_ok (or_ids r) \<and> order_ok (or_running r)
     \<and> order_ok (or_timers r) \<and> order_ok (or_retries r)"

definition AfterFunc :: "gduration \<Rightarrow> callback \<Rightarrow> service \<Rightarrow> nat \<times> service" where
  "AfterFunc delay f v = (length (vc_timers v),
     v\<lparr>vc_timers := vc_timers v @ [\<lparr>tm_delay = delay, tm_callback = f, tm_status = Armed\<rparr>]\<rparr>)"

definition schedulePoll :: "gduration \<Rightarrow> service \<Rightarrow> service" where
  "schedulePoll delay v =
     (if vc_closed v then v
      else let v1 = v\<lparr>vc_timers := stop_opt (vc_pollTimer v) (vc_timers v)\<rparr>;
               (nonce, st) = schedulePollAt (Now (vc_state v1) + delay) (tick (vc_state v1));
               (h, v2) = AfterFunc delay (PollTick nonce) (v1\<lparr>vc_state := st\<rparr>)
           in v2\<lparr>vc_pollTimer := Some h\<rparr>)"

definition newService ::
  "settings \<Rightarrow> deps \<Rightarrow> (nat \<Rightarrow> gtime) \<Rightarrow> string range_order \<Rightarrow> gduration \<Rightarrow> service" where
  "newService cfg d clk ord transitionDelay =
     (let d = (if dp_hostSelection d = None \<and> dp_admitRun d = None
               then d\<lparr>dp_hostSelection := Some \<lparr>hs_Hosts = wk_SSHHosts (st_Worker cfg),
                       hs_MaxPerHost = wk_MaxConcurrentAgentsPerHost (st_Worker cfg)\<rparr>\<rparr>
               else d)
      in schedulePoll 0 \<lparr>vc_state = newSchedulerState cfg clk ord, vc_deps = d, vc_timers = [],
           vc_pollTransitionDelay = transitionDelay, vc_pollTimer = None, vc_pollCycleTimer = None,
           vc_retryTimers = [], vc_closed = False\<rparr>)"

definition svc_close :: "service \<Rightarrow> service" where
  "svc_close v =
     (let ts = stop_opt (vc_pollCycleTimer v) (stop_opt (vc_pollTimer v) (vc_timers v)) in
      v\<lparr>vc_closed := True,
        vc_timers := fold (\<lambda>(k, sc). stop_timer (sc_timer sc)) (vc_retryTimers v) ts,
        vc_retryTimers := []\<rparr>)"

definition svc_requestRefresh :: "service \<Rightarrow> refresh_result \<times> service" where
  "svc_requestRefresh v =
     (let (result, st) = requestRefresh (vc_state v); v1 = v\<lparr>vc_state := st\<rparr> in
      (result, if \<not> rr_Coalesced result then schedulePoll 0 v1 else v1))"

subsection \<open>Retry timers\<close>

text \<open>The two loops of \<open>syncRetryTimersLocked\<close>.\<close>

definition sync_stop :: "string \<times> scheduled_retry \<Rightarrow> service \<Rightarrow> service" where
  "sync_stop kv v =
     (case mget (sd_retrying (vc_state v)) (fst kv) of
        Some entry \<Rightarrow> (if sc_nonce (snd kv) = te_Nonce entry then v
          else v\<lparr>vc_timers := stop_timer (sc_timer (snd kv)) (vc_timers v),
                 vc_retryTimers := mdel (fst kv) (vc_retryTimers v)\<rparr>)
      | None \<Rightarrow> v\<lparr>vc_timers := stop_timer (sc_timer (snd kv)) (vc_timers v),
                 vc_retryTimers := mdel (fst kv) (vc_retryTimers v)\<rparr>)"

definition sync_arm :: "gtime \<Rightarrow> string \<times> retry_entry \<Rightarrow> service \<Rightarrow> service" where
  "sync_arm now kv v =
     (if (case mget (vc_retryTimers v) (fst kv) of None \<Rightarrow> False
          | Some current \<Rightarrow> sc_nonce current = te_Nonce (snd kv)) then v
      else let delay = te_DueAt (snd kv) - now;
               delay = (if delay < 0 then 0 else delay);
               (h, v1) = AfterFunc delay (RetryTick (fst kv) (te_Nonce (snd kv))) v
           in v1\<lparr>vc_retryTimers := mput (fst kv) \<lparr>sc_nonce = te_Nonce (snd kv), sc_timer = h\<rparr>
                  (vc_retryTimers v1)\<rparr>)"

definition syncRetryTimers :: "orders \<Rightarrow> service \<Rightarrow> service" where
  "syncRetryTimers r v =
     (let v1 = fold sync_stop (range_entries (or_timers r) (vc_retryTimers v)) v;
          now = Now (vc_state v1);
          v2 = v1\<lparr>vc_state := tick (vc_state v1)\<rparr>
      in fold (sync_arm now) (range_entries (or_retries r) (sd_retrying (vc_state v2))) v2)"

definition svc_applyRunEvent :: "orders \<Rightarrow> run_event \<Rightarrow> service \<Rightarrow> service" where
  "svc_applyRunEvent r ev v = syncRetryTimers r (v\<lparr>vc_state := applyRunEvent ev (vc_state v)\<rparr>)"

subsection \<open>Timer callbacks\<close>

definition handlePollTick :: "nat \<Rightarrow> service \<Rightarrow> service" where
  "handlePollTick nonce v =
     (if vc_closed v then v
      else let (begun, st) = beginPoll nonce (vc_state v) in
        if \<not> begun then v
        else let v1 = v\<lparr>vc_state := st, vc_timers := stop_opt (vc_pollCycleTimer v) (vc_timers v)\<rparr>;
                 (h, v2) = AfterFunc (vc_pollTransitionDelay v1) (PollCycle nonce) v1
             in v2\<lparr>vc_pollCycleTimer := Some h\<rparr>)"

text \<open>The scheduler's part of a poll cycle: reconcile, list, dispatch.\<close>

definition poll_work :: "orders \<Rightarrow> deps \<Rightarrow> sched \<Rightarrow> sched" where
  "poll_work r d s =
     (let s1 = reconcileRunning (or_ids r) (or_running r) d (reconcileStalled (or_stalled r) d s) in
      case dp_listCandidates d of
        None \<Rightarrow> s1
      | Some f \<Rightarrow> (let s2 = log_call CallListCandidates s1 in
          case f (sd_calls s1) of Inl err \<Rightarrow> s2 | Inr candidates \<Rightarrow> processCandidates d candidates s2))"

definition handlePollCycle :: "orders \<Rightarrow> nat \<Rightarrow> service \<Rightarrow> service" where
  "handlePollCycle r nonce v =
     (if vc_closed v \<or> \<not> sd_checking (vc_state v) \<or> nonce \<noteq> sd_pollNonce (vc_state v) then v
      else let v1 = syncRetryTimers r (v\<lparr>vc_state := poll_work r (vc_deps v) (vc_state v)\<rparr>);
               v2 = v1\<lparr>vc_state := finishPoll (vc_state v1)\<rparr>
           in schedulePoll (sd_interval (vc_state v2)) v2)"

definition handleRetryTick :: "orders \<Rightarrow> string \<Rightarrow> nat \<Rightarrow> service \<Rightarrow> service" where
  "handleRetryTick r itemID nonce v =
     (if vc_closed v then v
      else let v1 = (case mget (vc_retryTimers v) itemID of
                 None \<Rightarrow> v
               | Some current \<Rightarrow> if sc_nonce current = nonce
                   then v\<lparr>vc_retryTimers := mdel itemID (vc_retryTimers v)\<rparr> else v);
               v2 = v1\<lparr>vc_state := handleDueRetry (vc_deps v1) itemID nonce (vc_state v1)\<rparr>
           in syncRetryTimers r v2)"

fun run_callback :: "orders \<Rightarrow> callback \<Rightarrow> service \<Rightarrow> service" where
  "run_callback r (PollTick n) v = handlePollTick n v"
| "run_callback r (PollCycle n) v = handlePollCycle r n v"
| "run_callback r (RetryTick k n) v = handleRetryTick r k n v"

definition set_status :: "nat \<Rightarrow> timer_status \<Rightarrow> service \<Rightarrow> service" where
  "set_status i st v = v\<lparr>vc_timers := (vc_timers v)[i := (vc_timers v ! i)\<lparr>tm_status := st\<rparr>]\<rparr>"

inductive svc_step :: "service \<Rightarrow> service \<Rightarrow> bool" where
  step_expire: "i < length (vc_timers v) \<Longrightarrow> tm_status (vc_timers v ! i) = Armed \<Longrightarrow>
     svc_step v (set_status i Expired v)"
| step_deliver: "i < length (vc_timers v) \<Longrightarrow> tm_status (vc_timers v ! i) = Expired \<Longrightarrow> orders_ok r \<Longrightarrow>
     svc_step v (run_callback r (tm_callback (vc_timers v ! i)) (set_status i Delivered v))"
| step_refresh: "svc_step v (snd (svc_requestRefresh v))"
| step_event: "orders_ok r \<Longrightarrow> svc_step v (svc_applyRunEvent r ev v)"
| step_close: "svc_step v (svc_close v)"

inductive svc_reachable :: "settings \<Rightarrow> deps \<Rightarrow> service \<Rightarrow> bool" for cfg d where
  reach_new: "order_ok ord \<Longrightarrow> svc_reachable cfg d (newService cfg d clk ord transitionDelay)"
| reach_step: "svc_reachable cfg d v \<Longrightarrow> svc_step v w \<Longrightarrow> svc_reachable cfg d w"

inductive_cases svc_stepE: "svc_step v w"

subsection \<open>\<open>public.go\<close>\<close>

text \<open>\<open>Service\<close> guards the inner service's \<open>close\<close>; a nil receiver or inner service is \<open>None\<close>.\<close>

record public_service =
  pu_inner :: "service option"
  pu_closed :: bool

definition defaultPollTransitionDelay :: gduration where
  "defaultPollTransitionDelay = 20 * millisecond"

text \<open>\<open>Start\<close> passes the four functions on; the other two dependencies stay nil.\<close>

definition public_Start :: "settings \<Rightarrow> deps \<Rightarrow> (nat \<Rightarrow> gtime) \<Rightarrow> string range_order \<Rightarrow> public_service" where
  "public_Start cfg d clk ord =
     \<lparr>pu_inner = Some (newService cfg (d\<lparr>dp_hostSelection := None, dp_admitRun := None\<rparr>) clk ord
        defaultPollTransitionDelay), pu_closed = False\<rparr>"

definition empty_snapshot :: snapshot where
  "empty_snapshot = \<lparr>sn_Running = [], sn_Retrying = [],
     sn_Polling = \<lparr>ps_Checking = False, ps_NextPollAt = None, ps_Interval = 0\<rparr>,
     sn_CodexTotals = zero_totals, sn_RateLimits = None\<rparr>"

definition public_Snapshot ::
  "string range_order \<Rightarrow> string range_order \<Rightarrow> public_service option \<Rightarrow> snapshot" where
  "public_Snapshot ord1 ord2 p = (case p of None \<Rightarrow> empty_snapshot
     | Some p \<Rightarrow> (case pu_inner p of None \<Rightarrow> empty_snapshot
       | Some v \<Rightarrow> snapshot_of ord1 ord2 (vc_state v)))"

definition public_RequestRefresh :: "public_service option \<Rightarrow> refresh_result \<times> public_service option" where
  "public_RequestRefresh p = (case p of None \<Rightarrow> (\<lparr>rr_Queued = False, rr_Coalesced = False\<rparr>, p)
     | Some q \<Rightarrow> (case pu_inner q of None \<Rightarrow> (\<lparr>rr_Queued = False, rr_Coalesced = False\<rparr>, p)
       | Some v \<Rightarrow> (let (res, v1) = svc_requestRefresh v in (res, Some (q\<lparr>pu_inner := Some v1\<rparr>)))))"

definition public_ApplyRunEvent :: "orders \<Rightarrow> run_event \<Rightarrow> public_service option \<Rightarrow> public_service option" where
  "public_ApplyRunEvent r ev p = (case p of None \<Rightarrow> p
     | Some q \<Rightarrow> (case pu_inner q of None \<Rightarrow> p
       | Some v \<Rightarrow> Some (q\<lparr>pu_inner := Some (svc_applyRunEvent r ev v)\<rparr>)))"

definition public_Close :: "public_service option \<Rightarrow> public_service option" where
  "public_Close p = (case p of None \<Rightarrow> p
     | Some q \<Rightarrow> (case pu_inner q of None \<Rightarrow> p
       | Some v \<Rightarrow> (if pu_closed q then p
           else Some (q\<lparr>pu_closed := True, pu_inner := Some (svc_close v)\<rparr>))))"

end
