(* ===== verification/Scheduler_Calls.thy ===== *)
theory Scheduler_Calls
  imports Scheduler_Inv
begin

text \<open>
  Two facts every operation of the scheduler keeps: the poll bookkeeping and the configuration
  stay as they are (\<open>poll_frame\<close>), and every \<open>startRun\<close> call is made for an item that the
  immediately preceding \<open>refreshItems\<close> call returned and that passes the dispatch gate
  (\<open>fresh_starts\<close>).
\<close>

declare map_of_eq_Some_iff [simp del]

definition poll_frame :: "sched \<Rightarrow> sched \<Rightarrow> bool" where
  "poll_frame s t \<longleftrightarrow> sd_checking t = sd_checking s \<and> sd_pollNonce t = sd_pollNonce s
     \<and> sd_nextPollAt t = sd_nextPollAt s \<and> sd_interval t = sd_interval s
     \<and> sd_maxConcurrent t = sd_maxConcurrent s \<and> sd_activeStates t = sd_activeStates s
     \<and> sd_terminalStates t = sd_terminalStates s"

lemma poll_frame_refl [simp]: "poll_frame s s"
  by (simp add: poll_frame_def)

lemma poll_frame_trans: "poll_frame s t \<Longrightarrow> poll_frame t u \<Longrightarrow> poll_frame s u"
  by (simp add: poll_frame_def)

lemma poll_frame_fold: "(\<And>x s. poll_frame s (f x s)) \<Longrightarrow> poll_frame s (fold f xs s)"
proof (induction xs arbitrary: s)
  case (Cons x xs)
  then show ?case by (metis fold_simps(2) poll_frame_trans)
qed simp

lemma poll_frame_isRetryCandidate: "poll_frame s t \<Longrightarrow> isRetryCandidate t = isRetryCandidate s"
  by (rule ext) (simp add: poll_frame_def isRetryCandidate_def isTerminal_def isActive_def)

lemma poll_frame_ops:
  "poll_frame s (tick s)" "poll_frame s (log_call c s)" "poll_frame s (stopWithIntent d k i h b s)"
  "poll_frame s (scheduleFailureRetry k i n m w p s)" "poll_frame s (scheduleContinuationRetry k i w p s)"
  "poll_frame s (snd (dispatchItem d item n p s))" "poll_frame s (invalidateRun d e b s)"
  "poll_frame s (snd (refreshRetryItem d k s))" "poll_frame s (snd (revalidateCandidate d k s))"
  by (auto simp: poll_frame_def tick_def log_call_def stopWithIntent_def scheduleFailureRetry_def
      scheduleContinuationRetry_def dispatchItem_def call_start_def invalidateRun_def
      refreshRetryItem_def revalidateCandidate_def Let_def
      split: option.splits sum.splits prod.splits list.splits)

text \<open>No start among the calls an operation adds.\<close>

fun is_start :: "call \<Rightarrow> bool" where
  "is_start (CallStart q) = True"
| "is_start _ = False"

definition quiet :: "sched \<Rightarrow> sched \<Rightarrow> bool" where
  "quiet s t \<longleftrightarrow> poll_frame s t \<and> (\<exists>cs. sd_calls t = sd_calls s @ cs \<and> (\<forall>c \<in> set cs. \<not> is_start c))"

lemma quiet_refl [simp]: "quiet s s"
  by (simp add: quiet_def)

lemma quiet_trans:
  assumes "quiet s t" "quiet t u"
  shows "quiet s u"
proof -
  obtain cs cs' where "sd_calls t = sd_calls s @ cs" "\<forall>c \<in> set cs. \<not> is_start c"
    "sd_calls u = sd_calls t @ cs'" "\<forall>c \<in> set cs'. \<not> is_start c"
    using assms by (auto simp: quiet_def)
  then have "sd_calls u = sd_calls s @ (cs @ cs')" "\<forall>c \<in> set (cs @ cs'). \<not> is_start c" by auto
  then show ?thesis using assms poll_frame_trans unfolding quiet_def by blast
qed

lemma quiet_fold: "(\<And>x s. quiet s (f x s)) \<Longrightarrow> quiet s (fold f xs s)"
proof (induction xs arbitrary: s)
  case (Cons x xs)
  then show ?case by (metis fold_simps(2) quiet_trans)
qed simp

lemma quietI: "poll_frame s t \<Longrightarrow> sd_calls t = sd_calls s @ cs \<Longrightarrow> (\<forall>c \<in> set cs. \<not> is_start c) \<Longrightarrow> quiet s t"
  unfolding quiet_def by blast

lemma quiet_log: "\<not> is_start c \<Longrightarrow> quiet s (log_call c s)"
  by (rule quietI [of _ _ "[c]"]) (simp_all add: poll_frame_ops)

lemma quiet_same: "poll_frame s t \<Longrightarrow> sd_calls t = sd_calls s \<Longrightarrow> quiet s t"
  by (rule quietI [of _ _ "[]"]) simp_all

lemma quiet_stop: "quiet s (stopWithIntent d k i h b s)"
  by (simp add: stopWithIntent_def quiet_log split: option.split)

lemma quiet_failure: "quiet s (scheduleFailureRetry k i a e h p s)"
  by (rule quiet_same) (simp_all add: poll_frame_ops, simp add: scheduleFailureRetry_def Let_def)

lemma quiet_continuation: "quiet s (scheduleContinuationRetry k i h p s)"
  by (rule quiet_same) (simp_all add: poll_frame_ops, simp add: scheduleContinuationRetry_def Let_def)

lemma quiet_refresh: "quiet s (snd (refreshRetryItem d k s))"
proof -
  obtain item status t where r: "refreshRetryItem d k s = ((item, status), t)" by (metis prod.exhaust)
  from refreshRetryItem_frame [OF r] r show ?thesis by (auto simp: quiet_log)
qed

lemma quiet_revalidate: "quiet s (snd (revalidateCandidate d k s))"
proof -
  obtain r t where r: "revalidateCandidate d k s = (r, t)" by fastforce
  from revalidateCandidate_frame [OF r] r show ?thesis by (auto simp: quiet_log)
qed

lemma quiet_stall_one: "quiet s (stall_one d now kv s)"
proof -
  let ?s1 = "s\<lparr>sd_running := mdel (fst kv) (sd_running s)\<rparr>"
  have "quiet s ?s1" by (rule quiet_same) (simp_all add: poll_frame_def)
  then show ?thesis
    by (simp add: stall_one_def Let_def) (meson quiet_failure quiet_stop quiet_trans)
qed

lemma quiet_reconcileStalled: "quiet s (reconcileStalled ord d s)"
proof -
  have "quiet s (tick s)" by (rule quiet_same) (simp_all add: poll_frame_ops)
  moreover have "quiet (tick s) (fold (stall_one d (Now s)) kvs (tick s))" for kvs
    by (rule quiet_fold) (rule quiet_stall_one)
  ultimately show ?thesis by (simp add: reconcileStalled_def quiet_trans)
qed

lemma quiet_reconcile_one: "quiet s (reconcile_one d vis kv s)"
proof -
  obtain k e where kv: "kv = (k, e)" by fastforce
  show ?thesis
  proof (cases "reconcile_keeps s (mget vis k)")
    case True
    then show ?thesis
      by (simp add: kv reconcile_one_alt) (rule quiet_same; simp add: poll_frame_def)
  next
    case False
    have "quiet s (invalidateRun d e b s)" for b
      by (rule quietI [OF _ invalidateRun_calls]) (simp_all add: poll_frame_ops stop_call_def)
    with False show ?thesis by (simp add: kv reconcile_one_alt)
  qed
qed

lemma quiet_reconcileRunning: "quiet s (reconcileRunning ord1 ord2 d s)"
proof -
  have "quiet s (fold (reconcile_one d vis) kvs (log_call (CallRefresh ids) s))" for vis kvs ids
    by (rule quiet_trans [OF quiet_log quiet_fold]) (simp_all add: quiet_reconcile_one)
  then show ?thesis
    by (simp add: reconcileRunning_def Let_def quiet_log split: option.split sum.split)
qed

lemma quiet_applyRunEvent: "quiet s (applyRunEvent ev s)"
proof (rule quiet_same)
  show "poll_frame s (applyRunEvent ev s)" "sd_calls (applyRunEvent ev s) = sd_calls s"
    by (auto simp: applyRunEvent_def applyAggregateDelta_def poll_frame_def Let_def
        scheduleFailureRetry_def scheduleContinuationRetry_def split: option.splits run_event_kind.splits)
qed

subsection \<open>Starts follow a refresh\<close>

text \<open>
  The \<open>i\<close>-th call is a start: the call before it asked the tracker for one item, and the
  answer's first item is the one started, which passes the gate.
\<close>

definition fresh_start :: "deps \<Rightarrow> sched \<Rightarrow> call list \<Rightarrow> work_item \<Rightarrow> bool" where
  "fresh_start d s before item \<longleftrightarrow> isRetryCandidate s item
     \<and> (\<exists>cs id f rest. before = cs @ [CallRefresh [id]] \<and> dp_refreshItems d = Some f
          \<and> f cs [id] = Inr (item # rest))"

definition fresh_starts :: "deps \<Rightarrow> sched \<Rightarrow> bool" where
  "fresh_starts d s \<longleftrightarrow> (\<forall>before q after. sd_calls s = before @ CallStart q # after \<longrightarrow>
     fresh_start d s before (sq_Item q))"

lemma fresh_start_frame: "poll_frame s t \<Longrightarrow> fresh_start d t = fresh_start d s"
  by (intro ext) (simp add: fresh_start_def poll_frame_isRetryCandidate)

lemma split_before:
  assumes "xs @ cs = b @ c # a" "c \<notin> set cs"
  shows "\<exists>a'. xs = b @ c # a'"
proof -
  from assms(1) consider us where "xs = b @ us" "us @ cs = c # a"
    | us where "xs @ us = b" "cs = us @ c # a"
    by (auto simp: append_eq_append_conv2)
  then show ?thesis
  proof cases
    case 1
    then show ?thesis using assms(2) by (cases us) auto
  next
    case 2
    then show ?thesis using assms(2) by simp
  qed
qed

lemma fresh_starts_quiet:
  assumes "fresh_starts d s" "quiet s t"
  shows "fresh_starts d t"
  unfolding fresh_starts_def
proof (intro allI impI)
  fix b q a assume eq: "sd_calls t = b @ CallStart q # a"
  obtain cs where cs: "sd_calls t = sd_calls s @ cs" "\<forall>c \<in> set cs. \<not> is_start c"
    using assms(2) by (auto simp: quiet_def)
  have "CallStart q \<notin> set cs" using cs(2) by auto
  then obtain a' where "sd_calls s = b @ CallStart q # a'"
    using split_before eq cs(1) by metis
  then have "fresh_start d s b (sq_Item q)" using assms(1) by (simp add: fresh_starts_def)
  then show "fresh_start d t b (sq_Item q)"
    using assms(2) fresh_start_frame [of s t d] by (simp add: quiet_def)
qed

lemma fresh_starts_start:
  assumes "fresh_starts d s" "fresh_start d s (sd_calls s) (sq_Item q)"
  shows "fresh_starts d (log_call (CallStart q) s)"
  unfolding fresh_starts_def
proof (intro allI impI)
  fix b q' a assume "sd_calls (log_call (CallStart q) s) = b @ CallStart q' # a"
  then have "sd_calls s @ [CallStart q] = b @ CallStart q' # a" by simp
  then consider "a = []" "b = sd_calls s" "q' = q" | a' where "sd_calls s = b @ CallStart q' # a'"
    by (cases a rule: rev_cases) auto
  then have "fresh_start d s b (sq_Item q')" using assms by cases (auto simp: fresh_starts_def)
  then show "fresh_start d (log_call (CallStart q) s) b (sq_Item q')"
    using fresh_start_frame poll_frame_ops(2) by metis
qed

lemma fresh_starts_dispatchItem:
  assumes "fresh_starts d s" "fresh_start d s (sd_calls s) item"
  shows "fresh_starts d (snd (dispatchItem d item a p s))"
proof -
  obtain host admitted where ah: "admitHost d p s = (host, admitted)" by fastforce
  let ?q = "\<lparr>sq_Item = item, sq_Attempt = a, sq_PreferredHost = host\<rparr>"
  obtain r s1 where cs: "call_start d ?q s = (r, s1)" by fastforce
  have s1: "fresh_starts d s1"
    using call_start_state [OF cs] assms fresh_starts_start by fastforce
  have "quiet s1 (t\<lparr>sd_retrying := z\<rparr>)" if "poll_frame s1 t" "sd_calls t = sd_calls s1" for t z
    by (rule quiet_same) (use that in \<open>simp_all add: poll_frame_def\<close>)
  then have "quiet s1 (snd (dispatchItem d item a p s)) \<or> snd (dispatchItem d item a p s) = s"
    using quiet_failure by (auto simp: dispatchItem_def ah cs Let_def poll_frame_def split: sum.split)
  then show ?thesis using s1 assms(1) fresh_starts_quiet by metis
qed

lemma revalidateCandidate_fresh:
  assumes "revalidateCandidate d k s = (Some item, t)" "mget (sd_running s) k = None"
  shows "fresh_start d t (sd_calls t) item"
  using assms by (auto simp: revalidateCandidate_def fresh_start_def Let_def
      split: option.splits sum.splits list.splits if_splits)

lemma refreshRetryItem_fresh:
  assumes "refreshRetryItem d k s = ((item, retryReady), t)"
  shows "fresh_start d t (sd_calls t) item"
  using assms by (auto simp: refreshRetryItem_def fresh_start_def Let_def
      split: option.splits sum.splits list.splits if_splits)

lemma fresh_starts_process_candidate:
  assumes "fresh_starts d s"
  shows "fresh_starts d (process_candidate d item s)"
proof (cases "shouldDispatch s item")
  case True
  obtain r t where rt: "revalidateCandidate d (wi_ID item) s = (r, t)" by fastforce
  have t: "fresh_starts d t"
    using fresh_starts_quiet [OF assms quiet_revalidate] rt by (metis snd_conv)
  show ?thesis
  proof (cases r)
    case (Some item')
    with rt shouldDispatchD [OF True] have "fresh_start d t (sd_calls t) item'"
      using revalidateCandidate_fresh by blast
    with True rt Some t show ?thesis
      by (simp add: process_candidate_def fresh_starts_dispatchItem)
  qed (use True rt t in \<open>simp add: process_candidate_def\<close>)
qed (simp add: process_candidate_def assms)

lemma fresh_starts_processCandidates:
  "fresh_starts d s \<Longrightarrow> fresh_starts d (processCandidates d items s)"
  unfolding processCandidates_def by (rule inv_fold) (simp_all add: fresh_starts_process_candidate)

lemma poll_frame_processCandidates: "poll_frame s (processCandidates d items s)"
proof -
  have "poll_frame s (process_candidate d item s)" for item s
  proof -
    obtain r t where rt: "revalidateCandidate d (wi_ID item) s = (r, t)" by fastforce
    have "poll_frame s t" using poll_frame_ops(9) rt by (metis snd_conv)
    then show ?thesis
      using rt poll_frame_trans [OF _ poll_frame_ops(6)]
      by (auto simp: process_candidate_def split: option.split)
  qed
  then show ?thesis unfolding processCandidates_def by (rule poll_frame_fold)
qed

lemma handleDueRetry_frame:
  shows "poll_frame s (handleDueRetry d k nonce s)"
    and "fresh_starts d s \<Longrightarrow> fresh_starts d (handleDueRetry d k nonce s)"
proof -
  have "poll_frame s (handleDueRetry d k nonce s)
      \<and> (fresh_starts d s \<longrightarrow> fresh_starts d (handleDueRetry d k nonce s))"
  proof (cases "\<exists>entry. mget (sd_retrying s) k = Some entry \<and> te_Nonce entry = nonce")
    case False
    then show ?thesis by (auto simp: handleDueRetry_def split: option.split)
  next
    case True
    then obtain entry where e: "mget (sd_retrying s) k = Some entry" "te_Nonce entry = nonce" by blast
    let ?s0 = "s\<lparr>sd_retrying := mdel k (sd_retrying s)\<rparr>"
    obtain item status s1 where r: "refreshRetryItem d k ?s0 = ((item, status), s1)"
      by (metis prod.exhaust)
    have "quiet s ?s0" by (rule quiet_same) (simp_all add: poll_frame_def)
    with quiet_refresh [of ?s0 d k] r have s1: "quiet s s1" by (simp add: quiet_trans)
    have un: "quiet s1 (s1\<lparr>sd_claimed := z\<rparr>)" for z by (rule quiet_same) (simp_all add: poll_frame_def)
    let ?t = "handleDueRetry d k nonce s"
    note unf = handleDueRetry_def e(1) e(2) option.case Let_def r prod.case
    have fail: "quiet s (scheduleFailureRetry k i a m h p s1)" for i a m h p
      using s1 quiet_failure quiet_trans by blast
    have stop: "quiet s (stopWithIntent d k i h b (s1\<lparr>sd_claimed := z\<rparr>))" for i h b z
      using s1 un quiet_stop quiet_trans by blast
    show ?thesis
    proof (cases "status = retryReady \<and> \<not> at_capacity s1 \<and> \<not> state_full s1 (wi_State item)")
      case False
      have "quiet s ?t"
        unfolding unf using fail stop un s1 quiet_trans False
        by (auto split: retry_status.split)
      then show ?thesis using fresh_starts_quiet by (auto simp: quiet_def)
    next
      case True
      define s2 where "s2 = snd (dispatchItem d item (te_Attempt entry) (te_WorkerHost entry) s1)"
      have "quiet s2 ?t"
        unfolding unf s2_def using True quiet_failure by (simp split: prod.split bool.split)
      moreover have "poll_frame s s2"
        using s1 poll_frame_ops(6) unfolding s2_def by (metis poll_frame_trans quiet_def)
      moreover have "fresh_starts d s2" if "fresh_starts d s"
      proof -
        have "fresh_starts d s1" using fresh_starts_quiet [OF that s1] .
        moreover have "fresh_start d s1 (sd_calls s1) item"
          using refreshRetryItem_fresh r True by blast
        ultimately show ?thesis unfolding s2_def by (rule fresh_starts_dispatchItem)
      qed
      ultimately show ?thesis
        using fresh_starts_quiet poll_frame_trans unfolding quiet_def by blast
    qed
  qed
  then show "poll_frame s (handleDueRetry d k nonce s)"
    and "fresh_starts d s \<Longrightarrow> fresh_starts d (handleDueRetry d k nonce s)" by blast+
qed

end
