(* ===== verification/Orch_Inv.thy ===== *)
theory Orch_Inv
  imports Orch_Service Scheduler_Calls
begin

text \<open>
  The invariant of the service, kept by every step of \<open>svc_step\<close>: the scheduler's invariant,
  the poll loop is alive (a tick or a cycle with the current nonce is on its way, and only one),
  and the retry timers are exactly the retry entries.
\<close>

declare map_of_eq_Some_iff [simp del]

subsection \<open>Views of the timers\<close>

definition tview :: "timer list \<Rightarrow> nat \<Rightarrow> (callback \<times> bool) option" where
  "tview ts i = (if i < length ts then Some (tm_callback (ts ! i), pending (ts ! i)) else None)"

definition tcb :: "timer list \<Rightarrow> nat \<Rightarrow> callback option" where
  "tcb ts i = map_option fst (tview ts i)"

lemma tcb_Some: "tview ts i = Some (c, l) \<Longrightarrow> tcb ts i = Some c"
  by (simp add: tcb_def)

lemma tcb_append: "tcb (ts @ [t]) i = (if i = length ts then Some (tm_callback t) else tcb ts i)"
  by (auto simp: tcb_def tview_def nth_append)

lemma tcb_length [simp]: "tcb ts (length ts) = None"
  by (simp add: tcb_def tview_def)

lemma tcb_stop [simp]: "tcb (stop_timer h ts) = tcb ts"
  by (rule ext) (auto simp: tcb_def tview_def stop_timer_def nth_list_update)

lemma tcb_stop_opt [simp]: "tcb (stop_opt h ts) = tcb ts"
  by (simp add: stop_opt_def split: option.split)

lemma length_stop [simp]: "length (stop_timer h ts) = length ts" "length (stop_opt g ts) = length ts"
  by (simp_all add: stop_timer_def stop_opt_def split: option.split)

lemma tcb_new: "tcb ts i = Some c \<Longrightarrow> i \<noteq> length ts"
  by auto

lemma tview_append:
  "tview (ts @ [t]) i = (if i = length ts then Some (tm_callback t, pending t) else tview ts i)"
  by (auto simp: tview_def nth_append)

lemma tview_length [simp]: "tview ts (length ts) = None"
  by (simp add: tview_def)

lemma tview_stop_other: "i \<noteq> h \<Longrightarrow> tview (stop_timer h ts) i = tview ts i"
  by (simp add: tview_def stop_timer_def)

lemma tview_stop_self:
  "tview (stop_timer h ts) h = Some (c, l) \<Longrightarrow> \<exists>l'. tview ts h = Some (c, l') \<and> (l \<longrightarrow> l')"
  by (auto simp: tview_def stop_timer_def pending_def split: if_splits)

lemma tview_stop_back: "tview ts h = Some (c, l) \<Longrightarrow> \<exists>l'. tview (stop_timer h ts) h = Some (c, l')"
  by (auto simp: tview_def stop_timer_def split: if_splits)

lemma tview_stop_mono_opt:
  "tview (stop_opt h ts) i = Some (c, l) \<Longrightarrow> \<exists>l'. tview ts i = Some (c, l') \<and> (l \<longrightarrow> l')"
  using tview_stop_self tview_stop_other
  by (cases h; cases "h = Some i") (auto simp: stop_opt_def)

lemma tview_stop_mono:
  "tview (stop_timer h ts) i = Some (c, l) \<Longrightarrow> \<exists>l'. tview ts i = Some (c, l') \<and> (l \<longrightarrow> l')"
  using tview_stop_self tview_stop_other by (cases "i = h") auto

fun is_poll :: "callback \<Rightarrow> bool" where
  "is_poll (RetryTick k n) = False"
| "is_poll _ = True"

definition same_on :: "(callback \<Rightarrow> bool) \<Rightarrow> timer list \<Rightarrow> timer list \<Rightarrow> bool" where
  "same_on P ts us \<longleftrightarrow> (\<forall>i c l. P c \<longrightarrow> (tview us i = Some (c, l)) = (tview ts i = Some (c, l)))"

lemma same_onD: "same_on P ts us \<Longrightarrow> P c \<Longrightarrow> tview us i = Some (c, l) \<longleftrightarrow> tview ts i = Some (c, l)"
  by (auto simp: same_on_def)

lemma same_onI: "(\<And>i c l. P c \<Longrightarrow> tview us i = Some (c, l) \<longleftrightarrow> tview ts i = Some (c, l)) \<Longrightarrow> same_on P ts us"
  by (auto simp: same_on_def)

lemma same_on_refl [simp]: "same_on P ts ts"
  by (rule same_onI) simp

lemma same_on_trans: "same_on P ts us \<Longrightarrow> same_on P us vs \<Longrightarrow> same_on P ts vs"
  by (rule same_onI) (simp add: same_onD)

lemma same_on_append: "\<not> P (tm_callback t) \<Longrightarrow> same_on P ts (ts @ [t])"
  by (rule same_onI) (auto simp: tview_append)

lemma same_on_stop:
  assumes "\<And>c l. tview ts h = Some (c, l) \<Longrightarrow> \<not> P c"
  shows "same_on P ts (stop_timer h ts)"
proof (rule same_onI)
  fix i c l assume "P c"
  show "tview (stop_timer h ts) i = Some (c, l) \<longleftrightarrow> tview ts i = Some (c, l)"
  proof (cases "i = h")
    case True
    with assms \<open>P c\<close> tview_stop_self show ?thesis by metis
  qed (simp add: tview_stop_other)
qed

subsection \<open>The poll loop\<close>

definition poll_shape :: "service \<Rightarrow> bool" where
  "poll_shape v \<longleftrightarrow>
     (\<forall>i n. tcb (vc_timers v) i = Some (PollTick n) \<longrightarrow> n \<le> sd_pollNonce (vc_state v))
     \<and> (\<forall>i n. tcb (vc_timers v) i = Some (PollCycle n) \<longrightarrow> n \<le> sd_pollNonce (vc_state v))
     \<and> (\<forall>i. vc_pollTimer v = Some i \<longrightarrow> (\<exists>n. tcb (vc_timers v) i = Some (PollTick n)))
     \<and> (\<forall>i. vc_pollCycleTimer v = Some i \<longrightarrow> (\<exists>n. tcb (vc_timers v) i = Some (PollCycle n)))"

text \<open>A tick with the current nonce is on its way, or the cycle it has started.\<close>

definition tick_pending :: "service \<Rightarrow> bool" where
  "tick_pending v \<longleftrightarrow> (\<exists>i. vc_pollTimer v = Some i
     \<and> tview (vc_timers v) i = Some (PollTick (sd_pollNonce (vc_state v)), True)
     \<and> (\<forall>j. tview (vc_timers v) j = Some (PollTick (sd_pollNonce (vc_state v)), True) \<longrightarrow> j = i))"

definition cycle_pending :: "service \<Rightarrow> bool" where
  "cycle_pending v \<longleftrightarrow> (\<exists>i. vc_pollCycleTimer v = Some i
     \<and> tview (vc_timers v) i = Some (PollCycle (sd_pollNonce (vc_state v)), True)
     \<and> (\<forall>j. tview (vc_timers v) j \<noteq> Some (PollTick (sd_pollNonce (vc_state v)), True)))"

definition poll_live :: "service \<Rightarrow> bool" where
  "poll_live v \<longleftrightarrow> (if sd_checking (vc_state v) then cycle_pending v else tick_pending v)"

definition poll_inv :: "service \<Rightarrow> bool" where
  "poll_inv v \<longleftrightarrow> poll_shape v \<and> (\<not> vc_closed v \<longrightarrow> poll_live v)"

lemma same_on_tcb: "same_on P ts us \<Longrightarrow> P c \<Longrightarrow> tcb us i = Some c \<longleftrightarrow> tcb ts i = Some c"
  by (auto simp: tcb_def same_onD)

lemma poll_shape_cong:
  assumes "same_on is_poll (vc_timers v) (vc_timers w)"
    and "sd_pollNonce (vc_state w) = sd_pollNonce (vc_state v)"
    and "vc_pollTimer w = vc_pollTimer v" "vc_pollCycleTimer w = vc_pollCycleTimer v"
  shows "poll_shape w = poll_shape v"
  using assms by (simp add: poll_shape_def same_on_tcb [OF assms(1)])

lemma poll_inv_cong:
  assumes "same_on is_poll (vc_timers v) (vc_timers w)"
    and "sd_pollNonce (vc_state w) = sd_pollNonce (vc_state v)"
    and "vc_pollTimer w = vc_pollTimer v" "vc_pollCycleTimer w = vc_pollCycleTimer v"
    and "sd_checking (vc_state w) = sd_checking (vc_state v)" "vc_closed w = vc_closed v"
  shows "poll_inv w = poll_inv v"
  using assms poll_shape_cong [OF assms(1-4)]
  by (simp add: poll_inv_def poll_live_def tick_pending_def cycle_pending_def same_onD [OF assms(1)])

lemma poll_shape_state:
  "poll_shape v \<Longrightarrow> sd_pollNonce (vc_state v) \<le> sd_pollNonce st \<Longrightarrow> poll_shape (v\<lparr>vc_state := st\<rparr>)"
  by (fastforce simp: poll_shape_def)

lemma poll_shape_stop_opt [simp]: "poll_shape (v\<lparr>vc_timers := stop_opt h (vc_timers v)\<rparr>) = poll_shape v"
  by (simp add: poll_shape_def)

lemma schedulePoll_fields [simp]:
  "vc_closed (schedulePoll d v) = vc_closed v" "vc_deps (schedulePoll d v) = vc_deps v"
  "vc_retryTimers (schedulePoll d v) = vc_retryTimers v"
  "vc_pollCycleTimer (schedulePoll d v) = vc_pollCycleTimer v"
  "sd_checking (vc_state (schedulePoll d v)) = sd_checking (vc_state v)"
  "sd_retrying (vc_state (schedulePoll d v)) = sd_retrying (vc_state v)"
  "sched_inv (vc_state (schedulePoll d v)) = sched_inv (vc_state v)"
  "vc_closed v \<Longrightarrow> schedulePoll d v = v"
  by (simp_all add: schedulePoll_def schedulePollAt_def AfterFunc_def Let_def)

lemma poll_inv_schedulePoll:
  assumes "poll_shape v" "\<not> sd_checking (vc_state v)"
  shows "poll_inv (schedulePoll d v)"
proof (cases "vc_closed v")
  case True
  then show ?thesis using assms by (simp add: poll_inv_def)
next
  case False
  let ?ts = "stop_opt (vc_pollTimer v) (vc_timers v)" and ?n = "Suc (sd_pollNonce (vc_state v))"
  let ?t = "\<lparr>tm_delay = d, tm_callback = PollTick ?n, tm_status = Armed\<rparr>"
  let ?w = "schedulePoll d v"
  have ts: "vc_timers ?w = ?ts @ [?t]" and n: "sd_pollNonce (vc_state ?w) = ?n"
    and h: "vc_pollTimer ?w = Some (length ?ts)"
    using False by (simp_all add: schedulePoll_def schedulePollAt_def AfterFunc_def Let_def)
  have past: "m \<le> sd_pollNonce (vc_state v)" if "tview ?ts i = Some (PollTick m, l)" for i m l
    using assms(1) tcb_Some [OF that] by (simp add: poll_shape_def)
  have "poll_shape ?w"
    using assms(1) unfolding poll_shape_def ts n h
    by (auto simp: tcb_append le_SucI dest: tcb_new)
  moreover have "tick_pending ?w"
    unfolding tick_pending_def ts n h using past [of _ ?n] by (fastforce simp: tview_append pending_def)
  ultimately show ?thesis using assms(2) by (simp add: poll_inv_def poll_live_def)
qed

lemma poll_inv_requestRefresh:
  assumes "poll_inv v"
  shows "poll_inv (snd (svc_requestRefresh v))"
proof -
  obtain res st where r: "requestRefresh (vc_state v) = (res, st)" by fastforce
  have frame: "sd_checking st = sd_checking (vc_state v)" "sd_pollNonce (vc_state v) \<le> sd_pollNonce st"
    and same: "rr_Coalesced res \<Longrightarrow> sd_pollNonce st = sd_pollNonce (vc_state v)"
    and chk: "\<not> rr_Coalesced res \<Longrightarrow> \<not> sd_checking (vc_state v)"
    using r by (auto simp: requestRefresh_def Let_def schedulePollAt_def split: if_splits)
  show ?thesis
  proof (cases "rr_Coalesced res")
    case True
    have "poll_inv (v\<lparr>vc_state := st\<rparr>) = poll_inv v"
      by (rule poll_inv_cong) (simp_all add: frame same [OF True])
    with True assms show ?thesis by (simp add: svc_requestRefresh_def r)
  next
    case False
    have "poll_shape (v\<lparr>vc_state := st\<rparr>)"
      using assms frame by (intro poll_shape_state) (simp_all add: poll_inv_def)
    with False chk frame show ?thesis
      by (simp add: svc_requestRefresh_def r poll_inv_schedulePoll)
  qed
qed

text \<open>A delivered timer is no longer on its way; its callback then runs.\<close>

definition delivered :: "nat \<Rightarrow> timer list \<Rightarrow> timer list" where
  "delivered i ts = ts[i := (ts ! i)\<lparr>tm_status := Delivered\<rparr>]"

lemma length_delivered [simp]: "length (delivered i ts) = length ts"
  by (simp add: delivered_def)

lemma tview_delivered:
  "i < length ts \<Longrightarrow> tview (delivered i ts) j =
     (if j = i then Some (tm_callback (ts ! i), False) else tview ts j)"
  by (auto simp: tview_def delivered_def pending_def nth_list_update)

lemma set_status_delivered: "set_status i Delivered v = v\<lparr>vc_timers := delivered i (vc_timers v)\<rparr>"
  by (simp add: set_status_def delivered_def)

lemma same_on_delivered:
  assumes "i < length ts" "\<not> P (tm_callback (ts ! i))"
  shows "same_on P ts (delivered i ts)"
proof (rule same_onI)
  fix j c l assume "P c"
  have "tview ts i = Some (tm_callback (ts ! i), pending (ts ! i))" using assms by (simp add: tview_def)
  with assms \<open>P c\<close> show "tview (delivered i ts) j = Some (c, l) \<longleftrightarrow> tview ts j = Some (c, l)"
    by (auto simp: tview_delivered)
qed

lemma tcb_delivered [simp]: "i < length ts \<Longrightarrow> tcb (delivered i ts) = tcb ts"
  by (rule ext) (simp add: tcb_def tview_delivered, simp add: tview_def)

lemma poll_shape_delivered [simp]:
  "i < length (vc_timers v) \<Longrightarrow> poll_shape (v\<lparr>vc_timers := delivered i (vc_timers v)\<rparr>) = poll_shape v"
  by (simp add: poll_shape_def)

lemma expired_tview:
  "i < length ts \<Longrightarrow> tm_status (ts ! i) = Expired \<Longrightarrow> tview ts i = Some (tm_callback (ts ! i), True)"
  by (simp add: tview_def pending_def)

lemma poll_inv_handlePollTick:
  assumes "poll_inv v" "i < length (vc_timers v)" "tm_status (vc_timers v ! i) = Expired"
    and "tm_callback (vc_timers v ! i) = PollTick n"
  shows "poll_inv (handlePollTick n (set_status i Delivered v))"
proof -
  let ?v = "v\<lparr>vc_timers := delivered i (vc_timers v)\<rparr>" and ?m = "sd_pollNonce (vc_state v)"
  have tv: "tview (vc_timers v) i = Some (PollTick n, True)"
    using expired_tview [OF assms(2,3)] assms(4) by simp
  have shape: "poll_shape ?v" using assms by (simp add: poll_inv_def poll_shape_delivered)
  consider "vc_closed v" | "\<not> vc_closed v" "n \<noteq> ?m" | "\<not> vc_closed v" "n = ?m" by blast
  then show ?thesis
  proof cases
    case 1
    then show ?thesis using shape by (simp add: handlePollTick_def set_status_delivered poll_inv_def)
  next
    case 2
    have "tview (delivered i (vc_timers v)) j = Some (PollTick ?m, l)
        \<longleftrightarrow> tview (vc_timers v) j = Some (PollTick ?m, l)" for j l
      using tv 2(2) assms(2,4) by (auto simp: tview_delivered)
    moreover have "tview (delivered i (vc_timers v)) j = Some (PollCycle ?m, l)
        \<longleftrightarrow> tview (vc_timers v) j = Some (PollCycle ?m, l)" for j l
      using tv assms(2,4) by (auto simp: tview_delivered)
    ultimately have "poll_live ?v = poll_live v"
      by (simp add: poll_live_def tick_pending_def cycle_pending_def)
    with 2 shape assms(1) show ?thesis
      by (simp add: handlePollTick_def set_status_delivered poll_inv_def beginPoll_def)
  next
    case 3
    have live: "poll_live v" using assms(1) 3 by (simp add: poll_inv_def)
    have "\<not> cycle_pending v" using tv 3(2) by (auto simp: cycle_pending_def)
    then have "tick_pending v" using live by (simp add: poll_live_def split: if_splits)
    then have only: "tview (delivered i (vc_timers v)) j \<noteq> Some (PollTick ?m, True)" for j
      using tv 3(2) assms(2) by (auto simp: tick_pending_def tview_delivered)
    let ?ts = "stop_opt (vc_pollCycleTimer v) (delivered i (vc_timers v))"
    have stopped: "poll_shape (?v\<lparr>vc_timers := ?ts\<rparr>)"
      using shape poll_shape_stop_opt [where v = ?v and h = "vc_pollCycleTimer v"] by simp
    have none: "tview ?ts j \<noteq> Some (PollTick ?m, True)" for j
      using only by (auto dest: tview_stop_mono_opt)
    let ?w = "handlePollTick n (set_status i Delivered v)"
    have ts: "vc_timers ?w = ?ts @ [\<lparr>tm_delay = vc_pollTransitionDelay v, tm_callback = PollCycle ?m,
        tm_status = Armed\<rparr>]" and w: "vc_pollCycleTimer ?w = Some (length ?ts)"
      "vc_pollTimer ?w = vc_pollTimer v" "sd_pollNonce (vc_state ?w) = ?m" "sd_checking (vc_state ?w)"
      using 3 by (simp_all add: handlePollTick_def set_status_delivered beginPoll_def AfterFunc_def Let_def)
    have "poll_shape ?w"
      using stopped unfolding poll_shape_def ts w by (auto simp: tcb_append assms(2) dest: tcb_new)
    moreover have "cycle_pending ?w"
      unfolding cycle_pending_def ts w using none by (auto simp: tview_append pending_def)
    ultimately show ?thesis using w(4) by (simp add: poll_inv_def poll_live_def)
  qed
qed

subsection \<open>The retry timers\<close>

text \<open>Every entry of \<open>retryTimers\<close> holds a timer for its item and nonce; with \<open>b\<close>, a pending one.\<close>

definition rt_ok :: "bool \<Rightarrow> service \<Rightarrow> bool" where
  "rt_ok b v \<longleftrightarrow> mok (vc_retryTimers v) \<and> (\<forall>k sc. mget (vc_retryTimers v) k = Some sc \<longrightarrow>
     (\<exists>l. tview (vc_timers v) (sc_timer sc) = Some (RetryTick k (sc_nonce sc), l) \<and> (b \<longrightarrow> l)))"

text \<open>The retry timers are those of the retry entries, nonce by nonce.\<close>

definition rt_synced :: "service \<Rightarrow> bool" where
  "rt_synced v \<longleftrightarrow> (\<forall>k. map_option sc_nonce (mget (vc_retryTimers v) k)
     = map_option te_Nonce (mget (sd_retrying (vc_state v)) k))"

definition retry_inv :: "service \<Rightarrow> bool" where
  "retry_inv v \<longleftrightarrow> rt_ok (\<not> vc_closed v) v \<and> (\<not> vc_closed v \<longrightarrow> rt_synced v)"

definition not_poll :: "callback \<Rightarrow> bool" where
  "not_poll c \<longleftrightarrow> \<not> is_poll c"

lemma rt_ok_cong:
  assumes "same_on not_poll (vc_timers v) (vc_timers w)" "vc_retryTimers w = vc_retryTimers v"
  shows "rt_ok b w = rt_ok b v"
  using assms by (simp add: rt_ok_def same_onD [OF assms(1)] not_poll_def)

lemma retry_inv_cong:
  assumes "same_on not_poll (vc_timers v) (vc_timers w)" "vc_retryTimers w = vc_retryTimers v"
    and "sd_retrying (vc_state w) = sd_retrying (vc_state v)" "vc_closed w = vc_closed v"
  shows "retry_inv w = retry_inv v"
  using assms rt_ok_cong [OF assms(1,2)] by (simp add: retry_inv_def rt_synced_def)

lemma rt_ok_weaken: "rt_ok b v \<Longrightarrow> (c \<longrightarrow> b) \<Longrightarrow> rt_ok c v"
  unfolding rt_ok_def by blast

text \<open>First loop: a timer whose entry is gone or replaced is stopped and dropped.\<close>

definition matched :: "service \<Rightarrow> string \<Rightarrow> scheduled_retry \<Rightarrow> bool" where
  "matched v k sc \<longleftrightarrow> (\<exists>e. mget (sd_retrying (vc_state v)) k = Some e \<and> sc_nonce sc = te_Nonce e)"

lemma sync_stop_alt:
  "sync_stop (k, sc) v = (if matched v k sc then v
     else v\<lparr>vc_timers := stop_timer (sc_timer sc) (vc_timers v),
            vc_retryTimers := mdel k (vc_retryTimers v)\<rparr>)"
  by (auto simp: sync_stop_def matched_def split: option.split)

lemma sync_stop_fields [simp]:
  "vc_state (sync_stop kv v) = vc_state v" "vc_closed (sync_stop kv v) = vc_closed v"
  "vc_deps (sync_stop kv v) = vc_deps v" "vc_pollTimer (sync_stop kv v) = vc_pollTimer v"
  "vc_pollCycleTimer (sync_stop kv v) = vc_pollCycleTimer v"
  "matched (sync_stop kv v) = matched v"
  by (cases kv; simp add: sync_stop_alt matched_def fun_eq_iff)+

lemma fold_sync_stop_fields [simp]:
  "vc_state (fold sync_stop kvs v) = vc_state v" "vc_closed (fold sync_stop kvs v) = vc_closed v"
  "vc_deps (fold sync_stop kvs v) = vc_deps v" "vc_pollTimer (fold sync_stop kvs v) = vc_pollTimer v"
  "vc_pollCycleTimer (fold sync_stop kvs v) = vc_pollCycleTimer v"
  by (induction kvs arbitrary: v) simp_all

lemma sync_stop_step:
  assumes "rt_ok b v" "mget (vc_retryTimers v) k = Some sc"
  shows "rt_ok b (sync_stop (k, sc) v)"
    and "same_on is_poll (vc_timers v) (vc_timers (sync_stop (k, sc) v))"
proof -
  have tv: "\<exists>l. tview (vc_timers v) (sc_timer sc) = Some (RetryTick k (sc_nonce sc), l)"
    using assms by (auto simp: rt_ok_def)
  have other: "sc_timer sc' \<noteq> sc_timer sc" if "mget (vc_retryTimers v) k' = Some sc'" "k' \<noteq> k" for k' sc'
  proof
    assume "sc_timer sc' = sc_timer sc"
    moreover have "\<exists>l. tview (vc_timers v) (sc_timer sc') = Some (RetryTick k' (sc_nonce sc'), l)"
      using assms(1) that(1) by (auto simp: rt_ok_def)
    ultimately show False using tv that(2) by auto
  qed
  show "rt_ok b (sync_stop (k, sc) v)"
    using assms(1) other by (simp add: sync_stop_alt rt_ok_def gomap tview_stop_other)
  show "same_on is_poll (vc_timers v) (vc_timers (sync_stop (k, sc) v))"
    using tv by (auto simp: sync_stop_alt intro!: same_on_stop)
qed

lemma sync_stop_fold:
  assumes "rt_ok b v" "distinct (map fst kvs)"
    and "\<And>k sc. (k, sc) \<in> set kvs \<Longrightarrow> mget (vc_retryTimers v) k = Some sc"
  shows "rt_ok b (fold sync_stop kvs v)"
    and "same_on is_poll (vc_timers v) (vc_timers (fold sync_stop kvs v))"
    and "mget (vc_retryTimers (fold sync_stop kvs v)) k =
      (case mget (vc_retryTimers v) k of None \<Rightarrow> None
       | Some sc \<Rightarrow> if k \<in> fst ` set kvs \<and> \<not> matched v k sc then None else Some sc)"
proof -
  have "rt_ok b (fold sync_stop kvs v) \<and> same_on is_poll (vc_timers v) (vc_timers (fold sync_stop kvs v))
    \<and> mget (vc_retryTimers (fold sync_stop kvs v)) k =
      (case mget (vc_retryTimers v) k of None \<Rightarrow> None
       | Some sc \<Rightarrow> if k \<in> fst ` set kvs \<and> \<not> matched v k sc then None else Some sc)"
    using assms
  proof (induction kvs arbitrary: v)
    case Nil
    then show ?case by (simp split: option.split)
  next
    case (Cons kv kvs)
    obtain k1 sc1 where kv: "kv = (k1, sc1)" by fastforce
    have k1: "mget (vc_retryTimers v) k1 = Some sc1" "k1 \<notin> fst ` set kvs" using Cons.prems kv by auto
    let ?w = "sync_stop (k1, sc1) v"
    have w: "mget (vc_retryTimers ?w) k' = (if k' = k1 \<and> \<not> matched v k1 sc1 then None
        else mget (vc_retryTimers v) k')" for k'
      by (simp add: sync_stop_alt gomap)
    have rest: "mget (vc_retryTimers ?w) k' = Some sc'" if "(k', sc') \<in> set kvs" for k' sc'
    proof -
      have "k' \<noteq> k1" using that k1(2) by force
      then show ?thesis using Cons.prems(3) that w by simp
    qed
    have "rt_ok b ?w" "same_on is_poll (vc_timers v) (vc_timers ?w)"
      using sync_stop_step [OF Cons.prems(1) k1(1)] by blast+
    moreover have mw: "matched ?w = matched v" by simp
    ultimately have so: "same_on is_poll (vc_timers v) (vc_timers ?w)" and "rt_ok b ?w" by blast+
    note IH = Cons.IH [OF this(2) _ rest, unfolded mw]
    from IH Cons.prems(2) have IH: "rt_ok b (fold sync_stop kvs ?w)"
      "same_on is_poll (vc_timers ?w) (vc_timers (fold sync_stop kvs ?w))"
      "mget (vc_retryTimers (fold sync_stop kvs ?w)) k = (case mget (vc_retryTimers ?w) k of None \<Rightarrow> None
       | Some sc \<Rightarrow> if k \<in> fst ` set kvs \<and> \<not> matched v k sc then None else Some sc)"
      by simp_all
    moreover have "same_on is_poll (vc_timers v) (vc_timers (fold sync_stop kvs ?w))"
      using so IH(2) by (rule same_on_trans)
    ultimately show ?case using k1 by (auto simp: kv w split: option.split)
  qed
  then show "rt_ok b (fold sync_stop kvs v)"
    and "same_on is_poll (vc_timers v) (vc_timers (fold sync_stop kvs v))"
    and "mget (vc_retryTimers (fold sync_stop kvs v)) k =
      (case mget (vc_retryTimers v) k of None \<Rightarrow> None
       | Some sc \<Rightarrow> if k \<in> fst ` set kvs \<and> \<not> matched v k sc then None else Some sc)"
    by blast+
qed

text \<open>Second loop: an entry without its timer gets one.\<close>

lemma sync_arm_fields [simp]:
  "vc_state (sync_arm now kv v) = vc_state v" "vc_closed (sync_arm now kv v) = vc_closed v"
  "vc_deps (sync_arm now kv v) = vc_deps v" "vc_pollTimer (sync_arm now kv v) = vc_pollTimer v"
  "vc_pollCycleTimer (sync_arm now kv v) = vc_pollCycleTimer v"
  by (simp_all add: sync_arm_def AfterFunc_def Let_def split: option.split)

lemma fold_sync_arm_fields [simp]:
  "vc_state (fold (sync_arm now) kvs v) = vc_state v"
  "vc_closed (fold (sync_arm now) kvs v) = vc_closed v"
  "vc_deps (fold (sync_arm now) kvs v) = vc_deps v"
  "vc_pollTimer (fold (sync_arm now) kvs v) = vc_pollTimer v"
  "vc_pollCycleTimer (fold (sync_arm now) kvs v) = vc_pollCycleTimer v"
  by (induction kvs arbitrary: v) simp_all

lemma sync_arm_step:
  assumes "rt_ok b v"
  shows "rt_ok b (sync_arm now (k, e) v)"
    and "same_on is_poll (vc_timers v) (vc_timers (sync_arm now (k, e) v))"
    and "map_option sc_nonce (mget (vc_retryTimers (sync_arm now (k, e) v)) k') =
      (if k' = k then Some (te_Nonce e) else map_option sc_nonce (mget (vc_retryTimers v) k'))"
proof -
  let ?t = "\<lambda>d. \<lparr>tm_delay = d, tm_callback = RetryTick k (te_Nonce e), tm_status = Armed\<rparr>"
  let ?keep = "case mget (vc_retryTimers v) k of None \<Rightarrow> False | Some c \<Rightarrow> sc_nonce c = te_Nonce e"
  have new: "vc_timers (sync_arm now (k, e) v) = vc_timers v @ [?t d]"
      "vc_retryTimers (sync_arm now (k, e) v) =
        mput k \<lparr>sc_nonce = te_Nonce e, sc_timer = length (vc_timers v)\<rparr> (vc_retryTimers v)"
    if "\<not> ?keep" "d = max 0 (te_DueAt e - now)" for d
    using that by (auto simp: sync_arm_def AfterFunc_def Let_def max_def split: option.splits)
  have keep: "sync_arm now (k, e) v = v" if ?keep
    unfolding sync_arm_def fst_conv snd_conv using that by (rule if_P)
  show "rt_ok b (sync_arm now (k, e) v)"
  proof (cases ?keep)
    case False
    have old: "sc_timer sc \<noteq> length (vc_timers v)" if "mget (vc_retryTimers v) k' = Some sc" for k' sc
      using assms that unfolding rt_ok_def by (metis option.distinct(1) tview_length)
    show ?thesis
      using assms old unfolding rt_ok_def new [OF False refl]
      by (auto simp: gomap tview_append pending_def)
  qed (simp add: keep assms)
  show "same_on is_poll (vc_timers v) (vc_timers (sync_arm now (k, e) v))"
    by (cases ?keep) (auto simp: keep new [OF _ refl] intro!: same_on_append)
  show "map_option sc_nonce (mget (vc_retryTimers (sync_arm now (k, e) v)) k') =
      (if k' = k then Some (te_Nonce e) else map_option sc_nonce (mget (vc_retryTimers v) k'))"
  proof (cases ?keep)
    case True
    then show ?thesis by (auto simp: keep split: option.splits)
  qed (simp add: new [OF _ refl] gomap)
qed

lemma sync_arm_fold:
  assumes "rt_ok b v"
  shows "rt_ok b (fold (sync_arm now) kvs v)
    \<and> same_on is_poll (vc_timers v) (vc_timers (fold (sync_arm now) kvs v))
    \<and> (distinct (map fst kvs) \<longrightarrow> (\<forall>k. map_option sc_nonce (mget (vc_retryTimers (fold (sync_arm now) kvs v)) k) =
      (case mget kvs k of Some e \<Rightarrow> Some (te_Nonce e)
       | None \<Rightarrow> map_option sc_nonce (mget (vc_retryTimers v) k))))"
  using assms
proof (induction kvs arbitrary: v)
  case (Cons kv kvs)
  obtain k1 e1 where kv: "kv = (k1, e1)" by fastforce
  note st = sync_arm_step [OF Cons.prems, of now k1 e1]
  note IH = Cons.IH [OF st(1)]
  have "same_on is_poll (vc_timers v) (vc_timers (fold (sync_arm now) kvs (sync_arm now (k1, e1) v)))"
    using st(2) IH same_on_trans by blast
  moreover have "k1 \<notin> fst ` set kvs \<Longrightarrow> mget kvs k1 = None" by (simp add: mget_None_iff)
  ultimately show ?case using IH st(3) by (auto simp: kv split: option.split)
qed simp

lemma syncRetryTimers_fields [simp]:
  "vc_state (syncRetryTimers r v) = tick (vc_state v)" "vc_closed (syncRetryTimers r v) = vc_closed v"
  "vc_deps (syncRetryTimers r v) = vc_deps v" "vc_pollTimer (syncRetryTimers r v) = vc_pollTimer v"
  "vc_pollCycleTimer (syncRetryTimers r v) = vc_pollCycleTimer v"
  by (simp_all add: syncRetryTimers_def Let_def)

lemma syncRetryTimers_ok:
  assumes "rt_ok b v" "orders_ok r" "mok (sd_retrying (vc_state v))"
  shows "rt_ok b (syncRetryTimers r v)" and "rt_synced (syncRetryTimers r v)"
    and "same_on is_poll (vc_timers v) (vc_timers (syncRetryTimers r v))"
proof -
  let ?kvs = "range_entries (or_timers r) (vc_retryTimers v)"
  let ?es = "range_entries (or_retries r) (sd_retrying (vc_state v))"
  have ord: "order_ok (or_timers r)" "order_ok (or_retries r)" using assms(2) by (simp_all add: orders_ok_def)
  have m: "mok (vc_retryTimers v)" using assms(1) by (simp add: rt_ok_def)
  have kvs: "set ?kvs = set (vc_retryTimers v)" "distinct (map fst ?kvs)"
    using ord m by (simp_all add: set_range_entries)
  have es: "set ?es = set (sd_retrying (vc_state v))" "distinct (map fst ?es)"
    using ord assms(3) by (simp_all add: set_range_entries)
  have es_get: "mget ?es k = mget (sd_retrying (vc_state v)) k" for k
    using es assms(3) by (metis map_of_inject_set)
  define v1 where "v1 = fold sync_stop ?kvs v"
  have "\<And>k sc. (k, sc) \<in> set ?kvs \<Longrightarrow> mget (vc_retryTimers v) k = Some sc"
    using kvs m by (simp add: mget_mem)
  note stop = sync_stop_fold [OF assms(1) kvs(2) this, folded v1_def]
  define v2 where "v2 = v1\<lparr>vc_state := tick (vc_state v1)\<rparr>"
  have v2: "rt_ok b v2" "vc_retryTimers v2 = vc_retryTimers v1" "vc_timers v2 = vc_timers v1"
    using stop(1) by (simp_all add: v2_def rt_ok_def)
  have sync: "syncRetryTimers r v = fold (sync_arm (Now (vc_state v1))) ?es v2"
    by (simp add: syncRetryTimers_def Let_def v1_def v2_def)
  note arm = sync_arm_fold [OF v2(1), of "Now (vc_state v1)" ?es, folded sync]
  show "rt_ok b (syncRetryTimers r v)" using arm by blast
  show "same_on is_poll (vc_timers v) (vc_timers (syncRetryTimers r v))"
    using arm stop(2) v2(3) same_on_trans by metis
  have "mget (vc_retryTimers v1) k = None" if "mget (sd_retrying (vc_state v)) k = None" for k
    using stop(3) [of k] that kvs(1) mget_key [of "vc_retryTimers v" k]
    by (auto simp: matched_def split: option.splits)
  then show "rt_synced (syncRetryTimers r v)"
    using arm es(2) by (auto simp: rt_synced_def es_get v2(2) split: option.split)
qed

subsection \<open>Every step keeps the invariant\<close>

definition svc_inv :: "service \<Rightarrow> bool" where
  "svc_inv v \<longleftrightarrow> sched_inv (vc_state v) \<and> fresh_starts (vc_deps v) (vc_state v) \<and> poll_inv v \<and> retry_inv v"

lemma sched_inv_mok: "sched_inv s \<Longrightarrow> mok (sd_retrying s)"
  by (simp add: sched_inv_def keyed_def)

lemma schedulePoll_same:
  assumes "poll_shape v"
  shows "same_on not_poll (vc_timers v) (vc_timers (schedulePoll d v))"
proof (cases "vc_closed v")
  case False
  have "same_on not_poll (vc_timers v) (stop_opt (vc_pollTimer v) (vc_timers v))"
    using assms by (auto simp: stop_opt_def poll_shape_def not_poll_def split: option.split
        intro!: same_on_stop dest!: tcb_Some)
  moreover have "same_on not_poll ts (ts @ [\<lparr>tm_delay = d, tm_callback = PollTick n, tm_status = Armed\<rparr>])"
    for ts n
    by (rule same_on_append) (simp add: not_poll_def)
  ultimately show ?thesis
    using False same_on_trans by (auto simp: schedulePoll_def schedulePollAt_def AfterFunc_def Let_def)
qed simp

lemma retry_inv_schedulePoll: "poll_shape v \<Longrightarrow> retry_inv v \<Longrightarrow> retry_inv (schedulePoll d v)"
  using retry_inv_cong [OF schedulePoll_same [of v d]] by simp

lemma quiet_state:
  assumes "sd_calls t = sd_calls s" "sd_activeStates t = sd_activeStates s"
    and "sd_terminalStates t = sd_terminalStates s"
  shows "fresh_starts d t = fresh_starts d s"
proof -
  have "isRetryCandidate t = isRetryCandidate s"
    by (rule ext) (simp add: isRetryCandidate_def isTerminal_def isActive_def assms)
  then show ?thesis by (simp add: fresh_starts_def fresh_start_def assms(1))
qed

lemma fresh_starts_simps [simp]:
  "fresh_starts d (tick s) = fresh_starts d s"
  "fresh_starts d (s\<lparr>sd_checking := b\<rparr>) = fresh_starts d s"
  "fresh_starts d (s\<lparr>sd_nextPollAt := x\<rparr>) = fresh_starts d s"
  "fresh_starts d (s\<lparr>sd_pollNonce := n\<rparr>) = fresh_starts d s"
  "fresh_starts d (finishPoll s) = fresh_starts d s"
  by (rule quiet_state; simp add: finishPoll_def)+

lemma fresh_starts_schedulePoll [simp]:
  "fresh_starts d' (vc_state (schedulePoll d v)) = fresh_starts d' (vc_state v)"
  by (rule quiet_state) (simp_all add: schedulePoll_def schedulePollAt_def AfterFunc_def Let_def)

lemma svc_inv_newService:
  "svc_inv (newService cfg d clk ord delay)"
proof -
  let ?st = "newSchedulerState cfg clk ord"
  let ?v = "\<lambda>d'. \<lparr>vc_state = ?st, vc_deps = d', vc_timers = [], vc_pollTransitionDelay = delay,
    vc_pollTimer = None, vc_pollCycleTimer = None, vc_retryTimers = [], vc_closed = False\<rparr>"
  have st: "sd_calls ?st = []" "\<not> sd_checking ?st" "sd_retrying ?st = []"
    by (simp_all add: newSchedulerState_def)
  have "svc_inv (schedulePoll 0 (?v d'))" for d'
  proof -
    have shape: "poll_shape (?v d')" by (simp add: poll_shape_def tcb_def tview_def)
    moreover have "retry_inv (?v d')" by (simp add: retry_inv_def rt_ok_def rt_synced_def st)
    moreover have "fresh_starts d' ?st" by (simp add: fresh_starts_def st)
    ultimately show ?thesis
      using poll_inv_schedulePoll [OF shape] retry_inv_schedulePoll
      by (simp add: svc_inv_def st inv_newSchedulerState)
  qed
  then show ?thesis by (simp add: newService_def Let_def)
qed

lemma svc_inv_requestRefresh:
  assumes "svc_inv v"
  shows "svc_inv (snd (svc_requestRefresh v))"
proof -
  obtain res st where r: "requestRefresh (vc_state v) = (res, st)" by fastforce
  have st: "sched_inv st = sched_inv (vc_state v)" "sd_retrying st = sd_retrying (vc_state v)"
    "fresh_starts d st = fresh_starts d (vc_state v)" "sd_pollNonce (vc_state v) \<le> sd_pollNonce st" for d
    using r by (auto simp: requestRefresh_def Let_def schedulePollAt_def split: if_splits)
  have w: "retry_inv (v\<lparr>vc_state := st\<rparr>)" "poll_shape (v\<lparr>vc_state := st\<rparr>)"
    using assms retry_inv_cong [of v "v\<lparr>vc_state := st\<rparr>"] st
    by (auto simp: svc_inv_def poll_inv_def intro: poll_shape_state)
  have "poll_inv (snd (svc_requestRefresh v))" using assms poll_inv_requestRefresh by (simp add: svc_inv_def)
  with assms w st show ?thesis
    by (simp add: svc_inv_def svc_requestRefresh_def r retry_inv_schedulePoll Let_def)
qed

lemma svc_inv_sync:
  assumes "sched_inv st" "fresh_starts (vc_deps v) st" "orders_ok r"
    and "rt_ok (\<not> vc_closed v) v"
    and "poll_inv (v\<lparr>vc_state := st\<rparr>)"
  shows "svc_inv (syncRetryTimers r (v\<lparr>vc_state := st\<rparr>))"
proof -
  let ?v = "v\<lparr>vc_state := st\<rparr>" and ?w = "syncRetryTimers r (v\<lparr>vc_state := st\<rparr>)"
  have "rt_ok (\<not> vc_closed v) ?v" using assms(4) by (simp add: rt_ok_def)
  note ok = syncRetryTimers_ok [OF this assms(3)]
  have m: "mok (sd_retrying (vc_state ?v))" using assms(1) by (simp add: sched_inv_mok)
  have "poll_inv ?w = poll_inv ?v"
    by (rule poll_inv_cong) (use ok(3) [OF m] in simp_all)
  moreover have "retry_inv ?w" using ok(1,2) [OF m] by (simp add: retry_inv_def)
  moreover have "fresh_starts (vc_deps v) (tick st) = fresh_starts (vc_deps v) st"
    by (rule quiet_state) simp_all
  ultimately show ?thesis using assms by (simp add: svc_inv_def)
qed

lemma svc_inv_applyRunEvent:
  assumes "svc_inv v" "orders_ok r"
  shows "svc_inv (svc_applyRunEvent r ev v)"
proof -
  let ?st = "applyRunEvent ev (vc_state v)"
  have q: "quiet (vc_state v) ?st" by (rule quiet_applyRunEvent)
  have "poll_inv (v\<lparr>vc_state := ?st\<rparr>) = poll_inv v"
    by (rule poll_inv_cong) (use q in \<open>simp_all add: quiet_def poll_frame_def\<close>)
  then show ?thesis
    unfolding svc_applyRunEvent_def using assms q fresh_starts_quiet inv_applyRunEvent
    by (intro svc_inv_sync) (auto simp: svc_inv_def retry_inv_def)
qed

lemma svc_inv_close:
  assumes "svc_inv v"
  shows "svc_inv (svc_close v)"
proof -
  have "tcb (fold (\<lambda>(k, sc). stop_timer (sc_timer sc)) m ts) = tcb ts"
    for m :: "(string, scheduled_retry) gomap" and ts
    by (induction m arbitrary: ts) auto
  then have "poll_shape (svc_close v)"
    using assms by (simp add: svc_inv_def poll_inv_def poll_shape_def svc_close_def Let_def)
  then show ?thesis
    using assms by (simp add: svc_inv_def poll_inv_def retry_inv_def rt_ok_def svc_close_def Let_def)
qed

lemma svc_inv_expire:
  assumes "svc_inv v" "i < length (vc_timers v)" "tm_status (vc_timers v ! i) = Armed"
  shows "svc_inv (set_status i Expired v)"
proof -
  have "tview (vc_timers (set_status i Expired v)) j = tview (vc_timers v) j" for j
    using assms(2,3) by (auto simp: set_status_def tview_def pending_def nth_list_update)
  then have same: "same_on P (vc_timers v) (vc_timers (set_status i Expired v))" for P
    by (intro same_onI) simp
  have st: "vc_state (set_status i Expired v) = vc_state v" "vc_deps (set_status i Expired v) = vc_deps v"
    by (simp_all add: set_status_def)
  have "poll_inv (set_status i Expired v) = poll_inv v"
    by (rule poll_inv_cong [OF same]) (simp_all add: set_status_def)
  moreover have "retry_inv (set_status i Expired v) = retry_inv v"
    by (rule retry_inv_cong [OF same]) (simp_all add: set_status_def)
  ultimately show ?thesis using assms(1) by (simp add: svc_inv_def st)
qed

subsection \<open>Callbacks\<close>

lemma handlePollTick_frame:
  assumes "poll_shape v"
  shows "same_on not_poll (vc_timers v) (vc_timers (handlePollTick n v))"
    and "vc_retryTimers (handlePollTick n v) = vc_retryTimers v"
    and "vc_closed (handlePollTick n v) = vc_closed v" "vc_deps (handlePollTick n v) = vc_deps v"
    and "sched_inv (vc_state (handlePollTick n v)) = sched_inv (vc_state v)"
    and "sd_retrying (vc_state (handlePollTick n v)) = sd_retrying (vc_state v)"
    and "fresh_starts d (vc_state (handlePollTick n v)) = fresh_starts d (vc_state v)"
proof -
  have "same_on not_poll (vc_timers v) (stop_opt (vc_pollCycleTimer v) (vc_timers v))"
    using assms by (auto simp: stop_opt_def poll_shape_def not_poll_def split: option.split
        intro!: same_on_stop dest!: tcb_Some)
  moreover have "same_on not_poll ts (ts @ [\<lparr>tm_delay = d, tm_callback = PollCycle n, tm_status = Armed\<rparr>])"
    for ts d
    by (rule same_on_append) (simp add: not_poll_def)
  ultimately show "same_on not_poll (vc_timers v) (vc_timers (handlePollTick n v))"
    using same_on_trans by (auto simp: handlePollTick_def beginPoll_def AfterFunc_def Let_def)
  show "vc_retryTimers (handlePollTick n v) = vc_retryTimers v"
    "vc_closed (handlePollTick n v) = vc_closed v" "vc_deps (handlePollTick n v) = vc_deps v"
    "sched_inv (vc_state (handlePollTick n v)) = sched_inv (vc_state v)"
    "sd_retrying (vc_state (handlePollTick n v)) = sd_retrying (vc_state v)"
    "fresh_starts d (vc_state (handlePollTick n v)) = fresh_starts d (vc_state v)"
    by (auto simp: handlePollTick_def beginPoll_def AfterFunc_def Let_def)
qed

text \<open>What a delivery leaves before its callback runs.\<close>

lemma delivered_poll:
  assumes "svc_inv v" "i < length (vc_timers v)" "is_poll (tm_callback (vc_timers v ! i))"
  shows "retry_inv (v\<lparr>vc_timers := delivered i (vc_timers v)\<rparr>)"
proof -
  have "same_on not_poll (vc_timers v) (delivered i (vc_timers v))"
    using assms(2,3) by (intro same_on_delivered) (simp_all add: not_poll_def)
  then show ?thesis
    using assms(1) retry_inv_cong [of v "v\<lparr>vc_timers := delivered i (vc_timers v)\<rparr>"]
    by (simp add: svc_inv_def)
qed

lemma svc_inv_PollTick:
  assumes "svc_inv v" "i < length (vc_timers v)" "tm_status (vc_timers v ! i) = Expired"
    and "tm_callback (vc_timers v ! i) = PollTick n"
  shows "svc_inv (handlePollTick n (set_status i Delivered v))"
proof -
  let ?v = "v\<lparr>vc_timers := delivered i (vc_timers v)\<rparr>"
  have "poll_shape ?v" using assms(1,2) by (simp add: svc_inv_def poll_inv_def)
  note f = handlePollTick_frame [OF this, where n = n]
  have "retry_inv (handlePollTick n ?v) = retry_inv ?v"
    by (rule retry_inv_cong) (simp_all only: f)
  moreover have "retry_inv ?v" using assms by (intro delivered_poll) simp_all
  moreover have "poll_inv (handlePollTick n ?v)"
    using poll_inv_handlePollTick assms by (simp add: svc_inv_def set_status_delivered)
  ultimately show ?thesis using assms(1) by (simp add: svc_inv_def set_status_delivered f)
qed

lemma poll_work_inv:
  assumes "sched_inv s" "fresh_starts d s" "refresh_sound d" "orders_ok r"
  shows "sched_inv (poll_work r d s)" "fresh_starts d (poll_work r d s)" "poll_frame s (poll_work r d s)"
proof -
  let ?s1 = "reconcileRunning (or_ids r) (or_running r) d (reconcileStalled (or_stalled r) d s)"
  have q: "quiet s ?s1" using quiet_trans quiet_reconcileStalled quiet_reconcileRunning by blast
  have i: "sched_inv ?s1"
    using assms by (intro inv_reconcileRunning inv_reconcileStalled) (simp_all add: orders_ok_def)
  have f: "fresh_starts d ?s1" "fresh_starts d (log_call CallListCandidates ?s1)"
    using fresh_starts_quiet [OF assms(2) q] fresh_starts_quiet quiet_log by (blast, fastforce)
  show "sched_inv (poll_work r d s)" "fresh_starts d (poll_work r d s)"
    using i f assms(3) by (auto simp: poll_work_def Let_def inv_processCandidates
        fresh_starts_processCandidates split: option.split sum.split)
  show "poll_frame s (poll_work r d s)"
    using q poll_frame_trans [OF _ poll_frame_ops(2)] poll_frame_trans [OF _ poll_frame_processCandidates]
    by (auto simp: poll_work_def Let_def quiet_def split: option.split sum.split)
qed

lemma svc_inv_PollCycle:
  assumes "svc_inv v" "refresh_sound (vc_deps v)" "orders_ok r"
    and "i < length (vc_timers v)" "tm_status (vc_timers v ! i) = Expired"
    and "tm_callback (vc_timers v ! i) = PollCycle n"
  shows "svc_inv (handlePollCycle r n (set_status i Delivered v))"
proof -
  let ?v = "v\<lparr>vc_timers := delivered i (vc_timers v)\<rparr>" and ?m = "sd_pollNonce (vc_state v)"
  have shape: "poll_shape ?v" using assms(1,4) by (simp add: svc_inv_def poll_inv_def)
  have retry: "retry_inv ?v" using assms by (intro delivered_poll) simp_all
  show ?thesis
  proof (cases "vc_closed v \<or> \<not> sd_checking (vc_state v) \<or> n \<noteq> ?m")
    case True
    have live: "poll_live ?v" if "\<not> vc_closed v"
    proof -
      have "tview (delivered i (vc_timers v)) j = Some (PollTick ?m, l)
          \<longleftrightarrow> tview (vc_timers v) j = Some (PollTick ?m, l)" for j l
        using assms(4,6) by (auto simp: tview_delivered) (simp add: tview_def)
      moreover have "tview (delivered i (vc_timers v)) j = Some (PollCycle ?m, l)
          \<longleftrightarrow> tview (vc_timers v) j = Some (PollCycle ?m, l)" if "n \<noteq> ?m" for j l
        using assms(4,6) that by (auto simp: tview_delivered) (simp add: tview_def)
      moreover have "poll_live v" using assms(1) that by (simp add: svc_inv_def poll_inv_def)
      ultimately show ?thesis
        using True that by (auto simp: poll_live_def tick_pending_def cycle_pending_def)
    qed
    have "handlePollCycle r n (set_status i Delivered v) = ?v"
      using True by (auto simp: handlePollCycle_def set_status_delivered)
    with assms(1) live shape retry show ?thesis by (simp add: svc_inv_def poll_inv_def)
  next
    case False
    let ?st = "poll_work r (vc_deps v) (vc_state v)"
    have inv: "sched_inv (vc_state v)" "fresh_starts (vc_deps v) (vc_state v)"
      using assms(1) by (simp_all add: svc_inv_def)
    note work = poll_work_inv [OF inv assms(2,3)]
    define v0 where "v0 = ?v\<lparr>vc_state := ?st\<rparr>"
    define v1 where "v1 = syncRetryTimers r v0"
    define v2 where "v2 = v1\<lparr>vc_state := finishPoll (vc_state v1)\<rparr>"
    have v0: "vc_state v0 = ?st" "\<not> vc_closed v0" "vc_deps v0 = vc_deps v"
      using False by (simp_all add: v0_def)
    have rt0: "rt_ok True v0" using retry False by (simp add: retry_inv_def rt_ok_def v0_def)
    have m0: "mok (sd_retrying (vc_state v0))" using work(1) by (simp add: v0 sched_inv_mok)
    note sync = syncRetryTimers_ok [OF rt0 assms(3) m0, folded v1_def]
    have pn: "sd_pollNonce ?st = ?m" using work(3) by (simp add: poll_frame_def)
    have "poll_shape v0 = poll_shape ?v"
      by (rule poll_shape_cong) (simp_all add: v0_def pn)
    moreover have "poll_shape v1 = poll_shape v0"
      by (rule poll_shape_cong) (use sync(3) in \<open>simp_all add: v1_def\<close>)
    ultimately have shape2: "poll_shape v2"
      using shape by (simp add: v2_def) (rule poll_shape_state, simp_all add: finishPoll_def)
    have "\<not> sd_checking (vc_state v2)" by (simp add: v2_def finishPoll_def)
    note poll = poll_inv_schedulePoll [OF shape2 this]
    have "retry_inv v2"
      using sync(1,2) v0 by (simp add: retry_inv_def rt_ok_def rt_synced_def v2_def v1_def finishPoll_def)
    note retry2 = retry_inv_schedulePoll [OF shape2 this]
    have "sched_inv (vc_state v2)"
      using work(1) by (simp add: v2_def v1_def v0 finishPoll_def)
    moreover have "fresh_starts (vc_deps v) (vc_state v2) = fresh_starts (vc_deps v) ?st"
      by (rule quiet_state) (simp_all add: v2_def v1_def v0 finishPoll_def)
    ultimately have "svc_inv (schedulePoll d v2)" for d
      using poll retry2 work(2) v0(3) by (simp add: svc_inv_def v2_def v1_def)
    moreover have "handlePollCycle r n (set_status i Delivered v) = schedulePoll (sd_interval (vc_state v2)) v2"
      using False by (simp add: handlePollCycle_def set_status_delivered Let_def v2_def v1_def v0_def)
    ultimately show ?thesis by simp
  qed
qed

lemma svc_inv_RetryTick:
  assumes "svc_inv v" "refresh_sound (vc_deps v)" "orders_ok r"
    and "i < length (vc_timers v)" "tm_callback (vc_timers v ! i) = RetryTick k n"
  shows "svc_inv (handleRetryTick r k n (set_status i Delivered v))"
proof -
  let ?v = "v\<lparr>vc_timers := delivered i (vc_timers v)\<rparr>"
  have tv: "tview (vc_timers v) i = Some (RetryTick k n, pending (vc_timers v ! i))"
    using assms(4,5) by (simp add: tview_def)
  have poll: "poll_inv ?v"
    using assms poll_inv_cong [where v = v and w = ?v] same_on_delivered [of i "vc_timers v" is_poll]
    by (simp add: svc_inv_def)
  have rt: "rt_ok (\<not> vc_closed v) v" using assms(1) by (simp add: svc_inv_def retry_inv_def)
  show ?thesis
  proof (cases "vc_closed v")
    case True
    have "rt_ok False ?v"
      using rt assms(4,5) tv True by (fastforce simp: rt_ok_def tview_delivered)
    then show ?thesis
      using assms(1) poll True
      by (simp add: handleRetryTick_def set_status_delivered svc_inv_def retry_inv_def)
  next
    case False
    define v1 where "v1 = (case mget (vc_retryTimers ?v) k of None \<Rightarrow> ?v
      | Some c \<Rightarrow> if sc_nonce c = n then ?v\<lparr>vc_retryTimers := mdel k (vc_retryTimers ?v)\<rparr> else ?v)"
    have v1: "vc_state v1 = vc_state v" "vc_deps v1 = vc_deps v" "vc_closed v1 = vc_closed v"
      "vc_timers v1 = delivered i (vc_timers v)" "vc_pollTimer v1 = vc_pollTimer v"
      "vc_pollCycleTimer v1 = vc_pollCycleTimer v"
      by (simp_all add: v1_def split: option.split)
    have kept: "mget (vc_retryTimers v) k' = Some sc \<and> (k' = k \<longrightarrow> sc_nonce sc \<noteq> n)"
      if "mget (vc_retryTimers v1) k' = Some sc" for k' sc
      using that by (auto simp: v1_def gomap split: option.splits if_splits)
    have "rt_ok True v1"
    proof -
      have "mok (vc_retryTimers v1)"
        using rt by (simp add: rt_ok_def v1_def gomap split: option.split)
      moreover have "tview (delivered i (vc_timers v)) (sc_timer sc) = Some (RetryTick k' (sc_nonce sc), True)"
        if "mget (vc_retryTimers v1) k' = Some sc" for k' sc
      proof -
        have "tview (vc_timers v) (sc_timer sc) = Some (RetryTick k' (sc_nonce sc), True)"
          using rt kept [OF that] False by (force simp: rt_ok_def)
        moreover from this have "sc_timer sc \<noteq> i" using tv kept [OF that] by auto
        ultimately show ?thesis using assms(4) by (simp add: tview_delivered)
      qed
      ultimately show ?thesis unfolding rt_ok_def v1(4) by blast
    qed
    moreover let ?st = "handleDueRetry (vc_deps v) k n (vc_state v)"
    have inv: "sched_inv ?st" "fresh_starts (vc_deps v) ?st"
      using assms(1,2) inv_handleDueRetry handleDueRetry_frame(2) by (auto simp: svc_inv_def)
    have "poll_inv (v1\<lparr>vc_state := ?st\<rparr>) = poll_inv ?v"
      using handleDueRetry_frame(1) [of "vc_state v" "vc_deps v" k n]
      by (intro poll_inv_cong) (simp_all add: v1 poll_frame_def)
    ultimately have "svc_inv (syncRetryTimers r (v1\<lparr>vc_state := ?st\<rparr>))"
      using inv poll assms(3) False by (intro svc_inv_sync) (simp_all add: v1)
    moreover have "handleRetryTick r k n (set_status i Delivered v) =
        syncRetryTimers r (v1\<lparr>vc_state := handleDueRetry (vc_deps v1) k n (vc_state v1)\<rparr>)"
      using False unfolding handleRetryTick_def set_status_delivered v1_def Let_def by simp
    ultimately show ?thesis by (simp add: v1)
  qed
qed

text \<open>The dependencies never change.\<close>

lemma vc_deps_step: "svc_step v w \<Longrightarrow> vc_deps w = vc_deps v"
proof (erule svc_stepE)
  fix i r assume "w = run_callback r (tm_callback (vc_timers v ! i)) (set_status i Delivered v)"
  then show ?thesis
    by (cases "tm_callback (vc_timers v ! i)")
      (auto simp: set_status_def handlePollTick_def handlePollCycle_def handleRetryTick_def AfterFunc_def
        Let_def split: option.split prod.split)
qed (auto simp: set_status_def svc_requestRefresh_def svc_applyRunEvent_def svc_close_def Let_def
    split: prod.split)

theorem svc_inv_step:
  assumes "svc_step v w" "svc_inv v" "refresh_sound (vc_deps v)"
  shows "svc_inv w"
  using assms(1)
proof cases
  case (step_deliver i r)
  show ?thesis
  proof (cases "tm_callback (vc_timers v ! i)")
    case (PollTick n)
    with step_deliver assms(2) svc_inv_PollTick show ?thesis by simp
  next
    case (PollCycle n)
    with step_deliver assms(2,3) svc_inv_PollCycle show ?thesis by simp
  next
    case (RetryTick k n)
    with step_deliver assms(2,3) svc_inv_RetryTick show ?thesis by simp
  qed
qed (use assms svc_inv_expire svc_inv_requestRefresh svc_inv_applyRunEvent svc_inv_close in auto)

lemma reachable_inv:
  assumes "svc_reachable cfg d v" "refresh_sound d"
  shows "svc_inv v \<and> refresh_sound (vc_deps v)"
  using assms(1)
proof induction
  case (reach_new ord clk delay)
  have "refresh_sound (vc_deps (newService cfg d clk ord delay))"
    using assms(2) by (simp add: newService_def Let_def refresh_sound_def)
  then show ?case using svc_inv_newService by blast
next
  case (reach_step v w)
  then show ?case using svc_inv_step vc_deps_step by metis
qed

end
