(* ===== verification/Orch_Demo.thy ===== *)
theory Orch_Demo
  imports Orch_Inv
begin

text \<open>
  A concrete run of the service, on which the properties are exercised: settings with one
  slot, a tracker holding two Todo items, a \<open>startRun\<close> that accepts every run, and the states
  the service goes through on its first poll.
\<close>

definition demo_item :: "string \<Rightarrow> string \<Rightarrow> work_item" where
  "demo_item key ident = empty_item\<lparr>wi_ID := key, wi_Identifier := ident, wi_Title := ''t'',
     wi_State := ''Todo''\<rparr>"

definition demo_items :: "work_item list" where
  "demo_items = [demo_item ''b'' ''ENG-2'', demo_item ''a'' ''ENG-1'']"

definition demo_settings :: settings where
  "demo_settings = sample_settings\<lparr>st_Agent := (st_Agent sample_settings)\<lparr>ag_MaxConcurrentAgents := 1\<rparr>\<rparr>"

text \<open>The tracker answers by ID from a fixed list of items.\<close>

definition lookup_items :: "work_item list \<Rightarrow> string list \<Rightarrow> work_item list" where
  "lookup_items items ids = filter (\<lambda>item. wi_ID item \<in> set ids) items"

definition demo_deps :: deps where
  "demo_deps = \<lparr>dp_listCandidates = Some (\<lambda>cs. Inr demo_items),
     dp_refreshItems = Some (\<lambda>cs ids. Inr (lookup_items demo_items ids)),
     dp_startRun = Some (\<lambda>cs q. Inr \<lparr>sr_Handle = Some 7, sr_WorkerHost = [], sr_WorkspacePath = ''/w'',
        sr_SessionID = ''s''\<rparr>),
     dp_stopRun = Some (\<lambda>cs q. None), dp_hostSelection = None, dp_admitRun = None\<rparr>"

text \<open>The same, but no run can be started.\<close>

definition demo_deps_down :: deps where
  "demo_deps_down = demo_deps\<lparr>dp_startRun := Some (\<lambda>cs q. Inl ''boom'')\<rparr>"

lemma refresh_sound_lookup:
  "dp_refreshItems d = Some (\<lambda>cs ids. Inr (lookup_items items ids)) \<Longrightarrow> refresh_sound d"
  by (auto simp: refresh_sound_def lookup_items_def)

lemma demo_refresh_sound: "refresh_sound demo_deps" "refresh_sound demo_deps_down"
  by (rule refresh_sound_lookup; simp add: demo_deps_down_def demo_deps_def)+

definition demo_orders :: orders where
  "demo_orders = \<lparr>or_stalled = rev, or_ids = (\<lambda>ks. ks), or_running = rev, or_timers = rev,
     or_retries = (\<lambda>ks. ks)\<rparr>"

lemma demo_orders_ok: "orders_ok demo_orders"
  by (simp add: orders_ok_def demo_orders_def)

text \<open>Expiry of a timer followed by its callback.\<close>

definition fire :: "nat \<Rightarrow> service \<Rightarrow> service" where
  "fire i v = (let v1 = set_status i Expired v in
     run_callback demo_orders (tm_callback (vc_timers v1 ! i)) (set_status i Delivered v1))"

lemma fire_reachable:
  assumes "svc_reachable cfg d v" "i < length (vc_timers v)" "tm_status (vc_timers v ! i) = Armed"
  shows "svc_reachable cfg d (fire i v)"
proof -
  let ?w = "set_status i Expired v"
  have "svc_reachable cfg d ?w" using assms by (meson reach_step step_expire)
  moreover have "svc_step ?w (fire i v)"
    unfolding fire_def Let_def using assms(2)
    by (intro step_deliver demo_orders_ok) (simp_all add: set_status_def)
  ultimately show ?thesis by (rule reach_step)
qed

text \<open>The clock stands still at two seconds.\<close>

definition demo_start :: "deps \<Rightarrow> service" where
  "demo_start d = newService demo_settings d (\<lambda>n. 2 * second) (\<lambda>ks. ks) (20 * millisecond)"

definition demo_checking :: service where
  "demo_checking = fire 0 (demo_start demo_deps)"

definition demo_polled :: service where
  "demo_polled = fire 1 demo_checking"

text \<open>The only run fails; its retry is due ten seconds later.\<close>

definition demo_event :: "run_event_kind \<Rightarrow> string \<Rightarrow> codex_totals \<Rightarrow> run_event" where
  "demo_event kind key totals = \<lparr>ev_Kind = kind, ev_ItemID = key, ev_ItemIdentifier = [], ev_At = zero_time,
     ev_Attempt = 0, ev_WorkerHost = [], ev_WorkspacePath = [], ev_SessionID = [], ev_Message = ''m'',
     ev_Err = None, ev_CodexTotals = totals, ev_RateLimits = None\<rparr>"

definition demo_failed :: service where
  "demo_failed = svc_applyRunEvent demo_orders (demo_event RunEventRunFailed ''a'' zero_totals) demo_polled"

lemma demo_start_reachable: "svc_reachable demo_settings d (demo_start d)"
  unfolding demo_start_def by (rule reach_new) simp

text \<open>The run is evaluated once; the facts below are read off the result.\<close>

definition armed_at :: "service \<Rightarrow> nat \<Rightarrow> bool" where
  "armed_at v i \<longleftrightarrow> i < length (vc_timers v) \<and> tm_status (vc_timers v ! i) = Armed"

definition run_facts :: "running_entry \<Rightarrow> string \<times> string \<times> string \<times> int \<times> gtime option \<times> gtime \<times> codex_totals" where
  "run_facts e = (re_SessionID e, wi_ID (re_Item e), wi_Identifier (re_Item e), re_Attempt e, re_LastEventAt e, re_StartedAt e,
     re_LastReportedTotals e)"

lemma demo_eval:
  "(let st = demo_start demo_deps; c = fire 0 st; p = fire 1 c; s = vc_state p;
        f = svc_applyRunEvent demo_orders (demo_event RunEventRunFailed ''a'' zero_totals) p;
        t = handleDueRetry demo_deps ''a'' 1 (vc_state f)
    in ((armed_at st 0, armed_at c 1, sd_checking (vc_state c), vc_closed c),
        (Now s, sd_maxRetryBackoff s, sd_stallTimeout s, sd_codexTotals s, sd_calls s,
         map (\<lambda>(k, e). (k, run_facts e)) (sd_running s)),
        (vc_closed f, map (\<lambda>(k, e). (k, te_Nonce e)) (sd_retrying (vc_state f)), length (sd_running (vc_state f))),
        length (sd_running t), mkeys (sd_running t)))
   = ((True, True, True, False),
      (2 * second, 300 * second, 300 * second, zero_totals,
       [CallListCandidates, CallRefresh [''a''],
        CallStart \<lparr>sq_Item = demo_item ''a'' ''ENG-1'', sq_Attempt = 0, sq_PreferredHost = []\<rparr>],
       [(''a'', ''s'', ''a'', ''ENG-1'', 0, None, 2 * second, zero_totals)]),
      (False, [(''a'', 1)], 0), 1, [''a''])"
  by code_simp

lemmas demo_evaluated = demo_eval [unfolded Let_def prod.inject, folded demo_checking_def, folded demo_polled_def,
    folded demo_failed_def]

lemma demo_checking_reachable: "svc_reachable demo_settings demo_deps demo_checking"
  unfolding demo_checking_def using demo_evaluated
  by (intro fire_reachable [OF demo_start_reachable]) (simp_all add: armed_at_def)

lemma demo_polled_reachable: "svc_reachable demo_settings demo_deps demo_polled"
  unfolding demo_polled_def using demo_evaluated
  by (intro fire_reachable [OF demo_checking_reachable]) (simp_all add: armed_at_def)

lemma demo_failed_reachable: "svc_reachable demo_settings demo_deps demo_failed"
  unfolding demo_failed_def by (rule reach_step [OF demo_polled_reachable step_event [OF demo_orders_ok]])

lemma demo_polled_fields:
  "Now (vc_state demo_polled) = 2 * second" "sd_maxRetryBackoff (vc_state demo_polled) = 300 * second"
  "sd_stallTimeout (vc_state demo_polled) = 300 * second" "sd_codexTotals (vc_state demo_polled) = zero_totals"
  "sd_calls (vc_state demo_polled) = [CallListCandidates, CallRefresh [''a''],
     CallStart \<lparr>sq_Item = demo_item ''a'' ''ENG-1'', sq_Attempt = 0, sq_PreferredHost = []\<rparr>]"
  using demo_evaluated by simp_all

lemma demo_polled_run:
  obtains e where "sd_running (vc_state demo_polled) = [(''a'', e)]" "mget (sd_running (vc_state demo_polled)) ''a'' = Some e"
    "re_Attempt e = 0" "re_LastEventAt e = None" "re_StartedAt e = 2 * second" "re_LastReportedTotals e = zero_totals"
    "re_SessionID e = ''s''" "wi_ID (re_Item e) = ''a''" "wi_Identifier (re_Item e) = ''ENG-1''"
proof -
  have "map (\<lambda>(k, e). (k, run_facts e)) (sd_running (vc_state demo_polled))
      = [(''a'', ''s'', ''a'', ''ENG-1'', 0, None, 2 * second, zero_totals)]"
    using demo_evaluated by simp
  then obtain e where "sd_running (vc_state demo_polled) = [(''a'', e)]"
    "run_facts e = (''s'', ''a'', ''ENG-1'', 0, None, 2 * second, zero_totals)" by (auto simp: map_eq_Cons_conv)
  then show ?thesis using that [of e] by (simp add: run_facts_def)
qed

lemma demo_polled_running:
  "map (\<lambda>(k, e). (k, re_SessionID e)) (sd_running (vc_state demo_polled)) = [(''a'', ''s'')]"
  by (rule demo_polled_run) simp

lemma demo_failed_retry:
  obtains e where "mget (sd_retrying (vc_state demo_failed)) ''a'' = Some e" "te_Nonce e = 1"
proof -
  have "map (\<lambda>(k, e). (k, te_Nonce e)) (sd_retrying (vc_state demo_failed)) = [(''a'', 1)]"
    using demo_evaluated by simp
  then obtain e where "sd_retrying (vc_state demo_failed) = [(''a'', e)]" "te_Nonce e = 1" by (auto simp: map_eq_Cons_conv)
  then show ?thesis using that [of e] by simp
qed

lemma demo_failed_fields: "\<not> vc_closed demo_failed" "sd_running (vc_state demo_failed) = []"
  using demo_evaluated by simp_all

lemma demo_retried:
  "length (sd_running (handleDueRetry demo_deps ''a'' 1 (vc_state demo_failed))) = 1"
  "mkeys (sd_running (handleDueRetry demo_deps ''a'' 1 (vc_state demo_failed))) = [''a'']"
  using demo_evaluated by simp_all

end
