(* ===== verification/Scheduler_Props.thy ===== *)
theory Scheduler_Props
  imports Orch_Demo
begin

text \<open>
  What the scheduler's operations do on every branch: the back-off delay, the outcome of a due
  retry, of a run's end, of a stall and of a reconciliation, and the token accounting.
\<close>

declare map_of_eq_Some_iff [simp del]

subsection \<open>Back-off\<close>

lemma retry_delay_loop_exact:
  assumes "0 < m" "m \<le> 2 ^ 62" "0 < d" "d < 2 ^ 62"
  shows "retry_delay_loop k d m = min (d * 2 ^ k) m"
  using assms(3,4)
proof (induction k arbitrary: d)
  case 0
  then show ?case using assms(1) by (simp add: min_def)
next
  case (Suc k)
  have w: "wrap64 (d * 2) = d * 2" using Suc.prems by (intro wrap64_id) simp_all
  show ?case
  proof (cases "m \<le> d * 2")
    case True
    have "d * 2 * 1 \<le> d * 2 * 2 ^ k" using Suc.prems by (intro mult_left_mono) simp_all
    with True have "m \<le> d * 2 ^ Suc k" by (simp add: mult.assoc)
    with True assms(1) show ?thesis by (simp add: w Let_def)
  next
    case False
    with assms(2) have "d * 2 < 2 ^ 62" by simp
    with Suc False show ?thesis by (simp add: w Let_def mult.assoc)
  qed
qed

text \<open>C30 (functional). The \<open>n\<close>-th failure retry waits \<open>10 s * 2 ^ (n - 1)\<close>, never longer than the configured
  maximum, for every maximum that is positive and at most \<open>2 ^ 62\<close> nanoseconds; the 64-bit doubling
  in the loop does not wrap there.\<close>

theorem failureRetryDelay_exact:
  assumes "1 \<le> n" "0 < maxBackoff" "maxBackoff \<le> 2 ^ 62"
  shows "failureRetryDelay n maxBackoff = min (10 * second * 2 ^ nat (n - 1)) maxBackoff"
  using assms unfolding failureRetryDelay_def
  by (intro retry_delay_loop_exact) (simp_all add: second_def)

theorem failureRetryDelay_exact_witness:
  "failureRetryDelay 3 (5 * 60 * second) = 40 * second \<and> failureRetryDelay 9 (5 * 60 * second) = 300 * second"
  using failureRetryDelay_exact [of 3 "5 * 60 * second"] failureRetryDelay_exact [of 9 "5 * 60 * second"]
  by (simp add: second_def)

text \<open>Without a positive maximum nothing stops the doubling: the delay of attempt 31
  overflows the 64-bit duration and is negative, so that retry is due at once; the same happens
  below a maximum of \<open>2 ^ 63 - 1\<close> nanoseconds.\<close>

theorem failureRetryDelay_overflow:
  "failureRetryDelay 30 0 = 5368709120 * second \<and> failureRetryDelay 31 0 < 0
   \<and> failureRetryDelay 31 (2 ^ 63 - 1) < 0"
  by code_simp

subsection \<open>Retry bookkeeping\<close>

lemma scheduleFailureRetry_fields [simp]:
  "sd_running (scheduleFailureRetry k i a m h p s) = sd_running s"
  "sd_claimed (scheduleFailureRetry k i a m h p s) = sd_claimed s"
  "sd_retryNonce (scheduleFailureRetry k i a m h p s) = Suc (sd_retryNonce s)"
  "sd_stallTimeout (scheduleFailureRetry k i a m h p s) = sd_stallTimeout s"
  "sd_maxRetryBackoff (scheduleFailureRetry k i a m h p s) = sd_maxRetryBackoff s"
  "sd_clock (scheduleFailureRetry k i a m h p s) = sd_clock s"
  by (simp_all add: scheduleFailureRetry_def Let_def)

lemma scheduleFailureRetry_retrying:
  "mget (sd_retrying (scheduleFailureRetry k i a m h p s)) k' = (if k' = k
     then Some \<lparr>te_ItemID = k, te_ItemIdentifier = i, te_Attempt = (if a \<le> 0 then 1 else a),
       te_DueAt = Now s + failureRetryDelay (if a \<le> 0 then 1 else a) (sd_maxRetryBackoff s),
       te_LastError = m, te_WorkerHost = h, te_WorkspacePath = p, te_Nonce = Suc (sd_retryNonce s)\<rparr>
     else mget (sd_retrying s) k')"
  by (simp add: scheduleFailureRetry_def Let_def gomap)

lemma dispatchItem_outcome:
  assumes "dispatchItem d item a p s = (ok, t)" "0 \<le> a"
  shows "if ok then mget (sd_running t) (wi_ID item) \<noteq> None \<and> mget (sd_claimed t) (wi_ID item) \<noteq> None
      \<and> mget (sd_retrying t) (wi_ID item) = None
    else sd_running t = sd_running s \<and> sd_claimed t = sd_claimed s \<and> sd_retryNonce s \<le> sd_retryNonce t \<and>
      (sd_retrying t = sd_retrying s \<or> (\<exists>r. mget (sd_retrying t) (wi_ID item) = Some r
        \<and> te_Attempt r = a + 1 \<and> te_Nonce r = Suc (sd_retryNonce s)))"
proof -
  obtain host admitted where ah: "admitHost d p s = (host, admitted)" by fastforce
  obtain r s1 where cs: "call_start d \<lparr>sq_Item = item, sq_Attempt = a, sq_PreferredHost = host\<rparr> s = (r, s1)"
    by fastforce
  show ?thesis
    using call_start_state [OF cs] assms
    by (auto simp: dispatchItem_def ah cs Let_def gomap scheduleFailureRetry_retrying split: sum.splits if_splits)
qed

text \<open>C16 (functional). A due retry is always resolved: handling it leaves the item either running
  and claimed with no retry, or waiting for a new retry with the next attempt number and a newer
  nonce, or released (not running, not waiting, not claimed).\<close>

theorem handleDueRetry_resolved:
  assumes "sched_inv s" "refresh_sound d" "mget (sd_retrying s) k = Some e"
  defines "t \<equiv> handleDueRetry d k (te_Nonce e) s"
  shows "(mget (sd_running t) k \<noteq> None \<and> mget (sd_claimed t) k \<noteq> None \<and> mget (sd_retrying t) k = None)
    \<or> (mget (sd_running t) k = None \<and> (\<exists>r. mget (sd_retrying t) k = Some r
         \<and> te_Attempt r = te_Attempt e + 1 \<and> te_Nonce e < te_Nonce r))
    \<or> (mget (sd_running t) k = None \<and> mget (sd_retrying t) k = None \<and> mget (sd_claimed t) k = None)"
proof -
  let ?s0 = "s\<lparr>sd_retrying := mdel k (sd_retrying s)\<rparr>"
  obtain item status s1 where r: "refreshRetryItem d k ?s0 = ((item, status), s1)" by (metis prod.exhaust)
  have e: "1 \<le> te_Attempt e" "te_Nonce e \<le> sd_retryNonce s" "mget (sd_running s) k = None"
    using assms(1,3) by (auto simp: sched_inv_def retries_ok_def phases_def)
  have s1: "sd_running s1 = sd_running s" "sd_retryNonce s1 = sd_retryNonce s"
    "sd_claimed s1 = sd_claimed s" "mget (sd_retrying s1) k = None"
    using refreshRetryItem_frame [OF r] by (auto simp: gomap)
  note unf = t_def handleDueRetry_def assms(3) option.case Let_def r prod.case simp_thms if_False
  show ?thesis
  proof (cases "status = retryReady \<and> \<not> at_capacity s1 \<and> \<not> state_full s1 (wi_State item)")
    case False
    then show ?thesis
      unfolding unf using e s1 by (cases status) (auto simp: gomap scheduleFailureRetry_retrying)
  next
    case True
    then have id: "wi_ID item = k" using refreshRetryItem_ready r assms(2) by blast
    obtain ok s2 where dsp: "dispatchItem d item (te_Attempt e) (te_WorkerHost e) s1 = (ok, s2)" by fastforce
    have "0 \<le> te_Attempt e" using e(1) by simp
    note out = dispatchItem_outcome [OF dsp this, unfolded id]
    show ?thesis
      unfolding unf using True out e s1
      by (cases ok) (auto simp: dsp scheduleFailureRetry_retrying)
  qed
qed

text \<open>A retry timer that fires twice, or late, acts once: handling the same item and nonce
  again changes nothing.\<close>

theorem handleDueRetry_once:
  assumes "sched_inv s" "refresh_sound d"
  shows "handleDueRetry d k n (handleDueRetry d k n s) = handleDueRetry d k n s"
proof (cases "\<exists>e. mget (sd_retrying s) k = Some e \<and> te_Nonce e = n")
  case False
  then have "handleDueRetry d k n s = s" by (auto simp: handleDueRetry_def split: option.split)
  then show ?thesis by simp
next
  case True
  then obtain e where e: "mget (sd_retrying s) k = Some e" "n = te_Nonce e" by blast
  let ?t = "handleDueRetry d k n s"
  have "te_Nonce r \<noteq> n" if "mget (sd_retrying ?t) k = Some r" for r
    using handleDueRetry_resolved [OF assms e(1)] that e(2) by auto
  then show ?thesis
    unfolding handleDueRetry_def [of d k n ?t] by (auto split: option.split)
qed

lemma demo_failed_inv: "sched_inv (vc_state demo_failed)"
  using reachable_inv [OF demo_failed_reachable demo_refresh_sound(1)] by (simp add: svc_inv_def)

lemma demo_polled_inv: "sched_inv (vc_state demo_polled)"
  using reachable_inv [OF demo_polled_reachable demo_refresh_sound(1)] by (simp add: svc_inv_def)

theorem handleDueRetry_resolved_witness:
  "mget (sd_retrying (handleDueRetry demo_deps ''a'' 1 (vc_state demo_failed))) ''a'' = None"
proof -
  obtain e where e: "mget (sd_retrying (vc_state demo_failed)) ''a'' = Some e" "te_Nonce e = 1" by (rule demo_failed_retry)
  have "mget (sd_running (handleDueRetry demo_deps ''a'' 1 (vc_state demo_failed))) ''a'' \<noteq> None"
    using arg_cong [OF demo_retried(2), of set] by (simp add: mget_None_iff)
  then show ?thesis
    using handleDueRetry_resolved [OF demo_failed_inv demo_refresh_sound(1) e(1)] e(2) by auto
qed

theorem handleDueRetry_once_witness:
  "handleDueRetry demo_deps ''a'' 1 (handleDueRetry demo_deps ''a'' 1 (vc_state demo_failed))
     = handleDueRetry demo_deps ''a'' 1 (vc_state demo_failed)
   \<and> length (sd_running (handleDueRetry demo_deps ''a'' 1 (vc_state demo_failed))) = 1"
proof
  show "handleDueRetry demo_deps ''a'' 1 (handleDueRetry demo_deps ''a'' 1 (vc_state demo_failed))
     = handleDueRetry demo_deps ''a'' 1 (vc_state demo_failed)"
    by (rule handleDueRetry_once [OF demo_failed_inv demo_refresh_sound(1)])
  show "length (sd_running (handleDueRetry demo_deps ''a'' 1 (vc_state demo_failed))) = 1" by (rule demo_retried)
qed

subsection \<open>A run's events\<close>

lemma scheduleContinuationRetry_fields [simp]:
  "sd_running (scheduleContinuationRetry k i h p s) = sd_running s"
  "sd_claimed (scheduleContinuationRetry k i h p s) = sd_claimed s"
  "mget (sd_retrying (scheduleContinuationRetry k i h p s)) k' = (if k' = k
     then Some \<lparr>te_ItemID = k, te_ItemIdentifier = i, te_Attempt = 1, te_DueAt = Now s + second,
       te_LastError = [], te_WorkerHost = h, te_WorkspacePath = p, te_Nonce = Suc (sd_retryNonce s)\<rparr>
     else mget (sd_retrying s) k')"
  by (simp_all add: scheduleContinuationRetry_def Let_def gomap)

text \<open>The entry and the state an event leaves before it is looked at for the end of the run.\<close>

definition event_updated :: "run_event \<Rightarrow> running_entry \<Rightarrow> sched \<Rightarrow> running_entry \<times> sched" where
  "event_updated ev e s = (let (e1, s1) = (if hasTotals (ev_CodexTotals ev)
       then applyAggregateDelta (event_entry ev e) (ev_CodexTotals ev) s else (event_entry ev e, s)) in
     (e1, case ev_RateLimits ev of None \<Rightarrow> s1 | Some r \<Rightarrow> s1\<lparr>sd_rateLimits := Some r\<rparr>))"

lemma event_entry_fields [simp]:
  "re_Attempt (event_entry ev e) = re_Attempt e"
  "re_LastReportedTotals (event_entry ev e) = re_LastReportedTotals e"
  by (simp_all add: event_entry_def Let_def)

lemma event_updated_fields:
  assumes "event_updated ev e s = (e1, s1)"
  shows "re_Item e1 = re_Item e" "re_Attempt e1 = re_Attempt e"
    "sd_running s1 = sd_running s" "sd_claimed s1 = sd_claimed s" "sd_retrying s1 = sd_retrying s"
    "sd_retryNonce s1 = sd_retryNonce s" "sd_maxRetryBackoff s1 = sd_maxRetryBackoff s"
    "sd_clock s1 = sd_clock s" "sd_reads s1 = sd_reads s"
    "re_LastReportedTotals e1 = (if hasTotals (ev_CodexTotals ev) then ev_CodexTotals ev
       else re_LastReportedTotals e)"
    "sd_codexTotals s1 = (if hasTotals (ev_CodexTotals ev)
       then totals_add (sd_codexTotals s) (totals_delta (ev_CodexTotals ev) (re_LastReportedTotals e))
       else sd_codexTotals s)"
proof -
  have "e1 = fst (event_updated ev e s)" "s1 = snd (event_updated ev e s)" by (simp_all add: assms)
  then show "re_Item e1 = re_Item e" "re_Attempt e1 = re_Attempt e"
    "sd_running s1 = sd_running s" "sd_claimed s1 = sd_claimed s" "sd_retrying s1 = sd_retrying s"
    "sd_retryNonce s1 = sd_retryNonce s" "sd_maxRetryBackoff s1 = sd_maxRetryBackoff s"
    "sd_clock s1 = sd_clock s" "sd_reads s1 = sd_reads s"
    "re_LastReportedTotals e1 = (if hasTotals (ev_CodexTotals ev) then ev_CodexTotals ev
       else re_LastReportedTotals e)"
    "sd_codexTotals s1 = (if hasTotals (ev_CodexTotals ev)
       then totals_add (sd_codexTotals s) (totals_delta (ev_CodexTotals ev) (re_LastReportedTotals e))
       else sd_codexTotals s)"
    by (simp_all add: event_updated_def applyAggregateDelta_def Let_def split: option.split)
qed

lemma applyRunEvent_alt:
  assumes "mget (sd_running s) (ev_ItemID ev) = Some e" "event_updated ev e s = (e1, s1)"
  defines "gone \<equiv> s1\<lparr>sd_running := mdel (ev_ItemID ev) (mput (ev_ItemID ev) e1 (sd_running s1))\<rparr>"
  shows "applyRunEvent ev s = (case ev_Kind ev of
      RunEventRunCompleted \<Rightarrow> scheduleContinuationRetry (wi_ID (re_Item e1)) (wi_Identifier (re_Item e1))
        (re_WorkerHost e1) (re_WorkspacePath e1) gone
    | RunEventRunFailed \<Rightarrow> scheduleFailureRetry (wi_ID (re_Item e1)) (wi_Identifier (re_Item e1))
        (nextFailureAttempt (re_Attempt e1)) (case ev_Err ev of Some m \<Rightarrow> m | None \<Rightarrow> ev_Message ev)
        (re_WorkerHost e1) (re_WorkspacePath e1) gone
    | _ \<Rightarrow> s1\<lparr>sd_running := mput (ev_ItemID ev) e1 (sd_running s1)\<rparr>)"
proof -
  obtain e2 s2 where es: "(if hasTotals (ev_CodexTotals ev)
      then applyAggregateDelta (event_entry ev e) (ev_CodexTotals ev) s else (event_entry ev e, s)) = (e2, s2)"
    by fastforce
  then have "e1 = e2" "s1 = (case ev_RateLimits ev of None \<Rightarrow> s2 | Some r \<Rightarrow> s2\<lparr>sd_rateLimits := Some r\<rparr>)"
    using assms(2) by (simp_all add: event_updated_def)
  then show ?thesis
    unfolding applyRunEvent_def assms(1) option.case Let_def es prod.case gone_def by (simp only:)
qed

lemma nextFailureAttempt_pos: "1 \<le> nextFailureAttempt a"
  by (simp add: nextFailureAttempt_def)

lemma applyRunEvent_cases:
  assumes "sched_inv s" "mget (sd_running s) k = Some e" "ev_ItemID ev = k"
  defines "t \<equiv> applyRunEvent ev s"
  shows "sd_claimed t = sd_claimed s"
    and "(case ev_Kind ev of
        RunEventRunCompleted \<Rightarrow> mget (sd_running t) k = None \<and> (\<exists>r. mget (sd_retrying t) k = Some r
          \<and> te_Attempt r = 1 \<and> te_DueAt r = Now s + second)
      | RunEventRunFailed \<Rightarrow> mget (sd_running t) k = None \<and> (\<exists>r. mget (sd_retrying t) k = Some r
          \<and> te_Attempt r = nextFailureAttempt (re_Attempt e)
          \<and> te_DueAt r = Now s + failureRetryDelay (nextFailureAttempt (re_Attempt e)) (sd_maxRetryBackoff s))
      | _ \<Rightarrow> sd_retrying t = sd_retrying s \<and> (\<exists>e'. mget (sd_running t) k = Some e'
          \<and> re_Item e' = re_Item e \<and> re_Attempt e' = re_Attempt e))"
    and "k' \<noteq> k \<Longrightarrow> mget (sd_running t) k' = mget (sd_running s) k'
        \<and> mget (sd_retrying t) k' = mget (sd_retrying s) k'"
proof -
  obtain e1 s1 where up: "event_updated ev e s = (e1, s1)" by fastforce
  note f = event_updated_fields [OF up]
  have id: "wi_ID (re_Item e) = k" using assms(1,2) by (simp add: sched_inv_def keyed_def)
  have now: "Now s1 = Now s" by (simp add: Now_def f)
  have nowr: "Now (s1\<lparr>sd_running := r\<rparr>) = Now s1" for r by (simp add: Now_def)
  note alt = applyRunEvent_alt [OF assms(2) [folded assms(3)] up, folded t_def, unfolded assms(3) f(1) id]
  have pos: "\<not> nextFailureAttempt a \<le> 0" for a using nextFailureAttempt_pos [of a] by simp
  show "sd_claimed t = sd_claimed s" unfolding alt by (auto simp: f split: run_event_kind.split)
  show "k' \<noteq> k \<Longrightarrow> mget (sd_running t) k' = mget (sd_running s) k'
        \<and> mget (sd_retrying t) k' = mget (sd_retrying s) k'"
    unfolding alt by (auto simp: f gomap scheduleFailureRetry_retrying split: run_event_kind.split)
  show "(case ev_Kind ev of
        RunEventRunCompleted \<Rightarrow> mget (sd_running t) k = None \<and> (\<exists>r. mget (sd_retrying t) k = Some r
          \<and> te_Attempt r = 1 \<and> te_DueAt r = Now s + second)
      | RunEventRunFailed \<Rightarrow> mget (sd_running t) k = None \<and> (\<exists>r. mget (sd_retrying t) k = Some r
          \<and> te_Attempt r = nextFailureAttempt (re_Attempt e)
          \<and> te_DueAt r = Now s + failureRetryDelay (nextFailureAttempt (re_Attempt e)) (sd_maxRetryBackoff s))
      | _ \<Rightarrow> sd_retrying t = sd_retrying s \<and> (\<exists>e'. mget (sd_running t) k = Some e'
          \<and> re_Item e' = re_Item e \<and> re_Attempt e' = re_Attempt e))"
    unfolding alt by (cases "ev_Kind ev") (simp_all add: f gomap scheduleFailureRetry_retrying now nowr pos)
qed

text \<open>C19 (functional). An event of a running item ends the run exactly when it says so. A completed run
  leaves the running map and waits one second for a continuation with attempt 1; a failed run waits
  for the back-off of the next attempt; on any other event the run goes on with the same item and
  attempt. The claim stays in every case, and no other item is touched.\<close>

theorem applyRunEvent_outcome:
  assumes "sched_inv s" "mget (sd_running s) k = Some e" "ev_ItemID ev = k"
  defines "t \<equiv> applyRunEvent ev s"
  shows "sd_claimed t = sd_claimed s
    \<and> (case ev_Kind ev of
        RunEventRunCompleted \<Rightarrow> mget (sd_running t) k = None \<and> (\<exists>r. mget (sd_retrying t) k = Some r
          \<and> te_Attempt r = 1 \<and> te_DueAt r = Now s + second)
      | RunEventRunFailed \<Rightarrow> mget (sd_running t) k = None \<and> (\<exists>r. mget (sd_retrying t) k = Some r
          \<and> te_Attempt r = nextFailureAttempt (re_Attempt e)
          \<and> te_DueAt r = Now s + failureRetryDelay (nextFailureAttempt (re_Attempt e)) (sd_maxRetryBackoff s))
      | _ \<Rightarrow> sd_retrying t = sd_retrying s \<and> (\<exists>e'. mget (sd_running t) k = Some e'
          \<and> re_Item e' = re_Item e \<and> re_Attempt e' = re_Attempt e))
    \<and> (\<forall>k'. k' \<noteq> k \<longrightarrow> mget (sd_running t) k' = mget (sd_running s) k'
        \<and> mget (sd_retrying t) k' = mget (sd_retrying s) k')"
  unfolding t_def using applyRunEvent_cases [OF assms(1-3)] by blast

theorem applyRunEvent_outcome_witness:
  "let t = applyRunEvent (demo_event RunEventRunFailed ''a'' zero_totals) (vc_state demo_polled) in
     mget (sd_running t) ''a'' = None
     \<and> map_option te_DueAt (mget (sd_retrying t) ''a'') = Some (12 * second)"
proof -
  obtain e where e: "mget (sd_running (vc_state demo_polled)) ''a'' = Some e" "re_Attempt e = 0"
    by (rule demo_polled_run)
  have m: "failureRetryDelay (nextFailureAttempt 0) (300 * second) = 10 * second" by code_simp
  have "ev_ItemID (demo_event RunEventRunFailed ''a'' zero_totals) = ''a''" by (simp add: demo_event_def)
  from applyRunEvent_outcome [OF demo_polled_inv e(1) this] show ?thesis
    unfolding Let_def e(2) demo_polled_fields m by (auto simp: demo_event_def)
qed

subsection \<open>Token totals\<close>

text \<open>Cumulative reports of one run, each at least the one before.\<close>

definition totals_le :: "codex_totals \<Rightarrow> codex_totals \<Rightarrow> bool" where
  "totals_le a b \<longleftrightarrow> ct_InputTokens a \<le> ct_InputTokens b \<and> ct_OutputTokens a \<le> ct_OutputTokens b
     \<and> ct_TotalTokens a \<le> ct_TotalTokens b \<and> ct_SecondsRunning a \<le> ct_SecondsRunning b"

fun cumulative :: "codex_totals \<Rightarrow> codex_totals list \<Rightarrow> bool" where
  "cumulative base [] = True"
| "cumulative base (t # ts) = (hasTotals t \<and> totals_le base t \<and> cumulative t ts)"

lemma totals_telescope:
  "totals_le a b \<Longrightarrow> totals_le b c \<Longrightarrow>
     totals_add (totals_add x (totals_delta b a)) (totals_delta c b) = totals_add x (totals_delta c a)"
  by (simp add: totals_le_def totals_add_def totals_delta_def)

lemma totals_delta_self [simp]: "totals_add x (totals_delta a a) = x"
  by (simp add: totals_add_def totals_delta_def)

lemma cumulative_le: "cumulative a ts \<Longrightarrow> totals_le a (last (a # ts))"
proof (induction ts arbitrary: a)
  case Nil
  then show ?case by (simp add: totals_le_def)
next
  case (Cons t ts)
  then have "totals_le a t" "totals_le t (last (t # ts))" by simp_all
  then show ?case by (auto simp: totals_le_def)
qed

definition run_goes_on :: "run_event \<Rightarrow> bool" where
  "run_goes_on ev \<longleftrightarrow> ev_Kind ev \<noteq> RunEventRunCompleted \<and> ev_Kind ev \<noteq> RunEventRunFailed"



subsection \<open>Stalled runs\<close>

definition lastActivity :: "running_entry \<Rightarrow> gtime" where
  "lastActivity e = (case re_LastEventAt e of Some t \<Rightarrow> t | None \<Rightarrow> re_StartedAt e)"

lemma stall_one_alt:
  "stall_one d now (k, e) s = (if now - lastActivity e \<le> sd_stallTimeout s then s
     else scheduleFailureRetry k (wi_Identifier (re_Item e)) (nextFailureAttempt (re_Attempt e))
       (''stalled for '' @ duration_string (round_ms (now - lastActivity e)) @ '' without worker activity'')
       (re_WorkerHost e) (re_WorkspacePath e)
       (stopWithIntent d k (wi_Identifier (re_Item e)) (re_Handle e) False
         (s\<lparr>sd_running := mdel k (sd_running s)\<rparr>)))"
  by (simp add: stall_one_def lastActivity_def Let_def)

lemma stall_one_fields:
  "sd_stallTimeout (stall_one d now kv s) = sd_stallTimeout s"
  "sd_claimed (stall_one d now kv s) = sd_claimed s"
  by (cases kv; simp add: stall_one_alt)+

lemma stall_one_running:
  "mget (sd_running (stall_one d now (k, e) s)) k' =
     (if k' = k \<and> sd_stallTimeout s < now - lastActivity e then None else mget (sd_running s) k')"
  by (simp add: stall_one_alt gomap)

text \<open>What is known of a run's retry after it was found stalled.\<close>

definition stall_retry :: "running_entry \<Rightarrow> retry_entry \<Rightarrow> bool" where
  "stall_retry e r \<longleftrightarrow> te_Attempt r = nextFailureAttempt (re_Attempt e)
     \<and> te_ItemIdentifier r = wi_Identifier (re_Item e) \<and> te_WorkerHost r = re_WorkerHost e
     \<and> te_WorkspacePath r = re_WorkspacePath e"

lemma stall_one_retrying:
  "k' \<noteq> k \<Longrightarrow> mget (sd_retrying (stall_one d now (k, e) s)) k' = mget (sd_retrying s) k'"
  "now - lastActivity e \<le> sd_stallTimeout s \<Longrightarrow> stall_one d now (k, e) s = s"
  "sd_stallTimeout s < now - lastActivity e \<Longrightarrow>
     \<exists>r. mget (sd_retrying (stall_one d now (k, e) s)) k = Some r \<and> stall_retry e r"
  using nextFailureAttempt_pos [of "re_Attempt e"]
  by (auto simp: stall_one_alt scheduleFailureRetry_retrying stall_retry_def)

lemma stall_fold:
  fixes s :: sched and d :: deps and now :: gtime
  assumes "distinct (map fst kvs)"
  defines "t \<equiv> fold (stall_one d now) kvs s"
  shows "sd_claimed t = sd_claimed s \<and> sd_stallTimeout t = sd_stallTimeout s
    \<and> (case mget kvs k of
        Some e \<Rightarrow> if sd_stallTimeout s < now - lastActivity e
          then mget (sd_running t) k = None \<and> (\<exists>r. mget (sd_retrying t) k = Some r \<and> stall_retry e r)
          else mget (sd_running t) k = mget (sd_running s) k \<and> mget (sd_retrying t) k = mget (sd_retrying s) k
      | None \<Rightarrow> mget (sd_running t) k = mget (sd_running s) k
          \<and> mget (sd_retrying t) k = mget (sd_retrying s) k)"
  using assms(1) unfolding t_def
proof (induction kvs arbitrary: s)
  case (Cons kv kvs)
  obtain k1 e1 where kv: "kv = (k1, e1)" by fastforce
  let ?w = "stall_one d now (k1, e1) s"
  have IH: "sd_claimed (fold (stall_one d now) kvs ?w) = sd_claimed ?w"
    "sd_stallTimeout (fold (stall_one d now) kvs ?w) = sd_stallTimeout ?w"
    "case mget kvs k of
        Some e \<Rightarrow> if sd_stallTimeout s < now - lastActivity e
          then mget (sd_running (fold (stall_one d now) kvs ?w)) k = None
            \<and> (\<exists>r. mget (sd_retrying (fold (stall_one d now) kvs ?w)) k = Some r \<and> stall_retry e r)
          else mget (sd_running (fold (stall_one d now) kvs ?w)) k = mget (sd_running ?w) k
            \<and> mget (sd_retrying (fold (stall_one d now) kvs ?w)) k = mget (sd_retrying ?w) k
      | None \<Rightarrow> mget (sd_running (fold (stall_one d now) kvs ?w)) k = mget (sd_running ?w) k
          \<and> mget (sd_retrying (fold (stall_one d now) kvs ?w)) k = mget (sd_retrying ?w) k"
    using Cons.IH [of ?w] Cons.prems by (simp_all only: stall_one_fields) simp_all
  show ?case
  proof (cases "k = k1")
    case True
    have "mget kvs k1 = None" using Cons.prems kv by (simp add: mget_None_iff)
    with True IH stall_one_running [where d = d and now = now and k = k1 and e = e1 and s = s]
      stall_one_retrying(2,3) [where d = d and now = now and k = k1 and e = e1 and s = s]
    show ?thesis by (auto simp: kv stall_one_fields)
  next
    case False
    with IH show ?thesis
      by (cases "mget kvs k") (simp_all add: kv stall_one_fields stall_one_running stall_one_retrying(1))
  qed
qed (simp split: option.split)

text \<open>Reconciling stalled runs leaves no run that has been silent for longer than the
  stall timeout: each becomes a failure retry with the next attempt number on the same host and
  workspace; every other run, retry and claim is as before.\<close>

theorem reconcileStalled_outcome:
  fixes d :: deps
  assumes "sched_inv s" "order_ok ord" "0 < sd_stallTimeout s"
  defines "t \<equiv> reconcileStalled ord d s"
  shows "sd_claimed t = sd_claimed s \<and> (\<forall>k. case mget (sd_running s) k of
      Some e \<Rightarrow> if sd_stallTimeout s < Now s - lastActivity e
        then mget (sd_running t) k = None \<and> (\<exists>r. mget (sd_retrying t) k = Some r \<and> stall_retry e r)
        else mget (sd_running t) k = Some e \<and> mget (sd_retrying t) k = None
    | None \<Rightarrow> mget (sd_running t) k = None \<and> mget (sd_retrying t) k = mget (sd_retrying s) k)"
proof -
  let ?kvs = "range_entries ord (sd_running s)"
  have ok: "mok (sd_running s)" using assms(1) by (simp add: sched_inv_def keyed_def)
  have d: "distinct (map fst ?kvs)" using assms(2) ok by simp
  have get: "mget ?kvs k = mget (sd_running s) k" for k
    using d ok set_range_entries [OF assms(2) ok] by (metis map_of_inject_set)
  have idle: "mget (sd_retrying s) k = None" if "mget (sd_running s) k = Some e" for k e
    using assms(1) that by (force simp: sched_inv_def phases_def)
  have t: "t = fold (stall_one d (Now s)) ?kvs (tick s)" using assms(3) by (simp add: t_def reconcileStalled_def)
  note f = stall_fold [OF d, of d "Now s" "tick s", folded t, unfolded tick_fields get]
  have "case mget (sd_running s) k of
      Some e \<Rightarrow> if sd_stallTimeout s < Now s - lastActivity e
        then mget (sd_running t) k = None \<and> (\<exists>r. mget (sd_retrying t) k = Some r \<and> stall_retry e r)
        else mget (sd_running t) k = Some e \<and> mget (sd_retrying t) k = None
    | None \<Rightarrow> mget (sd_running t) k = None \<and> mget (sd_retrying t) k = mget (sd_retrying s) k" for k
    using f [of k] idle [of k] by (cases "mget (sd_running s) k") (simp_all split: if_splits)
  with f show ?thesis by blast
qed

text \<open>The silent run of the demonstration, an hour later.\<close>

definition demo_stalled :: sched where
  "demo_stalled = (vc_state demo_polled)\<lparr>sd_clock := (\<lambda>n. 3602 * second)\<rparr>"

theorem reconcileStalled_outcome_witness:
  "let t = reconcileStalled rev demo_deps demo_stalled in
     mget (sd_running t) ''a'' = None \<and> map_option te_Attempt (mget (sd_retrying t) ''a'') = Some 1"
proof -
  have inv: "sched_inv demo_stalled"
    using demo_polled_inv sched_inv_cong [of demo_stalled "vc_state demo_polled"] by (simp add: demo_stalled_def)
  have r: "sd_running demo_stalled = sd_running (vc_state demo_polled)" "Now demo_stalled = 3602 * second"
    "sd_stallTimeout demo_stalled = sd_stallTimeout (vc_state demo_polled)"
    by (simp_all add: demo_stalled_def Now_def)
  have t: "0 < sd_stallTimeout demo_stalled" by (simp add: r demo_polled_fields second_def)
  note n = r(2) trans [OF r(3) demo_polled_fields(3)]
  obtain e where e: "mget (sd_running (vc_state demo_polled)) ''a'' = Some e" "re_Attempt e = 0"
    "re_LastEventAt e = None" "re_StartedAt e = 2 * second" by (rule demo_polled_run)
  note e = e(1) [folded r(1)] e(2-)
  have "sd_stallTimeout demo_stalled < Now demo_stalled - lastActivity e" by (simp add: n lastActivity_def e second_def)
  then have "mget (sd_running (reconcileStalled rev demo_deps demo_stalled)) ''a'' = None
      \<and> (\<exists>r. mget (sd_retrying (reconcileStalled rev demo_deps demo_stalled)) ''a'' = Some r \<and> stall_retry e r)"
    using conjunct2 [OF reconcileStalled_outcome [OF inv order_ok_rev t, of demo_deps], THEN spec, of "''a''"]
    unfolding e(1) option.case by (simp only: if_True)
  then show ?thesis by (auto simp: Let_def stall_retry_def e(2) nextFailureAttempt_def)
qed

end
