(* ===== verification/Orch_Props.thy ===== *)
theory Orch_Props
  imports Scheduler_Props
begin

text \<open>
  What holds in every state the service can reach, whatever the order of timers, events and
  requests; what a reconciliation with the tracker leaves; and two behaviours of the dispatch gate
  that its documentation does not describe.
\<close>

declare map_of_eq_Some_iff [simp del]

subsection \<open>The settings never change\<close>

definition conf :: "sched \<Rightarrow> int \<times> string set \<times> string set" where
  "conf s = (sd_maxConcurrent s, sd_activeStates s, sd_terminalStates s)"

lemma conf_frame: "poll_frame s t \<Longrightarrow> conf t = conf s"
  by (simp add: conf_def poll_frame_def)

lemma conf_simps [simp]:
  "conf (tick s) = conf s" "conf (finishPoll s) = conf s"
  "conf (vc_state (schedulePoll d v)) = conf (vc_state v)"
  "conf (vc_state (handlePollTick n v)) = conf (vc_state v)"
  "conf (snd (requestRefresh s)) = conf s"
  by (simp_all add: conf_def finishPoll_def schedulePoll_def schedulePollAt_def AfterFunc_def
      handlePollTick_def beginPoll_def requestRefresh_def Let_def)

lemma conf_callback:
  assumes "svc_inv v" "refresh_sound (vc_deps v)" "orders_ok r"
  shows "conf (vc_state (run_callback r c (set_status i Delivered v))) = conf (vc_state v)"
proof (cases c)
  case (PollTick n)
  then show ?thesis by (simp add: set_status_def)
next
  case (PollCycle n)
  have "poll_frame (vc_state v) (poll_work r (vc_deps v) (vc_state v))"
    using assms by (intro poll_work_inv) (simp_all add: svc_inv_def)
  with PollCycle show ?thesis
    by (simp add: handlePollCycle_def set_status_def Let_def conf_frame)
next
  case (RetryTick k n)
  have "conf (handleDueRetry (vc_deps v) k n (vc_state v)) = conf (vc_state v)"
    by (rule conf_frame) (rule handleDueRetry_frame)
  with RetryTick show ?thesis
    by (simp add: handleRetryTick_def set_status_def Let_def split: option.split)
qed

lemma conf_step:
  assumes "svc_step v w" "svc_inv v" "refresh_sound (vc_deps v)"
  shows "conf (vc_state w) = conf (vc_state v)"
  using assms(1)
proof cases
  case (step_event r ev)
  have "poll_frame (vc_state v) (applyRunEvent ev (vc_state v))"
    using quiet_applyRunEvent by (simp add: quiet_def)
  with step_event show ?thesis by (simp add: svc_applyRunEvent_def conf_frame)
next
  case step_refresh
  obtain res st where r: "requestRefresh (vc_state v) = (res, st)" by fastforce
  then have "conf st = conf (vc_state v)" using conf_simps(5) by (metis snd_conv)
  with r step_refresh show ?thesis by (simp add: svc_requestRefresh_def Let_def)
qed (use assms conf_callback in \<open>simp_all add: set_status_def svc_close_def Let_def\<close>)

lemma reachable_conf:
  assumes "svc_reachable cfg d v" "refresh_sound d"
  shows "conf (vc_state v) = (ag_MaxConcurrentAgents (st_Agent cfg),
    normalizeStateSet (pv_ActiveStates (st_Provider cfg)), normalizeStateSet (pv_TerminalStates (st_Provider cfg)))"
  using assms(1)
proof induction
  case (reach_new ord clk delay)
  show ?case by (simp add: newService_def Let_def) (simp add: conf_def newSchedulerState_def)
next
  case (reach_step v w)
  then show ?case using conf_step reachable_inv [OF reach_step.hyps(1) assms(2)] by metis
qed

lemma reachable_deps:
  "svc_reachable cfg d v \<Longrightarrow> dp_refreshItems (vc_deps v) = dp_refreshItems d"
proof (induction rule: svc_reachable.induct)
  case (reach_step v w)
  then show ?case using vc_deps_step by simp
qed (simp add: newService_def Let_def)

subsection \<open>Reachable states\<close>

text \<open>C17 (invariant). In every state the service can reach, for every tracker that returns only items
  it was asked for: the maps are keyed by item ID, a running item is claimed and has no retry waiting,
  and every waiting retry has a positive attempt and a nonce no other retry has.\<close>

theorem reachable_consistent:
  assumes "svc_reachable cfg d v" "refresh_sound d"
  defines "s \<equiv> vc_state v"
  shows "(\<forall>k e. mget (sd_running s) k = Some e \<longrightarrow> wi_ID (re_Item e) = k
      \<and> mget (sd_claimed s) k \<noteq> None \<and> mget (sd_retrying s) k = None)
    \<and> (\<forall>k e. mget (sd_retrying s) k = Some e \<longrightarrow> te_ItemID e = k \<and> 1 \<le> te_Attempt e)
    \<and> (\<forall>k k' e e'. mget (sd_retrying s) k = Some e \<longrightarrow> mget (sd_retrying s) k' = Some e' \<longrightarrow>
        te_Nonce e = te_Nonce e' \<longrightarrow> k = k')
    \<and> mok (sd_running s) \<and> mok (sd_claimed s) \<and> mok (sd_retrying s)"
proof -
  have inv: "sched_inv s" using reachable_inv [OF assms(1,2)] by (simp add: svc_inv_def s_def)
  then have "keyed s" "phases s" "retries_ok s" by (simp_all add: sched_inv_def)
  then show ?thesis unfolding keyed_def phases_def retries_ok_def by blast
qed

theorem reachable_consistent_witness:
  "\<exists>e. mget (sd_running (vc_state demo_polled)) ''a'' = Some e \<and> wi_ID (re_Item e) = ''a''
     \<and> mget (sd_claimed (vc_state demo_polled)) ''a'' \<noteq> None"
proof -
  obtain e where "mget (sd_running (vc_state demo_polled)) ''a'' = Some e" by (rule demo_polled_run)
  then show ?thesis
    using reachable_consistent [OF demo_polled_reachable demo_refresh_sound(1)] by blast
qed

text \<open>C1 (bounds). With a positive \<open>max_concurrent_agents\<close>, no reachable state runs more agents than
  that.\<close>

theorem reachable_within_capacity:
  assumes "svc_reachable cfg d v" "refresh_sound d" "0 < ag_MaxConcurrentAgents (st_Agent cfg)"
  shows "int (length (sd_running (vc_state v))) \<le> ag_MaxConcurrentAgents (st_Agent cfg)"
proof -
  have "within_capacity (vc_state v)"
    using reachable_inv [OF assms(1,2)] by (simp add: svc_inv_def sched_inv_def)
  moreover have "sd_maxConcurrent (vc_state v) = ag_MaxConcurrentAgents (st_Agent cfg)"
    using reachable_conf [OF assms(1,2)] by (simp add: conf_def)
  ultimately show ?thesis using assms(3) by (simp add: within_capacity_def)
qed

theorem reachable_within_capacity_witness:
  "length (sd_running (vc_state demo_polled)) = 1 \<and> length demo_items = 2"
proof -
  have "ag_MaxConcurrentAgents (st_Agent demo_settings) = 1" by (simp add: demo_settings_def)
  then have "int (length (sd_running (vc_state demo_polled))) \<le> 1"
    using reachable_within_capacity [OF demo_polled_reachable demo_refresh_sound(1)] by simp
  moreover have "sd_running (vc_state demo_polled) \<noteq> []" using demo_polled_running by auto
  ultimately have "length (sd_running (vc_state demo_polled)) = 1"
    by (cases "sd_running (vc_state demo_polled)") simp_all
  then show ?thesis by (simp add: demo_items_def)
qed

text \<open>C2 (liveness). The poll loop is never lost. Until the service is closed, every reachable state has
  a pending timer that carries the loop on: outside a check it is the poll timer with the current
  nonce, during a check the cycle timer with that nonce.\<close>

theorem poll_loop_alive:
  assumes "svc_reachable cfg d v" "refresh_sound d" "\<not> vc_closed v"
  shows "\<exists>i < length (vc_timers v). pending (vc_timers v ! i)
    \<and> (if sd_checking (vc_state v)
       then vc_pollCycleTimer v = Some i
         \<and> tm_callback (vc_timers v ! i) = PollCycle (sd_pollNonce (vc_state v))
       else vc_pollTimer v = Some i
         \<and> tm_callback (vc_timers v ! i) = PollTick (sd_pollNonce (vc_state v)))"
proof -
  have tv: "i < length ts \<and> tm_callback (ts ! i) = c \<and> pending (ts ! i)"
    if "tview ts i = Some (c, True)" for ts i c
    using that by (auto simp: tview_def split: if_splits)
  have "poll_live v" using reachable_inv [OF assms(1,2)] assms(3) by (simp add: svc_inv_def poll_inv_def)
  then show ?thesis
    unfolding poll_live_def cycle_pending_def tick_pending_def using tv by (auto split: if_splits)
qed

theorem poll_loop_alive_witness:
  "sd_checking (vc_state demo_checking) \<and> (\<exists>i < length (vc_timers demo_checking).
     pending (vc_timers demo_checking ! i) \<and> vc_pollCycleTimer demo_checking = Some i)"
proof -
  have c: "sd_checking (vc_state demo_checking)" "\<not> vc_closed demo_checking" using demo_evaluated by simp_all
  from poll_loop_alive [OF demo_checking_reachable demo_refresh_sound(1) c(2)] c(1)
  show ?thesis by auto
qed

text \<open>C3 (liveness). No retry is lost. Until the service is closed, in every reachable state each waiting
  retry has a pending timer that will handle it with its own nonce, and there is no other entry in the
  table of retry timers.\<close>

theorem retry_timers_match:
  assumes "svc_reachable cfg d v" "refresh_sound d" "\<not> vc_closed v"
  shows "(\<forall>k e. mget (sd_retrying (vc_state v)) k = Some e \<longrightarrow>
      (\<exists>i < length (vc_timers v). pending (vc_timers v ! i)
         \<and> tm_callback (vc_timers v ! i) = RetryTick k (te_Nonce e)
         \<and> mget (vc_retryTimers v) k = Some \<lparr>sc_nonce = te_Nonce e, sc_timer = i\<rparr>))
    \<and> (\<forall>k. mget (sd_retrying (vc_state v)) k = None \<longrightarrow> mget (vc_retryTimers v) k = None)"
proof -
  have inv: "rt_ok True v" "rt_synced v"
    using reachable_inv [OF assms(1,2)] assms(3) by (simp_all add: svc_inv_def retry_inv_def)
  have "\<exists>i < length (vc_timers v). pending (vc_timers v ! i)
         \<and> tm_callback (vc_timers v ! i) = RetryTick k (te_Nonce e)
         \<and> mget (vc_retryTimers v) k = Some \<lparr>sc_nonce = te_Nonce e, sc_timer = i\<rparr>"
    if "mget (sd_retrying (vc_state v)) k = Some e" for k e
  proof -
    have "map_option sc_nonce (mget (vc_retryTimers v) k) = Some (te_Nonce e)"
      using inv(2) that by (simp add: rt_synced_def)
    then obtain sc where sc: "mget (vc_retryTimers v) k = Some sc" "sc_nonce sc = te_Nonce e" by auto
    then have "tview (vc_timers v) (sc_timer sc) = Some (RetryTick k (te_Nonce e), True)"
      using inv(1) by (force simp: rt_ok_def)
    moreover have "sc = \<lparr>sc_nonce = te_Nonce e, sc_timer = sc_timer sc\<rparr>" using sc(2) by simp
    ultimately show ?thesis using sc(1) by (auto simp: tview_def split: if_splits)
  qed
  moreover have "mget (vc_retryTimers v) k = None" if "mget (sd_retrying (vc_state v)) k = None" for k
    using inv(2) that by (metis map_option_is_None rt_synced_def)
  ultimately show ?thesis by blast
qed

theorem retry_timers_match_witness:
  "\<exists>i < length (vc_timers demo_failed). pending (vc_timers demo_failed ! i)
     \<and> tm_callback (vc_timers demo_failed ! i) = RetryTick ''a'' 1"
proof -
  obtain e where "mget (sd_retrying (vc_state demo_failed)) ''a'' = Some e" "te_Nonce e = 1" by (rule demo_failed_retry)
  then show ?thesis
    using retry_timers_match [OF demo_failed_reachable demo_refresh_sound(1) demo_failed_fields(1)] by metis
qed

text \<open>C4 (safety). No agent is ever started on stale data. In every reachable state, each \<open>startRun\<close> call
  ever made was directly preceded by a \<open>refreshItems\<close> call for a single ID, the item started is the
  first one in that call's answer, and it passes the dispatch gate for the configured states: it has
  an ID, an identifier, a title and an active, non-terminal state, is routable, and if it is a Todo
  item all its blockers are in terminal states.\<close>

theorem starts_are_fresh:
  assumes "svc_reachable cfg d v" "refresh_sound d"
    and "sd_calls (vc_state v) = before @ CallStart q # after"
  shows "isRetryCandidate (vc_state v) (sq_Item q)
    \<and> (\<exists>cs key f rest. before = cs @ [CallRefresh [key]] \<and> dp_refreshItems d = Some f
         \<and> f cs [key] = Inr (sq_Item q # rest))"
proof -
  have "fresh_starts (vc_deps v) (vc_state v)"
    using reachable_inv [OF assms(1,2)] by (simp add: svc_inv_def)
  then have "fresh_start (vc_deps v) (vc_state v) before (sq_Item q)"
    using assms(3) by (simp add: fresh_starts_def)
  then show ?thesis using reachable_deps [OF assms(1)] by (auto simp: fresh_start_def)
qed

theorem starts_are_fresh_witness:
  "\<exists>before q. sd_calls (vc_state demo_polled) = before @ CallStart q # []
     \<and> isRetryCandidate (vc_state demo_polled) (sq_Item q) \<and> last before = CallRefresh [''a'']"
proof -
  have calls: "sd_calls (vc_state demo_polled) = [CallListCandidates, CallRefresh [''a'']]
      @ CallStart \<lparr>sq_Item = demo_item ''a'' ''ENG-1'', sq_Attempt = 0, sq_PreferredHost = []\<rparr> # []"
    by (simp add: demo_polled_fields)
  from starts_are_fresh [OF demo_polled_reachable demo_refresh_sound(1) this] calls
  show ?thesis by force
qed

subsection \<open>After Close\<close>

lemma closed_callback: "vc_closed v \<Longrightarrow> run_callback r c v = v"
  by (cases c) (simp_all add: handlePollTick_def handlePollCycle_def handleRetryTick_def)

text \<open>What no operation on a closed service changes.\<close>

definition silent :: "service \<Rightarrow> service \<Rightarrow> bool" where
  "silent v w \<longleftrightarrow> vc_closed w \<and> sd_calls (vc_state w) = sd_calls (vc_state v)
     \<and> mkeys (sd_claimed (vc_state w)) = mkeys (sd_claimed (vc_state v))
     \<and> set (mkeys (sd_running (vc_state w))) \<subseteq> set (mkeys (sd_running (vc_state v)))"

lemma silent_refl: "vc_closed v \<Longrightarrow> silent v v"
  by (simp add: silent_def)

lemma silent_trans: "silent u v \<Longrightarrow> silent v w \<Longrightarrow> silent u w"
  unfolding silent_def by (elim conjE, intro conjI; (rule subset_trans, assumption, assumption | simp only:))

lemma event_claims:
  "sd_claimed (applyRunEvent ev s) = sd_claimed s" "sd_calls (applyRunEvent ev s) = sd_calls s"
  by (auto simp: applyRunEvent_def applyAggregateDelta_def Let_def
      scheduleFailureRetry_def scheduleContinuationRetry_def split: option.splits run_event_kind.splits)

lemma event_running:
  "set (mkeys (sd_running (applyRunEvent ev s))) \<subseteq> set (mkeys (sd_running s))"
proof (cases "mget (sd_running s) (ev_ItemID ev)")
  case (Some e)
  then have k: "ev_ItemID ev \<in> set (mkeys (sd_running s))" using mget_None_iff [of "sd_running s" "ev_ItemID ev"] by simp
  have put: "set (mkeys (mput (ev_ItemID ev) x (sd_running s))) \<subseteq> set (mkeys (sd_running s))" for x
    using k by (auto simp: gomap)
  then have del: "set (mkeys (mdel (ev_ItemID ev) (mput (ev_ItemID ev) x (sd_running s)))) \<subseteq> set (mkeys (sd_running s))" for x
    by (auto simp: gomap)
  obtain e1 s1 where ev: "event_updated ev e s = (e1, s1)" by fastforce
  then have "sd_running s1 = sd_running s"
    by (auto simp: event_updated_def applyAggregateDelta_def Let_def split: if_splits option.splits)
  then show ?thesis
    using put del unfolding applyRunEvent_alt [OF Some ev]
    by (auto simp: scheduleFailureRetry_def scheduleContinuationRetry_def Let_def split: run_event_kind.split)
qed (simp add: applyRunEvent_def)

lemma silent_step:
  assumes "svc_step v w" "vc_closed v"
  shows "silent v w"
  using assms(1)
proof cases
  case step_refresh
  obtain res st where st: "requestRefresh (vc_state v) = (res, st)" by fastforce
  have "sd_calls st = sd_calls (vc_state v) \<and> sd_claimed st = sd_claimed (vc_state v)
      \<and> sd_running st = sd_running (vc_state v)"
    using st by (auto simp: requestRefresh_def schedulePollAt_def Let_def split: if_splits)
  then show ?thesis
    using step_refresh assms(2) by (simp add: st silent_def svc_requestRefresh_def Let_def schedulePoll_def)
next
  case (step_event r ev)
  then show ?thesis
    using step_event assms(2) event_running [of ev "vc_state v"]
    by (simp add: silent_def svc_applyRunEvent_def event_claims)
qed (use assms in \<open>simp_all add: closed_callback silent_def set_status_def svc_close_def Let_def\<close>)

text \<open>C20 (safety). Close is final. Whatever happens to a closed service afterwards, in any order (timers
  that had already expired, run events, refresh requests, a second close), it stays closed, never
  calls the tracker or the worker manager again, claims or unclaims no item and starts no run.\<close>

theorem closed_service_silent:
  assumes "svc_step\<^sup>*\<^sup>* v w" "vc_closed v"
  shows "vc_closed w \<and> sd_calls (vc_state w) = sd_calls (vc_state v)
    \<and> mkeys (sd_claimed (vc_state w)) = mkeys (sd_claimed (vc_state v))
    \<and> set (mkeys (sd_running (vc_state w))) \<subseteq> set (mkeys (sd_running (vc_state v)))"
proof -
  have "silent v w"
    using assms(1)
  proof induction
    case (step u w)
    then show ?case using silent_step silent_trans silent_def by blast
  qed (simp add: silent_refl assms(2))
  then show ?thesis by (simp add: silent_def)
qed

theorem closed_service_silent_witness:
  "sd_calls (vc_state (svc_applyRunEvent demo_orders (demo_event RunEventRunFailed ''a'' zero_totals)
     (svc_close demo_polled))) = sd_calls (vc_state demo_polled)"
proof -
  let ?v = "svc_close demo_polled"
  have c: "vc_closed ?v" "sd_calls (vc_state ?v) = sd_calls (vc_state demo_polled)"
    by (simp_all add: svc_close_def Let_def)
  have "svc_step\<^sup>*\<^sup>* ?v (svc_applyRunEvent demo_orders (demo_event RunEventRunFailed ''a'' zero_totals) ?v)"
    using step_event [OF demo_orders_ok] by blast
  from closed_service_silent [OF this c(1)] show ?thesis by (simp add: c(2))
qed

lemma rt_synced_get:
  "rt_synced v \<Longrightarrow> mget (sd_retrying (vc_state v)) k \<noteq> None \<Longrightarrow> \<exists>sc. mget (vc_retryTimers v) k = Some sc"
  unfolding rt_synced_def by (metis map_option_is_None not_None_eq)

text \<open>Run events are not guarded by \<open>closed\<close>: after any reachable service is closed, an event
  that ends one of its runs still queues a retry and arms a new timer for it, although \<open>Close\<close> has
  already stopped the timers and nothing will stop or handle this one.\<close>

theorem event_after_close_arms_timer:
  assumes "svc_reachable cfg d u" "refresh_sound d" "orders_ok r"
    and "mget (sd_running (vc_state u)) (ev_ItemID ev) = Some e"
    and "ev_Kind ev \<in> {RunEventRunCompleted, RunEventRunFailed}"
  shows "let w = svc_applyRunEvent r ev (svc_close u) in vc_closed w
    \<and> (\<exists>i n. i < length (vc_timers w) \<and> pending (vc_timers w ! i)
        \<and> tm_callback (vc_timers w ! i) = RetryTick (ev_ItemID ev) n)"
proof -
  let ?v = "(svc_close u)\<lparr>vc_state := applyRunEvent ev (vc_state u)\<rparr>" and ?k = "ev_ItemID ev"
  have w: "svc_applyRunEvent r ev (svc_close u) = syncRetryTimers r ?v" "vc_closed ?v"
    by (simp_all add: svc_applyRunEvent_def svc_close_def Let_def)
  have inv: "sched_inv (vc_state u)" using reachable_inv [OF assms(1,2)] by (simp add: svc_inv_def)
  then have "mok (sd_retrying (vc_state ?v))" using inv_applyRunEvent sched_inv_mok by simp
  moreover have "rt_ok True ?v" by (simp add: rt_ok_def svc_close_def Let_def gomap)
  ultimately have ok: "rt_ok True (syncRetryTimers r ?v)" "rt_synced (syncRetryTimers r ?v)"
    using syncRetryTimers_ok [OF _ assms(3)] by blast+
  have "mget (sd_retrying (applyRunEvent ev (vc_state u))) ?k \<noteq> None"
    using applyRunEvent_cases(2) [OF inv assms(4) refl] assms(5) by auto
  then obtain sc where sc: "mget (vc_retryTimers (syncRetryTimers r ?v)) ?k = Some sc"
    using rt_synced_get [OF ok(2)] by auto
  then have "tview (vc_timers (syncRetryTimers r ?v)) (sc_timer sc) = Some (RetryTick ?k (sc_nonce sc), True)"
    using ok(1) by (force simp: rt_ok_def)
  then show ?thesis using w by (auto simp: Let_def tview_def split: if_splits)
qed

theorem event_after_close_arms_timer_witness:
  "let w = svc_applyRunEvent demo_orders (demo_event RunEventRunFailed ''a'' zero_totals) (svc_close demo_polled) in
     vc_closed w \<and> (\<exists>i n. i < length (vc_timers w) \<and> pending (vc_timers w ! i)
        \<and> tm_callback (vc_timers w ! i) = RetryTick ''a'' n)"
proof -
  obtain e where e: "mget (sd_running (vc_state demo_polled)) ''a'' = Some e" by (rule demo_polled_run)
  have ev: "ev_ItemID (demo_event RunEventRunFailed ''a'' zero_totals) = ''a''"
    "ev_Kind (demo_event RunEventRunFailed ''a'' zero_totals) = RunEventRunFailed"
    by (simp_all add: demo_event_def)
  show ?thesis
    using event_after_close_arms_timer [OF demo_polled_reachable demo_refresh_sound(1) demo_orders_ok,
        of "demo_event RunEventRunFailed ''a'' zero_totals" e] e ev by simp
qed

subsection \<open>Reconciling with the tracker\<close>

text \<open>C14 (functional). Reconciling the running runs makes the scheduler agree with the tracker's answer
  to one refresh of all of them. A run goes on, with the refreshed item, exactly when its item is still
  listed, active, not terminal and not unroutable; any other run is dropped together with its claim
  and any retry, and stopped exactly once, asking for the workspace to be removed exactly when the
  item's state is terminal. Nothing else changes.\<close>

theorem reconcileRunning_outcome:
  assumes "sched_inv s" "order_ok ord1" "order_ok ord2" "sd_running s \<noteq> []"
    and "dp_refreshItems d = Some f" "f (sd_calls s) (ord1 (mkeys (sd_running s))) = Inr items"
    and "dp_stopRun d = Some g"
  defines "t \<equiv> reconcileRunning ord1 ord2 d s"
    and "now_is \<equiv> \<lambda>k. mget (visible_items items) k"
  shows "(\<forall>k. mget (sd_running t) k = (case mget (sd_running s) k of None \<Rightarrow> None
        | Some e \<Rightarrow> if reconcile_keeps s (now_is k) then Some (e\<lparr>re_Item := the (now_is k)\<rparr>) else None))
    \<and> (\<forall>k. let dropped = mget (sd_running s) k \<noteq> None \<and> \<not> reconcile_keeps s (now_is k) in
        mget (sd_claimed t) k = (if dropped then None else mget (sd_claimed s) k)
        \<and> mget (sd_retrying t) k = (if dropped then None else mget (sd_retrying s) k))
    \<and> (\<exists>stops. sd_calls t = sd_calls s @ CallRefresh (ord1 (mkeys (sd_running s))) # stops
        \<and> mset stops = mset (map (\<lambda>(k, e). stop_call e (reconcile_cleanup s (now_is k)))
            (filter (\<lambda>(k, e). \<not> reconcile_keeps s (now_is k)) (sd_running s))))"
proof -
  let ?s1 = "log_call (CallRefresh (ord1 (mkeys (sd_running s)))) s"
  let ?kvs = "range_entries ord2 (sd_running s)" and ?vis = "visible_items items"
  have ok: "mok (sd_running s)" using assms(1) by (simp add: sched_inv_def keyed_def)
  have t: "t = fold (reconcile_one d ?vis) ?kvs ?s1"
    using assms(4-6) by (simp add: t_def reconcileRunning_def Let_def)
  have p: "pending_runs ?kvs ?s1" by (rule pending_runs_range [OF assms(1,3)]) simp
  have keeps: "reconcile_keeps ?s1 = reconcile_keeps s" "reconcile_cleanup ?s1 = reconcile_cleanup s"
    by (rule ext; simp add: reconcile_keeps_def reconcile_cleanup_def isTerminal_def isActive_def
        split: option.split)+
  have keys: "k \<in> fst ` set ?kvs \<longleftrightarrow> mget (sd_running s) k \<noteq> None" for k
    using set_range_entries [OF assms(3) ok] by (simp add: mget_None_iff)
  have "mget (sd_running t) k = (case mget (sd_running s) k of None \<Rightarrow> None
        | Some e \<Rightarrow> if reconcile_keeps s (now_is k) then Some (e\<lparr>re_Item := the (now_is k)\<rparr>) else None)" for k
    using reconcile_fold_running [OF p, of d ?vis k]
    by (simp add: t keys reconciled_run_def keeps now_is_def split: option.split)
  moreover have "let dropped = mget (sd_running s) k \<noteq> None \<and> \<not> reconcile_keeps s (now_is k) in
        mget (sd_claimed t) k = (if dropped then None else mget (sd_claimed s) k)
        \<and> mget (sd_retrying t) k = (if dropped then None else mget (sd_retrying s) k)" for k
    using reconcile_fold_dropped [OF p, of d ?vis k] by (simp only: t keys keeps now_is_def log_call_fields Let_def)
  moreover have "sd_calls t = sd_calls s @ CallRefresh (ord1 (mkeys (sd_running s))) # drop_calls ?s1 ?vis ?kvs"
    using reconcile_fold_calls [OF assms(7), of ?vis ?kvs ?s1] by (simp add: t)
  moreover have "mset (drop_calls ?s1 ?vis ?kvs) = mset (map (\<lambda>(k, e). stop_call e (reconcile_cleanup s (now_is k)))
            (filter (\<lambda>(k, e). \<not> reconcile_keeps s (now_is k)) (sd_running s)))"
    using mset_range_entries [OF assms(3) ok] by (simp add: drop_calls_def keeps now_is_def)
  ultimately show ?thesis by blast
qed

text \<open>The running item was closed in the tracker.\<close>

definition demo_deps_done :: deps where
  "demo_deps_done = demo_deps\<lparr>dp_refreshItems := Some (\<lambda>cs ids.
     Inr (lookup_items [(demo_item ''a'' ''ENG-1'')\<lparr>wi_State := ''Done''\<rparr>] ids))\<rparr>"

theorem reconcileRunning_outcome_witness:
  "let t = reconcileRunning rev rev demo_deps_done (vc_state demo_polled) in
     mget (sd_running t) ''a'' = None \<and> mget (sd_claimed t) ''a'' = None"
proof -
  let ?s = "vc_state demo_polled" and ?item = "(demo_item ''a'' ''ENG-1'')\<lparr>wi_State := ''Done''\<rparr>"
  let ?f = "\<lambda>cs ids. Inr (lookup_items [?item] ids) :: string + work_item list"
  have keys: "mkeys (sd_running ?s) = [''a'']" using demo_polled_running by auto
  have f: "dp_refreshItems demo_deps_done = Some ?f" "dp_stopRun demo_deps_done = Some (\<lambda>cs q. None)"
    by (simp_all add: demo_deps_done_def demo_deps_def)
  have ans: "?f (sd_calls ?s) (rev (mkeys (sd_running ?s))) = Inr [?item]"
    by (simp add: keys lookup_items_def demo_item_def)
  have ne: "sd_running ?s \<noteq> []" using keys by auto
  have vis: "mget (visible_items [?item]) ''a'' = Some ?item" by (simp add: visible_items_def demo_item_def)
  have "isTerminal ?s ''Done''" by code_simp
  then have drop: "\<not> reconcile_keeps ?s (mget (visible_items [?item]) ''a'')"
    unfolding vis by (simp add: reconcile_keeps_def)
  have inv: "sched_inv ?s"
    using reachable_inv [OF demo_polled_reachable demo_refresh_sound(1)] by (simp add: svc_inv_def)
  obtain e where e: "mget (sd_running ?s) ''a'' = Some e" by (rule demo_polled_run)
  note out = reconcileRunning_outcome [OF inv order_ok_rev order_ok_rev ne f(1) ans f(2)]
  have "mget (sd_running (reconcileRunning rev rev demo_deps_done ?s)) ''a'' = None"
    using conjunct1 [OF out, THEN spec, of "''a''"] drop by (simp add: e)
  moreover have "mget (sd_claimed (reconcileRunning rev rev demo_deps_done ?s)) ''a'' = None"
    using conjunct1 [OF conjunct2 [OF out], THEN spec, of "''a''"] drop by (simp add: e)
  ultimately show ?thesis by (simp add: Let_def)
qed

subsection \<open>The dispatch gate\<close>

text \<open>A failed start does not close the gate. When \<open>startRun\<close> fails for a candidate, a retry with
  back-off is scheduled but the item is not claimed, so \<open>shouldDispatch\<close> still lets it through: the next
  poll starts it again at once, whatever its back-off says.\<close>

theorem failed_start_bypasses_backoff:
  assumes "shouldDispatch s item" "admitHost d preferred s = (host, True)"
    and "dp_startRun d = Some f"
    and "f (sd_calls s) \<lparr>sq_Item = item, sq_Attempt = 0, sq_PreferredHost = host\<rparr> = Inl err"
  defines "t \<equiv> snd (dispatchItem d item 0 preferred s)"
  shows "(\<exists>r. mget (sd_retrying t) (wi_ID item) = Some r \<and> te_Attempt r = 1
      \<and> te_DueAt r = Now s + failureRetryDelay 1 (sd_maxRetryBackoff s))
    \<and> shouldDispatch t item"
proof -
  let ?c = "CallStart \<lparr>sq_Item = item, sq_Attempt = 0, sq_PreferredHost = host\<rparr>"
  have t: "t = scheduleFailureRetry (wi_ID item) (wi_Identifier item) 1 (''failed to start run: '' @ err) host []
      (log_call ?c s)"
    by (simp add: t_def dispatchItem_def call_start_def assms(2-4))
  have same: "isRetryCandidate t = isRetryCandidate s" "at_capacity t = at_capacity s"
    "state_full t = state_full s" "sd_claimed t = sd_claimed s" "sd_running t = sd_running s"
    by (simp_all add: t scheduleFailureRetry_def Let_def at_capacity_def state_full_def stateLimit_def
        runningCountForState_def isRetryCandidate_def isTerminal_def isActive_def fun_eq_iff)
  have "\<exists>r. mget (sd_retrying t) (wi_ID item) = Some r \<and> te_Attempt r = 1
      \<and> te_DueAt r = Now s + failureRetryDelay 1 (sd_maxRetryBackoff s)"
    by (simp add: t scheduleFailureRetry_def Let_def gomap Now_def)
  with shouldDispatchD [OF assms(1)] show ?thesis by (auto simp: shouldDispatch_def same)
qed

theorem failed_start_bypasses_backoff_witness:
  "shouldDispatch (snd (dispatchItem demo_deps_down (demo_item ''a'' ''ENG-1'') 0 []
     (vc_state (demo_start demo_deps_down)))) (demo_item ''a'' ''ENG-1'')"
proof -
  have a: "shouldDispatch (vc_state (demo_start demo_deps_down)) (demo_item ''a'' ''ENG-1'')" by code_simp
  have h: "admitHost demo_deps_down [] (vc_state (demo_start demo_deps_down)) = ([], True)" by code_simp
  have f: "dp_startRun demo_deps_down = Some (\<lambda>cs q. Inl ''boom'')" by (simp add: demo_deps_down_def)
  show ?thesis by (rule conjunct2 [OF failed_start_bypasses_backoff [OF a h f refl]])
qed

text \<open>The per-state limit is checked on the item as the tracker listed it, not as it was
  refreshed: with a limit of one run in Todo and one already running, an item listed in another state
  that the refresh shows to be in Todo is started all the same.\<close>

definition demo_limit_deps :: deps where
  "demo_limit_deps = demo_deps\<lparr>dp_refreshItems := Some (\<lambda>cs ids.
     Inr (lookup_items [demo_item ''b'' ''ENG-2''] ids))\<rparr>"

definition demo_limit_state :: sched where
  "demo_limit_state = (vc_state demo_polled)\<lparr>sd_maxConcurrent := 5, sd_stateLimits := [(''todo'', 1)]\<rparr>"

theorem state_limit_on_listed_state:
  "let s = demo_limit_state; t = process_candidate demo_limit_deps
       ((demo_item ''b'' ''ENG-2'')\<lparr>wi_State := ''In Progress''\<rparr>) s in
     refresh_sound demo_limit_deps \<and> stateLimit s ''Todo'' = 1 \<and> runningCountForState s ''Todo'' = 1
     \<and> runningCountForState t ''Todo'' = 2"
proof -
  have "refresh_sound demo_limit_deps"
    by (rule refresh_sound_lookup) (simp add: demo_limit_deps_def)
  moreover have "(let s = demo_limit_state; t = process_candidate demo_limit_deps
       ((demo_item ''b'' ''ENG-2'')\<lparr>wi_State := ''In Progress''\<rparr>) s in
     (stateLimit s ''Todo'', runningCountForState s ''Todo'', runningCountForState t ''Todo'')) = (1, 1, 2)"
    by code_simp
  ultimately show ?thesis by (simp add: Let_def)
qed

end
