(* ===== verification/Scheduler_Order.thy ===== *)
theory Scheduler_Order
  imports Orch_Demo "HOL-Library.Product_Lexorder"
begin

text \<open>
  The three orders of \<open>state.go\<close> (dispatch candidates, running rows and retry rows) as
  comparisons of keys, and what the sorted lists and the snapshot promise.
\<close>

declare map_of_eq_Some_iff [simp del]

text \<open>Dispatch order: priority, then age, then name.\<close>

definition candidate_key :: "work_item \<Rightarrow> int \<times> int \<times> string" where
  "candidate_key item = (priorityRank (wi_Priority item), createdAtKey item,
     firstNonEmpty [wi_Identifier item, wi_ID item])"

definition run_key :: "active_run \<Rightarrow> string \<times> string \<times> int" where
  "run_key a = (ar_ItemIdentifier a, ar_ItemID a, ar_StartedAt a)"

definition retry_key :: "retry_view \<Rightarrow> int \<times> string \<times> string" where
  "retry_key a = (rv_DueAt a, rv_ItemIdentifier a, rv_ItemID a)"

lemma less_keys:
  "candidate_less a b \<longleftrightarrow> candidate_key a < candidate_key b"
  "run_less p q \<longleftrightarrow> run_key p < run_key q"
  "retry_less u v \<longleftrightarrow> retry_key u < retry_key v"
  by (auto simp: candidate_less_def candidate_key_def run_less_def run_key_def retry_less_def
      retry_key_def Let_def)

lemma weak_order_key: "weak_order (\<lambda>a b. f a < (f b :: 'b :: linorder))"
  unfolding weak_order_def by (auto intro: less_trans)

lemma weak_orders: "weak_order candidate_less" "weak_order run_less" "weak_order retry_less"
  using weak_order_key [of candidate_key] weak_order_key [of run_key] weak_order_key [of retry_key]
  by (simp_all add: less_keys [abs_def])

lemma sorted_keys:
  assumes "sorted_wrt (\<lambda>x y. \<not> lt y x) xs" "\<And>a b. lt a b \<longleftrightarrow> f a < (f b :: 'b :: linorder)"
  shows "sorted (map f xs)"
  using assms(1) by (simp add: assms(2) sorted_map not_less)

text \<open>Candidates are tried in order of priority rank, then age, then name: the list
  \<open>sortCandidates\<close> returns is a permutation of its input, its keys ascend, and any two lists with
  the same items and pairwise different keys are put in the same order.\<close>

theorem sortCandidates_order:
  "mset (sortCandidates items) = mset items
   \<and> sorted (map candidate_key (sortCandidates items))
   \<and> (inj_on candidate_key (set items) \<longrightarrow> mset other = mset items \<longrightarrow>
        sortCandidates other = sortCandidates items)"
proof (intro conjI impI)
  show "mset (sortCandidates items) = mset items" by (simp add: sortCandidates_def)
  show "sorted (map candidate_key (sortCandidates items))"
    unfolding sortCandidates_def by (rule sorted_keys [OF sorted_sort_by [OF weak_orders(1)] less_keys(1)])
  assume inj: "inj_on candidate_key (set items)" and eq: "mset other = mset items"
  have "set other = set items" using eq by (rule mset_eq_setD)
  then show "sortCandidates other = sortCandidates items"
    unfolding sortCandidates_def using inj
    by (intro sort_by_unique [OF weak_orders(1) eq]) (auto simp: less_keys inj_on_def)
qed

theorem sortCandidates_order_witness:
  "sortCandidates (rev demo_items) = sortCandidates demo_items
   \<and> map wi_Identifier (sortCandidates demo_items) = [''ENG-1'', ''ENG-2'']"
proof
  have "inj_on candidate_key (set demo_items)" "mset (rev demo_items) = mset demo_items"
    by (simp_all add: inj_on_def demo_items_def demo_item_def empty_item_def candidate_key_def TrimSpace_def is_space_def)
  then show "sortCandidates (rev demo_items) = sortCandidates demo_items"
    using sortCandidates_order [of demo_items "rev demo_items"] by blast
  show "map wi_Identifier (sortCandidates demo_items) = [''ENG-1'', ''ENG-2'']" by code_simp
qed

text \<open>Rows made from a map's entries, sorted by an order that tells different keys apart.\<close>

lemma sorted_rows_unique:
  assumes "weak_order lt" "mok m" "order_ok ord"
    and tell: "\<And>k e k' e'. (k, e) \<in> set m \<Longrightarrow> (k', e') \<in> set m \<Longrightarrow>
      \<not> lt (f e) (f e') \<Longrightarrow> \<not> lt (f e') (f e) \<Longrightarrow> k = k'"
  shows "sort_by lt (map (f \<circ> snd) (range_entries ord m)) = sort_by lt (map (f \<circ> snd) m)"
proof (rule sort_by_unique [OF assms(1)])
  show "mset (map (f \<circ> snd) (range_entries ord m)) = mset (map (f \<circ> snd) m)"
    using mset_range_entries [OF assms(3,2)] by simp
  fix x y assume xy: "x \<in> set (map (f \<circ> snd) (range_entries ord m))"
    "y \<in> set (map (f \<circ> snd) (range_entries ord m))" "\<not> lt x y" "\<not> lt y x"
  from xy(1,2) obtain k e k' e' where "x = f e" "(k, e) \<in> set m" "y = f e'" "(k', e') \<in> set m"
    using assms(2,3) by (auto simp: set_range_entries)
  with tell [of k e k' e'] xy(3,4) assms(2) show "x = y" by (metis mget_mem option.inject)
qed

lemma run_view_ID: "sched_inv s \<Longrightarrow> (k, e) \<in> set (sd_running s) \<Longrightarrow> ar_ItemID (run_view e) = k"
  by (auto simp: sched_inv_def keyed_def run_view_def mget_mem)

lemma retry_view_ID: "sched_inv s \<Longrightarrow> (k, e) \<in> set (sd_retrying s) \<Longrightarrow> rv_ItemID (retry_entry_view e) = k"
  by (auto simp: sched_inv_def keyed_def retry_entry_view_def mget_mem)

text \<open>A snapshot does not depend on the order in which Go visits the running and
  the retry map; its running rows ascend by identifier, item ID and start time, its retry rows by due
  time, identifier and item ID, and the rows are exactly the entries of the two maps.\<close>

theorem snapshot_order_independent:
  assumes "sched_inv s" "order_ok ord1" "order_ok ord2"
  shows "snapshot_of ord1 ord2 s = snapshot_of (\<lambda>ks. ks) (\<lambda>ks. ks) s
    \<and> sorted (map run_key (sn_Running (snapshot_of ord1 ord2 s)))
    \<and> sorted (map retry_key (sn_Retrying (snapshot_of ord1 ord2 s)))
    \<and> mset (sn_Running (snapshot_of ord1 ord2 s)) = mset (map (run_view \<circ> snd) (sd_running s))
    \<and> mset (sn_Retrying (snapshot_of ord1 ord2 s)) = mset (map (retry_entry_view \<circ> snd) (sd_retrying s))"
proof -
  have ok: "mok (sd_running s)" "mok (sd_retrying s)"
    using assms(1) by (simp_all add: sched_inv_def keyed_def)
  have run: "sort_by run_less (map (run_view \<circ> snd) (range_entries ord (sd_running s)))
      = sort_by run_less (map (run_view \<circ> snd) (sd_running s))" if "order_ok ord" for ord
    by (rule sorted_rows_unique [OF weak_orders(2) ok(1) that])
      (auto simp: less_keys run_key_def dest!: run_view_ID [OF assms(1)])
  have retry: "sort_by retry_less (map (retry_entry_view \<circ> snd) (range_entries ord (sd_retrying s)))
      = sort_by retry_less (map (retry_entry_view \<circ> snd) (sd_retrying s))" if "order_ok ord" for ord
    by (rule sorted_rows_unique [OF weak_orders(3) ok(2) that])
      (auto simp: less_keys retry_key_def dest!: retry_view_ID [OF assms(1)])
  have "sorted (map run_key (sort_by run_less rs))" for rs
    by (rule sorted_keys [OF sorted_sort_by [OF weak_orders(2)] less_keys(2)])
  moreover have "sorted (map retry_key (sort_by retry_less rs))" for rs
    by (rule sorted_keys [OF sorted_sort_by [OF weak_orders(3)] less_keys(3)])
  ultimately show ?thesis
    using run [OF assms(2)] run [OF order_ok_id] retry [OF assms(3)] retry [OF order_ok_id]
    by (simp add: snapshot_of_def)
qed

theorem snapshot_order_independent_witness:
  "snapshot_of rev rev (vc_state demo_polled) = snapshot_of (\<lambda>ks. ks) (\<lambda>ks. ks) (vc_state demo_polled)
   \<and> map ar_ItemID (sn_Running (snapshot_of rev rev (vc_state demo_polled))) = [''a'']"
proof
  have "sched_inv (vc_state demo_polled)"
    using reachable_inv [OF demo_polled_reachable demo_refresh_sound(1)] by (simp add: svc_inv_def)
  then show "snapshot_of rev rev (vc_state demo_polled) = snapshot_of (\<lambda>ks. ks) (\<lambda>ks. ks) (vc_state demo_polled)"
    using snapshot_order_independent order_ok_rev by blast
  show "map ar_ItemID (sn_Running (snapshot_of rev rev (vc_state demo_polled))) = [''a'']"
    by (rule demo_polled_run) (simp add: snapshot_of_def range_entries_def List.map_filter_def run_view_def)
qed

end
