(* ===== verification/Tracker.thy ===== *)
theory Tracker
  imports Orch_Inv
begin

text \<open>
  The tracker contract: \<open>internal/tracker/tracker.go\<close> (the \<open>TrackerReader\<close> interface),
  \<open>filter.go\<close> (the reader scoped to one item) and \<open>internal/trackers/memory/reader.go\<close>.
  The locale \<open>tracker_contract\<close> states what the orchestrator relies on of a reader; both
  readers of the code interpret it, and a scheduler wired to such a reader as \<open>runtime.go\<close>
  does it meets the hypothesis \<open>refresh_sound\<close> of the orchestrator's theorems.
\<close>

declare map_of_eq_Some_iff [simp del]

subsection \<open>Readers\<close>

record tracker_reader =
  tr_ListCandidates :: "string + work_item list"
  tr_ListByStates :: "string list \<Rightarrow> string + work_item list"
  tr_RefreshByIDs :: "string list \<Rightarrow> string + work_item list"

text \<open>\<open>filter.go\<close>\<close>

definition normalizeMatch :: "string \<Rightarrow> string" where
  "normalizeMatch value = ToLower (TrimSpace value)"

record filtered_reader =
  fr_reader :: tracker_reader
  fr_match :: string

definition filter_items :: "filtered_reader \<Rightarrow> work_item list \<Rightarrow> work_item list" where
  "filter_items r items = (if fr_match r = [] then []
     else filter (\<lambda>item. normalizeMatch (wi_ID item) = fr_match r
            \<or> normalizeMatch (wi_Identifier item) = fr_match r) items)"

definition filter_result :: "filtered_reader \<Rightarrow> string + work_item list \<Rightarrow> string + work_item list" where
  "filter_result r res = (case res of Inl err \<Rightarrow> Inl err | Inr items \<Rightarrow> Inr (filter_items r items))"

definition filtered_methods :: "filtered_reader \<Rightarrow> tracker_reader" where
  "filtered_methods r =
    \<lparr>tr_ListCandidates = filter_result r (tr_ListCandidates (fr_reader r)),
     tr_ListByStates = (\<lambda>states. filter_result r (tr_ListByStates (fr_reader r) states)),
     tr_RefreshByIDs = (\<lambda>ids. filter_result r (tr_RefreshByIDs (fr_reader r) ids))\<rparr>"

definition NewFilteredReader :: "tracker_reader \<Rightarrow> string \<Rightarrow> tracker_reader" where
  "NewFilteredReader reader match =
     filtered_methods \<lparr>fr_reader = reader, fr_match = normalizeMatch match\<rparr>"

text \<open>
  \<open>memory/reader.go\<close>. A clone copies every pointer and slice field; as values the copies equal
  the originals, so the copied fields are written out and \<open>cloneWorkItem_id\<close> says so.
\<close>

definition clone_ptr :: "'a option \<Rightarrow> 'a option" where
  "clone_ptr v = (case v of None \<Rightarrow> None | Some x \<Rightarrow> Some x)"

definition cloneWorkItem :: "work_item \<Rightarrow> work_item" where
  "cloneWorkItem item = item\<lparr>wi_Labels := [] @ wi_Labels item, wi_BlockedBy := [] @ wi_BlockedBy item,
     wi_Priority := clone_ptr (wi_Priority item), wi_Routable := clone_ptr (wi_Routable item),
     wi_CreatedAt := clone_ptr (wi_CreatedAt item), wi_UpdatedAt := clone_ptr (wi_UpdatedAt item)\<rparr>"

definition memory_ListByStates :: "work_item list \<Rightarrow> string list \<Rightarrow> string + work_item list" where
  "memory_ListByStates items states =
     (if states = [] then Inr []
      else let normalized = normalizeStateSet states in
        if normalized = {} then Inr []
        else Inr (map cloneWorkItem
          (filter (\<lambda>item. normalizeState (wi_State item) \<in> normalized) items)))"

definition memory_index :: "work_item list \<Rightarrow> (string, work_item) gomap" where
  "memory_index items = foldl (\<lambda>m item. mput (wi_ID item) item m) [] items"

definition memory_RefreshByIDs :: "work_item list \<Rightarrow> string list \<Rightarrow> string + work_item list" where
  "memory_RefreshByIDs items ids =
     (if ids = [] then Inr []
      else Inr (List.map_filter (\<lambda>key. map_option cloneWorkItem (mget (memory_index items) key)) ids))"

definition NewReader :: "work_item list \<Rightarrow> tracker_reader" where
  "NewReader seed = (let items = map cloneWorkItem seed in
    \<lparr>tr_ListCandidates = Inr (map cloneWorkItem items),
     tr_ListByStates = memory_ListByStates items,
     tr_RefreshByIDs = memory_RefreshByIDs items\<rparr>)"

text \<open>\<open>startRuntime\<close> in \<open>cli/runtime.go\<close> wires a reader and the worker manager to the orchestrator.\<close>

definition runtime_deps :: "tracker_reader \<Rightarrow> (call list \<Rightarrow> start_run_request \<Rightarrow> string + start_run_result)
    \<Rightarrow> (call list \<Rightarrow> stop_run_request \<Rightarrow> string option) \<Rightarrow> deps" where
  "runtime_deps reader startRun stopRun =
    \<lparr>dp_listCandidates = Some (\<lambda>cs. tr_ListCandidates reader),
     dp_refreshItems = Some (\<lambda>cs ids. tr_RefreshByIDs reader ids),
     dp_startRun = Some startRun, dp_stopRun = Some stopRun,
     dp_hostSelection = None, dp_admitRun = None\<rparr>"

subsection \<open>The contract\<close>

locale tracker_contract =
  fixes reader :: tracker_reader
  assumes refreshed_asked: "tr_RefreshByIDs reader ids = Inr items \<Longrightarrow> item \<in> set items \<Longrightarrow> wi_ID item \<in> set ids"
    and listed_state: "tr_ListByStates reader states = Inr items \<Longrightarrow> item \<in> set items \<Longrightarrow>
      normalizeState (wi_State item) \<in> normalizeStateSet states"
begin

lemma refresh_one: "tr_RefreshByIDs reader [key] = Inr (item # rest) \<Longrightarrow> wi_ID item = key"
  using refreshed_asked [of "[key]" "item # rest" item] by simp

lemma refresh_none: "tr_RefreshByIDs reader [] = Inr items \<Longrightarrow> items = []"
  using refreshed_asked [of "[]" items] by (cases items) auto

lemma deps_refresh_sound: "refresh_sound (runtime_deps reader start stop)"
  using refreshed_asked by (auto simp: refresh_sound_def runtime_deps_def)

lemma runtime_inv: "svc_reachable cfg (runtime_deps reader start stop) v \<Longrightarrow> svc_inv v"
  using reachable_inv deps_refresh_sound by blast

text \<open>Scoping a reader keeps the contract.\<close>

lemma filtered_contract: "tracker_contract (NewFilteredReader reader match)"
  using refreshed_asked listed_state
  by unfold_locales (auto simp: NewFilteredReader_def filtered_methods_def filter_result_def filter_items_def
      split: sum.splits if_splits)

end

lemma cloneWorkItem_id [simp]: "cloneWorkItem item = item"
  by (simp add: cloneWorkItem_def clone_ptr_def option.case_eq_if)

lemma clone_all [simp]: "map cloneWorkItem items = items"
  by (induction items) simp_all

lemma memory_index_id: "mget (memory_index items) k = Some item \<Longrightarrow> wi_ID item = k \<and> item \<in> set items"
  using visible_items_id [of items k item] by (simp add: memory_index_def visible_items_def)

lemma memory_refreshed: "memory_RefreshByIDs items ids =
    Inr (List.map_filter (\<lambda>key. mget (memory_index items) key) ids)"
proof -
  have "map_option cloneWorkItem = (\<lambda>x. x)" by (rule ext) (simp add: option.map_ident_strong)
  then show ?thesis by (simp add: memory_RefreshByIDs_def map_filter_simps)
qed

interpretation memory: tracker_contract "NewReader items" for items
proof unfold_locales
  fix ids its item assume "tr_RefreshByIDs (NewReader items) ids = Inr its" "item \<in> set its"
  then show "wi_ID item \<in> set ids"
    by (auto simp: NewReader_def memory_refreshed set_map_filter dest: memory_index_id)
next
  fix states its item assume "tr_ListByStates (NewReader items) states = Inr its" "item \<in> set its"
  then show "normalizeState (wi_State item) \<in> normalizeStateSet states"
    by (auto simp: NewReader_def memory_ListByStates_def Let_def split: if_splits)
qed

interpretation filtered_memory: tracker_contract "NewFilteredReader (NewReader items) match" for items match
  by (rule memory.filtered_contract)

subsection \<open>Properties\<close>

lemma foldl_mput_keep:
  "k \<notin> wi_ID ` set items \<Longrightarrow> mget (foldl (\<lambda>m item. mput (wi_ID item) item m) m0 items) k = mget m0 k"
  by (induction items arbitrary: m0) (auto simp: gomap)

lemma memory_index_distinct:
  assumes "distinct (map wi_ID items)" "item \<in> set items"
  shows "mget (memory_index items) (wi_ID item) = Some item"
proof -
  have "mget (foldl (\<lambda>m item. mput (wi_ID item) item m) m0 items) (wi_ID item) = Some item" for m0
    using assms by (induction items arbitrary: m0) (auto simp: gomap foldl_mput_keep image_iff)
  then show ?thesis by (simp add: memory_index_def)
qed

text \<open>With distinct item IDs, refreshing from the memory reader returns the stored item
  of each requested ID that exists, in the order of the request, and nothing for the others.\<close>

theorem memory_refresh_exact:
  assumes "distinct (map wi_ID items)"
  shows "tr_RefreshByIDs (NewReader items) ids =
    Inr (List.map_filter (\<lambda>key. List.find (\<lambda>item. wi_ID item = key) items) ids)"
proof -
  have "mget (memory_index items) key = List.find (\<lambda>item. wi_ID item = key) items" for key
  proof (cases "List.find (\<lambda>item. wi_ID item = key) items")
    case None
    then have "key \<notin> wi_ID ` set items" by (auto simp: find_None_iff)
    then show ?thesis using None by (simp add: memory_index_def foldl_mput_keep)
  next
    case (Some item)
    then have "item \<in> set items" "wi_ID item = key" by (auto simp: find_Some_iff)
    then show ?thesis using memory_index_distinct [OF assms] Some by auto
  qed
  then show ?thesis by (simp add: NewReader_def memory_refreshed)
qed

theorem memory_refresh_exact_witness:
  "tr_RefreshByIDs (NewReader [empty_item\<lparr>wi_ID := ''a''\<rparr>, empty_item\<lparr>wi_ID := ''b''\<rparr>]) [''b'', ''x'', ''a'']
     = Inr [empty_item\<lparr>wi_ID := ''b''\<rparr>, empty_item\<lparr>wi_ID := ''a''\<rparr>]"
proof -
  let ?items = "[empty_item\<lparr>wi_ID := ''a''\<rparr>, empty_item\<lparr>wi_ID := ''b''\<rparr>]"
  have "distinct (map wi_ID ?items)" by simp
  from memory_refresh_exact [OF this] show ?thesis by (simp add: map_filter_simps)
qed

text \<open>A scoped reader returns exactly the underlying reader's items whose ID or
  identifier equals the pattern up to case and surrounding white space; a blank pattern matches
  nothing, and an error of the underlying reader comes through unchanged.\<close>

theorem filtered_reader_exact:
  "tr_RefreshByIDs (NewFilteredReader reader match) ids = (case tr_RefreshByIDs reader ids of
       Inl err \<Rightarrow> Inl err
     | Inr items \<Rightarrow> Inr (filter (\<lambda>item. TrimSpace match \<noteq> []
         \<and> normalizeMatch match \<in> {normalizeMatch (wi_ID item), normalizeMatch (wi_Identifier item)}) items))
   \<and> tr_ListCandidates (NewFilteredReader reader match) = (case tr_ListCandidates reader of
       Inl err \<Rightarrow> Inl err
     | Inr items \<Rightarrow> Inr (filter (\<lambda>item. TrimSpace match \<noteq> []
         \<and> normalizeMatch match \<in> {normalizeMatch (wi_ID item), normalizeMatch (wi_Identifier item)}) items))"
proof -
  have "filter_items \<lparr>fr_reader = reader, fr_match = normalizeMatch match\<rparr> items =
      filter (\<lambda>item. TrimSpace match \<noteq> []
         \<and> normalizeMatch match \<in> {normalizeMatch (wi_ID item), normalizeMatch (wi_Identifier item)}) items"
    for items
    by (auto simp: filter_items_def normalizeMatch_def intro!: filter_cong)
  then show ?thesis
    by (simp add: NewFilteredReader_def filtered_methods_def filter_result_def split: sum.split)
qed

end
