(* ===== verification/Store.thy ===== *)
theory Store
  imports Settings "HOL-Library.Word"
begin

unbundle bit_operations_syntax

text \<open>
  \<open>internal/config/store.go\<close>: the configuration store, which keeps the last workflow that
  loaded and reloads it when the file changes. The outside world is an argument of every
  operation: a \<open>world\<close> holds what reading and \<open>stat\<close>ing a file, the working directory and the
  environment answer during one load. \<open>currentStamp\<close> and \<open>loadSnapshot\<close> look at the file at
  different times, so a reload takes two worlds. The YAML parser and the settings decoder are
  fixed parameters of the store. Each locked section is one operation.
\<close>

record world =
  wd_readFile :: "string \<Rightarrow> string + string"
  wd_statFile :: "string \<Rightarrow> string + int \<times> int"
  wd_cwd :: "string + string"
  wd_env :: os_env

record parsers =
  pa_yaml :: "string \<Rightarrow> string + gval"
  pa_decode :: "gval \<Rightarrow> legacy_config \<Rightarrow> string + legacy_config"
  pa_order1 :: "string range_order"
  pa_order2 :: "string range_order"

record workflow_stamp =
  ws_modTime :: int
  ws_size :: int
  ws_hash :: "64 word"

record store_snapshot =
  ls_loadedPath :: string
  ls_workflow :: workflow
  ls_settings :: settings
  ls_stamp :: workflow_stamp

record store =
  so_desiredPath :: string
  so_snapshot :: store_snapshot
  so_parsers :: parsers
  so_hash :: "string \<Rightarrow> 64 word"
  so_stopped :: bool

text \<open>\<open>hash/fnv\<close>: FNV-1a on 64 bits.\<close>

definition contentHash :: "string \<Rightarrow> 64 word" where
  "contentHash content =
     foldl (\<lambda>h c. (h XOR of_nat (byte c)) * 1099511628211) 14695981039346656037 content"

definition loadState ::
  "parsers \<Rightarrow> (string \<Rightarrow> 64 word) \<Rightarrow> world \<Rightarrow> string \<Rightarrow> cfg_error + workflow \<times> workflow_stamp" where
  "loadState p hash w path = (case wd_readFile w path of
     Inl e \<Rightarrow> Inl (LoadError ErrMissingWorkflowFile path (Some e))
   | Inr content \<Rightarrow> (case wd_statFile w path of
       Inl e \<Rightarrow> Inl (CfgError e)
     | Inr (mtime, sz) \<Rightarrow> (case Parse (pa_yaml p) content path of
         Inl e \<Rightarrow> Inl e
       | Inr flow \<Rightarrow> Inr (flow, \<lparr>ws_modTime = mtime, ws_size = sz, ws_hash = hash content\<rparr>))))"

definition currentStamp :: "(string \<Rightarrow> 64 word) \<Rightarrow> world \<Rightarrow> string \<Rightarrow> string + workflow_stamp" where
  "currentStamp hash w path = (case wd_readFile w path of
     Inl e \<Rightarrow> Inl e
   | Inr content \<Rightarrow> (case wd_statFile w path of
       Inl e \<Rightarrow> Inl e
     | Inr (mtime, sz) \<Rightarrow> Inr \<lparr>ws_modTime = mtime, ws_size = sz, ws_hash = hash content\<rparr>))"

definition loadSnapshot ::
  "parsers \<Rightarrow> (string \<Rightarrow> 64 word) \<Rightarrow> world \<Rightarrow> string \<Rightarrow> cfg_error + store_snapshot" where
  "loadSnapshot p hash w path = (case loadState p hash w path of
     Inl e \<Rightarrow> Inl e
   | Inr (flow, stamp) \<Rightarrow> (case ParseSettings (wd_env w) (pa_decode p) (pa_order1 p) (pa_order2 p) flow of
       Inl e \<Rightarrow> Inl e
     | Inr s \<Rightarrow> Inr \<lparr>ls_loadedPath = path, ls_workflow = flow, ls_settings = s, ls_stamp = stamp\<rparr>))"

text \<open>\<open>NewStore\<close>; \<open>path\<close> is the option \<open>WithWorkflowPath\<close>, empty when it is not given.\<close>

definition NewStore :: "parsers \<Rightarrow> (string \<Rightarrow> 64 word) \<Rightarrow> world \<Rightarrow> string \<Rightarrow> cfg_error + store" where
  "NewStore p hash w path = (case resolvedWorkflowPath (wd_cwd w) path of
     Inl e \<Rightarrow> Inl e
   | Inr desired \<Rightarrow> (case loadSnapshot p hash w desired of
       Inl e \<Rightarrow> Inl e
     | Inr snap \<Rightarrow> Inr \<lparr>so_desiredPath = desired, so_snapshot = snap, so_parsers = p, so_hash = hash,
                       so_stopped = False\<rparr>))"

definition reload :: "world \<Rightarrow> store \<Rightarrow> cfg_error option \<times> store" where
  "reload w s = (case loadSnapshot (so_parsers s) (so_hash s) w (so_desiredPath s) of
     Inl e \<Rightarrow> (Some e, s)
   | Inr snap \<Rightarrow> (None, s\<lparr>so_snapshot := snap\<rparr>))"

definition reloadLocked :: "world \<Rightarrow> world \<Rightarrow> bool \<Rightarrow> store \<Rightarrow> cfg_error option \<times> store" where
  "reloadLocked w1 w2 force s =
     (if force \<or> so_desiredPath s \<noteq> ls_loadedPath (so_snapshot s) then reload w2 s
      else case currentStamp (so_hash s) w1 (so_desiredPath s) of
        Inr stamp \<Rightarrow> (if stamp = ls_stamp (so_snapshot s) then (None, s) else reload w2 s)
      | Inl e \<Rightarrow> reload w2 s)"

definition store_Current :: "world \<Rightarrow> world \<Rightarrow> store \<Rightarrow> workflow \<times> store" where
  "store_Current w1 w2 s = (let (err, s1) = reloadLocked w1 w2 False s in (ls_workflow (so_snapshot s1), s1))"

definition store_CurrentSettings :: "world \<Rightarrow> world \<Rightarrow> store \<Rightarrow> settings \<times> store" where
  "store_CurrentSettings w1 w2 s =
     (let (err, s1) = reloadLocked w1 w2 False s in (ls_settings (so_snapshot s1), s1))"

definition ForceReload :: "world \<Rightarrow> world \<Rightarrow> store \<Rightarrow> cfg_error option \<times> store" where
  "ForceReload w1 w2 s = reloadLocked w1 w2 True s"

definition SetWorkflowPath :: "world \<Rightarrow> world \<Rightarrow> string \<Rightarrow> store \<Rightarrow> cfg_error option \<times> store" where
  "SetWorkflowPath w1 w2 path s = (case resolvedWorkflowPath (wd_cwd w1) path of
     Inl e \<Rightarrow> (Some e, s)
   | Inr resolved \<Rightarrow> reloadLocked w1 w2 True (s\<lparr>so_desiredPath := resolved\<rparr>))"

definition ClearWorkflowPath :: "world \<Rightarrow> world \<Rightarrow> store \<Rightarrow> cfg_error option \<times> store" where
  "ClearWorkflowPath w1 w2 s = (case resolvedWorkflowPath (wd_cwd w1) [] of
     Inl e \<Rightarrow> (Some e, s)
   | Inr resolved \<Rightarrow> reloadLocked w1 w2 True (s\<lparr>so_desiredPath := resolved\<rparr>))"

text \<open>\<open>Close\<close> stops the goroutine that reloads on every tick; the other methods still work.\<close>

definition store_Close :: "store \<Rightarrow> store" where
  "store_Close s = s\<lparr>so_stopped := True\<rparr>"

inductive store_step :: "store \<Rightarrow> store \<Rightarrow> bool" where
  st_tick: "\<not> so_stopped s \<Longrightarrow> store_step s (snd (reloadLocked w1 w2 False s))"
| st_current: "store_step s (snd (store_Current w1 w2 s))"
| st_settings: "store_step s (snd (store_CurrentSettings w1 w2 s))"
| st_force: "store_step s (snd (ForceReload w1 w2 s))"
| st_set: "store_step s (snd (SetWorkflowPath w1 w2 path s))"
| st_clear: "store_step s (snd (ClearWorkflowPath w1 w2 s))"
| st_close: "store_step s (store_Close s)"

inductive store_reachable :: "store \<Rightarrow> bool" where
  so_new: "NewStore p hash w path = Inr s \<Longrightarrow> order_ok (pa_order2 p) \<Longrightarrow> store_reachable s"
| so_step: "store_reachable s \<Longrightarrow> store_step s t \<Longrightarrow> store_reachable t"

inductive_cases store_stepE: "store_step s t"

subsection \<open>The last known good configuration\<close>

definition good_snapshot :: "store \<Rightarrow> bool" where
  "good_snapshot s \<longleftrightarrow> order_ok (pa_order2 (so_parsers s)) \<and>
     (\<exists>w. loadSnapshot (so_parsers s) (so_hash s) w (ls_loadedPath (so_snapshot s)) = Inr (so_snapshot s))"

lemma loadSnapshot_path: "loadSnapshot p hash w path = Inr snap \<Longrightarrow> ls_loadedPath snap = path"
  by (auto simp: loadSnapshot_def split: sum.splits)

lemma loadSnapshot_facts:
  assumes "loadSnapshot p hash w path = Inr snap" "order_ok (pa_order2 p)"
  shows "settings_ok (ls_settings snap)"
    and "\<exists>content. wd_readFile w path = Inr content \<and> Parse (pa_yaml p) content path = Inr (ls_workflow snap)
      \<and> ws_hash (ls_stamp snap) = hash content"
proof -
  obtain flow where "ParseSettings (wd_env w) (pa_decode p) (pa_order1 p) (pa_order2 p) flow
      = Inr (ls_settings snap)"
    using assms(1) by (auto simp: loadSnapshot_def split: sum.splits)
  then show "settings_ok (ls_settings snap)" using assms(2) by (rule ParseSettings_ok)
  show "\<exists>content. wd_readFile w path = Inr content \<and> Parse (pa_yaml p) content path = Inr (ls_workflow snap)
      \<and> ws_hash (ls_stamp snap) = hash content"
    using assms(1) by (auto simp: loadSnapshot_def loadState_def split: sum.splits)
qed

lemma reload_good: "good_snapshot s \<Longrightarrow> good_snapshot (snd (reload w s))"
  using loadSnapshot_path by (auto simp: reload_def good_snapshot_def split: sum.split)

lemma reloadLocked_good: "good_snapshot s \<Longrightarrow> good_snapshot (snd (reloadLocked w1 w2 force s))"
  by (simp add: reloadLocked_def reload_good split: sum.split)

lemma good_desired: "good_snapshot (s\<lparr>so_desiredPath := x\<rparr>) = good_snapshot s"
  by (simp add: good_snapshot_def)

lemma store_reads_state [simp]:
  "snd (store_Current w1 w2 s) = snd (reloadLocked w1 w2 False s)"
  "snd (store_CurrentSettings w1 w2 s) = snd (reloadLocked w1 w2 False s)"
  by (simp_all add: store_Current_def store_CurrentSettings_def Let_def case_prod_beta)

lemma store_step_good: "store_step s t \<Longrightarrow> good_snapshot s \<Longrightarrow> good_snapshot t"
  by (erule store_stepE)
    (auto simp: ForceReload_def SetWorkflowPath_def ClearWorkflowPath_def reloadLocked_good good_desired
      split: sum.split, simp add: store_Close_def good_snapshot_def)

lemma store_reachable_good: "store_reachable s \<Longrightarrow> good_snapshot s"
proof (induction rule: store_reachable.induct)
  case (so_new p hash w path s)
  then show ?case
    using loadSnapshot_path by (fastforce simp: NewStore_def good_snapshot_def split: sum.splits)
qed (rule store_step_good)


text \<open>A reload that fails changes nothing and reports its error; a reload that succeeds
  installs exactly what was loaded. No load is attempted only when the desired path is the loaded one,
  it was not forced, and the file's stamp is that of the snapshot.\<close>

theorem reloadLocked_outcome:
  "reloadLocked w1 w2 force s =
     (if \<not> force \<and> so_desiredPath s = ls_loadedPath (so_snapshot s)
         \<and> currentStamp (so_hash s) w1 (so_desiredPath s) = Inr (ls_stamp (so_snapshot s))
      then (None, s)
      else case loadSnapshot (so_parsers s) (so_hash s) w2 (so_desiredPath s) of
        Inl e \<Rightarrow> (Some e, s)
      | Inr snap \<Rightarrow> (None, s\<lparr>so_snapshot := snap\<rparr>))"
  by (simp add: reloadLocked_def reload_def split: sum.split)

text \<open>A changed file is picked up: if the content of the file has a hash other than the
  snapshot's and the file loads, the next \<open>Current\<close> returns the workflow parsed from it; and if a new
  path was set whose file could not be loaded then, \<open>Current\<close> keeps trying it and serves the old
  workflow until it loads.\<close>

theorem store_Current_fresh:
  assumes "loadSnapshot (so_parsers s) (so_hash s) w2 (so_desiredPath s) = Inr snap"
    and "so_desiredPath s \<noteq> ls_loadedPath (so_snapshot s)
      \<or> (\<exists>content. wd_readFile w1 (so_desiredPath s) = Inr content
           \<and> so_hash s content \<noteq> ws_hash (ls_stamp (so_snapshot s)))"
  shows "fst (store_Current w1 w2 s) = ls_workflow snap
    \<and> ls_loadedPath (so_snapshot (snd (store_Current w1 w2 s))) = so_desiredPath s"
proof -
  have r: "reload w2 s = (None, s\<lparr>so_snapshot := snap\<rparr>)" using assms(1) by (simp add: reload_def)
  have "currentStamp (so_hash s) w1 (so_desiredPath s) \<noteq> Inr (ls_stamp (so_snapshot s))"
    if "wd_readFile w1 (so_desiredPath s) = Inr content"
      "so_hash s content \<noteq> ws_hash (ls_stamp (so_snapshot s))" for content
    using that by (auto simp: currentStamp_def split: sum.split dest: arg_cong [where f = ws_hash])
  then have "reloadLocked w1 w2 False s = reload w2 s"
    using assms(2) by (auto simp: reloadLocked_def split: sum.split)
  then show ?thesis using loadSnapshot_path [OF assms(1)] by (simp add: store_Current_def r)
qed

subsection \<open>Witnesses\<close>

definition sample_parsers :: parsers where
  "sample_parsers = \<lparr>pa_yaml = (\<lambda>s. Inr (VMap [(''tracker'', VStr ''memory'')])), pa_decode = sample_decode,
     pa_order1 = (\<lambda>ks. ks), pa_order2 = rev\<rparr>"

definition sample_world :: "string \<Rightarrow> world" where
  "sample_world content = \<lparr>wd_readFile = (\<lambda>p. if p = ''/w/WORKFLOW.md'' then Inr content else Inl ''no such file''),
     wd_statFile = (\<lambda>p. if p = ''/w/WORKFLOW.md'' then Inr (7, 3) else Inl ''no such file''),
     wd_cwd = Inr ''/w'', wd_env = sample_os\<rparr>"

definition sample_file :: "string \<Rightarrow> string" where
  "sample_file prompt = ''---'' @ [nl] @ ''x: y'' @ [nl] @ ''---'' @ [nl] @ prompt"

text \<open>A short stand-in for the hash, with different values on the sample files.\<close>

definition sample_hash :: "string \<Rightarrow> 64 word" where
  "sample_hash content = of_nat (length content)"

definition sample_store :: store where
  "sample_store = (case NewStore sample_parsers sample_hash (sample_world (sample_file ''a'')) [] of
     Inr s \<Rightarrow> s | Inl e \<Rightarrow> undefined)"

lemma sample_store_new:
  "NewStore sample_parsers sample_hash (sample_world (sample_file ''a'')) [] = Inr sample_store"
proof -
  have "(case NewStore sample_parsers sample_hash (sample_world (sample_file ''a'')) [] of
     Inr s \<Rightarrow> True | Inl e \<Rightarrow> False)" by code_simp
  then show ?thesis
    by (cases "NewStore sample_parsers sample_hash (sample_world (sample_file ''a'')) []")
      (simp_all add: sample_store_def)
qed

lemma sample_store_good: "store_reachable sample_store"
  by (rule so_new [OF sample_store_new]) (simp add: sample_parsers_def)


theorem store_Current_fresh_witness:
  "wf_Prompt (fst (store_Current (sample_world (sample_file ''bb'')) (sample_world (sample_file ''bb'')) sample_store))
     = ''bb''"
proof -
  let ?w = "sample_world (sample_file ''bb'')"
  have "(case loadSnapshot (so_parsers sample_store) (so_hash sample_store) ?w (so_desiredPath sample_store) of
      Inr snap \<Rightarrow> wf_Prompt (ls_workflow snap) = ''bb'' | Inl e \<Rightarrow> False)" by code_simp
  then obtain snap where snap: "loadSnapshot (so_parsers sample_store) (so_hash sample_store) ?w
      (so_desiredPath sample_store) = Inr snap" "wf_Prompt (ls_workflow snap) = ''bb''"
    by (auto split: sum.splits)
  have "(case wd_readFile ?w (so_desiredPath sample_store) of
      Inr c \<Rightarrow> so_hash sample_store c \<noteq> ws_hash (ls_stamp (so_snapshot sample_store)) | Inl e \<Rightarrow> False)"
    by code_simp
  then have "\<exists>content. wd_readFile ?w (so_desiredPath sample_store) = Inr content
           \<and> so_hash sample_store content \<noteq> ws_hash (ls_stamp (so_snapshot sample_store))"
    by (auto split: sum.splits)
  with store_Current_fresh [OF snap(1)] snap(2) show ?thesis by metis
qed

end
