(* ===== verification/Workspace_Path.thy ===== *)
theory Workspace_Path
  imports Go_Path
begin

text \<open>
  The path checks of \<open>internal/workspace/manager.go\<close>: \<open>safeIdentifier\<close>, \<open>canonicalizePath\<close>
  (which resolves symbolic links element by element), \<open>isWithinRoot\<close>, \<open>validateLocalPath\<close> and
  \<open>validateRemotePath\<close>. The file system is an argument: \<open>fv_lstat\<close> and \<open>fv_readlink\<close> are
  \<open>os.Lstat\<close> and \<open>os.Readlink\<close>, \<open>fv_cwd\<close> is \<open>os.Getwd\<close>. \<open>canonicalizePath\<close> calls itself on
  a link's target without a limit, so it is a partial function: \<open>None\<close> means that it never
  returns.
\<close>

datatype error_kind =
    ErrWorkspacePathUnreadable
  | ErrWorkspaceEqualsRoot
  | ErrWorkspaceOutsideRoot
  | ErrWorkspaceSymlinkEscape
  | ErrWorkspaceHookTimeout
  | ErrWorkspaceHookFailed
  | ErrWorkspacePrepareFailed
  | ErrWorkspaceRemoveFailed

record ws_error =
  we_Kind :: error_kind
  we_Path :: string
  we_Root :: string
  we_Hook :: string
  we_WorkerHost :: string
  we_Status :: int
  we_Output :: string
  we_Timeout :: gduration
  we_Err :: "string option"

definition ws_error0 :: "error_kind \<Rightarrow> string \<Rightarrow> ws_error" where
  "ws_error0 kind path = \<lparr>we_Kind = kind, we_Path = path, we_Root = [], we_Hook = [], we_WorkerHost = [],
     we_Status = 0, we_Output = [], we_Timeout = 0, we_Err = None\<rparr>"

subsection \<open>Identifiers\<close>

definition safe_rune :: "char \<Rightarrow> bool" where
  "safe_rune r \<longleftrightarrow> r = CHR ''.'' \<or> r = CHR ''_'' \<or> r = CHR ''-'' \<or> is_lower r \<or> is_upper r \<or> is_digit r"

definition safeIdentifier :: "string \<Rightarrow> string" where
  "safeIdentifier identifier =
     (if TrimSpace identifier = [] then ''issue''
      else let out = map (\<lambda>r. if safe_rune r then r else CHR ''_'') identifier in
        if out = [] then ''issue'' else out)"

subsection \<open>Canonical paths\<close>

datatype lstat = IsSymlink | Exists | NotExist | LstatFailed string

record fs_view =
  fv_cwd :: "string option"
  fv_lstat :: "string \<Rightarrow> lstat"
  fv_readlink :: "string \<Rightarrow> string + string"

definition splitAbsolutePath :: "string \<Rightarrow> string \<times> string list" where
  "splitAbsolutePath path = (let clean = Clean path; remainder = TrimPrefix clean ''/'' in
     if remainder = [] then (''/'', []) else (''/'', Split slash remainder))"

datatype walk = Done "string + string" | Follow string

text \<open>The loop over the elements; it ends with a result or with the path to start again from.\<close>

fun canon_walk :: "fs_view \<Rightarrow> string \<Rightarrow> string list \<Rightarrow> walk" where
  "canon_walk fs current [] = Done (Inr current)"
| "canon_walk fs current (segment # rest) =
     (let candidate = path_Join [current, segment] in
      case fv_lstat fs candidate of
        IsSymlink \<Rightarrow> (case fv_readlink fs candidate of
            Inl e \<Rightarrow> Done (Inl e)
          | Inr target \<Rightarrow>
              (let target = (if IsAbs target then target else path_Join [current, target]);
                   remaining = path_Join rest
               in Follow (if remaining \<noteq> [] then path_Join [target, remaining] else target)))
      | Exists \<Rightarrow> canon_walk fs candidate rest
      | NotExist \<Rightarrow> (let remaining = path_Join (segment # rest) in
          Done (Inr (if remaining = [] then current else path_Join [current, remaining])))
      | LstatFailed e \<Rightarrow> Done (Inl e))"

partial_function (option) canonicalizePath :: "fs_view \<Rightarrow> string \<Rightarrow> (string + string) option" where
  "canonicalizePath fs path = (case path_Abs (fv_cwd fs) path of
     None \<Rightarrow> Some (Inl ''getwd'')
   | Some absolutePath \<Rightarrow>
       (case canon_walk fs (fst (splitAbsolutePath (Clean absolutePath))) (snd (splitAbsolutePath (Clean absolutePath))) of
          Done r \<Rightarrow> Some r
        | Follow target \<Rightarrow> canonicalizePath fs target))"

declare canonicalizePath.simps [code]

definition isWithinRoot :: "string \<Rightarrow> string \<Rightarrow> bool" where
  "isWithinRoot path root = (case path_Rel root path of
     None \<Rightarrow> False
   | Some relative \<Rightarrow> relative = ''.'' \<or> relative \<noteq> dotdot \<and> \<not> HasPrefix relative ''../'')"

definition validateLocalPath :: "fs_view \<Rightarrow> string \<Rightarrow> string \<Rightarrow> (ws_error + string) option" where
  "validateLocalPath fs root workspacePath = (case canonicalizePath fs workspacePath of
     None \<Rightarrow> None
   | Some (Inl e) \<Rightarrow> Some (Inl ((ws_error0 ErrWorkspacePathUnreadable workspacePath)\<lparr>we_Err := Some e\<rparr>))
   | Some (Inr canonicalWorkspace) \<Rightarrow> (case canonicalizePath fs root of
       None \<Rightarrow> None
     | Some (Inl e) \<Rightarrow> Some (Inl ((ws_error0 ErrWorkspacePathUnreadable root)\<lparr>we_Err := Some e\<rparr>))
     | Some (Inr canonicalRoot) \<Rightarrow>
         (if canonicalWorkspace = canonicalRoot
          then Some (Inl ((ws_error0 ErrWorkspaceEqualsRoot canonicalWorkspace)\<lparr>we_Root := canonicalRoot\<rparr>))
          else if isWithinRoot canonicalWorkspace canonicalRoot then Some (Inr canonicalWorkspace)
          else case path_Abs (fv_cwd fs) workspacePath of
            None \<Rightarrow> Some (Inl ((ws_error0 ErrWorkspacePathUnreadable workspacePath)\<lparr>we_Err := Some ''getwd''\<rparr>))
          | Some expandedWorkspace \<Rightarrow> (case path_Abs (fv_cwd fs) root of
              None \<Rightarrow> Some (Inl ((ws_error0 ErrWorkspacePathUnreadable root)\<lparr>we_Err := Some ''getwd''\<rparr>))
            | Some expandedRoot \<Rightarrow>
                (if isWithinRoot (Clean expandedWorkspace) (Clean expandedRoot)
                 then Some (Inl ((ws_error0 ErrWorkspaceSymlinkEscape (Clean expandedWorkspace))\<lparr>we_Root := canonicalRoot\<rparr>))
                 else Some (Inl ((ws_error0 ErrWorkspaceOutsideRoot canonicalWorkspace)\<lparr>we_Root := canonicalRoot\<rparr>)))))))"

definition validateRemotePath :: "string \<Rightarrow> string \<Rightarrow> ws_error + string" where
  "validateRemotePath workspacePath workerHost =
     (if TrimSpace workspacePath = []
      then Inl ((ws_error0 ErrWorkspacePathUnreadable workspacePath)
        \<lparr>we_WorkerHost := workerHost, we_Err := Some ''empty path''\<rparr>)
      else if Contains workspacePath [CHR 0x0A] \<or> Contains workspacePath [CHR 0x0D]
          \<or> CHR 0x00 \<in> set workspacePath
      then Inl ((ws_error0 ErrWorkspacePathUnreadable workspacePath)
        \<lparr>we_WorkerHost := workerHost, we_Err := Some ''invalid characters''\<rparr>)
      else Inr workspacePath)"

subsection \<open>Identifiers are single path elements\<close>

lemma safe_rune_ne: "safe_rune r \<Longrightarrow> r \<noteq> slash"
  by (auto simp: safe_rune_def is_lower_def is_upper_def is_digit_def byte_def)

lemma safeIdentifier_chars: "list_all safe_rune (safeIdentifier i) \<and> safeIdentifier i \<noteq> []"
  by (auto simp: safeIdentifier_def Let_def list_all_iff safe_rune_def is_lower_def byte_def)

lemma safeIdentifier_proper:
  "safeIdentifier i \<noteq> ''.'' \<Longrightarrow> safeIdentifier i \<noteq> dotdot \<Longrightarrow> proper (safeIdentifier i)"
  using safeIdentifier_chars [of i] safe_rune_ne by (fastforce simp: proper_def list_all_iff)

subsection \<open>Canonical paths are clean\<close>

lemma Split_Join_abs:
  assumes "\<forall>e \<in> set cs. proper e" "\<forall>e \<in> set ss. proper e" "ss \<noteq> []"
  shows "path_Join [abs_path cs, Join ss ''/''] = abs_path (cs @ ss)"
proof -
  have ns: "\<forall>e \<in> set cs. slash \<notin> set e" "\<forall>e \<in> set ss. slash \<notin> set e"
    using assms by (auto simp: proper_def)
  have ne: "Join ss ''/'' \<noteq> []"
    using assms(2,3) by (cases ss; cases "tl ss") (auto simp: proper_def)
  have "Split slash (abs_path cs @ slash # Join ss ''/'') = Split slash (abs_path cs) @ Split slash (Join ss ''/'')"
    by (rule Split_concat)
  then have sp: "Split slash (abs_path cs @ slash # Join ss ''/'') = ([] # (if cs = [] then [[]] else cs)) @ ss"
    using Split_abs_path [OF assms(1)] Split_Join [OF assms(3) ns(2)] by simp
  have "clean_elems True [] (([] # (if cs = [] then [[]] else cs)) @ ss) = cs @ ss"
  proof (cases "cs = []")
    case True
    then show ?thesis using clean_elems_proper [OF assms(2)] by simp
  next
    case False
    have "\<forall>e \<in> set (cs @ ss). proper e" using assms by auto
    from clean_elems_proper [OF this, of True "[]"] False show ?thesis by simp
  qed
  moreover have "path_Join [abs_path cs, Join ss ''/''] = Clean (abs_path cs @ slash # Join ss ''/'')"
    using ne by (simp add: path_Join_def abs_path_def)
  moreover have "IsAbs (abs_path cs @ slash # Join ss ''/'')" by (simp add: IsAbs_def abs_path_def)
  ultimately show ?thesis by (simp add: Clean_rooted sp)
qed

lemma path_Join_segments:
  assumes "\<forall>e \<in> set ss. proper e" "ss \<noteq> []"
  shows "path_Join ss = Join ss ''/''"
proof -
  have f: "filter (\<lambda>w. w \<noteq> []) ss = ss" using assms by (auto simp: proper_def filter_id_conv)
  have ns: "\<forall>e \<in> set ss. slash \<notin> set e" using assms by (auto simp: proper_def)
  have "\<not> IsAbs (Join ss ''/'')"
    using assms by (cases ss; cases "hd ss"; cases "tl ss") (auto simp: IsAbs_def proper_def)
  then show ?thesis
    using Split_Join [OF assms(2) ns] clean_elems_proper [OF assms(1), of False "[]"] assms(2)
    by (simp add: path_Join_def f Clean_def)
qed

lemma splitAbsolutePath_abs:
  assumes "\<forall>e \<in> set es. proper e"
  shows "splitAbsolutePath (abs_path es) = (''/'', es)"
proof -
  have t: "TrimPrefix (abs_path es) ''/'' = Join es ''/''" by (simp add: TrimPrefix_def abs_path_def)
  show ?thesis
  proof (cases "es = []")
    case True
    then show ?thesis using t assms by (simp add: splitAbsolutePath_def)
  next
    case False
    have "Join es ''/'' \<noteq> []" using assms False by (cases es; cases "tl es") (auto simp: proper_def)
    moreover have "Split slash (Join es ''/'') = es"
      using assms False Split_Join [of es slash] by (auto simp: proper_def)
    ultimately show ?thesis using t assms by (simp add: splitAbsolutePath_def)
  qed
qed

text \<open>A walk that ends well ends at the path it was walking, having met no symbolic link.\<close>

definition link_free :: "fs_view \<Rightarrow> string list \<Rightarrow> bool" where
  "link_free fs es \<longleftrightarrow> (\<forall>n. 0 < n \<longrightarrow> n \<le> length es \<longrightarrow>
     (\<forall>m < n. 0 < m \<longrightarrow> fv_lstat fs (abs_path (take m es)) = Exists) \<longrightarrow>
     fv_lstat fs (abs_path (take n es)) \<noteq> IsSymlink)"

lemma canon_walk_done:
  assumes "canon_walk fs (abs_path cs) ss = Done (Inr p)" "\<forall>e \<in> set cs. proper e" "\<forall>e \<in> set ss. proper e"
  shows "p = abs_path (cs @ ss) \<and> (\<forall>n. 0 < n \<longrightarrow> n \<le> length ss \<longrightarrow>
     (\<forall>m < n. 0 < m \<longrightarrow> fv_lstat fs (abs_path (cs @ take m ss)) = Exists) \<longrightarrow>
     fv_lstat fs (abs_path (cs @ take n ss)) \<noteq> IsSymlink)"
  using assms
proof (induction ss arbitrary: cs)
  case Nil
  then show ?case by simp
next
  case (Cons s ss)
  have cand: "path_Join [abs_path cs, s] = abs_path (cs @ [s])"
    using Cons.prems by (intro Clean_append_elem) simp_all
  have all: "\<forall>e \<in> set (cs @ [s]). proper e" "\<forall>e \<in> set ss. proper e" using Cons.prems by auto
  show ?case
  proof (cases "fv_lstat fs (abs_path (cs @ [s]))")
    case Exists
    then have w: "canon_walk fs (abs_path (cs @ [s])) ss = Done (Inr p)"
      using Cons.prems(1) by (simp add: cand)
    note IH = Cons.IH [OF w all]
    have "fv_lstat fs (abs_path (cs @ take n (s # ss))) \<noteq> IsSymlink"
      if "0 < n" "n \<le> length (s # ss)"
        "\<forall>m < n. 0 < m \<longrightarrow> fv_lstat fs (abs_path (cs @ take m (s # ss))) = Exists" for n
    proof (cases n)
      case (Suc k)
      have "fv_lstat fs (abs_path ((cs @ [s]) @ take m ss)) = Exists" if "m < k" for m
        using \<open>\<forall>m < n. _ m\<close> that Suc by (auto dest: spec [of _ "Suc m"])
      with IH Suc that(2) Exists show ?thesis by (cases k) auto
    qed (use that in simp)
    with IH show ?thesis by simp
  next
    case NotExist
    have rem: "path_Join (s # ss) = Join (s # ss) ''/''" using Cons.prems(3) by (intro path_Join_segments) simp_all
    have ne: "Join (s # ss) ''/'' \<noteq> []" using Cons.prems(3) by (cases ss) (auto simp: proper_def)
    have "p = abs_path (cs @ s # ss)"
      using Cons.prems NotExist Split_Join_abs [OF Cons.prems(2,3)] ne by (simp add: cand rem Let_def)
    moreover have "fv_lstat fs (abs_path (cs @ take n (s # ss))) \<noteq> IsSymlink"
      if "0 < n" "\<forall>m < n. 0 < m \<longrightarrow> fv_lstat fs (abs_path (cs @ take m (s # ss))) = Exists" for n
    proof (cases "n = 1")
      case False
      then have "fv_lstat fs (abs_path (cs @ take 1 (s # ss))) = Exists"
        using that(1) that(2) [rule_format, of 1] by simp
      with NotExist show ?thesis by simp
    qed (simp add: NotExist)
    ultimately show ?thesis by blast
  qed (use Cons.prems in \<open>simp_all add: cand Let_def split: sum.splits\<close>)
qed

lemma canonicalizePath_ok:
  assumes "canonicalizePath fs path = Some (Inr p)" "\<And>d. fv_cwd fs = Some d \<Longrightarrow> IsAbs d"
  shows "\<exists>es. p = abs_path es \<and> (\<forall>e \<in> set es. proper e) \<and> link_free fs es"
proof -
  have "\<forall>p. r = Inr p \<longrightarrow> (\<exists>es. p = abs_path es \<and> (\<forall>e \<in> set es. proper e) \<and> link_free fs' es)"
    if "canonicalizePath fs' path' = Some r" "fs' = fs" for fs' path' r
    using that
  proof (induction rule: canonicalizePath.raw_induct [rotated 1, consumes 1])
    case (1 rec gs q y)
    show ?case
    proof (cases "path_Abs (fv_cwd gs) q")
      case None
      with 1 show ?thesis by auto
    next
      case (Some a)
      have "IsAbs a \<and> Clean a = a" using path_Abs_abs [OF Some] assms(2) 1(3) by simp
      then obtain es where es: "a = abs_path es" "\<forall>e \<in> set es. proper e" by (metis Clean_abs)
      have sp: "splitAbsolutePath (Clean a) = (''/'', es)" using es by (simp add: splitAbsolutePath_abs)
      have root: "''/'' = abs_path []" by (simp add: abs_path_def)
      show ?thesis
      proof (cases "canon_walk gs ''/'' es")
        case (Done r)
        with 1(2) Some sp have "y = r" by simp
        have "\<exists>es. p = abs_path es \<and> (\<forall>e \<in> set es. proper e) \<and> link_free gs es" if "r = Inr p" for p
          using canon_walk_done [of gs "[]" es p] Done that es(2) unfolding root
          by (auto simp: link_free_def)
        with \<open>y = r\<close> show ?thesis by blast
      next
        case (Follow t)
        with 1(2) Some sp have "rec gs t = Some y" by simp
        with 1(1,3) show ?thesis by blast
      qed
    qed
  qed
  from this [OF assms(1) refl] show ?thesis by blast
qed

lemma isWithinRoot_prefix:
  assumes "\<forall>e \<in> set bs. proper e" "\<forall>e \<in> set ts. proper e"
  shows "isWithinRoot (abs_path ts) (abs_path bs) \<longleftrightarrow> prefix bs ts"
proof -
  obtain rel where rel: "path_Rel (abs_path bs) (abs_path ts) = Some rel"
    using path_Rel_abs_path [OF assms] by (cases "bs = ts") (simp_all add: Let_def case_prod_beta)
  note r = rel_inside_prefix [OF assms rel]
  have "isWithinRoot (abs_path ts) (abs_path bs) \<longleftrightarrow> rel = ''.'' \<or> rel_inside rel"
    by (simp add: isWithinRoot_def rel rel_inside_def)
  then show ?thesis using r by auto
qed

lemma validated_path:
  assumes "validateLocalPath fs root path = Some (Inr p)" "\<And>d. fv_cwd fs = Some d \<Longrightarrow> IsAbs d"
  shows "\<exists>rs es. canonicalizePath fs root = Some (Inr (abs_path rs)) \<and> p = abs_path es
    \<and> strict_prefix rs es \<and> (\<forall>e \<in> set es. proper e) \<and> link_free fs es \<and> link_free fs rs"
proof -
  from assms(1) obtain cr where c: "canonicalizePath fs path = Some (Inr p)"
    "canonicalizePath fs root = Some (Inr cr)" "p \<noteq> cr" "isWithinRoot p cr"
    by (auto simp: validateLocalPath_def split: option.splits sum.splits if_splits)
  obtain es where es: "p = abs_path es" "\<forall>e \<in> set es. proper e" "link_free fs es"
    using canonicalizePath_ok [OF c(1) assms(2)] by blast
  obtain rs where rs: "cr = abs_path rs" "\<forall>e \<in> set rs. proper e" "link_free fs rs"
    using canonicalizePath_ok [OF c(2) assms(2)] by blast
  have "prefix rs es" "rs \<noteq> es"
    using c(3,4) isWithinRoot_prefix [OF rs(2) es(2)] es(1) rs(1) by auto
  then have "strict_prefix rs es" by (simp add: strict_prefix_def)
  with c es rs show ?thesis by blast
qed

text \<open>A local workspace path that passes validation is safe to create and to remove. It is a
  clean absolute path strictly below the canonical root, element by element, and neither it nor the
  root runs through a symbolic link: walking either down from \<open>/\<close>, no element that exists is a link.\<close>

theorem validateLocalPath_contained:
  assumes "validateLocalPath fs root path = Some (Inr p)" "\<And>d. fv_cwd fs = Some d \<Longrightarrow> IsAbs d"
  shows "\<exists>rs es. canonicalizePath fs root = Some (Inr (abs_path rs)) \<and> p = abs_path es
    \<and> strict_prefix rs es \<and> (\<forall>e \<in> set es. proper e) \<and> link_free fs es \<and> link_free fs rs"
  using assms by (rule validated_path)

text \<open>A file system where \<open>/ws\<close> links to \<open>/data\<close>, which exists; \<open>/loop\<close> links to itself.\<close>

definition sample_fs :: fs_view where
  "sample_fs = \<lparr>fv_cwd = Some ''/home'',
     fv_lstat = (\<lambda>p. if p = ''/ws'' \<or> p = ''/loop'' then IsSymlink
       else if p = ''/data'' then Exists else NotExist),
     fv_readlink = (\<lambda>p. if p = ''/ws'' then Inr ''data'' else Inr ''/loop'')\<rparr>"

theorem validateLocalPath_contained_witness:
  "\<exists>rs es. abs_path es = ''/data/ENG-1'' \<and> strict_prefix rs es \<and> link_free sample_fs es"
proof -
  have v: "validateLocalPath sample_fs ''/ws'' ''/ws/ENG-1'' = Some (Inr ''/data/ENG-1'')" by code_simp
  have d: "IsAbs d" if "fv_cwd sample_fs = Some d" for d
    using that by (auto simp: sample_fs_def IsAbs_def)
  show ?thesis using validateLocalPath_contained [OF v d] by metis
qed

lemma canon_walk_link_free: "(\<And>p. fv_lstat fs p \<noteq> IsSymlink) \<Longrightarrow> \<exists>r. canon_walk fs current ss = Done r"
  by (induction ss arbitrary: current) (auto simp: Let_def split: lstat.split)

text \<open>On a file system without symbolic links, canonicalising a path always returns, and
  so does the validation of a local path.\<close>

theorem validateLocalPath_returns:
  assumes "\<forall>p. fv_lstat fs p \<noteq> IsSymlink"
  shows "canonicalizePath fs path \<noteq> None \<and> validateLocalPath fs root path \<noteq> None"
proof -
  have some: "canonicalizePath fs q \<noteq> None" for q
  proof (cases "path_Abs (fv_cwd fs) q")
    case None
    then show ?thesis by (simp add: canonicalizePath.simps)
  next
    case (Some a)
    obtain r where "canon_walk fs (fst (splitAbsolutePath (Clean a))) (snd (splitAbsolutePath (Clean a))) = Done r"
      using canon_walk_link_free [of fs] assms by blast
    with Some show ?thesis by (simp add: canonicalizePath.simps)
  qed
  moreover have "validateLocalPath fs root path \<noteq> None"
    using some [of path] some [of root]
    by (auto simp: validateLocalPath_def split: option.split sum.split)
  ultimately show ?thesis by blast
qed

theorem validateLocalPath_returns_witness:
  "validateLocalPath (sample_fs\<lparr>fv_lstat := (\<lambda>p. Exists)\<rparr>) ''/a'' ''/b/../a/x'' = Some (Inr ''/a/x'')
   \<and> validateLocalPath (sample_fs\<lparr>fv_lstat := (\<lambda>p. Exists)\<rparr>) ''/a'' ''/b'' \<noteq> None"
proof
  show "validateLocalPath (sample_fs\<lparr>fv_lstat := (\<lambda>p. Exists)\<rparr>) ''/a'' ''/b/../a/x'' = Some (Inr ''/a/x'')"
    by code_simp
  show "validateLocalPath (sample_fs\<lparr>fv_lstat := (\<lambda>p. Exists)\<rparr>) ''/a'' ''/b'' \<noteq> None"
    using validateLocalPath_returns [of "sample_fs\<lparr>fv_lstat := (\<lambda>p. Exists)\<rparr>"] by simp
qed

text \<open>Nothing bounds the links that are followed: behind a link that leads back to itself
  \<open>canonicalizePath\<close> calls itself for ever, so validation does not return either.\<close>

theorem canonicalizePath_link_loop:
  "canonicalizePath sample_fs ''/loop/x'' = None \<and> validateLocalPath sample_fs ''/ws'' ''/loop/x'' = None"
proof -
  have again: "path_Abs (fv_cwd sample_fs) ''/loop/x'' = Some ''/loop/x''"
    "canon_walk sample_fs (fst (splitAbsolutePath (Clean ''/loop/x''))) (snd (splitAbsolutePath (Clean ''/loop/x'')))
      = Follow ''/loop/x''" by code_simp+
  have "gs = sample_fs \<longrightarrow> q \<noteq> ''/loop/x''" if "canonicalizePath gs q = Some r" for gs q r
    using that
  proof (induction rule: canonicalizePath.raw_induct [rotated 1, consumes 1])
    case (1 rec gs q y)
    show ?case
    proof (intro impI notI)
      assume eqs: "gs = sample_fs" "q = ''/loop/x''"
      then have "rec gs q = Some y" using 1(2) again by simp
      from 1(1) [OF this] eqs show False by simp
    qed
  qed
  then have "canonicalizePath sample_fs ''/loop/x'' = None"
    by (cases "canonicalizePath sample_fs ''/loop/x''") auto
  then show ?thesis by (simp add: validateLocalPath_def)
qed

end
