(* ===== verification/Runner_Exec.thy ===== *)
theory Runner_Exec
  imports Go_Strings
begin

text \<open>
  \<open>internal/runner/execution_host.go\<close>: running a command locally or over SSH. The process
  starter and the environment are injected by the code and are arguments here; what \<open>ctx.Err()\<close>
  answers after the process has ended is an argument too. The quoting is verified against a
  reading of POSIX shell words.
\<close>

subsection \<open>Commands\<close>

record command_request =
  cr_Host :: string
  cr_Dir :: string
  cr_Command :: string
  cr_Timeout :: int

record command_result =
  co_Output :: string
  co_Status :: int

text \<open>An error of the starter: an \<open>ExitError\<close> somewhere in its chain, or none.\<close>

datatype start_error = ExitError int "string option" | StartFailed string

definition ExitError_Error :: "int \<Rightarrow> string option \<Rightarrow> string" where
  "ExitError_Error status err = (case err of Some m \<Rightarrow> m
     | None \<Rightarrow> ''process exited with status '' @ Itoa status)"

record executor =
  xe_start :: "string \<Rightarrow> string list \<Rightarrow> string \<Rightarrow> string \<times> start_error option"
  xe_lookupEnv :: "string \<Rightarrow> string option"

definition safeShellRune :: "char \<Rightarrow> bool" where
  "safeShellRune c \<longleftrightarrow> c = CHR ''/'' \<or> c = CHR ''.'' \<or> c = CHR ''_'' \<or> c = CHR ''-''
     \<or> is_digit c \<or> is_upper c \<or> is_lower c"

definition quote :: char where
  "quote = CHR 0x27"

definition shellQuote :: "string \<Rightarrow> string" where
  "shellQuote value =
     (if value = [] then [quote, quote]
      else if list_all safeShellRune value then value
      else [quote] @ ReplaceAll value [quote] [quote, CHR 0x5C, quote, quote] @ [quote])"

definition isPort :: "string \<Rightarrow> bool" where
  "isPort value \<longleftrightarrow> value \<noteq> [] \<and> list_all is_digit value"

definition splitHostPort :: "string \<Rightarrow> string \<times> string" where
  "splitHostPort host =
     (let (prefix, destination) = (case LastIndex_char host CHR ''@'' of
            None \<Rightarrow> ([], host) | Some i \<Rightarrow> (take (i + 1) host, drop (i + 1) host)) in
      if HasPrefix destination ''['' then
        (case Index destination '']'' of
           Some e \<Rightarrow> (if 0 < e \<and> e + 1 < length destination \<and> destination ! (e + 1) = CHR '':''
               \<and> isPort (drop (e + 2) destination)
             then (prefix @ take (e + 1) destination, drop (e + 2) destination) else (host, []))
         | None \<Rightarrow> (host, []))
      else case LastIndex_char destination CHR '':'' of
          None \<Rightarrow> (host, [])
        | Some colon \<Rightarrow>
           (if colon = 0 \<or> colon = length destination - 1 then (host, [])
            else if 1 < Count_char destination CHR '':'' then (host, [])
            else if \<not> isPort (drop (colon + 1) destination) then (host, [])
            else (prefix @ take colon destination, drop (colon + 1) destination)))"

definition remote_command :: "string \<Rightarrow> string \<Rightarrow> string" where
  "remote_command dir command =
     (if TrimSpace dir \<noteq> [] then ''cd '' @ shellQuote dir @ '' && '' @ command else command)"

definition buildSSHArgs :: "string \<Rightarrow> string \<Rightarrow> string \<Rightarrow> (string \<Rightarrow> string option) \<Rightarrow> string list" where
  "buildSSHArgs host dir command lookupEnv =
     (let (target, port) = splitHostPort (TrimSpace host) in
      [''-T'']
      @ (case lookupEnv ''SYMPHONY_SSH_CONFIG'' of
           Some configPath \<Rightarrow> (if TrimSpace configPath \<noteq> [] then [''-F'', configPath] else [])
         | None \<Rightarrow> [])
      @ (if port \<noteq> [] then [''-p'', port] else [])
      @ [target, ''bash -lc '' @ shellQuote (remote_command dir command)])"

definition RunCommand :: "executor \<Rightarrow> string option \<Rightarrow> command_request \<Rightarrow> string + command_result" where
  "RunCommand e ctxErr req =
     (let (name, args, dir) =
        (if TrimSpace (cr_Host req) \<noteq> []
         then (''ssh'', buildSSHArgs (cr_Host req) (cr_Dir req) (cr_Command req) (xe_lookupEnv e), [])
         else (''sh'', [''-lc'', cr_Command req], cr_Dir req));
        (output, err) = xe_start e name args dir
      in case ctxErr of Some m \<Rightarrow> Inl m
       | None \<Rightarrow> (case err of
           None \<Rightarrow> Inr \<lparr>co_Output = output, co_Status = 0\<rparr>
         | Some (ExitError status m) \<Rightarrow> Inr \<lparr>co_Output = output, co_Status = status\<rparr>
         | Some (StartFailed m) \<Rightarrow> Inl m))"

subsection \<open>Shell words\<close>

text \<open>
  How a POSIX shell splits a line into words, for lines of safe characters, blanks, single quotes
  and backslashes; \<open>None\<close> for any other line. \<open>q\<close> says whether we are inside single quotes,
  \<open>w\<close> holds the word begun, if any.
\<close>

fun sh_lex :: "bool \<Rightarrow> string option \<Rightarrow> string \<Rightarrow> string list option" where
  "sh_lex True w [] = None"
| "sh_lex True w (c # s) = (if c = quote then sh_lex False w s
     else sh_lex True (Some (case_option [] (\<lambda>x. x) w @ [c])) s)"
| "sh_lex False w [] = Some (case w of None \<Rightarrow> [] | Some x \<Rightarrow> [x])"
| "sh_lex False w (c # s) =
     (if c = CHR '' '' then (case w of None \<Rightarrow> sh_lex False None s
          | Some x \<Rightarrow> map_option ((#) x) (sh_lex False None s))
      else if c = quote then sh_lex True (Some (case_option [] (\<lambda>x. x) w)) s
      else if c = CHR 0x5C then (case s of [] \<Rightarrow> None
          | d # t \<Rightarrow> (if d = CHR 0x0A then None
              else sh_lex False (Some (case_option [] (\<lambda>x. x) w @ [d])) t))
      else if safeShellRune c then sh_lex False (Some (case_option [] (\<lambda>x. x) w @ [c])) s
      else None)"

definition sh_words :: "string \<Rightarrow> string list option" where
  "sh_words s = sh_lex False None s"

lemma safe_plain: "safeShellRune c \<Longrightarrow> c \<noteq> CHR '' '' \<and> c \<noteq> quote \<and> c \<noteq> CHR 0x5C"
  by (auto simp: safeShellRune_def quote_def is_digit_def is_upper_def is_lower_def byte_def)

lemma sh_lex_safe:
  "list_all safeShellRune v \<Longrightarrow> sh_lex False (Some x) (v @ s) = sh_lex False (Some (x @ v)) s"
  by (induction v arbitrary: x) (simp_all add: safe_plain)

lemma sh_lex_quoted:
  "sh_lex True (Some x) (concat (map (\<lambda>d. if d = quote then [quote, CHR 0x5C, quote, quote] else [d]) v)
      @ quote # s) = sh_lex False (Some (x @ v)) s"
proof (induction v arbitrary: x)
  case (Cons d v)
  have "quote \<noteq> CHR '' ''" "CHR 0x5C \<noteq> quote" "quote \<noteq> CHR 0x0A" by (simp_all add: quote_def)
  with Cons show ?case by (cases "d = quote") simp_all
qed simp

lemma sh_lex_shellQuote:
  "sh_lex False None (shellQuote v @ s) = sh_lex False (Some v) s"
proof -
  have nb: "quote \<noteq> CHR '' ''" by (simp add: quote_def)
  consider "v = []" | "v \<noteq> []" "list_all safeShellRune v" | "v \<noteq> []" "\<not> list_all safeShellRune v" by blast
  then show ?thesis
  proof cases
    case 1
    then show ?thesis by (simp add: shellQuote_def nb)
  next
    case 2
    then obtain c u where "v = c # u" by (cases v) auto
    with 2 show ?thesis using safe_plain [of c] sh_lex_safe [of u "[c]" s] by (simp add: shellQuote_def)
  next
    case 3
    then show ?thesis
      using sh_lex_quoted [of "[]" v s] by (simp add: shellQuote_def ReplaceAll_char nb)
  qed
qed

lemma sh_words_quoted:
  "sh_words (Join (map shellQuote vs) '' '') = Some vs"
proof (induction vs)
  case Nil
  then show ?case by (simp add: sh_words_def)
next
  case (Cons v vs)
  show ?case
  proof (cases vs)
    case Nil
    then show ?thesis using sh_lex_shellQuote [of v "[]"] by (simp add: sh_words_def)
  next
    case (Cons u us)
    then have "Join (map shellQuote (v # vs)) '' '' = shellQuote v @ CHR '' '' # Join (map shellQuote vs) '' ''"
      by simp
    then show ?thesis
      using Cons.IH sh_lex_shellQuote [of v "CHR '' '' # Join (map shellQuote vs) '' ''"]
      by (simp add: sh_words_def)
  qed
qed

text \<open>Quoting is safe: whatever bytes a value holds, a shell that reads
  \<open>shellQuote value\<close> sees one word, the value itself, so nothing in it can end the word, start
  another command or expand; words quoted one after the other are read back one by one.\<close>

theorem shellQuote_roundtrip:
  "sh_words (Join (map shellQuote vs) '' '') = Some vs"
  by (rule sh_words_quoted)

lemma splitHostPort_cases:
  assumes "splitHostPort host = (t, p)"
  shows "(p = [] \<and> t = host) \<or> (host = t @ CHR '':'' # p \<and> isPort p)"
proof -
  obtain prefix destination where pd:
    "(case LastIndex_char host CHR ''@'' of None \<Rightarrow> ([], host)
      | Some i \<Rightarrow> (take (i + 1) host, drop (i + 1) host)) = (prefix, destination)" by fastforce
  then have host: "host = prefix @ destination" by (auto split: option.splits)
  have cut: "destination = take n destination @ CHR '':'' # drop (Suc n) destination"
    if "n < length destination" "destination ! n = CHR '':''" for n
    using that id_take_nth_drop [of n destination] by simp
  show ?thesis
  proof (cases "p = []")
    case True
    then show ?thesis
      using assms pd by (auto simp: splitHostPort_def isPort_def split: if_splits option.splits)
  next
    case False
    then obtain n where n: "n < length destination" "destination ! n = CHR '':''"
      "t = prefix @ take n destination" "p = drop (Suc n) destination" "isPort p"
      using assms pd LastIndex_Some [of destination "CHR '':''"]
      by (auto simp: splitHostPort_def Let_def split: if_splits option.splits)
    then show ?thesis using host cut [OF n(1,2)] by (metis append.assoc)
  qed
qed

lemma ssh_line_words:
  "sh_words (last (buildSSHArgs host dir command lookupEnv)) = Some [''bash'', ''-lc'', remote_command dir command]"
proof -
  let ?line = "''bash -lc '' @ shellQuote (remote_command dir command)"
  have "shellQuote ''bash'' = ''bash''" "shellQuote ''-lc'' = ''-lc''"
    by (simp_all add: shellQuote_def safeShellRune_def is_lower_def byte_def)
  then have "Join (map shellQuote [''bash'', ''-lc'', remote_command dir command]) '' '' = ?line" by simp
  then have "sh_words ?line = Some [''bash'', ''-lc'', remote_command dir command]"
    using sh_words_quoted by metis
  then show ?thesis by (simp add: buildSSHArgs_def Let_def case_prod_beta)
qed


end
