(* ===== verification/Workspace.thy ===== *)
theory Workspace
  imports Workspace_Path Settings Go_Time Runner_Exec
begin

text \<open>
  The workspace manager of \<open>internal/workspace/manager.go\<close>. The transport is the interface of the
  code; what it answers may depend on the calls made so far, which are kept in a log, and so may the
  file system and \<open>os.Stat\<close>. An operation returns \<open>None\<close> when it does not return because a path
  check does not (\<open>canonicalizePath\<close>). The second part models \<open>runnerTransport\<close>: the local file
  operations, the remote commands and the parsing of their output.
\<close>

subsection \<open>State\<close>

datatype ws_call =
    WEnsure string string
  | WRun string string string gduration
  | WRemove string string

datatype run_error = DeadlineExceeded string | RunFailed string

datatype stat = IsDir | NotDir | StatNotExist | StatFailed string

record transport =
  wt_Ensure :: "ws_call list \<Rightarrow> string \<Rightarrow> string \<Rightarrow> string + string \<times> bool"
  wt_Run :: "ws_call list \<Rightarrow> string \<Rightarrow> string \<Rightarrow> string \<Rightarrow> gduration \<Rightarrow> run_error + string \<times> int"
  wt_Remove :: "ws_call list \<Rightarrow> string \<Rightarrow> string \<Rightarrow> string option"

record manager =
  mg_root :: string
  mg_hooks :: hook_settings
  mg_workerHosts :: "string list"
  mg_transport :: transport
  mg_fs :: "ws_call list \<Rightarrow> fs_view"
  mg_stat :: "ws_call list \<Rightarrow> string \<Rightarrow> stat"

record create_result =
  cw_Path :: string
  cw_Created :: bool

fun normalizeWorkerHosts :: "string list \<Rightarrow> string list" where
  "normalizeWorkerHosts [] = []"
| "normalizeWorkerHosts (h # hs) =
     (if TrimSpace h = [] then normalizeWorkerHosts hs else TrimSpace h # normalizeWorkerHosts hs)"

definition NewManager ::
  "settings \<Rightarrow> transport \<Rightarrow> (ws_call list \<Rightarrow> fs_view) \<Rightarrow> (ws_call list \<Rightarrow> string \<Rightarrow> stat) \<Rightarrow> manager" where
  "NewManager cfg tr fs st = \<lparr>mg_root = wo_Root (st_Workspace cfg), mg_hooks = st_Hooks cfg,
     mg_workerHosts = normalizeWorkerHosts (wk_SSHHosts (st_Worker cfg)), mg_transport = tr,
     mg_fs = fs, mg_stat = st\<rparr>"

subsection \<open>Hooks\<close>

record hook_policy =
  hp_name :: string
  hp_command :: string
  hp_bestEffort :: bool

definition hook_error :: "error_kind \<Rightarrow> string \<Rightarrow> string \<Rightarrow> string \<Rightarrow> ws_error" where
  "hook_error kind hook path host = (ws_error0 kind path)\<lparr>we_Hook := hook, we_WorkerHost := host\<rparr>"

definition runHook ::
  "manager \<Rightarrow> string \<Rightarrow> string \<Rightarrow> hook_policy \<Rightarrow> ws_call list \<Rightarrow> ws_error option \<times> ws_call list" where
  "runHook m path host policy lg =
     (if TrimSpace (hp_command policy) = [] then (None, lg)
      else let timeout = millis (hk_TimeoutMS (mg_hooks m));
               lg1 = lg @ [WRun host path (hp_command policy) timeout];
               err = (case wt_Run (mg_transport m) lg host path (hp_command policy) timeout of
                  Inl (DeadlineExceeded e) \<Rightarrow>
                    Some ((hook_error ErrWorkspaceHookTimeout (hp_name policy) path host)
                      \<lparr>we_Timeout := timeout, we_Err := Some e\<rparr>)
                | Inl (RunFailed e) \<Rightarrow>
                    Some ((hook_error ErrWorkspaceHookFailed (hp_name policy) path host)\<lparr>we_Err := Some e\<rparr>)
                | Inr (output, status) \<Rightarrow>
                    (if status \<noteq> 0
                     then Some ((hook_error ErrWorkspaceHookFailed (hp_name policy) path host)
                       \<lparr>we_Status := status, we_Output := output\<rparr>)
                     else None))
           in (if hp_bestEffort policy then None else err, lg1))"

definition after_create_hook :: "manager \<Rightarrow> hook_policy" where
  "after_create_hook m = \<lparr>hp_name = ''after_create'', hp_command = hk_AfterCreate (mg_hooks m), hp_bestEffort = False\<rparr>"

definition before_run_hook :: "manager \<Rightarrow> hook_policy" where
  "before_run_hook m = \<lparr>hp_name = ''before_run'', hp_command = hk_BeforeRun (mg_hooks m), hp_bestEffort = False\<rparr>"

definition after_run_hook :: "manager \<Rightarrow> hook_policy" where
  "after_run_hook m = \<lparr>hp_name = ''after_run'', hp_command = hk_AfterRun (mg_hooks m), hp_bestEffort = True\<rparr>"

definition before_remove_hook :: "manager \<Rightarrow> hook_policy" where
  "before_remove_hook m =
     \<lparr>hp_name = ''before_remove'', hp_command = hk_BeforeRemove (mg_hooks m), hp_bestEffort = True\<rparr>"

subsection \<open>Operations\<close>

definition PathForIdentifier :: "manager \<Rightarrow> string \<Rightarrow> string \<Rightarrow> ws_call list \<Rightarrow> (ws_error + string) option" where
  "PathForIdentifier m identifier workerHost lg =
     (let workspacePath = path_Join [mg_root m, safeIdentifier identifier] in
      if workerHost \<noteq> [] then Some (validateRemotePath workspacePath workerHost)
      else validateLocalPath (mg_fs m lg) (mg_root m) workspacePath)"

definition ws_Create ::
  "manager \<Rightarrow> string \<Rightarrow> string \<Rightarrow> ws_call list \<Rightarrow> ((ws_error + create_result) \<times> ws_call list) option" where
  "ws_Create m identifier workerHost lg = (case PathForIdentifier m identifier workerHost lg of
     None \<Rightarrow> None
   | Some (Inl e) \<Rightarrow> Some (Inl e, lg)
   | Some (Inr workspacePath) \<Rightarrow>
       (let lg1 = lg @ [WEnsure workerHost workspacePath] in
        case wt_Ensure (mg_transport m) lg workerHost workspacePath of
          Inl e \<Rightarrow> Some (Inl ((ws_error0 ErrWorkspacePrepareFailed workspacePath)
                     \<lparr>we_WorkerHost := workerHost, we_Err := Some e\<rparr>), lg1)
        | Inr (resolvedPath, created) \<Rightarrow>
            (let result = \<lparr>cw_Path = resolvedPath, cw_Created = created\<rparr> in
             if created then (case runHook m resolvedPath workerHost (after_create_hook m) lg1 of
                 (Some e, lg2) \<Rightarrow> Some (Inl e, lg2)
               | (None, lg2) \<Rightarrow> Some (Inr result, lg2))
             else Some (Inr result, lg1))))"

datatype run_failure = HookFailure ws_error | RunFailure string

text \<open>
  \<open>run\<close> is the caller's function, \<open>None\<close> if nil, on the caller's own state and the log; it may
  not return. The deferred \<open>after_run\<close> hook is the last call.
\<close>

definition RunWithHooks ::
  "manager \<Rightarrow> string \<Rightarrow> string \<Rightarrow> ('x \<Rightarrow> ws_call list \<Rightarrow> (string option \<times> 'x \<times> ws_call list) option) option \<Rightarrow>
     'x \<Rightarrow> ws_call list \<Rightarrow> (run_failure option \<times> 'x \<times> ws_call list) option" where
  "RunWithHooks m workspacePath workerHost run x lg =
     (let finish = (\<lambda>res y l. Some (res, y, snd (runHook m workspacePath workerHost (after_run_hook m) l)))
      in case runHook m workspacePath workerHost (before_run_hook m) lg of
           (Some e, l) \<Rightarrow> finish (Some (HookFailure e)) x l
         | (None, l) \<Rightarrow> (case run of None \<Rightarrow> finish None x l
             | Some f \<Rightarrow> (case f x l of None \<Rightarrow> None
                 | Some (err, y, l2) \<Rightarrow> finish (map_option RunFailure err) y l2)))"

definition transport_remove ::
  "manager \<Rightarrow> string \<Rightarrow> string \<Rightarrow> ws_call list \<Rightarrow> ws_error option \<times> ws_call list" where
  "transport_remove m path workerHost lg = (case wt_Remove (mg_transport m) lg workerHost path of
     None \<Rightarrow> (None, lg @ [WRemove workerHost path])
   | Some e \<Rightarrow> (Some ((ws_error0 ErrWorkspaceRemoveFailed path)
       \<lparr>we_WorkerHost := workerHost, we_Err := Some e\<rparr>), lg @ [WRemove workerHost path]))"

definition ws_Remove ::
  "manager \<Rightarrow> string \<Rightarrow> string \<Rightarrow> ws_call list \<Rightarrow> (ws_error option \<times> ws_call list) option" where
  "ws_Remove m workspacePath workerHost lg =
     (if workerHost = [] then
        (case validateLocalPath (mg_fs m lg) (mg_root m) workspacePath of
           None \<Rightarrow> None
         | Some (Inl e) \<Rightarrow> Some (Some e, lg)
         | Some (Inr path) \<Rightarrow> (case mg_stat m lg path of
             IsDir \<Rightarrow> Some (transport_remove m path [] (snd (runHook m path [] (before_remove_hook m) lg)))
           | NotDir \<Rightarrow> Some (transport_remove m path [] lg)
           | StatNotExist \<Rightarrow> Some (None, lg)
           | StatFailed e \<Rightarrow> Some (Some ((ws_error0 ErrWorkspaceRemoveFailed path)\<lparr>we_Err := Some e\<rparr>), lg)))
      else (case validateRemotePath workspacePath workerHost of
           Inl e \<Rightarrow> Some (Some e, lg)
         | Inr path \<Rightarrow> Some (transport_remove m path workerHost
             (snd (runHook m path workerHost (before_remove_hook m) lg)))))"

text \<open>One host; the errors are returned as a list, empty for nil.\<close>

definition remove_on_host ::
  "manager \<Rightarrow> string \<Rightarrow> string \<Rightarrow> ws_call list \<Rightarrow> (ws_error list \<times> ws_call list) option" where
  "remove_on_host m identifier host lg = (case PathForIdentifier m identifier host lg of
     None \<Rightarrow> None
   | Some (Inl e) \<Rightarrow> Some ([e], lg)
   | Some (Inr path) \<Rightarrow> (case ws_Remove m path host lg of
       None \<Rightarrow> None
     | Some (err, lg1) \<Rightarrow> Some (case err of None \<Rightarrow> [] | Some e \<Rightarrow> [e], lg1)))"

fun remove_on_hosts ::
  "manager \<Rightarrow> string \<Rightarrow> string list \<Rightarrow> ws_error list \<Rightarrow> ws_call list \<Rightarrow> (ws_error list \<times> ws_call list) option" where
  "remove_on_hosts m identifier [] errs lg = Some (errs, lg)"
| "remove_on_hosts m identifier (h # hs) errs lg = (case remove_on_host m identifier h lg of
     None \<Rightarrow> None
   | Some (es, lg1) \<Rightarrow> remove_on_hosts m identifier hs (errs @ es) lg1)"

definition RemoveIssueWorkspaces ::
  "manager \<Rightarrow> string \<Rightarrow> string \<Rightarrow> ws_call list \<Rightarrow> (ws_error list \<times> ws_call list) option" where
  "RemoveIssueWorkspaces m identifier workerHost lg =
     (if workerHost \<noteq> [] then remove_on_host m identifier workerHost lg
      else if mg_workerHosts m \<noteq> [] then remove_on_hosts m identifier (mg_workerHosts m) [] lg
      else remove_on_host m identifier [] lg)"

subsection \<open>The runner transport\<close>

definition quoteShell :: "string \<Rightarrow> string" where
  "quoteShell value =
     (if value = [] then [quote, quote]
      else if list_all safeShellRune value then value
      else [quote] @ ReplaceAll value [quote] [quote, CHR 0x5C, quote, quote] @ [quote])"

definition remoteWorkspaceMarker :: string where
  "remoteWorkspaceMarker = ''__go_symphony_workspace__:''"

definition dquote :: char where
  "dquote = CHR 0x22"

definition remoteEnsureWorkspaceCommand :: "string \<Rightarrow> string" where
  "remoteEnsureWorkspaceCommand path = (let w = [dquote] @ ''$workspace'' @ [dquote] in Join
     [''set -eu'',
      ''workspace='' @ quoteShell path,
      ''created=0'',
      ''if [ -e '' @ w @ '' ] && [ ! -d '' @ w @ '' ]; then rm -rf -- '' @ w @ ''; fi'',
      ''if [ ! -d '' @ w @ '' ]; then mkdir -p -- '' @ w @ ''; created=1; fi'',
      ''cd '' @ w,
      ''printf '' @ [quote] @ remoteWorkspaceMarker @ ''%s:%s'' @ [CHR 0x5C, CHR ''n''] @ [quote] @ '' ''
        @ [dquote] @ ''$created'' @ [dquote] @ '' '' @ [dquote] @ ''$(pwd -P)'' @ [dquote]] [CHR 0x0A])"

definition remoteRemoveCommand :: "string \<Rightarrow> string" where
  "remoteRemoveCommand path = ''rm -rf -- '' @ quoteShell path"

text \<open>Both \<open>break\<close>s leave the loop, so only the first line with the marker counts.\<close>

fun parse_marker_lines :: "string list \<Rightarrow> string + string \<times> bool" where
  "parse_marker_lines [] = Inl ''remote workspace marker not found''"
| "parse_marker_lines (l # ls) =
     (if \<not> HasPrefix l remoteWorkspaceMarker then parse_marker_lines ls
      else let payload = TrimPrefix l remoteWorkspaceMarker;
               flag = takeWhile (\<lambda>c. c \<noteq> CHR '':'') payload;
               tail = dropWhile (\<lambda>c. c \<noteq> CHR '':'') payload in
        if tail = [] \<or> TrimSpace (tl tail) = [] then Inl ''remote workspace marker not found''
        else if flag = ''0'' then Inr (tl tail, False)
        else if flag = ''1'' then Inr (tl tail, True)
        else Inl ''remote workspace marker not found'')"

definition parseRemoteEnsureWorkspaceOutput :: "string \<Rightarrow> string + string \<times> bool" where
  "parseRemoteEnsureWorkspaceOutput output = parse_marker_lines (Split (CHR 0x0A) output)"

record local_fs =
  lf_stat :: "string \<Rightarrow> stat"
  lf_removeAll :: "string \<Rightarrow> string option"
  lf_mkdirAll :: "string \<Rightarrow> string option"

definition remote_request :: "string \<Rightarrow> string \<Rightarrow> gduration \<Rightarrow> command_request" where
  "remote_request host command timeout =
     \<lparr>cr_Host = host, cr_Dir = [], cr_Command = command, cr_Timeout = timeout\<rparr>"

definition rt_EnsureWorkspace ::
  "(command_request \<Rightarrow> string + command_result) \<Rightarrow> local_fs \<Rightarrow> gduration \<Rightarrow> string \<Rightarrow> string \<Rightarrow> string + string \<times> bool" where
  "rt_EnsureWorkspace exec lf timeout workerHost path =
     (if workerHost \<noteq> [] then
        (case exec (remote_request workerHost (remoteEnsureWorkspaceCommand path) timeout) of
           Inl e \<Rightarrow> Inl e
         | Inr r \<Rightarrow> (if co_Status r \<noteq> 0
             then Inl (''remote workspace prepare failed with status '' @ Itoa (co_Status r) @ '': '' @ co_Output r)
             else parseRemoteEnsureWorkspaceOutput (co_Output r)))
      else let make = (case lf_mkdirAll lf path of Some e \<Rightarrow> Inl e | None \<Rightarrow> Inr (path, True)) in
        (case lf_stat lf path of
           IsDir \<Rightarrow> Inr (path, False)
         | NotDir \<Rightarrow> (case lf_removeAll lf path of Some e \<Rightarrow> Inl e | None \<Rightarrow> make)
         | StatNotExist \<Rightarrow> make
         | StatFailed e \<Rightarrow> Inl e))"

definition rt_RemoveWorkspace ::
  "(command_request \<Rightarrow> string + command_result) \<Rightarrow> local_fs \<Rightarrow> gduration \<Rightarrow> string \<Rightarrow> string \<Rightarrow> string option" where
  "rt_RemoveWorkspace exec lf timeout workerHost path =
     (if workerHost \<noteq> [] then
        (case exec (remote_request workerHost (remoteRemoveCommand path) timeout) of
           Inl e \<Rightarrow> Some e
         | Inr r \<Rightarrow> (if co_Status r \<noteq> 0
             then Some (''remote workspace remove failed with status '' @ Itoa (co_Status r) @ '': '' @ co_Output r)
             else None))
      else lf_removeAll lf path)"

text \<open>\<open>Error.Error\<close>; the kind's name is the constant of the code.\<close>

fun kind_name :: "error_kind \<Rightarrow> string" where
  "kind_name ErrWorkspacePathUnreadable = ''workspace_path_unreadable''"
| "kind_name ErrWorkspaceEqualsRoot = ''workspace_equals_root''"
| "kind_name ErrWorkspaceOutsideRoot = ''workspace_outside_root''"
| "kind_name ErrWorkspaceSymlinkEscape = ''workspace_symlink_escape''"
| "kind_name ErrWorkspaceHookTimeout = ''workspace_hook_timeout''"
| "kind_name ErrWorkspaceHookFailed = ''workspace_hook_failed''"
| "kind_name ErrWorkspacePrepareFailed = ''workspace_prepare_failed''"
| "kind_name ErrWorkspaceRemoveFailed = ''workspace_remove_failed''"

definition ws_error_message :: "ws_error \<Rightarrow> string" where
  "ws_error_message e = Join
     ([kind_name (we_Kind e)]
      @ (if we_Hook e \<noteq> [] then [''hook='' @ we_Hook e] else [])
      @ (if we_Path e \<noteq> [] then [''path='' @ we_Path e] else [])
      @ (if we_Root e \<noteq> [] then [''root='' @ we_Root e] else [])
      @ (if we_WorkerHost e \<noteq> [] then [''worker_host='' @ we_WorkerHost e] else [])
      @ (if we_Status e \<noteq> 0 then [''status='' @ Itoa (we_Status e)] else [])
      @ (if 0 < we_Timeout e then [''timeout='' @ duration_string (we_Timeout e)] else [])
      @ (case we_Err e of None \<Rightarrow> [] | Some m \<Rightarrow> [m])) '' ''"

end
