(* ===== verification/Workspace_Props.thy ===== *)
theory Workspace_Props
  imports Workspace
begin

text \<open>
  What the workspace manager promises: removals stay inside the workspace root, cleanup reaches
  every host, the \<open>after_run\<close> hook always runs, and what crosses the SSH boundary arrives as it
  was meant.
\<close>

subsection \<open>Removal\<close>

lemma runHook_calls:
  assumes "runHook m path host policy lg = (err, lg1)"
  shows "lg1 = lg \<or> lg1 = lg @ [WRun host path (hp_command policy) (millis (hk_TimeoutMS (mg_hooks m)))]"
  using assms by (auto simp: runHook_def Let_def split: if_splits)

lemma transport_remove_calls:
  "snd (transport_remove m path host lg) = lg @ [WRemove host path]"
  by (simp add: transport_remove_def split: option.split)

definition removals :: "ws_call list \<Rightarrow> (string \<times> string) list" where
  "removals lg = List.map_filter (\<lambda>c. case c of WRemove h p \<Rightarrow> Some (h, p) | _ \<Rightarrow> None) lg"

lemma removals_append [simp]: "removals (l1 @ l2) = removals l1 @ removals l2"
  by (simp add: removals_def map_filter_def)

lemma removals_single [simp]:
  "removals [] = []" "removals [WRemove h p] = [(h, p)]" "removals [WRun h d c t] = []"
  "removals [WEnsure h p] = []"
  by (simp_all add: removals_def map_filter_simps)

lemma removals_runHook [simp]: "removals (snd (runHook m path host policy lg)) = removals lg"
  using runHook_calls [of m path host policy lg] by (cases "runHook m path host policy lg") auto

text \<open>C11 (safety). Removing a local workspace deletes at most one path, and that path lies strictly below
  the canonical workspace root and runs through no symbolic link that existed when it was checked; a
  path outside the root, the root itself and a path behind an escaping link are never deleted.\<close>

theorem local_removal_contained:
  assumes "ws_Remove m path [] lg = Some (err, lg1)" "\<And>d. fv_cwd (mg_fs m lg) = Some d \<Longrightarrow> IsAbs d"
  shows "removals lg1 = removals lg \<or> (\<exists>p rs es. removals lg1 = removals lg @ [([], p)]
    \<and> canonicalizePath (mg_fs m lg) (mg_root m) = Some (Inr (abs_path rs)) \<and> p = abs_path es
    \<and> strict_prefix rs es \<and> link_free (mg_fs m lg) es)"
proof (cases "validateLocalPath (mg_fs m lg) (mg_root m) path")
  case (Some v)
  show ?thesis
  proof (cases v)
    case (Inr p)
    have "removals lg1 = removals lg \<or> removals lg1 = removals lg @ [([], p)]"
      using assms(1) Some Inr transport_remove_calls [of m p "[]" lg]
        transport_remove_calls [of m p "[]" "snd (runHook m p [] (before_remove_hook m) lg)"]
      by (auto simp: ws_Remove_def split: stat.splits)
    then show ?thesis using validated_path [OF Some [unfolded Inr] assms(2)] by blast
  qed (use assms(1) Some in \<open>simp add: ws_Remove_def\<close>)
qed (use assms(1) in \<open>simp add: ws_Remove_def\<close>)

lemma remote_removal:
  assumes "validateRemotePath path host = Inr p" "host \<noteq> []"
  shows "\<exists>err lg1. ws_Remove m path host lg = Some (err, lg1) \<and> removals lg1 = removals lg @ [(host, p)]"
proof -
  let ?l = "snd (runHook m p host (before_remove_hook m) lg)"
  obtain err lg1 where r: "transport_remove m p host ?l = (err, lg1)" by fastforce
  then have "removals lg1 = removals lg @ [(host, p)]" using transport_remove_calls [of m p host ?l] by simp
  with r assms show ?thesis by (simp add: ws_Remove_def)
qed

lemma validateRemotePath_same: "validateRemotePath path host = Inr p \<Longrightarrow> p = path"
  by (auto simp: validateRemotePath_def split: if_splits)

lemma remote_remove_on_host:
  assumes "validateRemotePath (path_Join [mg_root m, safeIdentifier ident]) host = Inr p" "host \<noteq> []"
  shows "\<exists>errs lg1. remove_on_host m ident host lg = Some (errs, lg1) \<and> removals lg1 = removals lg @ [(host, p)]"
proof -
  have "validateRemotePath p host = Inr p" using assms(1) validateRemotePath_same by blast
  from remote_removal [OF this assms(2), of m lg] assms show ?thesis
    by (auto simp: remove_on_host_def PathForIdentifier_def)
qed

lemma remove_hosts_all:
  assumes "mg_workerHosts m \<noteq> []" "\<forall>h \<in> set (mg_workerHosts m). h \<noteq> []"
    and "\<forall>h \<in> set (mg_workerHosts m). validateRemotePath (path_Join [mg_root m, safeIdentifier ident]) h = Inr p"
  shows "\<exists>errs lg1. RemoveIssueWorkspaces m ident [] lg = Some (errs, lg1)
    \<and> removals lg1 = removals lg @ map (\<lambda>h. (h, p)) (mg_workerHosts m)"
proof -
  have "\<exists>errs lg1. remove_on_hosts m ident hs acc lg = Some (errs, lg1)
      \<and> removals lg1 = removals lg @ map (\<lambda>h. (h, p)) hs"
    if "set hs \<subseteq> set (mg_workerHosts m)" for hs acc lg
    using that
  proof (induction hs arbitrary: acc lg)
    case (Cons h hs)
    have "validateRemotePath (path_Join [mg_root m, safeIdentifier ident]) h = Inr p" "h \<noteq> []"
      using assms(2,3) Cons.prems by auto
    then obtain errs lg1 where r: "remove_on_host m ident h lg = Some (errs, lg1)"
      "removals lg1 = removals lg @ [(h, p)]" using remote_remove_on_host by blast
    from Cons.IH [where lg = lg1 and acc = "acc @ errs"] Cons.prems r show ?case by auto
  qed simp
  from this [of "mg_workerHosts m"] assms(1) show ?thesis by (simp add: RemoveIssueWorkspaces_def)
qed

text \<open>Cleaning up an issue without naming a host reaches every configured worker host, in
  order, exactly once, whatever fails on the way: for each host one removal of the same path is
  issued, and the call returns.\<close>

theorem cleanup_reaches_every_host:
  assumes "mg_workerHosts m \<noteq> []" "\<forall>h \<in> set (mg_workerHosts m). h \<noteq> []"
    and "\<forall>h \<in> set (mg_workerHosts m). validateRemotePath (path_Join [mg_root m, safeIdentifier ident]) h = Inr p"
  shows "\<exists>errs lg1. RemoveIssueWorkspaces m ident [] lg = Some (errs, lg1)
    \<and> removals lg1 = removals lg @ map (\<lambda>h. (h, p)) (mg_workerHosts m)"
  using remove_hosts_all [OF assms] .

text \<open>A manager with two worker hosts whose transport always fails.\<close>

definition sample_manager :: manager where
  "sample_manager = \<lparr>mg_root = ''/srv/ws'',
     mg_hooks = \<lparr>hk_AfterCreate = ''setup'', hk_BeforeRun = [], hk_AfterRun = ''tidy'', hk_BeforeRemove = ''save'',
       hk_TimeoutMS = 60000\<rparr>,
     mg_workerHosts = [''h1'', ''h2''],
     mg_transport = \<lparr>wt_Ensure = (\<lambda>lg h p. Inr (p, \<not> (\<exists>c \<in> set lg. c = WEnsure h p))),
       wt_Run = (\<lambda>lg h d c t. Inr (''no'', 1)), wt_Remove = (\<lambda>lg h p. Some ''gone wrong'')\<rparr>,
     mg_fs = (\<lambda>lg. sample_fs\<lparr>fv_lstat := (\<lambda>p. Exists)\<rparr>), mg_stat = (\<lambda>lg p. IsDir)\<rparr>"

theorem local_removal_contained_witness:
  "\<exists>err lg1. ws_Remove sample_manager ''/srv/ws/a'' [] [] = Some (err, lg1) \<and> removals lg1 = [([], ''/srv/ws/a'')]
     \<and> strict_prefix [''srv'', ''ws''] [''srv'', ''ws'', ''a'']"
proof -
  have "(case ws_Remove sample_manager ''/srv/ws/a'' [] [] of Some (err, lg1) \<Rightarrow> removals lg1 = [([], ''/srv/ws/a'')]
     | None \<Rightarrow> False)" by code_simp
  then obtain err lg1 where r: "ws_Remove sample_manager ''/srv/ws/a'' [] [] = Some (err, lg1)"
    "removals lg1 = [([], ''/srv/ws/a'')]" by (auto split: option.splits)
  have "IsAbs d" if "fv_cwd (mg_fs sample_manager []) = Some d" for d
    using that by (auto simp: sample_manager_def sample_fs_def IsAbs_def)
  from local_removal_contained [OF r(1) this] r
  have "\<exists>rs es. ''/srv/ws/a'' = abs_path es \<and> strict_prefix rs es" by auto
  with r show ?thesis by (auto simp: strict_prefix_def)
qed

theorem cleanup_reaches_every_host_witness:
  "\<exists>errs lg1. RemoveIssueWorkspaces sample_manager ''ENG 1'' [] [] = Some (errs, lg1)
     \<and> removals lg1 = [(''h1'', ''/srv/ws/ENG_1''), (''h2'', ''/srv/ws/ENG_1'')]"
proof -
  have hosts: "mg_workerHosts sample_manager = [''h1'', ''h2'']" by (simp add: sample_manager_def)
  have "\<forall>h \<in> set (mg_workerHosts sample_manager).
      validateRemotePath (path_Join [mg_root sample_manager, safeIdentifier ''ENG 1'']) h = Inr ''/srv/ws/ENG_1''"
    by code_simp
  with cleanup_reaches_every_host [of sample_manager "''ENG 1''" "''/srv/ws/ENG_1''" "[]"] show ?thesis
    by (simp add: hosts)
qed

text \<open>Remote paths are not checked against the root. An identifier that is a single or double dot
  survives \<open>safeIdentifier\<close>, so on a worker host the workspace of \<open>..\<close> is the parent of the workspace
  root and that of \<open>.\<close> is the root itself, and cleaning up after such an issue removes them; locally
  the same identifiers are rejected.\<close>

theorem remote_workspace_escapes_root:
  "PathForIdentifier sample_manager ''..'' ''h1'' [] = Some (Inr ''/srv'')
   \<and> PathForIdentifier sample_manager ''.'' ''h1'' [] = Some (Inr ''/srv/ws'')
   \<and> map_option (removals \<circ> snd) (RemoveIssueWorkspaces sample_manager ''..'' ''h1'' []) = Some [(''h1'', ''/srv'')]
   \<and> map_option isl (PathForIdentifier sample_manager ''..'' [] []) = Some True
   \<and> map_option isl (PathForIdentifier sample_manager ''.'' [] []) = Some True"
proof (intro conjI)
  show "PathForIdentifier sample_manager ''..'' ''h1'' [] = Some (Inr ''/srv'')" by code_simp
  show "PathForIdentifier sample_manager ''.'' ''h1'' [] = Some (Inr ''/srv/ws'')" by code_simp
  show "map_option (removals \<circ> snd) (RemoveIssueWorkspaces sample_manager ''..'' ''h1'' []) = Some [(''h1'', ''/srv'')]"
    by code_simp
  show "map_option isl (PathForIdentifier sample_manager ''..'' [] []) = Some True" by code_simp
  show "map_option isl (PathForIdentifier sample_manager ''.'' [] []) = Some True" by code_simp
qed

subsection \<open>Hooks\<close>

text \<open>A configured \<open>after_run\<close> hook always runs: it is the last call of \<open>RunWithHooks\<close>
  whether the run succeeded, failed or never began, and its own failure is not reported. The run
  begins exactly when the \<open>before_run\<close> hook did not fail; otherwise that failure is returned.\<close>

theorem after_run_always:
  assumes "TrimSpace (hk_AfterRun (mg_hooks m)) \<noteq> []"
    and "runHook m path host (before_run_hook m) lg = (berr, lg0)"
  shows "RunWithHooks m path host (Some run) x lg =
    (case berr of
       Some e \<Rightarrow> Some (Some (HookFailure e), x,
         lg0 @ [WRun host path (hk_AfterRun (mg_hooks m)) (millis (hk_TimeoutMS (mg_hooks m)))])
     | None \<Rightarrow> map_option (\<lambda>(err, y, l). (map_option RunFailure err, y,
         l @ [WRun host path (hk_AfterRun (mg_hooks m)) (millis (hk_TimeoutMS (mg_hooks m)))])) (run x lg0))"
proof -
  have "runHook m path host (after_run_hook m) l =
      (None, l @ [WRun host path (hk_AfterRun (mg_hooks m)) (millis (hk_TimeoutMS (mg_hooks m)))])" for l
    using assms(1) by (simp add: runHook_def after_run_hook_def Let_def)
  then show ?thesis
    using assms(2) by (cases berr; cases "run x lg0") (auto simp: RunWithHooks_def Let_def)
qed

theorem after_run_always_witness:
  "RunWithHooks sample_manager ''/w'' [] (Some (\<lambda>x lg. Some (Some ''crash'', x, lg))) () []
     = Some (Some (RunFailure ''crash''), (), [WRun [] ''/w'' ''tidy'' 60000000000])"
proof -
  have "TrimSpace (hk_AfterRun (mg_hooks sample_manager)) \<noteq> []" by code_simp
  moreover have "runHook sample_manager ''/w'' [] (before_run_hook sample_manager) [] = (None, [])" by code_simp
  moreover have "millis 60000 = 60000000000" by code_simp
  ultimately show ?thesis
    using after_run_always [of sample_manager "''/w''" "[]" "[]" None "[]" "\<lambda>x lg. Some (Some ''crash'', x, lg)" "()"]
    by (simp add: sample_manager_def)
qed

text \<open>A failed \<open>after_create\<close> hook is fatal once only. The directory it was to prepare stays, so
  the next \<open>Create\<close> finds it, does not run the hook again, and returns it as a usable workspace.\<close>

theorem failed_after_create_not_retried:
  "(case ws_Create sample_manager ''a'' [] [] of
      Some (Inl e, lg1) \<Rightarrow> we_Kind e = ErrWorkspaceHookFailed
        \<and> ws_Create sample_manager ''a'' [] lg1
          = Some (Inr \<lparr>cw_Path = ''/srv/ws/a'', cw_Created = False\<rparr>, lg1 @ [WEnsure [] ''/srv/ws/a''])
    | _ \<Rightarrow> False)"
  by code_simp

subsection \<open>Across SSH\<close>

lemma quoteShell_eq: "quoteShell = shellQuote"
  by (rule ext) (simp add: quoteShell_def shellQuote_def)

lemma remoteRemoveCommand_words: "sh_words (remoteRemoveCommand path) = Some [''rm'', ''-rf'', ''--'', path]"
proof -
  have "shellQuote ''rm'' = ''rm''" "shellQuote ''-rf'' = ''-rf''" "shellQuote ''--'' = ''--''"
    by (simp_all add: shellQuote_def safeShellRune_def is_lower_def byte_def)
  then have "Join (map shellQuote [''rm'', ''-rf'', ''--'', path]) '' '' = remoteRemoveCommand path"
    by (simp add: remoteRemoveCommand_def quoteShell_eq)
  then show ?thesis using sh_words_quoted by metis
qed

text \<open>C34 (functional). A remote removal deletes exactly the path it was asked to. The command passes through
  two shells, the one that sshd starts and the \<open>bash -lc\<close> it runs; read by both in turn, the SSH
  argument yields the words \<open>rm\<close>, \<open>-rf\<close>, \<open>--\<close> and the path, whatever characters the path has.\<close>

theorem remote_removal_exact:
  "\<exists>line. last (buildSSHArgs host [] (remoteRemoveCommand path) lookupEnv) = line
     \<and> sh_words line = Some [''bash'', ''-lc'', remoteRemoveCommand path]
     \<and> sh_words (remoteRemoveCommand path) = Some [''rm'', ''-rf'', ''--'', path]"
  using ssh_line_words [of host "[]" "remoteRemoveCommand path" lookupEnv] remoteRemoveCommand_words
  by (simp add: remote_command_def)

text \<open>What the remote script prints is read back: after any output of login scripts without
  the marker, the marker line with the flag and the resolved directory gives exactly that directory
  and flag, also when the directory contains colons, and whatever follows.\<close>

theorem ensure_output_roundtrip:
  assumes "\<forall>l \<in> set pre. CHR 0x0A \<notin> set l \<and> \<not> HasPrefix l remoteWorkspaceMarker"
    and "CHR 0x0A \<notin> set dir" "TrimSpace dir \<noteq> []"
  shows "parseRemoteEnsureWorkspaceOutput
      (Join (pre @ [remoteWorkspaceMarker @ (if created then ''1'' else ''0'') @ '':'' @ dir, rest]) [CHR 0x0A])
    = Inr (dir, created)"
proof -
  let ?line = "remoteWorkspaceMarker @ (if created then ''1'' else ''0'') @ '':'' @ dir"
  have nl: "CHR 0x0A \<notin> set ?line" using assms(2) by (simp add: remoteWorkspaceMarker_def)
  have step: "Split (CHR 0x0A) (Join (pre @ [?line, rest]) [CHR 0x0A]) = pre @ ?line # Split (CHR 0x0A) rest"
    if "\<forall>l \<in> set pre. CHR 0x0A \<notin> set l" for pre
    using that
  proof (induction pre)
    case Nil
    show ?case using Split_append [OF nl, of rest] by simp
  next
    case (Cons l pre)
    have "Join ((l # pre) @ [?line, rest]) [CHR 0x0A] = l @ CHR 0x0A # Join (pre @ [?line, rest]) [CHR 0x0A]"
      by (cases pre) simp_all
    then show ?case using Cons Split_append [of "CHR 0x0A" l] by simp
  qed
  have "parse_marker_lines (pre @ ?line # ls) = Inr (dir, created)"
    if "\<forall>l \<in> set pre. \<not> HasPrefix l remoteWorkspaceMarker" for pre ls
    using that
  proof (induction pre)
    case Nil
    show ?case using assms(3) by (simp add: TrimPrefix_def)
  qed simp
  with step assms(1) show ?thesis by (simp add: parseRemoteEnsureWorkspaceOutput_def)
qed

theorem ensure_output_roundtrip_witness:
  "parseRemoteEnsureWorkspaceOutput
     (Join [''Welcome'', ''__go_symphony_workspace__:1:/srv/a:b'', ''bye''] [CHR 0x0A]) = Inr (''/srv/a:b'', True)"
proof -
  have "\<forall>l \<in> set [''Welcome'']. CHR 0x0A \<notin> set l \<and> \<not> HasPrefix l remoteWorkspaceMarker"
    by (simp add: remoteWorkspaceMarker_def)
  from ensure_output_roundtrip [OF this, of "''/srv/a:b''" True "''bye''"] show ?thesis
    by (simp add: remoteWorkspaceMarker_def TrimSpace_def is_space_def)
qed

end
