(* ===== verification/Go_Date.thy ===== *)
theory Go_Date
  imports Go_Time
begin

text \<open>
  Dates of Go's \<open>time\<close> package in UTC: an instant is the number of nanoseconds since 1 January of
  year 1, the proleptic Gregorian calendar is that of the package. \<open>parse_RFC3339\<close> is
  \<open>time.Parse(time.RFC3339, s)\<close> followed by \<open>UTC()\<close> on the texts that the layout describes, with an
  optional fraction of a second; the package's leniencies (an hour of one digit, a comma before the
  fraction, an offset without a check of its range) are outside the model.
\<close>

definition is_leap :: "int \<Rightarrow> bool" where
  "is_leap y \<longleftrightarrow> y mod 4 = 0 \<and> (y mod 100 \<noteq> 0 \<or> y mod 400 = 0)"

definition month_days :: "int \<Rightarrow> int \<Rightarrow> int" where
  "month_days y m = (if m = 2 then (if is_leap y then 29 else 28)
     else if m \<in> {4, 6, 9, 11} then 30 else 31)"

text \<open>Days of the years before \<open>y\<close>, and of the months of \<open>y\<close> before \<open>m\<close>.\<close>

definition year_days :: "int \<Rightarrow> int" where
  "year_days y = 365 * (y - 1) + (y - 1) div 4 - (y - 1) div 100 + (y - 1) div 400"

definition months_before :: "int \<Rightarrow> int \<Rightarrow> int" where
  "months_before y m = sum_list (map (month_days y) [1..m - 1])"

definition date_instant :: "int \<Rightarrow> int \<Rightarrow> int \<Rightarrow> int \<Rightarrow> int \<Rightarrow> int \<Rightarrow> int \<Rightarrow> gtime" where
  "date_instant y m d hh mi ss ns =
     ((((year_days y + months_before y m + d - 1) * 24 + hh) * 60 + mi) * 60 + ss) * second + ns"

lemma year_days_Suc: "year_days (y + 1) = year_days y + (if is_leap y then 366 else 365)"
proof -
  have q: "y div n = (y - 1) div n + (if y mod n = 0 then 1 else 0)" if "0 < n" for n :: int
  proof (cases "y mod n = 0")
    case True
    then have "y - 1 = n * (y div n - 1) + (n - 1)" using mult_div_mod_eq [of n y] by (simp add: algebra_simps)
    then have "(y - 1) div n = y div n - 1" using that by (intro int_div_pos_eq [of _ _ _ "n - 1"]) auto
    then show ?thesis using True by simp
  next
    case False
    then have "0 < y mod n" using pos_mod_sign [OF that, of y] by linarith
    moreover have "y - 1 = n * (y div n) + (y mod n - 1)" using mult_div_mod_eq [of n y] by simp
    ultimately have "(y - 1) div n = y div n"
      using pos_mod_bound [OF that, of y] by (intro int_div_pos_eq [of _ _ _ "y mod n - 1"]) auto
    then show ?thesis using False by simp
  qed
  have imp: "y mod 400 = 0 \<Longrightarrow> y mod 100 = 0" "y mod 100 = 0 \<Longrightarrow> y mod 4 = 0"
    unfolding mod_eq_0_iff_dvd by (erule dvd_trans [rotated]; simp)+
  have sum: "365 * y + a - b + c = 365 * (y - 1) + a' - b' + c' + (if P \<and> (\<not> Q \<or> R) then 366 else 365)"
    if "a = a' + (if P then 1 else 0)" "b = b' + (if Q then 1 else 0)" "c = c' + (if R then 1 else 0)"
      "R \<Longrightarrow> Q" "Q \<Longrightarrow> P" for a b c a' b' c' :: int and P Q R
    using that by (cases P; cases Q; cases R) simp_all
  have "year_days (y + 1) = 365 * y + y div 4 - y div 100 + y div 400" by (simp add: year_days_def)
  also have "\<dots> = year_days y + (if is_leap y then 366 else 365)"
    unfolding year_days_def is_leap_def by (rule sum [OF q q q imp]) simp_all
  finally show ?thesis .
qed

subsection \<open>Parsing\<close>

text \<open>A number of exactly \<open>n\<close> digits.\<close>

definition take_number :: "nat \<Rightarrow> string \<Rightarrow> (int \<times> string) option" where
  "take_number n s = (if length s < n \<or> \<not> list_all is_digit (take n s) then None
     else Some (int (digits_value (take n s)), drop n s))"

fun take_char :: "char \<Rightarrow> string \<Rightarrow> string option" where
  "take_char c [] = None"
| "take_char c (d # s) = (if c = d then Some s else None)"

text \<open>Nine digits of the fraction count; further digits are dropped.\<close>

definition take_fraction :: "string \<Rightarrow> (int \<times> string) option" where
  "take_fraction s = (case s of
     [] \<Rightarrow> Some (0, s)
   | c # t \<Rightarrow> if c \<noteq> CHR ''.'' then Some (0, s)
       else let ds = takeWhile is_digit t in
         if ds = [] then None
         else Some (int (digits_value (take 9 ds)) * 10 ^ (9 - min 9 (length ds)), dropWhile is_digit t))"

text \<open>The offset in seconds; \<open>Z\<close> is zero.\<close>

definition take_offset :: "string \<Rightarrow> int option" where
  "take_offset s = (case s of
     [] \<Rightarrow> None
   | c # t \<Rightarrow> if c = CHR ''Z'' then (if t = [] then Some 0 else None)
       else if c = CHR ''+'' \<or> c = CHR ''-'' then
         (case take_number 2 t of None \<Rightarrow> None
          | Some (hh, t1) \<Rightarrow> (case take_char CHR '':'' t1 of None \<Rightarrow> None
            | Some t2 \<Rightarrow> (case take_number 2 t2 of None \<Rightarrow> None
              | Some (mi, t3) \<Rightarrow>
                  if t3 = [] \<and> hh \<le> 24 \<and> mi < 60
                  then Some ((if c = CHR ''-'' then -1 else 1) * (hh * 60 + mi) * 60) else None)))
       else None)"

text \<open>A number followed by a separator.\<close>

definition take_field :: "nat \<Rightarrow> char \<Rightarrow> string \<Rightarrow> (int \<times> string) option" where
  "take_field n c s = (case take_number n s of None \<Rightarrow> None
     | Some (x, t) \<Rightarrow> map_option (\<lambda>u. (x, u)) (take_char c t))"

definition parse_RFC3339 :: "string \<Rightarrow> gtime option" where
  "parse_RFC3339 s0 =
    (case take_field 4 CHR ''-'' s0 of None \<Rightarrow> None
     | Some (y, s1) \<Rightarrow> (case take_field 2 CHR ''-'' s1 of None \<Rightarrow> None
     | Some (m, s2) \<Rightarrow> (case take_field 2 CHR ''T'' s2 of None \<Rightarrow> None
     | Some (d, s3) \<Rightarrow> (case take_field 2 CHR '':'' s3 of None \<Rightarrow> None
     | Some (hh, s4) \<Rightarrow> (case take_field 2 CHR '':'' s4 of None \<Rightarrow> None
     | Some (mi, s5) \<Rightarrow> (case take_number 2 s5 of None \<Rightarrow> None
     | Some (ss, s6) \<Rightarrow> (case take_fraction s6 of None \<Rightarrow> None
     | Some (ns, s7) \<Rightarrow> (case take_offset s7 of None \<Rightarrow> None
     | Some off \<Rightarrow>
         if 1 \<le> m \<and> m \<le> 12 \<and> 1 \<le> d \<and> d \<le> month_days y m \<and> hh < 24 \<and> mi < 60 \<and> ss < 60
         then Some (date_instant y m d hh mi ss ns - off * second) else None))))))))"

lemma parse_examples:
  "parse_RFC3339 ''9999-01-01T00:00:00Z'' = Some 315506361600000000000"
  "parse_RFC3339 ''0001-01-01T00:00:00Z'' = Some zero_time"
  "parse_RFC3339 ''2024-02-29T23:59:59.5+01:30'' = parse_RFC3339 ''2024-02-29T22:29:59.500Z''"
  "parse_RFC3339 ''2023-02-29T00:00:00Z'' = None"
  by code_simp+

end
