(* ===== verification/Linear_Reader.thy ===== *)
theory Linear_Reader
  imports Scheduler Go_Date
begin

text \<open>
  \<open>internal/trackers/linear/reader.go\<close>: the Linear reader. The GraphQL client is the interface
  \<open>Client\<close> of the code, a function of the requests made so far and the request, so its answers may
  change over time; a request is the query text and its variables, an answer a JSON object
  (\<open>None\<close> is a nil map). \<open>HTTPClient\<close>, the client the code uses by default, is modelled over the
  outcome of the HTTP exchange; the JSON codec and \<open>net/http\<close> are its parameters.
  \<open>listByStatesPage\<close> follows the server's cursors without a limit, so it is a partial function:
  \<open>None\<close> means that it never returns.
\<close>

type_synonym json_object = "(string \<times> gval) list"
type_synonym gql_request = "string \<times> json_object"

datatype linear_error =
    ErrMissingAPIToken
  | ErrMissingProjectSlug
  | ErrMissingViewerIdentity
  | ErrUnknownPayload string
  | ErrMissingEndCursor
  | RequestError string
  | StatusError int string
  | GraphQLErrorsError gval
  | ContextError string

type_synonym linear_client = "gql_request list \<Rightarrow> gql_request \<Rightarrow> linear_error + json_object option"

record linear_reader =
  lr_settings :: provider_settings
  lr_client :: linear_client

definition defaultEndpoint :: string where
  "defaultEndpoint = ''https://api.linear.app/graphql''"

definition pageSize :: nat where
  "pageSize = 50"

subsection \<open>Query texts\<close>

text \<open>The part that the three issue queries share.\<close>

definition issue_lines :: "string list" where
  "issue_lines =
    [''    nodes {'',
     ''      id'',
     ''      identifier'',
     ''      title'',
     ''      description'',
     ''      priority'',
     ''      state { name }'',
     ''      branchName'',
     ''      url'',
     ''      assignee { id }'',
     ''      labels { nodes { name } }'',
     ''      inverseRelations(first: $relationFirst) {'',
     ''        nodes {'',
     ''          type'',
     ''          issue { id identifier state { name } }'',
     ''        }'',
     ''      }'',
     ''      createdAt'',
     ''      updatedAt'',
     ''    }'']"

definition states_lines :: "string list" where
  "states_lines =
    [''  issues(filter: {project: {slugId: {eq: $projectSlug}}, state: {name: {in: $stateNames}}}, first: $first, after: $after) {'']"

definition states_tail :: "string list" where
  "states_tail = [''    pageInfo { hasNextPage endCursor }'', ''  }'', ''}'', []]"

definition candidateQuery :: string where
  "candidateQuery = Join ([[], ''query SymphonyLinearPoll($projectSlug: String!, $stateNames: [String!]!, $first: Int!, $relationFirst: Int!, $after: String) {'']
     @ states_lines @ issue_lines @ states_tail) [nl]"

definition issuesByStatesQuery :: string where
  "issuesByStatesQuery = Join ([[], ''query SymphonyLinearByStates($projectSlug: String!, $stateNames: [String!]!, $first: Int!, $relationFirst: Int!, $after: String) {'']
     @ states_lines @ issue_lines @ states_tail) [nl]"

definition issuesByIDsQuery :: string where
  "issuesByIDsQuery = Join (
    [[],
     ''query SymphonyLinearIssuesById($ids: [ID!]!, $first: Int!, $relationFirst: Int!) {'',
     ''  issues(filter: {id: {in: $ids}}, first: $first) {'']
     @ issue_lines @ [''  }'', ''}'', []]) [nl]"

definition viewerQuery :: string where
  "viewerQuery = Join [[],
     ''query SymphonyLinearViewer {'',
     ''  viewer { id }'',
     ''}'',
     []] [nl]"

subsection \<open>Reading JSON\<close>

fun nestedMap :: "json_object \<Rightarrow> string list \<Rightarrow> json_object option" where
  "nestedMap obj [] = Some obj"
| "nestedMap obj (k # ks) = (case map_of obj k of None \<Rightarrow> None
     | Some v \<Rightarrow> (case as_map v of None \<Rightarrow> None | Some m \<Rightarrow> nestedMap m ks))"

fun nestedAny :: "gval \<Rightarrow> string list \<Rightarrow> gval option" where
  "nestedAny current [] = Some current"
| "nestedAny current (k # ks) = (case as_map current of None \<Rightarrow> None
     | Some m \<Rightarrow> (case map_of m k of None \<Rightarrow> None | Some v \<Rightarrow> nestedAny v ks))"

fun stringValue :: "gval \<Rightarrow> string" where
  "stringValue (VStr s) = s"
| "stringValue _ = []"

fun boolValue :: "gval \<Rightarrow> bool" where
  "boolValue (VBool b) = b"
| "boolValue _ = False"

definition nestedString :: "json_object \<Rightarrow> string list \<Rightarrow> string" where
  "nestedString obj keys = (case nestedAny (VMap obj) keys of None \<Rightarrow> [] | Some v \<Rightarrow> stringValue v)"

text \<open>A \<open>float64\<close> is a rational here; the conversion of one beyond the range of \<open>int\<close> is outside the model.\<close>

fun parsePriority :: "gval \<Rightarrow> int option" where
  "parsePriority (VInt i) = Some i"
| "parsePriority (VFloat r) = (if of_int \<lfloor>r\<rfloor> = r then Some \<lfloor>r\<rfloor> else None)"
| "parsePriority (VNumber s) = Atoi s"
| "parsePriority _ = None"

definition parseTime :: "gval \<Rightarrow> gtime option" where
  "parseTime v = (let raw = stringValue v in if raw = [] then None else parse_RFC3339 raw)"

definition label_of :: "gval \<Rightarrow> string option" where
  "label_of node = (case as_map node of None \<Rightarrow> None
     | Some label \<Rightarrow> (let name = stringValue (vget label ''name'') in
         if name = [] then None else Some (ToLower name)))"

definition extractLabels :: "json_object \<Rightarrow> string list" where
  "extractLabels issue = (case nestedMap issue [''labels''] of None \<Rightarrow> []
     | Some labels \<Rightarrow> (case as_list (vget labels ''nodes'') of None \<Rightarrow> []
         | Some nodes \<Rightarrow> List.map_filter label_of nodes))"

definition blocker_of :: "gval \<Rightarrow> blocker option" where
  "blocker_of node = (case as_map node of None \<Rightarrow> None
     | Some relation \<Rightarrow>
         if ToLower (TrimSpace (stringValue (vget relation ''type''))) \<noteq> ''blocks'' then None
         else (case as_map (vget relation ''issue'') of None \<Rightarrow> None
           | Some b \<Rightarrow> Some \<lparr>bl_ID = stringValue (vget b ''id''),
               bl_Identifier = stringValue (vget b ''identifier''), bl_State = nestedString b [''state'', ''name'']\<rparr>))"

definition extractBlockers :: "json_object \<Rightarrow> blocker list" where
  "extractBlockers issue = (case nestedMap issue [''inverseRelations''] of None \<Rightarrow> []
     | Some relations \<Rightarrow> (case as_list (vget relations ''nodes'') of None \<Rightarrow> []
         | Some nodes \<Rightarrow> List.map_filter blocker_of nodes))"

text \<open>The assignee filter is the ID it asks for, \<open>None\<close> for a nil filter.\<close>

definition normalizeIssue :: "json_object \<Rightarrow> string option \<Rightarrow> bool \<Rightarrow> work_item" where
  "normalizeIssue issue flt setRoutable =
    (let assignee = nestedString issue [''assignee'', ''id''];
         item = \<lparr>wi_ID = stringValue (vget issue ''id''),
           wi_Identifier = stringValue (vget issue ''identifier''),
           wi_Title = stringValue (vget issue ''title''),
           wi_Description = stringValue (vget issue ''description''),
           wi_State = nestedString issue [''state'', ''name''],
           wi_Priority = parsePriority (vget issue ''priority''),
           wi_BranchName = stringValue (vget issue ''branchName''),
           wi_URL = stringValue (vget issue ''url''),
           wi_AssigneeID = assignee,
           wi_Labels = extractLabels issue,
           wi_BlockedBy = extractBlockers issue,
           wi_Routable = None,
           wi_CreatedAt = parseTime (vget issue ''createdAt''),
           wi_UpdatedAt = parseTime (vget issue ''updatedAt'')\<rparr>
     in if setRoutable
        then item\<lparr>wi_Routable := Some (case flt of None \<Rightarrow> True | Some fid \<Rightarrow> assignee \<noteq> [] \<and> assignee = fid)\<rparr>
        else item)"

definition normalizeIssueNodes :: "gval \<Rightarrow> string option \<Rightarrow> bool \<Rightarrow> linear_error + work_item list" where
  "normalizeIssueNodes nodes flt setRoutable = (case as_list nodes of
     None \<Rightarrow> Inl (ErrUnknownPayload [])
   | Some raws \<Rightarrow> Inr (map (\<lambda>issue. normalizeIssue issue flt setRoutable) (List.map_filter as_map raws)))"

record page_info =
  pg_hasNext :: bool
  pg_endCursor :: string

definition decodeIssuesPage :: "json_object \<Rightarrow> string option \<Rightarrow> bool \<Rightarrow> linear_error + work_item list \<times> page_info" where
  "decodeIssuesPage body flt setRoutable = (case nestedMap body [''data'', ''issues''] of
     None \<Rightarrow> Inl (ErrUnknownPayload [])
   | Some issues \<Rightarrow> (case normalizeIssueNodes (vget issues ''nodes'') flt setRoutable of
       Inl e \<Rightarrow> Inl e
     | Inr items \<Rightarrow> (case as_map (vget issues ''pageInfo'') of
         None \<Rightarrow> Inl (ErrUnknownPayload [])
       | Some m \<Rightarrow> Inr (items, \<lparr>pg_hasNext = boolValue (vget m ''hasNextPage''),
           pg_endCursor = stringValue (vget m ''endCursor'')\<rparr>))))"

definition decodeIssues :: "json_object \<Rightarrow> string option \<Rightarrow> bool \<Rightarrow> linear_error + work_item list" where
  "decodeIssues body flt setRoutable = (case nestedMap body [''data'', ''issues''] of
     None \<Rightarrow> Inl (ErrUnknownPayload [])
   | Some issues \<Rightarrow> normalizeIssueNodes (vget issues ''nodes'') flt setRoutable)"

definition decodeGraphQLErrors :: "json_object option \<Rightarrow> linear_error + json_object" where
  "decodeGraphQLErrors body = (case body of
     None \<Rightarrow> Inl (ErrUnknownPayload [])
   | Some m \<Rightarrow> (case map_of m ''errors'' of Some e \<Rightarrow> Inl (GraphQLErrorsError e) | None \<Rightarrow> Inr m))"

subsection \<open>Requests\<close>

definition graphql ::
  "linear_reader \<Rightarrow> string \<Rightarrow> json_object \<Rightarrow> gql_request list \<Rightarrow> (linear_error + json_object) \<times> gql_request list" where
  "graphql r query variables lg =
     (case lr_client r lg (query, variables) of
        Inl e \<Rightarrow> Inl e
      | Inr body \<Rightarrow> decodeGraphQLErrors body,
      lg @ [(query, variables)])"

definition linear_firstNonEmpty :: "string list \<Rightarrow> string" where
  "linear_firstNonEmpty values = (case List.find (\<lambda>v. v \<noteq> []) values of None \<Rightarrow> [] | Some v \<Rightarrow> v)"

text \<open>\<open>NewReader\<close>; \<open>default_client\<close> stands for the \<open>HTTPClient\<close> made when no client is given.\<close>

definition NewLinearReader ::
  "(string \<Rightarrow> string \<Rightarrow> linear_client) \<Rightarrow> provider_settings \<Rightarrow> linear_client option \<Rightarrow> linear_error + linear_reader" where
  "NewLinearReader default_client settings0 client =
    (let s = settings0\<lparr>pv_Endpoint := linear_firstNonEmpty [TrimSpace (pv_Endpoint settings0), defaultEndpoint],
           pv_APIKey := TrimSpace (pv_APIKey settings0), pv_Project := TrimSpace (pv_Project settings0),
           pv_Assignee := TrimSpace (pv_Assignee settings0)\<rparr>
     in if pv_APIKey s = [] then Inl ErrMissingAPIToken
        else if pv_Project s = [] then Inl ErrMissingProjectSlug
        else Inr \<lparr>lr_settings = s, lr_client = (case client of Some c \<Rightarrow> c
               | None \<Rightarrow> default_client (pv_Endpoint s) (pv_APIKey s))\<rparr>)"

fun trim_distinct :: "string list \<Rightarrow> string list \<Rightarrow> string list" where
  "trim_distinct seen [] = []"
| "trim_distinct seen (v # vs) = (let name = TrimSpace v in
     if name = [] \<or> name \<in> set seen then trim_distinct seen vs
     else name # trim_distinct (name # seen) vs)"

definition normalizeStateNames :: "string list \<Rightarrow> string list" where
  "normalizeStateNames values = trim_distinct [] values"

definition normalizeIDs :: "string list \<Rightarrow> string list" where
  "normalizeIDs values = trim_distinct [] values"

definition linear_assigneeFilter ::
  "linear_reader \<Rightarrow> gql_request list \<Rightarrow> (linear_error + string option) \<times> gql_request list" where
  "linear_assigneeFilter r lg =
    (let assignee = TrimSpace (pv_Assignee (lr_settings r)) in
     if assignee = [] then (Inr None, lg)
     else if assignee \<noteq> ''me'' then (Inr (Some assignee), lg)
     else case graphql r viewerQuery [] lg of
       (Inl e, lg1) \<Rightarrow> (Inl e, lg1)
     | (Inr body, lg1) \<Rightarrow> (case nestedMap body [''data'', ''viewer''] of
           None \<Rightarrow> (Inl ErrMissingViewerIdentity, lg1)
         | Some viewer \<Rightarrow> (let viewerID = TrimSpace (stringValue (vget viewer ''id'')) in
             if viewerID = [] then (Inl ErrMissingViewerIdentity, lg1) else (Inr (Some viewerID), lg1))))"

subsection \<open>Listing, page by page\<close>

definition page_variables :: "linear_reader \<Rightarrow> string list \<Rightarrow> gval \<Rightarrow> json_object" where
  "page_variables r states after =
    [(''projectSlug'', VStr (pv_Project (lr_settings r))), (''stateNames'', VList (map VStr states)),
     (''first'', VInt (int pageSize)), (''relationFirst'', VInt (int pageSize)), (''after'', after)]"

definition fetch_page ::
  "linear_reader \<Rightarrow> string \<Rightarrow> string list \<Rightarrow> string option \<Rightarrow> bool \<Rightarrow> gval \<Rightarrow> gql_request list \<Rightarrow>
     (linear_error + work_item list \<times> page_info) \<times> gql_request list" where
  "fetch_page r query states flt setRoutable after lg =
    (case graphql r query (page_variables r states after) lg of
       (Inl e, lg1) \<Rightarrow> (Inl e, lg1)
     | (Inr body, lg1) \<Rightarrow> (decodeIssuesPage body flt setRoutable, lg1))"

partial_function (option) listByStatesPage ::
  "linear_reader \<Rightarrow> string \<Rightarrow> string list \<Rightarrow> string option \<Rightarrow> bool \<Rightarrow> gval \<Rightarrow> work_item list \<Rightarrow> gql_request list \<Rightarrow>
     ((linear_error + work_item list) \<times> gql_request list) option" where
  "listByStatesPage r query states flt setRoutable after items lg =
    (case fetch_page r query states flt setRoutable after lg of
       (Inl e, lg1) \<Rightarrow> Some (Inl e, lg1)
     | (Inr (pageItems, page), lg1) \<Rightarrow>
         if \<not> pg_hasNext page then Some (Inr (items @ pageItems), lg1)
         else if TrimSpace (pg_endCursor page) = [] then Some (Inl ErrMissingEndCursor, lg1)
         else listByStatesPage r query states flt setRoutable (VStr (pg_endCursor page)) (items @ pageItems) lg1)"

definition linear_ListCandidates ::
  "linear_reader \<Rightarrow> gql_request list \<Rightarrow> ((linear_error + work_item list) \<times> gql_request list) option" where
  "linear_ListCandidates r lg =
    (let states = normalizeStateNames (pv_ActiveStates (lr_settings r)) in
     if states = [] then Some (Inr [], lg)
     else case linear_assigneeFilter r lg of
       (Inl e, lg1) \<Rightarrow> Some (Inl e, lg1)
     | (Inr flt, lg1) \<Rightarrow> listByStatesPage r candidateQuery states flt True VNil [] lg1)"

definition linear_ListByStates ::
  "linear_reader \<Rightarrow> string list \<Rightarrow> gql_request list \<Rightarrow> ((linear_error + work_item list) \<times> gql_request list) option" where
  "linear_ListByStates r states lg =
    (let normalized = normalizeStateNames states in
     if normalized = [] then Some (Inr [], lg)
     else listByStatesPage r issuesByStatesQuery normalized None False VNil [] lg)"

subsection \<open>Refreshing, batch by batch\<close>

function batches :: "nat \<Rightarrow> 'a list \<Rightarrow> 'a list list" where
  "batches n xs = (if xs = [] \<or> n = 0 then [] else take n xs # batches n (drop n xs))"
  by pat_completeness auto

termination by (relation "measure (length \<circ> snd)") auto

declare batches.simps [simp del]

definition ids_variables :: "string list \<Rightarrow> json_object" where
  "ids_variables batch = [(''ids'', VList (map VStr batch)), (''first'', VInt (int (length batch))),
     (''relationFirst'', VInt (int pageSize))]"

fun refresh_batches ::
  "linear_reader \<Rightarrow> string option \<Rightarrow> string list list \<Rightarrow> work_item list \<Rightarrow> gql_request list \<Rightarrow>
     (linear_error + work_item list) \<times> gql_request list" where
  "refresh_batches r flt [] refreshed lg = (Inr refreshed, lg)"
| "refresh_batches r flt (batch # bs) refreshed lg =
    (case graphql r issuesByIDsQuery (ids_variables batch) lg of
       (Inl e, lg1) \<Rightarrow> (Inl e, lg1)
     | (Inr body, lg1) \<Rightarrow> (case decodeIssues body flt True of
         Inl e \<Rightarrow> (Inl e, lg1)
       | Inr items \<Rightarrow> refresh_batches r flt bs (refreshed @ items) lg1))"

definition orderIndex :: "string list \<Rightarrow> string \<Rightarrow> nat" where
  "orderIndex ids key = (case map_of (zip ids [0..<length ids]) key of Some i \<Rightarrow> i | None \<Rightarrow> length ids)"

text \<open>\<open>sort.SliceStable\<close> is the library's stable \<open>sort_key\<close>.\<close>

definition linear_RefreshByIDs ::
  "linear_reader \<Rightarrow> string list \<Rightarrow> gql_request list \<Rightarrow> (linear_error + work_item list) \<times> gql_request list" where
  "linear_RefreshByIDs r ids lg =
    (let normalizedIDs = normalizeIDs ids in
     if normalizedIDs = [] then (Inr [], lg)
     else case linear_assigneeFilter r lg of
       (Inl e, lg1) \<Rightarrow> (Inl e, lg1)
     | (Inr flt, lg1) \<Rightarrow> (case refresh_batches r flt (batches pageSize normalizedIDs) [] lg1 of
         (Inl e, lg2) \<Rightarrow> (Inl e, lg2)
       | (Inr refreshed, lg2) \<Rightarrow>
           (Inr (sort_key (\<lambda>item. orderIndex normalizedIDs (wi_ID item)) refreshed), lg2)))"

subsection \<open>The HTTP client\<close>

text \<open>What \<open>client.Do\<close> and reading the body give; \<open>Canceled\<close> covers a cancelled and an expired context.\<close>

datatype http_result =
    DoCanceled string
  | DoFailed string
  | Responded int "http_body"
and http_body = ReadCanceled string | ReadFailed string | ReadAll string

record http_env =
  he_marshal :: "gval \<Rightarrow> string + string"
  he_newRequest :: "string \<Rightarrow> string option"
  he_do :: "string \<Rightarrow> (string \<times> string) list \<Rightarrow> string \<Rightarrow> http_result"
  he_decode :: "string \<Rightarrow> string + json_object option"

definition summarizeBody :: "string \<Rightarrow> string" where
  "summarizeBody body = (let summary = TrimSpace (Join (Fields body) '' '') in
     if 1000 < length summary then take 1000 summary @ ''...<truncated>'' else summary)"

definition HTTPClient_GraphQL ::
  "http_env \<Rightarrow> string \<Rightarrow> string \<Rightarrow> string \<Rightarrow> json_object \<Rightarrow> linear_error + json_object option" where
  "HTTPClient_GraphQL env endpoint apiKey query variables =
    (case he_marshal env (VMap [(''query'', VStr query), (''variables'', VMap variables)]) of
       Inl e \<Rightarrow> Inl (RequestError e)
     | Inr encoded \<Rightarrow> (case he_newRequest env endpoint of
         Some e \<Rightarrow> Inl (RequestError e)
       | None \<Rightarrow>
           (case he_do env endpoint [(''Authorization'', apiKey), (''Content-Type'', ''application/json'')] encoded of
              DoCanceled e \<Rightarrow> Inl (ContextError e)
            | DoFailed e \<Rightarrow> Inl (RequestError e)
            | Responded status rd \<Rightarrow> (case rd of
                ReadCanceled e \<Rightarrow> Inl (ContextError e)
              | ReadFailed e \<Rightarrow> Inl (RequestError e)
              | ReadAll body \<Rightarrow>
                  (if status \<noteq> 200 then Inl (StatusError status (summarizeBody body))
                   else case he_decode env body of
                     Inl e \<Rightarrow> Inl (ErrUnknownPayload e)
                   | Inr decoded \<Rightarrow> Inr decoded)))))"

end
