(* ===== verification/Linear_Props.thy ===== *)
theory Linear_Props
  imports Linear_Reader
begin

text \<open>
  What the Linear reader promises: listing returns every page of the server exactly once and in
  order, refreshing returns the requested issues in the order of the request whatever the size of
  the request and the order of the answers, and what the dispatch gate makes of the assignee
  and the blocking relations of an issue.
\<close>

subsection \<open>Normalised names\<close>

lemma trim_distinct_props:
  "distinct (trim_distinct seen vs) \<and>
   set (trim_distinct seen vs) = {TrimSpace v | v. v \<in> set vs \<and> TrimSpace v \<noteq> []} - set seen"
  by (induction seen vs rule: trim_distinct.induct) (auto simp: Let_def)

lemma normalizeIDs_distinct: "distinct (normalizeIDs ids)"
  using trim_distinct_props by (simp add: normalizeIDs_def)

lemma normalizeIDs_set: "set (normalizeIDs ids) = {TrimSpace v | v. v \<in> set ids \<and> TrimSpace v \<noteq> []}"
  using trim_distinct_props [of "[]" ids] by (simp add: normalizeIDs_def)

subsection \<open>Listing\<close>

text \<open>A well-formed answer to a listing request.\<close>

definition page_body :: "gval list \<Rightarrow> bool \<Rightarrow> string \<Rightarrow> json_object" where
  "page_body nodes hasNext cursor = [(''data'', VMap [(''issues'', VMap
     [(''nodes'', VList nodes),
      (''pageInfo'', VMap [(''hasNextPage'', VBool hasNext), (''endCursor'', VStr cursor)])])])]"

text \<open>
  A server that holds the given pages: asked after a cursor it answers with the page behind that
  cursor, and says that there is a next page, with a usable cursor, exactly when there is one.
\<close>

fun serves :: "linear_client \<Rightarrow> (gval \<Rightarrow> gql_request) \<Rightarrow> gval \<Rightarrow> gql_request list \<Rightarrow> (gval list \<times> string) list \<Rightarrow> bool" where
  "serves c req after lg [] = False"
| "serves c req after lg [(nodes, cur)] = (c lg (req after) = Inr (Some (page_body nodes False cur)))"
| "serves c req after lg ((nodes, cur) # p # ps) =
     (c lg (req after) = Inr (Some (page_body nodes True cur)) \<and> TrimSpace cur \<noteq> []
      \<and> serves c req (VStr cur) (lg @ [req after]) (p # ps))"

definition page_request :: "linear_reader \<Rightarrow> string \<Rightarrow> string list \<Rightarrow> gval \<Rightarrow> gql_request" where
  "page_request r query states after = (query, page_variables r states after)"

definition issues_of :: "string option \<Rightarrow> bool \<Rightarrow> gval list \<Rightarrow> work_item list" where
  "issues_of flt setRoutable nodes = map (\<lambda>i. normalizeIssue i flt setRoutable) (List.map_filter as_map nodes)"

text \<open>The requests made: the first without a cursor, each later one with the cursor before it.\<close>

definition page_requests :: "linear_reader \<Rightarrow> string \<Rightarrow> string list \<Rightarrow> gval \<Rightarrow> (gval list \<times> string) list \<Rightarrow> gql_request list" where
  "page_requests r query states after pages =
     map (page_request r query states) (after # map (VStr \<circ> snd) (butlast pages))"

lemma fetch_page_body:
  assumes "lr_client r lg (page_request r query states after) = Inr (Some (page_body nodes hasNext cur))"
  shows "fetch_page r query states flt sr after lg =
    (Inr (issues_of flt sr nodes, \<lparr>pg_hasNext = hasNext, pg_endCursor = cur\<rparr>),
     lg @ [page_request r query states after])"
  using assms
  by (simp add: fetch_page_def graphql_def page_request_def decodeGraphQLErrors_def decodeIssuesPage_def
      page_body_def normalizeIssueNodes_def vget_def issues_of_def)

lemma issues_of_append: "issues_of flt sr (xs @ ys) = issues_of flt sr xs @ issues_of flt sr ys"
  by (induction xs) (auto simp: issues_of_def map_filter_simps split: option.split)

lemma listByStatesPage_served:
  assumes "serves (lr_client r) (page_request r query states) after lg pages"
  shows "listByStatesPage r query states flt sr after items lg =
    Some (Inr (items @ issues_of flt sr (concat (map fst pages))), lg @ page_requests r query states after pages)"
  using assms
proof (induction "lr_client r" "page_request r query states" after lg pages arbitrary: items rule: serves.induct)
  case (2 after lg nodes cur)
  then show ?case
    by (subst listByStatesPage.simps) (simp add: fetch_page_body page_requests_def)
next
  case (3 after lg nodes cur p ps)
  then have "lr_client r lg (page_request r query states after) = Inr (Some (page_body nodes True cur))"
    and c: "TrimSpace cur \<noteq> []" by simp_all
  note f = fetch_page_body [OF this(1)]
  from 3 show ?case
    by (subst listByStatesPage.simps) (simp add: f page_requests_def issues_of_append)
qed simp

text \<open>C35 (functional). Listing is complete: whatever number of pages the server holds, \<open>ListByStates\<close> returns
  the issues of all of them, each once, in the server's order, and makes one request per page, each
  after the first with the cursor the page before it ended with.\<close>

theorem ListByStates_complete:
  assumes "normalizeStateNames states \<noteq> []"
    and "serves (lr_client r) (page_request r issuesByStatesQuery (normalizeStateNames states)) VNil lg pages"
  shows "linear_ListByStates r states lg =
    Some (Inr (map (\<lambda>i. normalizeIssue i None False) (List.map_filter as_map (concat (map fst pages)))),
      lg @ map (page_request r issuesByStatesQuery (normalizeStateNames states))
        (VNil # map (VStr \<circ> snd) (butlast pages)))"
  using listByStatesPage_served [OF assms(2)] assms(1)
  by (simp add: linear_ListByStates_def Let_def issues_of_def page_requests_def)

definition two_pages :: linear_client where
  "two_pages lg q = Inr (Some (if lg = [] then page_body [VMap [(''id'', VStr ''1'')]] True ''c''
     else page_body [VMap [(''id'', VStr ''2'')], VNil] False []))"

definition sample_linear :: "linear_client \<Rightarrow> linear_reader" where
  "sample_linear c = \<lparr>lr_settings = (st_Provider sample_settings)\<lparr>pv_Project := ''p'', pv_APIKey := ''k''\<rparr>, lr_client = c\<rparr>"

theorem ListByStates_complete_witness:
  "map_option (\<lambda>(res, lg). (map_sum id (map wi_ID) res, length lg))
     (linear_ListByStates (sample_linear two_pages) ['' Todo ''] []) = Some (Inr [''1'', ''2''], 2)"
proof -
  let ?r = "sample_linear two_pages" and ?pages = "[([VMap [(''id'', VStr ''1'')]], ''c''), ([VMap [(''id'', VStr ''2'')], VNil], [])]"
  have s: "normalizeStateNames ['' Todo ''] = [''Todo'']" "TrimSpace ''c'' \<noteq> []" by code_simp+
  have "normalizeStateNames ['' Todo ''] \<noteq> []" by (simp add: s)
  moreover have "serves (lr_client ?r) (page_request ?r issuesByStatesQuery (normalizeStateNames ['' Todo ''])) VNil [] ?pages"
    using s(2) by (simp add: sample_linear_def two_pages_def)
  ultimately have "linear_ListByStates ?r ['' Todo ''] [] = Some (Inr (map (\<lambda>i. normalizeIssue i None False)
      (List.map_filter as_map (concat (map fst ?pages)))), [] @ map (page_request ?r issuesByStatesQuery
        (normalizeStateNames ['' Todo ''])) (VNil # map (VStr \<circ> snd) (butlast ?pages)))"
    by (rule ListByStates_complete)
  then show ?thesis by (simp add: map_filter_simps normalizeIssue_def Let_def vget_def)
qed

text \<open>Nothing bounds the number of pages: a server that always says there is a next page, with
  any cursor, even the one just used, keeps \<open>ListByStates\<close> from ever returning.\<close>

theorem ListByStates_endless:
  assumes "normalizeStateNames states \<noteq> []" "TrimSpace cursor \<noteq> []"
    and "\<And>lg q. lr_client r lg q = Inr (Some (page_body nodes True cursor))"
  shows "linear_ListByStates r states lg = None"
proof -
  have noret: "r' = r \<longrightarrow> False" if "listByStatesPage r' query states flt sr after items lg = Some y"
    for r' query states flt sr after items lg y
    using that
  proof (induction rule: listByStatesPage.raw_induct [rotated 1, consumes 1])
    case (1 rec r' query states flt sr after items lg y)
    show ?case
    proof
      assume r': "r' = r"
      have "fetch_page r query states flt sr after lg = (Inr (issues_of flt sr nodes,
          \<lparr>pg_hasNext = True, pg_endCursor = cursor\<rparr>), lg @ [page_request r query states after])"
        by (rule fetch_page_body) (rule assms(3))
      then have "rec r' query states flt sr (VStr cursor) (items @ issues_of flt sr nodes)
          (lg @ [page_request r query states after]) = Some y"
        using 1(2) assms(2) r' by simp
      from 1(1) [OF this] r' show False by simp
    qed
  qed
  have "listByStatesPage r query states flt sr after items lg = None" for query states flt sr after items lg
  proof (cases "listByStatesPage r query states flt sr after items lg")
    case (Some y)
    from noret [OF this] show ?thesis by simp
  qed
  then show ?thesis using assms(1) by (simp add: linear_ListByStates_def Let_def)
qed

theorem ListByStates_endless_witness:
  "linear_ListByStates (sample_linear (\<lambda>lg q. Inr (Some (page_body [] True ''c'')))) [''Todo''] [] = None"
proof (rule ListByStates_endless)
  show "normalizeStateNames [''Todo''] \<noteq> []" "TrimSpace ''c'' \<noteq> []" by code_simp+
qed (simp add: sample_linear_def)

subsection \<open>Refreshing\<close>

text \<open>
  The documented behaviour of Linear's \<open>issues\<close> query with an ID filter, over a database of issues: a
  request for a batch of at most \<open>pageSize\<close> IDs is answered with exactly the issues that have one of
  these IDs, in an order of the server's own.
\<close>

definition ids_body :: "gval list \<Rightarrow> json_object" where
  "ids_body nodes = [(''data'', VMap [(''issues'', VMap [(''nodes'', VList nodes)])])]"

definition answers_from :: "linear_client \<Rightarrow> (string \<Rightarrow> json_object option) \<Rightarrow> bool" where
  "answers_from c db \<longleftrightarrow> (\<forall>k m. db k = Some m \<longrightarrow> map_of m ''id'' = Some (VStr k))
    \<and> (\<forall>lg batch. length batch \<le> pageSize \<longrightarrow> (\<exists>found. mset found = mset (List.map_filter db batch)
        \<and> c lg (issuesByIDsQuery, ids_variables batch) = Inr (Some (ids_body (map VMap found)))))"

lemma batches_concat: "0 < n \<Longrightarrow> concat (batches n xs) = xs"
  by (induction n xs rule: batches.induct) (subst batches.simps, simp)

lemma batches_sizes: "b \<in> set (batches n xs) \<Longrightarrow> length b \<le> n \<and> b \<noteq> []"
proof (induction n xs rule: batches.induct)
  case (1 n xs)
  show ?case
  proof (cases "xs = [] \<or> n = 0")
    case True
    with 1(2) show ?thesis by (simp add: batches.simps)
  next
    case False
    with 1(2) have "b = take n xs \<or> b \<in> set (batches n (drop n xs))" by (subst (asm) batches.simps) simp
    with 1(1) False show ?thesis by auto
  qed
qed

lemma map_filter_VMap: "List.map_filter as_map (map VMap ms) = ms"
  by (induction ms) (simp_all add: map_filter_simps)

lemma decode_ids_body:
  "decodeIssues (ids_body (map VMap ms)) flt sr = Inr (map (\<lambda>m. normalizeIssue m flt sr) ms)"
  by (simp add: decodeIssues_def ids_body_def normalizeIssueNodes_def vget_def map_filter_VMap)

lemma map_filter_append: "List.map_filter f (xs @ ys) = List.map_filter f xs @ List.map_filter f ys"
  by (induction xs) (auto simp: map_filter_simps split: option.split)

lemma refresh_batches_answered:
  assumes "answers_from (lr_client r) db" "\<forall>b \<in> set bs. length b \<le> pageSize"
  shows "\<exists>found lg1. refresh_batches r flt bs acc lg = (Inr (acc @ map (\<lambda>m. normalizeIssue m flt True) found), lg1)
    \<and> mset found = mset (List.map_filter db (concat bs)) \<and> lg1 = lg @ map (\<lambda>b. (issuesByIDsQuery, ids_variables b)) bs"
  using assms(2)
proof (induction bs arbitrary: acc lg)
  case (Cons b bs)
  have "length b \<le> pageSize" using Cons.prems by simp
  with assms(1) have "\<exists>fd. mset fd = mset (List.map_filter db b) \<and>
      lr_client r lg (issuesByIDsQuery, ids_variables b) = Inr (Some (ids_body (map VMap fd)))"
    unfolding answers_from_def by blast
  then obtain fd where fd: "mset fd = mset (List.map_filter db b)"
    "lr_client r lg (issuesByIDsQuery, ids_variables b) = Inr (Some (ids_body (map VMap fd)))" by blast
  then have g: "graphql r issuesByIDsQuery (ids_variables b) lg =
      (Inr (ids_body (map VMap fd)), lg @ [(issuesByIDsQuery, ids_variables b)])"
    by (simp add: graphql_def decodeGraphQLErrors_def ids_body_def)
  obtain fd' lg' where "refresh_batches r flt bs (acc @ map (\<lambda>m. normalizeIssue m flt True) fd)
      (lg @ [(issuesByIDsQuery, ids_variables b)]) =
      (Inr ((acc @ map (\<lambda>m. normalizeIssue m flt True) fd) @ map (\<lambda>m. normalizeIssue m flt True) fd'), lg')"
    "mset fd' = mset (List.map_filter db (concat bs))"
    "lg' = (lg @ [(issuesByIDsQuery, ids_variables b)]) @ map (\<lambda>b. (issuesByIDsQuery, ids_variables b)) bs"
    using Cons.IH Cons.prems by (metis list.set_intros(2))
  with fd(1) show ?case
    by (intro exI [of _ "fd @ fd'"] exI [of _ lg']) (simp add: g decode_ids_body map_filter_append)
qed (simp add: map_filter_simps)

lemma orderIndex_nth: "distinct ids \<Longrightarrow> i < length ids \<Longrightarrow> orderIndex ids (ids ! i) = i"
  by (simp add: orderIndex_def map_of_zip_nth)

lemma orderIndex_inj: "distinct ids \<Longrightarrow> inj_on (orderIndex ids) (set ids)"
  by (rule inj_onI) (metis in_set_conv_nth orderIndex_nth)

lemma sorted_orderIndex: "distinct ids \<Longrightarrow> sorted (map (orderIndex ids) ids)"
proof -
  assume "distinct ids"
  then have "map (orderIndex ids) ids = [0..<length ids]" by (intro nth_equalityI) (simp_all add: orderIndex_nth)
  then show ?thesis by simp
qed

lemma map_filter_as_map: "List.map_filter f xs = map (the \<circ> f) (filter (\<lambda>x. f x \<noteq> None) xs)"
  by (induction xs) (auto simp: map_filter_simps split: option.split)

lemma sorted_filtered: "sorted (map f xs) \<Longrightarrow> sorted (map f (filter P xs))"
  by (induction xs) auto


definition sample_db :: "string \<Rightarrow> json_object option" where
  "sample_db k = (if k \<in> {''a'', ''b''} then Some [(''id'', VStr k)] else None)"

definition db_client :: linear_client where
  "db_client lg q = (case vget (snd q) ''ids'' of
     VList ids \<Rightarrow> Inr (Some (ids_body (map VMap (rev (List.map_filter (sample_db \<circ> stringValue) ids)))))
   | _ \<Rightarrow> Inl (RequestError ''no ids''))"

lemma db_client_answers: "answers_from db_client sample_db"
proof -
  have "List.map_filter (sample_db \<circ> stringValue) (map VStr batch) = List.map_filter sample_db batch" for batch
    by (induction batch) (simp_all add: map_filter_simps split: option.split)
  then have "db_client lg (issuesByIDsQuery, ids_variables batch) =
      Inr (Some (ids_body (map VMap (rev (List.map_filter sample_db batch)))))" for lg batch
    by (simp add: db_client_def ids_variables_def vget_def)
  then show ?thesis
    unfolding answers_from_def by (auto simp: sample_db_def intro: exI [of _ "rev (List.map_filter sample_db _)"])
qed


subsection \<open>What the dispatch gate makes of an issue\<close>

text \<open>Every item decoded under a filter carries the filter's verdict on its assignee.\<close>

definition routed :: "string \<Rightarrow> work_item \<Rightarrow> bool" where
  "routed a item \<longleftrightarrow> wi_Routable item = Some (wi_AssigneeID item \<noteq> [] \<and> wi_AssigneeID item = a)"

lemma routed_issue: "routed a (normalizeIssue issue (Some a) True)"
  by (simp add: routed_def normalizeIssue_def Let_def)

lemma routed_nodes: "normalizeIssueNodes nodes (Some a) True = Inr items \<Longrightarrow> item \<in> set items \<Longrightarrow> routed a item"
  by (auto simp: normalizeIssueNodes_def routed_issue split: option.splits)

lemma routed_page:
  "fetch_page r query states (Some a) True after lg = (Inr (items, pg), lg1) \<Longrightarrow> item \<in> set items \<Longrightarrow> routed a item"
  by (auto simp: fetch_page_def decodeIssuesPage_def routed_nodes split: sum.splits option.splits prod.splits)

lemma routed_pages:
  assumes "listByStatesPage r query states flt sr after items lg = Some (Inr found, lg1)" "flt = Some a" "sr"
    and "\<forall>i \<in> set items. routed a i"
  shows "\<forall>i \<in> set found. routed a i"
proof -
  have "flt = Some a \<longrightarrow> sr \<longrightarrow> (\<forall>i \<in> set items. routed a i) \<longrightarrow> (\<forall>fd. fst y = Inr fd \<longrightarrow> (\<forall>i \<in> set fd. routed a i))"
    if "listByStatesPage r query states flt sr after items lg = Some y" for r query states flt sr after items lg y
    using that
  proof (induction rule: listByStatesPage.raw_induct [rotated 1, consumes 1])
    case (1 rec r query states flt sr after items lg y)
    show ?case
    proof (intro impI)
      assume flt: "flt = Some a" "sr" and ok: "\<forall>i \<in> set items. routed a i"
      obtain res lg1 where f: "fetch_page r query states flt sr after lg = (res, lg1)" by fastforce
      show "\<forall>fd. fst y = Inr fd \<longrightarrow> (\<forall>i \<in> set fd. routed a i)"
      proof (cases res)
        case (Inl e)
        then show ?thesis using 1(2) f by auto
      next
        case (Inr p)
        then obtain its pg where res: "res = Inr (its, pg)" by (cases p) simp
        have more: "\<forall>i \<in> set (items @ its). routed a i"
          using routed_page f res flt ok by auto
        show ?thesis
        proof (cases "pg_hasNext pg \<and> TrimSpace (pg_endCursor pg) \<noteq> []")
          case True
          then have "rec r query states flt sr (VStr (pg_endCursor pg)) (items @ its) lg1 = Some y"
            using 1(2) f res by simp
          from 1(1) [OF this] flt more show ?thesis by blast
        next
          case False
          then show ?thesis using 1(2) f res more by (auto split: if_splits)
        qed
      qed
    qed
  qed
  from this [OF assms(1)] assms(2-4) show ?thesis by simp
qed

lemma routed_batches:
  "refresh_batches r (Some a) bs acc lg = (Inr found, lg1) \<Longrightarrow> \<forall>i \<in> set acc. routed a i \<Longrightarrow> \<forall>i \<in> set found. routed a i"
proof (induction bs arbitrary: acc lg)
  case (Cons b bs)
  obtain body lg2 where g: "graphql r issuesByIDsQuery (ids_variables b) lg = (Inr body, lg2)"
    using Cons.prems(1) by (auto split: sum.splits prod.splits)
  with Cons.prems(1) obtain items where d: "decodeIssues body (Some a) True = Inr items"
    "refresh_batches r (Some a) bs (acc @ items) lg2 = (Inr found, lg1)"
    by (auto split: sum.splits)
  have "\<forall>i \<in> set (acc @ items). routed a i"
    using d(1) Cons.prems(2) by (auto simp: decodeIssues_def routed_nodes split: option.splits)
  from Cons.IH [OF d(2) this] show ?case .
qed simp

text \<open>A reader restricted to an assignee (a user ID, or \<open>me\<close> resolved to the viewer) lets nobody
  else's issue through: whatever the server answers, an item of \<open>ListCandidates\<close> or \<open>RefreshByIDs\<close>
  that passes the orchestrator's dispatch gate is assigned to exactly that user.\<close>

theorem linear_assignee_gate:
  assumes "linear_assigneeFilter r lg = (Inr (Some a), lg1)" "isRetryCandidate s item" "item \<in> set items"
    and "linear_ListCandidates r lg = Some (Inr items, lg2) \<or> linear_RefreshByIDs r ids lg = (Inr items, lg2)"
  shows "wi_AssigneeID item = a \<and> a \<noteq> []"
proof -
  have "\<forall>i \<in> set items. routed a i"
    using assms(4)
  proof
    assume l: "linear_ListCandidates r lg = Some (Inr items, lg2)"
    show ?thesis
    proof (cases "normalizeStateNames (pv_ActiveStates (lr_settings r)) = []")
      case False
      then have "listByStatesPage r candidateQuery (normalizeStateNames (pv_ActiveStates (lr_settings r)))
          (Some a) True VNil [] lg1 = Some (Inr items, lg2)"
        using l assms(1) by (simp add: linear_ListCandidates_def Let_def)
      from routed_pages [OF this refl] show ?thesis by simp
    qed (use l in \<open>simp add: linear_ListCandidates_def\<close>)
  next
    assume l: "linear_RefreshByIDs r ids lg = (Inr items, lg2)"
    show ?thesis
    proof (cases "normalizeIDs ids = []")
      case False
      then obtain found where "refresh_batches r (Some a) (batches pageSize (normalizeIDs ids)) [] lg1 = (Inr found, lg2)"
        "set items = set found"
        using l assms(1) by (auto simp: linear_RefreshByIDs_def Let_def split: sum.splits prod.splits)
      then show ?thesis using routed_batches by force
    qed (use l in \<open>simp add: linear_RefreshByIDs_def\<close>)
  qed
  then have "routed a item" using assms(3) by blast
  then show ?thesis using assms(2) by (auto simp: routed_def isRetryCandidate_def split: if_splits)
qed

definition assigned_issue :: json_object where
  "assigned_issue = [(''id'', VStr ''1''), (''identifier'', VStr ''E-1''), (''title'', VStr ''t''),
     (''state'', VMap [(''name'', VStr ''Todo'')]), (''assignee'', VMap [(''id'', VStr ''u'')])]"

definition assigned_reader :: linear_reader where
  "assigned_reader = (sample_linear (\<lambda>lg q. Inr (Some (ids_body [VMap assigned_issue]))))
     \<lparr>lr_settings := (lr_settings (sample_linear two_pages))\<lparr>pv_Assignee := ''u''\<rparr>\<rparr>"

abbreviation sample_sched :: sched where
  "sample_sched \<equiv> newSchedulerState sample_settings (\<lambda>n. 0) (\<lambda>ks. ks)"

theorem linear_assignee_gate_witness:
  "wi_AssigneeID (normalizeIssue assigned_issue (Some ''u'') True) = ''u'' \<and> ''u'' \<noteq> []"
proof (rule linear_assignee_gate)
  let ?item = "normalizeIssue assigned_issue (Some ''u'') True" and ?lg = "[(issuesByIDsQuery, ids_variables [''1''])]"
  show "linear_assigneeFilter assigned_reader [] = (Inr (Some ''u''), [])" by code_simp
  show "isRetryCandidate sample_sched ?item" by code_simp
  show "?item \<in> set [?item]" by simp
  have "refresh_batches assigned_reader (Some ''u'') [[''1'']] [] [] = (Inr [?item], ?lg)"
    by (simp add: graphql_def assigned_reader_def sample_linear_def decodeGraphQLErrors_def ids_body_def
        decodeIssues_def normalizeIssueNodes_def vget_def map_filter_simps)
  moreover have "batches pageSize (normalizeIDs [''1'']) = [[''1'']]" "normalizeIDs [''1''] \<noteq> []"
    "linear_assigneeFilter assigned_reader [] = (Inr (Some ''u''), [])" by code_simp+
  ultimately have "linear_RefreshByIDs assigned_reader [''1''] [] = (Inr [?item], ?lg)"
    by (simp add: linear_RefreshByIDs_def)
  then show "linear_ListCandidates assigned_reader [] = Some (Inr [?item], ?lg)
      \<or> linear_RefreshByIDs assigned_reader [''1''] [] = (Inr [?item], ?lg)" by blast
qed

text \<open>C36 (safety). Blocking relations reach the dispatch gate: an issue in state Todo that Linear says is blocked
  (a relation whose type is \<open>blocks\<close> up to case and surrounding white space) by an issue whose state is
  not terminal is never a candidate, whatever the rest of the answer holds.\<close>

theorem linear_blocked_todo:
  assumes "nestedMap issue [''inverseRelations''] = Some relations" "as_list (vget relations ''nodes'') = Some nodes"
    and "VMap relation \<in> set nodes" "ToLower (TrimSpace (stringValue (vget relation ''type''))) = ''blocks''"
    and "as_map (vget relation ''issue'') = Some b"
    and "\<not> isTerminal s (nestedString b [''state'', ''name''])"
    and "normalizeState (nestedString issue [''state'', ''name'']) = ''todo''"
  shows "\<not> isRetryCandidate s (normalizeIssue issue flt setRoutable)"
proof -
  let ?b = "\<lparr>bl_ID = stringValue (vget b ''id''), bl_Identifier = stringValue (vget b ''identifier''),
    bl_State = nestedString b [''state'', ''name'']\<rparr>"
  have "blocker_of (VMap relation) = Some ?b" using assms(4,5) by (simp add: blocker_of_def)
  then have "?b \<in> set (List.map_filter blocker_of nodes)" using assms(3) by (auto simp: set_map_filter)
  moreover have "extractBlockers issue = List.map_filter blocker_of nodes"
    using assms(1,2) by (simp del: nestedMap.simps add: extractBlockers_def)
  ultimately have "?b \<in> set (wi_BlockedBy (normalizeIssue issue flt setRoutable))"
    by (simp add: normalizeIssue_def Let_def)
  moreover have "wi_State (normalizeIssue issue flt setRoutable) = nestedString issue [''state'', ''name'']"
    by (simp add: normalizeIssue_def Let_def)
  ultimately have "blockedTodo (normalizeIssue issue flt setRoutable) (sd_terminalStates s)"
    using assms(6,7) by (force simp: blockedTodo_def list_ex_iff isTerminal_def)
  then show ?thesis by (simp add: isRetryCandidate_def)
qed

definition blocked_issue :: "string \<Rightarrow> json_object" where
  "blocked_issue state = assigned_issue @ [(''inverseRelations'', VMap [(''nodes'', VList [VMap
     [(''type'', VStr '' Blocks''), (''issue'', VMap [(''id'', VStr ''2''), (''state'', VMap [(''name'', VStr state)])])]])])]"

theorem linear_blocked_todo_witness:
  "\<not> isRetryCandidate sample_sched (normalizeIssue (blocked_issue ''In Progress'') None True)
   \<and> isRetryCandidate sample_sched (normalizeIssue (blocked_issue ''Done'') None True)"
proof
  let ?b = "[(''id'', VStr ''2''), (''state'', VMap [(''name'', VStr ''In Progress'')])]"
  let ?rel = "[(''type'', VStr '' Blocks''), (''issue'', VMap ?b)]"
  show "\<not> isRetryCandidate sample_sched (normalizeIssue (blocked_issue ''In Progress'') None True)"
  proof (rule linear_blocked_todo)
    show "nestedMap (blocked_issue ''In Progress'') [''inverseRelations''] = Some [(''nodes'', VList [VMap ?rel])]" by code_simp
    show "as_list (vget [(''nodes'', VList [VMap ?rel])] ''nodes'') = Some [VMap ?rel]" by code_simp
    show "VMap ?rel \<in> set [VMap ?rel]" by simp
    show "ToLower (TrimSpace (stringValue (vget ?rel ''type''))) = ''blocks''" by code_simp
    show "as_map (vget ?rel ''issue'') = Some ?b" by code_simp
    show "\<not> isTerminal sample_sched (nestedString ?b [''state'', ''name''])" by code_simp
    show "normalizeState (nestedString (blocked_issue ''In Progress'') [''state'', ''name'']) = ''todo''" by code_simp
  qed
  show "isRetryCandidate sample_sched (normalizeIssue (blocked_issue ''Done'') None True)"
    by code_simp
qed

end
