(* ===== verification/Codex_Session.thy ===== *)
theory Codex_Session
  imports Settings Go_Time
begin

text \<open>
  \<open>internal/codex/session.go\<close>: a session with the Codex app server over a line-based JSON-RPC
  transport. The transport is the interface of the code: \<open>se_read i\<close> is what the \<open>i\<close>-th call of
  \<open>ReadLine\<close> gives, \<open>se_write\<close> says whether a write fails. A read that ends with a cancelled or
  expired context comes with what the parent and the scoped context then say (\<open>ReadDone\<close>). JSON
  decoding, \<open>fmt.Sprint\<close> of compound values, \<open>EvalSymlinks\<close> and the tool handler are arguments too.
  The two read loops have no bound of their own, so they are partial functions: \<open>None\<close> means that
  the loop reads for ever.
\<close>

type_synonym json = "(string \<times> gval) list"

datatype read_result =
    ReadLine string
  | ReadFailed string
  | ReadDone string "string option" bool

datatype codex_error =
    ErrReadTimeout
  | ErrTurnTimeout
  | ErrApprovalRequired
  | ErrContext string
  | ErrTransport string
  | ErrSessionClosed
  | ErrProtocol string string json
  | ErrWorkspacePath string string string "string option"

datatype tool_error = ToolUnsupported | ToolFailed string

record tool_spec =
  ts_Name :: string
  ts_Description :: string
  ts_InputSchema :: json
  ts_Parameters :: json

record tool_call =
  tc_ID :: string
  tc_Name :: string
  tc_Arguments :: gval

record tool_result =
  tr_Success :: bool
  tr_ContentItems :: "(string \<times> string) list"
  tr_Result :: gval
  tr_Error :: string

datatype codex_event_kind =
    EventSessionStarted | EventTurnCompleted | EventTurnFailed | EventTurnCancelled
  | EventToolCallCompleted | EventToolCallFailed | EventUnsupportedToolCall | EventApprovalAnswered
  | EventToolInputAnswered | EventMalformedMessage | EventUnknownMessage

fun codex_kind_string :: "codex_event_kind \<Rightarrow> string" where
  "codex_kind_string EventSessionStarted = ''session_started''"
| "codex_kind_string EventTurnCompleted = ''turn_completed''"
| "codex_kind_string EventTurnFailed = ''turn_failed''"
| "codex_kind_string EventTurnCancelled = ''turn_cancelled''"
| "codex_kind_string EventToolCallCompleted = ''tool_call_completed''"
| "codex_kind_string EventToolCallFailed = ''tool_call_failed''"
| "codex_kind_string EventUnsupportedToolCall = ''unsupported_tool_call''"
| "codex_kind_string EventApprovalAnswered = ''approval_answered''"
| "codex_kind_string EventToolInputAnswered = ''tool_input_answered''"
| "codex_kind_string EventMalformedMessage = ''malformed_message''"
| "codex_kind_string EventUnknownMessage = ''unknown_message''"

text \<open>The payload is \<open>None\<close> for a nil map; \<open>Message\<close> and \<open>Err\<close> are never set by the session.\<close>

record codex_event =
  xe_Kind :: codex_event_kind
  xe_Method :: string
  xe_Raw :: string
  xe_SessionID :: string
  xe_ThreadID :: string
  xe_TurnID :: string
  xe_Message :: string
  xe_Payload :: "json option"

datatype turn_status = TurnCompleted | TurnFailed | TurnCancelled

fun turn_status_string :: "turn_status \<Rightarrow> string" where
  "turn_status_string TurnCompleted = ''completed''"
| "turn_status_string TurnFailed = ''failed''"
| "turn_status_string TurnCancelled = ''cancelled''"

record token_usage =
  tu_InputTokens :: int
  tu_OutputTokens :: int
  tu_TotalTokens :: int

record turn_result =
  tn_Status :: turn_status
  tn_TurnID :: string
  tn_Usage :: token_usage

record session_config =
  sg_Command :: string
  sg_WorkspaceRoot :: string
  sg_ApprovalPolicy :: gval
  sg_ThreadSandbox :: string
  sg_TurnSandboxPolicy :: "json option"
  sg_DynamicTools :: "tool_spec list"
  sg_ReadTimeout :: gduration
  sg_TurnTimeout :: gduration

record session_env =
  se_decode :: "string \<Rightarrow> json option"
  se_sprint :: "gval \<Rightarrow> string"
  se_read :: "nat \<Rightarrow> read_result"
  se_write :: "json list \<Rightarrow> json \<Rightarrow> string option"
  se_tool :: "tool_call list \<Rightarrow> tool_call \<Rightarrow> tool_error + tool_result"
  se_cwd :: "string option"
  se_evalSymlinks :: "string \<Rightarrow> string + string"
  se_factory :: "string \<Rightarrow> string \<Rightarrow> string option"

text \<open>
  The session, with the reads made, the objects written, the tools called and the events emitted
  so far; locks are left out, since one turn runs at a time.
\<close>

record session =
  ss_cfg :: session_config
  ss_workspacePath :: string
  ss_nonInteractive :: bool
  ss_turnSandboxPolicy :: "json option"
  ss_threadID :: string
  ss_closed :: bool
  ss_reads :: nat
  ss_writes :: "json list"
  ss_tools :: "tool_call list"
  ss_events :: "codex_event list"

definition initializeID :: int where "initializeID = 1"
definition threadStartID :: int where "threadStartID = 2"
definition turnStartID :: int where "turnStartID = 3"

definition NonInteractiveInputAnswer :: string where
  "NonInteractiveInputAnswer = ''This is a non-interactive session. Operator input is unavailable.''"

subsection \<open>Reading values\<close>

definition trunc_rat :: "rat \<Rightarrow> int" where
  "trunc_rat r = (if 0 \<le> r then \<lfloor>r\<rfloor> else \<lceil>r\<rceil>)"

definition go_sprint :: "session_env \<Rightarrow> gval \<Rightarrow> string" where
  "go_sprint env v = (case v of VNil \<Rightarrow> ''<nil>'' | VBool b \<Rightarrow> (if b then ''true'' else ''false'')
     | VInt i \<Rightarrow> Itoa i | VNumber s \<Rightarrow> s | VStr s \<Rightarrow> s | _ \<Rightarrow> se_sprint env v)"

definition codex_stringValue :: "session_env \<Rightarrow> gval \<Rightarrow> string" where
  "codex_stringValue env v = (case v of VNil \<Rightarrow> [] | VStr s \<Rightarrow> s | _ \<Rightarrow> go_sprint env v)"

definition idString :: "session_env \<Rightarrow> gval \<Rightarrow> string" where
  "idString env v = (case v of VStr s \<Rightarrow> s | VInt i \<Rightarrow> Itoa i | VFloat r \<Rightarrow> Itoa (trunc_rat r)
     | VNumber s \<Rightarrow> s | _ \<Rightarrow> go_sprint env v)"

definition sameID :: "session_env \<Rightarrow> gval \<Rightarrow> gval \<Rightarrow> bool" where
  "sameID env got want \<longleftrightarrow> idString env got = idString env want"

definition intValue :: "gval \<Rightarrow> int" where
  "intValue v = (case v of VInt i \<Rightarrow> i | VFloat r \<Rightarrow> trunc_rat r
     | VNumber s \<Rightarrow> (case Atoi s of Some i \<Rightarrow> i | None \<Rightarrow> 0) | _ \<Rightarrow> 0)"

fun codex_walk :: "gval \<Rightarrow> string list \<Rightarrow> gval option" where
  "codex_walk v [] = Some v"
| "codex_walk v (k # ks) = (case as_map v of None \<Rightarrow> None | Some m \<Rightarrow> codex_walk (vget m k) ks)"

definition codex_nestedString :: "session_env \<Rightarrow> json \<Rightarrow> string list \<Rightarrow> string" where
  "codex_nestedString env payload keys = (case codex_walk (VMap payload) keys of
     None \<Rightarrow> [] | Some v \<Rightarrow> codex_stringValue env v)"

fun firstPresent :: "json \<Rightarrow> string list \<Rightarrow> gval" where
  "firstPresent m [] = VNil"
| "firstPresent m (k # ks) = (case map_of m k of Some v \<Rightarrow> v | None \<Rightarrow> firstPresent m ks)"

definition usageFromPayload :: "json \<Rightarrow> token_usage" where
  "usageFromPayload payload =
    (let usage = map_or_nil (vget (map_or_nil (vget payload ''params'')) ''usage'') in
     \<lparr>tu_InputTokens = intValue (firstPresent usage [''input_tokens'', ''inputTokens'']),
      tu_OutputTokens = intValue (firstPresent usage [''output_tokens'', ''outputTokens'']),
      tu_TotalTokens = intValue (firstPresent usage [''total_tokens'', ''totalTokens''])\<rparr>)"

definition isNeverApprovalPolicy :: "gval \<Rightarrow> bool" where
  "isNeverApprovalPolicy v = (case v of VStr s \<Rightarrow> ToLower (TrimSpace s) = ''never'' | _ \<Rightarrow> False)"

definition approvalDecision :: "string \<Rightarrow> string" where
  "approvalDecision meth =
    (if meth = ''item/commandExecution/requestApproval'' \<or> meth = ''item/fileChange/requestApproval''
     then ''acceptForSession''
     else if meth = ''execCommandApproval'' \<or> meth = ''applyPatchApproval'' then ''approved_for_session''
     else [])"

definition payloadQuestions :: "json \<Rightarrow> json list" where
  "payloadQuestions payload = (case as_list (vget (map_or_nil (vget payload ''params'')) ''questions'') of
     None \<Rightarrow> [] | Some raws \<Rightarrow> List.map_filter as_map raws)"

fun option_label :: "session_env \<Rightarrow> string \<Rightarrow> gval list \<Rightarrow> string" where
  "option_label env fallback [] = fallback"
| "option_label env fallback (raw # raws) =
    (let label = codex_stringValue env (vget (map_or_nil raw) ''label'');
         normalized = ToLower (TrimSpace label) in
     if label = ''Approve this Session'' \<or> label = ''Approve Once'' then label
     else option_label env (if fallback = [] \<and> (HasPrefix normalized ''approve'' \<or> HasPrefix normalized ''allow'')
       then label else fallback) raws)"

definition approvalOptionLabel :: "session_env \<Rightarrow> json \<Rightarrow> string" where
  "approvalOptionLabel env question = (case as_list (vget question ''options'') of
     None \<Rightarrow> [] | Some raws \<Rightarrow> option_label env [] raws)"

text \<open>The loop that both ways of answering share: one answer per question, none if one has no ID or no label.\<close>

fun build_answers :: "session_env \<Rightarrow> (json \<Rightarrow> string) \<Rightarrow> json list \<Rightarrow> json \<Rightarrow> json option" where
  "build_answers env label [] answers = Some answers"
| "build_answers env label (q # qs) answers =
    (let key = codex_stringValue env (vget q ''id'') in
     if key = [] \<or> label q = [] then None
     else build_answers env label qs (mput key (VMap [(''answers'', VList [VStr (label q)])]) answers))"

definition approvalAnswers :: "session_env \<Rightarrow> json \<Rightarrow> json option" where
  "approvalAnswers env payload = (let questions = payloadQuestions payload in
     if questions = [] then None else build_answers env (approvalOptionLabel env) questions [])"

definition unavailableAnswers :: "session_env \<Rightarrow> json \<Rightarrow> json option" where
  "unavailableAnswers env payload = (let questions = payloadQuestions payload in
     if questions = [] then None else build_answers env (\<lambda>q. NonInteractiveInputAnswer) questions [])"

definition toolCallName :: "session_env \<Rightarrow> json \<Rightarrow> string" where
  "toolCallName env payload =
    (let params = map_or_nil (vget payload ''params'');
         byName = (\<lambda>k. codex_stringValue env (vget params k)) in
     if byName ''tool'' \<noteq> [] then byName ''tool''
     else if byName ''name'' \<noteq> [] then byName ''name''
     else if byName ''toolName'' \<noteq> [] then byName ''toolName''
     else case as_map (vget params ''tool'') of
       Some tool \<Rightarrow> codex_stringValue env (firstPresent tool [''name'', ''toolName''])
     | None \<Rightarrow> [])"

text \<open>A clone of a map is the map.\<close>

definition toolCallArguments :: "json \<Rightarrow> gval" where
  "toolCallArguments payload =
    (let params = map_or_nil (vget payload ''params'') in
     case vget params ''arguments'' of VMap m \<Rightarrow> VMap m | VStr s \<Rightarrow> VStr s
     | _ \<Rightarrow> (case vget params ''args'' of VMap m \<Rightarrow> VMap m | VStr s \<Rightarrow> VStr s | _ \<Rightarrow> VMap []))"

text \<open>What \<open>json.Marshal\<close> makes of the two structs; empty fields are omitted.\<close>

definition tool_spec_json :: "tool_spec \<Rightarrow> gval" where
  "tool_spec_json t = VMap ([(''name'', VStr (ts_Name t))]
     @ (if ts_Description t = [] then [] else [(''description'', VStr (ts_Description t))])
     @ (if ts_InputSchema t = [] then [] else [(''inputSchema'', VMap (ts_InputSchema t))])
     @ (if ts_Parameters t = [] then [] else [(''parameters'', VMap (ts_Parameters t))]))"

definition content_item_json :: "string \<times> string \<Rightarrow> gval" where
  "content_item_json c = VMap ((''type'', VStr (fst c)) # (if snd c = [] then [] else [(''text'', VStr (snd c))]))"

definition tool_result_json :: "tool_result \<Rightarrow> gval" where
  "tool_result_json r = VMap ([(''success'', VBool (tr_Success r))]
     @ (if tr_ContentItems r = [] then [] else [(''contentItems'', VList (map content_item_json (tr_ContentItems r)))])
     @ (if tr_Result r = VNil then [] else [(''result'', tr_Result r)])
     @ (if tr_Error r = [] then [] else [(''error'', VStr (tr_Error r))]))"

subsection \<open>Transport\<close>

definition session_write :: "session_env \<Rightarrow> json \<Rightarrow> session \<Rightarrow> codex_error option \<times> session" where
  "session_write env payload s =
    (map_option ErrTransport (se_write env (ss_writes s) payload), s\<lparr>ss_writes := ss_writes s @ [payload]\<rparr>)"

definition session_emit :: "codex_event \<Rightarrow> session \<Rightarrow> session" where
  "session_emit ev s = s\<lparr>ss_events := ss_events s @ [ev]\<rparr>"

definition session_event :: "codex_event_kind \<Rightarrow> string \<Rightarrow> string \<Rightarrow> string \<Rightarrow> json option \<Rightarrow> session \<Rightarrow> session" where
  "session_event kind meth raw turnID payload s = session_emit
    \<lparr>xe_Kind = kind, xe_Method = meth, xe_Raw = raw, xe_SessionID = [], xe_ThreadID = ss_threadID s,
     xe_TurnID = turnID, xe_Message = [], xe_Payload = payload\<rparr> s"

text \<open>A context error of the parent wins over the timeout of the scoped context.\<close>

definition read_error :: "codex_error \<Rightarrow> read_result \<Rightarrow> codex_error" where
  "read_error timeoutErr res = (case res of
     ReadDone err parentErr scopedExpired \<Rightarrow>
       (case parentErr of Some p \<Rightarrow> ErrContext p | None \<Rightarrow> if scopedExpired then timeoutErr else ErrContext err)
   | ReadFailed err \<Rightarrow> ErrTransport err
   | ReadLine l \<Rightarrow> ErrTransport l)"

subsection \<open>Waiting for a response\<close>

definition response_message :: "session_env \<Rightarrow> gval \<Rightarrow> string" where
  "response_message env err = (case as_map err of
     None \<Rightarrow> go_sprint env err
   | Some m \<Rightarrow> (let msg = codex_stringValue env (vget m ''message''); code = codex_stringValue env (vget m ''code'') in
       if msg = [] then go_sprint env err
       else if code \<noteq> [] then ''['' @ code @ ''] '' @ msg else msg))"

text \<open>One round of the loop; \<open>None\<close> goes on.\<close>

definition await_step :: "session_env \<Rightarrow> int \<Rightarrow> session \<Rightarrow> (codex_error + json) option \<times> session" where
  "await_step env rid s =
    (let res = se_read env (ss_reads s); s1 = s\<lparr>ss_reads := Suc (ss_reads s)\<rparr> in
     case res of
       ReadLine line \<Rightarrow>
        (case se_decode env line of
           None \<Rightarrow> (None, session_event EventMalformedMessage [] line [] None s1)
         | Some payload \<Rightarrow>
            if \<not> sameID env (vget payload ''id'') (VInt rid)
            then (None, session_event EventUnknownMessage (codex_stringValue env (vget payload ''method'')) line []
                    (Some payload) s1)
            else (case map_of payload ''error'' of
                Some err \<Rightarrow> (Some (Inl (ErrProtocol ''response_error'' (response_message env err) payload)), s1)
              | None \<Rightarrow> (case as_map (vget payload ''result'') of
                    None \<Rightarrow> (Some (Inl (ErrProtocol ''response_error'' [] payload)), s1)
                  | Some result \<Rightarrow> (Some (Inr result), s1))))
     | _ \<Rightarrow> (Some (Inl (read_error ErrReadTimeout res)), s1))"

partial_function (option) awaitResponse ::
  "session_env \<Rightarrow> int \<Rightarrow> session \<Rightarrow> ((codex_error + json) \<times> session) option" where
  "awaitResponse env rid s = (case await_step env rid s of
     (Some res, s1) \<Rightarrow> Some (res, s1)
   | (None, s1) \<Rightarrow> awaitResponse env rid s1)"

declare awaitResponse.simps [code]

subsection \<open>Requests of the server during a turn\<close>

definition handleApproval :: "session_env \<Rightarrow> json \<Rightarrow> string \<Rightarrow> string \<Rightarrow> session \<Rightarrow> codex_error option \<times> session" where
  "handleApproval env payload raw turnID s =
    (let meth = codex_stringValue env (vget payload ''method''); decision = approvalDecision meth in
     if \<not> isNeverApprovalPolicy (sg_ApprovalPolicy (ss_cfg s)) then (Some ErrApprovalRequired, s)
     else if decision = [] then (Some ErrApprovalRequired, s)
     else case session_write env [(''id'', vget payload ''id''), (''result'', VMap [(''decision'', VStr decision)])] s of
       (Some e, s1) \<Rightarrow> (Some e, s1)
     | (None, s1) \<Rightarrow> (None, session_event EventApprovalAnswered meth raw turnID (Some payload) s1))"

definition handleUserInput :: "session_env \<Rightarrow> json \<Rightarrow> string \<Rightarrow> string \<Rightarrow> session \<Rightarrow> codex_error option \<times> session" where
  "handleUserInput env payload raw turnID s =
    (if \<not> ss_nonInteractive s then (Some ErrApprovalRequired, s)
     else case (case approvalAnswers env payload of Some a \<Rightarrow> Some a | None \<Rightarrow> unavailableAnswers env payload) of
       None \<Rightarrow> (Some ErrApprovalRequired, s)
     | Some answers \<Rightarrow>
        (case session_write env [(''id'', vget payload ''id''), (''result'', VMap [(''answers'', VMap answers)])] s of
           (Some e, s1) \<Rightarrow> (Some e, s1)
         | (None, s1) \<Rightarrow> (None, session_event EventToolInputAnswered
             (codex_stringValue env (vget payload ''method'')) raw turnID (Some payload) s1)))"

definition call_tool :: "session_env \<Rightarrow> tool_call \<Rightarrow> session \<Rightarrow> (tool_error + tool_result) \<times> session" where
  "call_tool env call s = (if tc_Name call = [] then (Inl ToolUnsupported, s)
     else (se_tool env (ss_tools s) call, s\<lparr>ss_tools := ss_tools s @ [call]\<rparr>))"

definition failed_tool :: "string \<Rightarrow> tool_result" where
  "failed_tool err = \<lparr>tr_Success = False, tr_ContentItems = [], tr_Result = VNil, tr_Error = err\<rparr>"

definition handleToolCall :: "session_env \<Rightarrow> json \<Rightarrow> string \<Rightarrow> string \<Rightarrow> session \<Rightarrow> codex_error option \<times> session" where
  "handleToolCall env payload raw turnID s =
    (let call = \<lparr>tc_ID = idString env (vget payload ''id''), tc_Name = toolCallName env payload,
           tc_Arguments = toolCallArguments payload\<rparr>;
         (res, s1) = call_tool env call s;
         (result, kind) = (case res of
             Inl ToolUnsupported \<Rightarrow> (failed_tool ''unsupported_tool_call'', EventUnsupportedToolCall)
           | Inl (ToolFailed e) \<Rightarrow> (failed_tool e, EventToolCallFailed)
           | Inr r \<Rightarrow> (r, if \<not> tr_Success r then EventToolCallFailed else EventToolCallCompleted))
     in case session_write env [(''id'', vget payload ''id''), (''result'', tool_result_json result)] s1 of
          (Some e, s2) \<Rightarrow> (Some e, s2)
        | (None, s2) \<Rightarrow> (None, session_event kind (codex_stringValue env (vget payload ''method'')) raw turnID
            (Some payload) s2))"

subsection \<open>A turn\<close>

definition approval_methods :: "string list" where
  "approval_methods = [''item/commandExecution/requestApproval'', ''execCommandApproval'', ''applyPatchApproval'',
     ''item/fileChange/requestApproval'']"

definition no_usage :: token_usage where
  "no_usage = \<lparr>tu_InputTokens = 0, tu_OutputTokens = 0, tu_TotalTokens = 0\<rparr>"

definition turn_message ::
  "session_env \<Rightarrow> string \<Rightarrow> string \<Rightarrow> json \<Rightarrow> session \<Rightarrow> (codex_error + turn_result) option \<times> session" where
  "turn_message env turnID raw payload s =
    (let meth = codex_stringValue env (vget payload ''method'');
         ended = (\<lambda>kind status usage. (Some (Inr \<lparr>tn_Status = status, tn_TurnID = turnID, tn_Usage = usage\<rparr>),
           session_event kind meth raw turnID (Some payload) s));
         request = (\<lambda>out. case out of (Some e, s1) \<Rightarrow> (Some (Inl e), s1) | (None, s1) \<Rightarrow> (None, s1))
     in if meth = ''turn/completed'' then ended EventTurnCompleted TurnCompleted (usageFromPayload payload)
        else if meth = ''turn/failed'' then ended EventTurnFailed TurnFailed no_usage
        else if meth = ''turn/cancelled'' then ended EventTurnCancelled TurnCancelled no_usage
        else if meth \<in> set approval_methods then request (handleApproval env payload raw turnID s)
        else if meth = ''item/tool/requestUserInput'' then request (handleUserInput env payload raw turnID s)
        else if meth = ''item/tool/call'' then request (handleToolCall env payload raw turnID s)
        else (None, session_event EventUnknownMessage meth raw turnID (Some payload) s))"

definition turn_step :: "session_env \<Rightarrow> string \<Rightarrow> session \<Rightarrow> (codex_error + turn_result) option \<times> session" where
  "turn_step env turnID s =
    (let res = se_read env (ss_reads s); s1 = s\<lparr>ss_reads := Suc (ss_reads s)\<rparr> in
     case res of
       ReadLine line \<Rightarrow>
        (case se_decode env line of
           None \<Rightarrow> (None, session_event EventMalformedMessage [] line turnID None s1)
         | Some payload \<Rightarrow> turn_message env turnID line payload s1)
     | _ \<Rightarrow> (Some (Inl (read_error ErrTurnTimeout res)), s1))"

partial_function (option) turn_loop ::
  "session_env \<Rightarrow> string \<Rightarrow> session \<Rightarrow> ((codex_error + turn_result) \<times> session) option" where
  "turn_loop env turnID s = (case turn_step env turnID s of
     (Some res, s1) \<Rightarrow> Some (res, s1)
   | (None, s1) \<Rightarrow> turn_loop env turnID s1)"

declare turn_loop.simps [code]

definition turn_start_request :: "session \<Rightarrow> string \<Rightarrow> string \<Rightarrow> json" where
  "turn_start_request s prompt title =
    [(''method'', VStr ''turn/start''), (''id'', VInt turnStartID), (''params'', VMap
      ([(''threadId'', VStr (ss_threadID s)),
        (''input'', VList [VMap [(''type'', VStr ''text''), (''text'', VStr prompt)]]),
        (''cwd'', VStr (ss_workspacePath s)), (''title'', VStr title),
        (''approvalPolicy'', sg_ApprovalPolicy (ss_cfg s))]
       @ (case ss_turnSandboxPolicy s of None \<Rightarrow> []
          | Some p \<Rightarrow> if p = [] then [] else [(''sandboxPolicy'', VMap p)])))]"

definition RunTurn ::
  "session_env \<Rightarrow> string \<Rightarrow> string \<Rightarrow> session \<Rightarrow> ((codex_error + turn_result) \<times> session) option" where
  "RunTurn env prompt title s =
    (if ss_closed s then Some (Inl ErrSessionClosed, s)
     else case session_write env (turn_start_request s prompt title) s of
       (Some e, s1) \<Rightarrow> Some (Inl e, s1)
     | (None, s1) \<Rightarrow> (case awaitResponse env turnStartID s1 of
         None \<Rightarrow> None
       | Some (Inl e, s2) \<Rightarrow> Some (Inl e, s2)
       | Some (Inr result, s2) \<Rightarrow>
           (let turnID = codex_nestedString env result [''turn'', ''id''] in
            if turnID = [] then Some (Inl (ErrProtocol ''invalid_turn_payload'' [] result), s2)
            else turn_loop env turnID s2)))"

subsection \<open>Starting and closing a session\<close>

definition initialize_request :: json where
  "initialize_request = [(''method'', VStr ''initialize''), (''id'', VInt initializeID), (''params'', VMap
     [(''capabilities'', VMap [(''experimentalApi'', VBool True)]),
      (''clientInfo'', VMap [(''name'', VStr ''symphony-orchestrator''), (''title'', VStr ''Symphony Orchestrator''),
        (''version'', VStr ''0.1.0'')])])]"

definition initialized_note :: json where
  "initialized_note = [(''method'', VStr ''initialized''), (''params'', VMap [])]"

definition thread_start_request :: "session \<Rightarrow> json" where
  "thread_start_request s = [(''method'', VStr ''thread/start''), (''id'', VInt threadStartID), (''params'', VMap
     [(''approvalPolicy'', sg_ApprovalPolicy (ss_cfg s)), (''sandbox'', VStr (sg_ThreadSandbox (ss_cfg s))),
      (''cwd'', VStr (ss_workspacePath s)),
      (''dynamicTools'', VList (map tool_spec_json (sg_DynamicTools (ss_cfg s))))])]"

text \<open>Write a request, then wait for its response.\<close>

definition request_response ::
  "session_env \<Rightarrow> json \<Rightarrow> int \<Rightarrow> session \<Rightarrow> ((codex_error + json) \<times> session) option" where
  "request_response env req rid s = (case session_write env req s of
     (Some e, s1) \<Rightarrow> Some (Inl e, s1)
   | (None, s1) \<Rightarrow> awaitResponse env rid s1)"

definition bootstrap :: "session_env \<Rightarrow> session \<Rightarrow> (codex_error option \<times> session) option" where
  "bootstrap env s = (case request_response env initialize_request initializeID s of
     None \<Rightarrow> None
   | Some (Inl e, s1) \<Rightarrow> Some (Some e, s1)
   | Some (Inr _, s1) \<Rightarrow> (case session_write env initialized_note s1 of
       (Some e, s2) \<Rightarrow> Some (Some e, s2)
     | (None, s2) \<Rightarrow> (case request_response env (thread_start_request s2) threadStartID s2 of
         None \<Rightarrow> None
       | Some (Inl e, s3) \<Rightarrow> Some (Some e, s3)
       | Some (Inr result, s3) \<Rightarrow>
           (let threadID = codex_nestedString env result [''thread'', ''id''] in
            if threadID = [] then Some (Some (ErrProtocol ''invalid_thread_payload'' [] result), s3)
            else let s4 = s3\<lparr>ss_threadID := threadID\<rparr> in
              Some (None, session_event EventSessionStarted [] [] [] None s4)))))"

definition normalizeConfig :: "session_config \<Rightarrow> session_config" where
  "normalizeConfig cfg =
    (let cfg = (if sg_ReadTimeout cfg \<le> 0 then cfg\<lparr>sg_ReadTimeout := 30 * second\<rparr> else cfg);
         cfg = (if sg_TurnTimeout cfg \<le> 0 then cfg\<lparr>sg_TurnTimeout := 3600 * second\<rparr> else cfg)
     in cfg\<lparr>sg_WorkspaceRoot := TrimSpace (sg_WorkspaceRoot cfg), sg_Command := TrimSpace (sg_Command cfg)\<rparr>)"

definition pathWithin :: "string \<Rightarrow> string \<Rightarrow> bool" where
  "pathWithin dir path = (case path_Rel dir path of None \<Rightarrow> False
     | Some rel \<Rightarrow> rel \<noteq> ''.'' \<and> rel \<noteq> dotdot \<and> \<not> HasPrefix rel (dotdot @ [slash]) \<and> \<not> IsAbs rel)"

definition validateWorkspacePath :: "session_env \<Rightarrow> string \<Rightarrow> string \<Rightarrow> codex_error + string" where
  "validateWorkspacePath env dir path =
    (let unreadable = (\<lambda>p d e. Inl (ErrWorkspacePath ''workspace_path_unreadable'' p d e)) in
     if TrimSpace dir = [] \<or> TrimSpace path = [] then unreadable path dir None
     else case path_Abs (se_cwd env) dir of
       None \<Rightarrow> unreadable dir dir (Some ''getwd'')
     | Some rootAbs \<Rightarrow> (case path_Abs (se_cwd env) path of
         None \<Rightarrow> unreadable path dir (Some ''getwd'')
       | Some workspaceAbs \<Rightarrow> (case se_evalSymlinks env rootAbs of
           Inl e \<Rightarrow> unreadable rootAbs rootAbs (Some e)
         | Inr rootReal0 \<Rightarrow> (case se_evalSymlinks env workspaceAbs of
             Inl e \<Rightarrow> unreadable workspaceAbs rootReal0 (Some e)
           | Inr workspaceReal0 \<Rightarrow>
               (let rootReal = Clean rootReal0; workspaceReal = Clean workspaceReal0 in
                if workspaceReal = rootReal
                then Inl (ErrWorkspacePath ''workspace_equals_root'' workspaceReal rootReal None)
                else if \<not> pathWithin rootReal workspaceReal
                then Inl (ErrWorkspacePath (if pathWithin (Clean rootAbs) (Clean workspaceAbs)
                       then ''workspace_symlink_escape'' else ''workspace_outside_root'') workspaceReal rootReal None)
                else Inr workspaceReal)))))"

definition ConfigFromSettings :: "settings \<Rightarrow> session_config" where
  "ConfigFromSettings cfg =
    \<lparr>sg_Command = cx_Command (st_Codex cfg), sg_WorkspaceRoot = wo_Root (st_Workspace cfg),
     sg_ApprovalPolicy = cx_ApprovalPolicy (st_Codex cfg), sg_ThreadSandbox = cx_ThreadSandbox (st_Codex cfg),
     sg_TurnSandboxPolicy = cx_TurnSandboxPolicy (st_Codex cfg), sg_DynamicTools = [],
     sg_ReadTimeout = millis (cx_ReadTimeoutMS (st_Codex cfg)),
     sg_TurnTimeout = millis (cx_TurnTimeoutMS (st_Codex cfg))\<rparr>"

definition new_session :: "session_config \<Rightarrow> string \<Rightarrow> json option \<Rightarrow> bool \<Rightarrow> session" where
  "new_session cfg path sandbox nonInteractive =
    \<lparr>ss_cfg = cfg, ss_workspacePath = path, ss_nonInteractive = nonInteractive,
     ss_turnSandboxPolicy = (case sandbox of Some p \<Rightarrow> Some p | None \<Rightarrow> sg_TurnSandboxPolicy cfg),
     ss_threadID = [], ss_closed = False, ss_reads = 0, ss_writes = [], ss_tools = [], ss_events = []\<rparr>"

text \<open>
  A started session, or the error with the events already emitted; a session whose bootstrap fails
  is closed again.
\<close>

definition StartSession ::
  "session_env \<Rightarrow> session_config \<Rightarrow> string \<Rightarrow> json option \<Rightarrow> bool \<Rightarrow>
     (codex_error \<times> codex_event list + session) option" where
  "StartSession env cfg0 workspacePath sandbox nonInteractive =
    (let cfg = normalizeConfig cfg0 in
     case validateWorkspacePath env (sg_WorkspaceRoot cfg) workspacePath of
       Inl e \<Rightarrow> Some (Inl (e, []))
     | Inr path \<Rightarrow> (case se_factory env (sg_Command cfg) path of
         Some e \<Rightarrow> Some (Inl (ErrTransport e, []))
       | None \<Rightarrow> (case bootstrap env (new_session cfg path sandbox nonInteractive) of
           None \<Rightarrow> None
         | Some (Some e, s) \<Rightarrow> Some (Inl (e, ss_events s))
         | Some (None, s) \<Rightarrow> Some (Inr s))))"

text \<open>\<open>Error()\<close> of the errors.\<close>

definition codex_error_message :: "codex_error \<Rightarrow> string" where
  "codex_error_message e = (case e of
     ErrReadTimeout \<Rightarrow> ''codex read timeout''
   | ErrTurnTimeout \<Rightarrow> ''codex turn timeout''
   | ErrApprovalRequired \<Rightarrow> ''codex approval required''
   | ErrContext m \<Rightarrow> m
   | ErrTransport m \<Rightarrow> m
   | ErrSessionClosed \<Rightarrow> ''codex session is closed''
   | ErrProtocol kind msg payload \<Rightarrow> (if msg \<noteq> [] then kind @ '': '' @ msg else kind)
   | ErrWorkspacePath kind path dir err \<Rightarrow> Join ([kind] @ (if path \<noteq> [] then [''path='' @ path] else [])
       @ (if dir \<noteq> [] then [''root='' @ dir] else []) @ (case err of Some m \<Rightarrow> [m] | None \<Rightarrow> [])) '' '')"

definition session_Close :: "session \<Rightarrow> session" where
  "session_Close s = s\<lparr>ss_closed := True\<rparr>"

definition sanitizeCommand :: "string \<Rightarrow> string" where
  "sanitizeCommand command = (let fields = Fields command in
     if length fields \<le> 3 then Join fields '' '' else Join (take 3 fields) '' '' @ '' ...'')"

end
