(* ===== verification/Observability.thy ===== *)
theory Observability
  imports Domain Codex_Session
begin

text \<open>
  \<open>internal/observability/dashboard.go\<close>: how Codex events are summarised in one line, and the
  projection of a snapshot of the orchestrator onto the rows of the dashboards. \<open>Projector\<close> is the
  only state: the token samples of the last five seconds and the throughput value of the last
  second. Floating-point quotients are modelled by the exact rational ones.
\<close>

subsection \<open>Reading payloads\<close>

text \<open>A nil payload reads like an empty map.\<close>

fun any_at :: "gval \<Rightarrow> string list \<Rightarrow> gval" where
  "any_at v [] = v"
| "any_at v (k # ks) = (case as_map v of None \<Rightarrow> VNil | Some m \<Rightarrow> any_at (vget m k) ks)"

definition anyAt :: "json \<Rightarrow> string list \<Rightarrow> gval" where
  "anyAt m path = any_at (VMap m) path"

definition stringAt :: "json \<Rightarrow> string list \<Rightarrow> string" where
  "stringAt m path = (case anyAt m path of VStr s \<Rightarrow> s | _ \<Rightarrow> [])"

definition asInt :: "gval \<Rightarrow> int option" where
  "asInt v = (case v of VInt i \<Rightarrow> Some i | VFloat r \<Rightarrow> Some (trunc_rat r) | _ \<Rightarrow> None)"

definition intAt :: "json \<Rightarrow> string list \<Rightarrow> int option" where
  "intAt m path = asInt (anyAt m path)"

fun intFromKeys :: "json \<Rightarrow> string list \<Rightarrow> int option" where
  "intFromKeys m [] = None"
| "intFromKeys m (k # ks) = (case asInt (vget m k) of Some i \<Rightarrow> Some i | None \<Rightarrow> intFromKeys m ks)"

fun firstMapAt :: "json \<Rightarrow> string list list \<Rightarrow> json option" where
  "firstMapAt m [] = None"
| "firstMapAt m (p # ps) = (case as_map (anyAt m p) of Some v \<Rightarrow> Some v | None \<Rightarrow> firstMapAt m ps)"

fun obs_firstNonEmpty :: "string list \<Rightarrow> string" where
  "obs_firstNonEmpty [] = []"
| "obs_firstNonEmpty (v # vs) = (if TrimSpace v \<noteq> [] then v else obs_firstNonEmpty vs)"

subsection \<open>One-line texts\<close>

text \<open>
  \<open>strings.NewReplacer\<close> tries its patterns in the order given at every position; here every
  replacement is one blank. The first three patterns are the escape sequences as text, with a backslash.
\<close>

definition backslash :: char where
  "backslash = CHR 0x5C"

definition line_breaks :: "string list" where
  "line_breaks = [[backslash, CHR ''r'', backslash, CHR ''n''], [backslash, CHR ''r''], [backslash, CHR ''n''],
     [CHR 0x0D, CHR 0x0A], [CHR 0x0D], [CHR 0x0A]]"

fun replace_breaks :: "nat \<Rightarrow> string \<Rightarrow> string" where
  "replace_breaks k [] = []"
| "replace_breaks (Suc k) (c # s) = replace_breaks k s"
| "replace_breaks 0 (c # s) = (case find (HasPrefix (c # s)) line_breaks of
     Some p \<Rightarrow> CHR '' '' # replace_breaks (length p - 1) s
   | None \<Rightarrow> c # replace_breaks 0 s)"

definition sanitizeInline :: "string \<Rightarrow> string" where
  "sanitizeInline value = Join (Fields (replace_breaks 0 value)) '' ''"

definition obs_truncate :: "string \<Rightarrow> nat \<Rightarrow> string" where
  "obs_truncate value maxLen =
    (if maxLen = 0 \<or> length value \<le> maxLen then value
     else if maxLen \<le> 3 then take maxLen value
     else take (maxLen - 3) value @ ''...'')"

definition normalizeCommand :: "gval \<Rightarrow> string" where
  "normalizeCommand v = (case v of
     VStr s \<Rightarrow> obs_truncate (sanitizeInline s) 80
   | VList items \<Rightarrow> (if list_all (\<lambda>i. as_str i \<noteq> None) items
       then obs_truncate (sanitizeInline (Join (List.map_filter as_str items) '' '')) 80 else [])
   | _ \<Rightarrow> [])"

definition appendIfValue :: "string \<Rightarrow> string \<Rightarrow> string" where
  "appendIfValue base sfx = (if Contains base sfx then base else base @ '' ('' @ sfx @ '')'')"

text \<open>A nil map and a map without any of the keys both give the empty text.\<close>

definition formatUsage :: "json option \<Rightarrow> string" where
  "formatUsage usage = (case usage of None \<Rightarrow> []
   | Some u \<Rightarrow> Join
      ((case intFromKeys u [''input_tokens'', ''inputTokens'', ''prompt_tokens'', ''promptTokens''] of
          Some i \<Rightarrow> [''in '' @ Itoa i] | None \<Rightarrow> [])
       @ (case intFromKeys u [''output_tokens'', ''outputTokens'', ''completion_tokens'', ''completionTokens''] of
          Some i \<Rightarrow> [''out '' @ Itoa i] | None \<Rightarrow> [])
       @ (case intFromKeys u [''total_tokens'', ''totalTokens'', ''total''] of
          Some i \<Rightarrow> [''total '' @ Itoa i] | None \<Rightarrow> [])) '', '')"

definition itemLifecycle :: "string \<Rightarrow> json \<Rightarrow> string" where
  "itemLifecycle state payload =
    (let itemType = obs_firstNonEmpty [stringAt payload [''params'', ''item'', ''type''], ''item''] in
     ''item '' @ state @ '': '' @ TrimSpace (ToLower (ReplaceAll itemType ''_'' '' '')))"

fun first_text :: "json \<Rightarrow> string list list \<Rightarrow> string" where
  "first_text payload [] = []"
| "first_text payload (p # ps) =
     (if stringAt payload p \<noteq> [] then stringAt payload p else first_text payload ps)"

definition streaming :: "string \<Rightarrow> json \<Rightarrow> string" where
  "streaming label payload =
    (let text = first_text payload [[''params'', ''delta''], [''params'', ''msg'', ''delta''],
        [''params'', ''msg'', ''payload'', ''delta''], [''params'', ''msg'', ''payload'', ''text''],
        [''params'', ''msg'', ''payload'', ''content'']] in
     if text \<noteq> [] then label @ '': '' @ obs_truncate (sanitizeInline text) 80 else label)"

definition humanizeWrapper :: "string \<Rightarrow> json \<Rightarrow> string" where
  "humanizeWrapper name payload =
    (if name = ''exec_command_begin'' then
       (let command = obs_firstNonEmpty [normalizeCommand (anyAt payload [''params'', ''msg'', ''command'']),
              normalizeCommand (anyAt payload [''params'', ''msg'', ''parsed_cmd''])] in
        if command \<noteq> [] then command else ''command started'')
     else if name = ''exec_command_end'' then
       (case intAt payload [''params'', ''msg'', ''exit_code''] of
          Some code \<Rightarrow> ''command completed (exit '' @ Itoa code @ '')''
        | None \<Rightarrow> ''command completed'')
     else if name = ''agent_message_delta'' then streaming ''agent message streaming'' payload
     else if name = ''agent_reasoning'' then streaming ''reasoning update'' payload
     else if name = ''agent_reasoning_delta'' then streaming ''reasoning streaming'' payload
     else if name = ''token_count'' then
       (let usage = formatUsage (firstMapAt payload
              [[''params'', ''msg'', ''payload'', ''info'', ''total_token_usage''], [''params'', ''tokenUsage'', ''total'']]) in
        if usage \<noteq> [] then ''token count update ('' @ usage @ '')'' else ''token count update'')
     else if name = ''task_started'' then ''task started''
     else if name = ''mcp_startup_complete'' then ''mcp startup complete''
     else ReplaceAll name ''_'' '' '')"

definition humanizeMethod :: "string \<Rightarrow> json \<Rightarrow> string" where
  "humanizeMethod meth payload =
    (if meth = ''turn/started'' then
       (let key = stringAt payload [''params'', ''turn'', ''id''] in
        if key \<noteq> [] then ''turn started ('' @ key @ '')'' else ''turn started'')
     else if meth = ''turn/completed'' then
       (let status = obs_firstNonEmpty [stringAt payload [''params'', ''turn'', ''status''], ''completed''];
            base = ''turn completed ('' @ status @ '')'';
            usage = formatUsage (firstMapAt payload [[''params'', ''usage''], [''params'', ''tokenUsage'']]) in
        if usage \<noteq> [] then base @ '' ('' @ usage @ '')'' else base)
     else if meth = ''turn/failed'' then
       (let msg = stringAt payload [''params'', ''error'', ''message''] in
        if msg \<noteq> [] then ''turn failed: '' @ msg else ''turn failed'')
     else if meth = ''turn/cancelled'' then ''turn cancelled''
     else if meth = ''turn/diff/updated'' then ''turn diff updated''
     else if meth = ''turn/plan/updated'' then ''plan updated''
     else if meth = ''thread/tokenUsage/updated'' then
       (let usage = formatUsage (firstMapAt payload [[''params'', ''tokenUsage'', ''total'']]) in
        if usage \<noteq> [] then ''thread token usage updated ('' @ usage @ '')'' else ''thread token usage updated'')
     else if meth = ''item/started'' then itemLifecycle ''started'' payload
     else if meth = ''item/completed'' then itemLifecycle ''completed'' payload
     else if meth = ''item/tool/requestUserInput'' \<or> meth = ''tool/requestUserInput'' then
       (let question = obs_firstNonEmpty [stringAt payload [''params'', ''question''], stringAt payload [''params'', ''prompt'']] in
        if question \<noteq> [] then ''tool requires user input: '' @ obs_truncate (sanitizeInline question) 80
        else ''tool requires user input'')
     else if meth = ''item/commandExecution/requestApproval'' then
       (let command = normalizeCommand (anyAt payload [''params'', ''command'']) in
        if command \<noteq> [] then ''command approval requested ('' @ command @ '')'' else ''command approval requested'')
     else if HasPrefix meth ''codex/event/'' then humanizeWrapper (TrimPrefix meth ''codex/event/'') payload
     else [])"

definition SummarizeCodexEvent :: "codex_event \<Rightarrow> string" where
  "SummarizeCodexEvent event =
    (let payload = case_option [] (\<lambda>p. p) (xe_Payload event);
         byMethod = (if xe_Method event \<noteq> []
           then obs_firstNonEmpty [humanizeMethod (xe_Method event) payload, xe_Method event]
           else obs_firstNonEmpty [xe_Message event, codex_kind_string (xe_Kind event)])
     in case xe_Kind event of
       EventSessionStarted \<Rightarrow>
         (let key = obs_firstNonEmpty [xe_SessionID event, xe_ThreadID event] in
          if key \<noteq> [] then ''session started ('' @ key @ '')'' else ''session started'')
     | EventMalformedMessage \<Rightarrow> ''malformed JSON event from codex''
     | EventTurnFailed \<Rightarrow> obs_firstNonEmpty [humanizeMethod ''turn/failed'' payload, ''turn failed'']
     | EventTurnCancelled \<Rightarrow> ''turn cancelled''
     | EventApprovalAnswered \<Rightarrow> appendIfValue
         (obs_firstNonEmpty [humanizeMethod (xe_Method event) payload, ''approval request auto-approved'']) ''auto-approved''
     | EventToolInputAnswered \<Rightarrow>
         obs_firstNonEmpty [humanizeMethod ''item/tool/requestUserInput'' payload, ''tool input auto-answered'']
     | _ \<Rightarrow> byMethod)"

subsection \<open>The projection\<close>

datatype dashboard_mode = DashboardModeNormal | DashboardModeOffline | DashboardModeUnavailable

record dashboard_context =
  dc_Now :: gtime
  dc_MaxAgents :: int
  dc_DashboardURL :: string
  dc_ProjectURL :: string

record dashboard_header =
  dh_AgentCount :: nat
  dh_MaxAgents :: int
  dh_ThroughputTPS :: int
  dh_RuntimeSeconds :: int
  dh_Tokens :: codex_totals
  dh_RateLimits :: "rate_limits option"
  dh_ProjectURL :: string
  dh_DashboardURL :: string
  dh_NextRefresh :: string

record running_row =
  nr_ID :: string
  nr_State :: string
  nr_PID :: string
  nr_RuntimeSeconds :: int
  nr_TurnCount :: int
  nr_TotalTokens :: int
  nr_SessionID :: string
  nr_Event :: string

record retry_row =
  tw_ID :: string
  tw_Attempt :: int
  tw_DueIn :: gduration
  tw_Error :: string

record dashboard_view =
  dv_Mode :: dashboard_mode
  dv_UnavailableReason :: string
  dv_Header :: dashboard_header
  dv_Running :: "running_row list"
  dv_Retrying :: "retry_row list"

record token_sample =
  sm_at :: gtime
  sm_tokens :: int

record projector =
  pj_samples :: "token_sample list"
  pj_lastTPSSecond :: int
  pj_lastTPSValue :: int
  pj_hasLastTPS :: bool

definition NewProjector :: projector where
  "NewProjector = \<lparr>pj_samples = [], pj_lastTPSSecond = 0, pj_lastTPSValue = 0, pj_hasLastTPS = False\<rparr>"

text \<open>\<open>Time.Sub\<close> saturates; \<open>Time.Unix\<close> counts from 1970, 719162 days after the zero time.\<close>

definition time_Sub :: "gtime \<Rightarrow> gtime \<Rightarrow> gduration" where
  "time_Sub a b = max (- (2 ^ 63)) (min (2 ^ 63 - 1) (a - b))"

definition time_Unix :: "gtime \<Rightarrow> int" where
  "time_Unix t = t div second - 62135596800"

text \<open>What \<open>throughput\<close> returns when it computes a new value from the samples kept.\<close>

definition new_tps :: "gtime \<Rightarrow> int \<Rightarrow> token_sample list \<Rightarrow> int" where
  "new_tps now tokens kept =
    (if length kept < 2 then 0
     else let elapsed = time_Sub now (sm_at (hd kept)) in
       if 0 < elapsed
       then trunc_rat (of_int (max 0 (tokens - sm_tokens (hd kept))) / (of_int elapsed / of_int second))
       else 0)"

definition throughput :: "gtime \<Rightarrow> int \<Rightarrow> projector \<Rightarrow> int \<times> projector" where
  "throughput now tokens p =
    (let cutoff = now - 5 * second;
         kept = filter (\<lambda>s. \<not> sm_at s < cutoff) (pj_samples p @ [\<lparr>sm_at = now, sm_tokens = tokens\<rparr>]);
         p1 = p\<lparr>pj_samples := kept\<rparr>
     in if pj_hasLastTPS p \<and> pj_lastTPSSecond p = time_Unix now then (pj_lastTPSValue p, p1)
        else let v = new_tps now tokens kept in
          (v, p1\<lparr>pj_lastTPSSecond := time_Unix now, pj_lastTPSValue := v, pj_hasLastTPS := True\<rparr>))"

definition nextRefresh :: "polling_state \<Rightarrow> gtime \<Rightarrow> string" where
  "nextRefresh polling now =
    (if ps_Checking polling then ''checking now...''
     else case ps_NextPollAt polling of None \<Rightarrow> ''n/a''
     | Some at_ \<Rightarrow> (let due = time_Sub at_ now in
         if due \<le> 0 then ''checking now...''
         else Itoa (\<lceil>(of_int due / of_int second :: rat)\<rceil>) @ ''s''))"

definition running_row_of :: "gtime \<Rightarrow> active_run \<Rightarrow> running_row" where
  "running_row_of now entry =
    (let pid = TrimSpace (ar_WorkerHost entry);
         reported = ct_SecondsRunning (ar_CodexTotals entry)
     in \<lparr>nr_ID = obs_firstNonEmpty [ar_ItemIdentifier entry, ar_ItemID entry, ''unknown''],
         nr_State = obs_firstNonEmpty [ar_State entry, ''unknown''],
         nr_PID = (if pid = [] then ''n/a'' else pid),
         nr_RuntimeSeconds = (if reported \<le> 0 \<and> ar_StartedAt entry \<noteq> zero_time
           then max 0 (go_div (time_Sub now (ar_StartedAt entry)) second) else reported),
         nr_TurnCount = ar_TurnCount entry,
         nr_TotalTokens = ct_TotalTokens (ar_CodexTotals entry),
         nr_SessionID = ar_SessionID entry,
         nr_Event = obs_firstNonEmpty [ar_LastEventMessage entry, kind_string (ar_LastEventKind entry),
           ''no codex message yet'']\<rparr>)"

definition retry_row_of :: "gtime \<Rightarrow> retry_view \<Rightarrow> retry_row" where
  "retry_row_of now entry =
    \<lparr>tw_ID = obs_firstNonEmpty [rv_ItemIdentifier entry, rv_ItemID entry, ''unknown''],
     tw_Attempt = rv_Attempt entry,
     tw_DueIn = (let dueIn = time_Sub (rv_DueAt entry) now in if dueIn < 0 then 0 else dueIn),
     tw_Error = sanitizeInline (rv_LastError entry)\<rparr>"

definition retry_row_less :: "retry_row \<Rightarrow> retry_row \<Rightarrow> bool" where
  "retry_row_less a b = (if tw_DueIn a \<noteq> tw_DueIn b then tw_DueIn a < tw_DueIn b else tw_ID a < tw_ID b)"

text \<open>\<open>wall\<close> is the clock, read when the context names no time.\<close>

definition Project :: "snapshot \<Rightarrow> dashboard_context \<Rightarrow> gtime \<Rightarrow> projector \<Rightarrow> dashboard_view \<times> projector" where
  "Project sn ctx wall p =
    (let now = (if dc_Now ctx = zero_time then wall else dc_Now ctx);
         running = map (running_row_of now) (sn_Running sn);
         retrying = sort_by retry_row_less (map (retry_row_of now) (sn_Retrying sn));
         (tps, p1) = throughput now (ct_TotalTokens (sn_CodexTotals sn)) p
     in (\<lparr>dv_Mode = DashboardModeNormal, dv_UnavailableReason = [],
          dv_Header = \<lparr>dh_AgentCount = length running, dh_MaxAgents = dc_MaxAgents ctx, dh_ThroughputTPS = tps,
            dh_RuntimeSeconds = ct_SecondsRunning (sn_CodexTotals sn), dh_Tokens = sn_CodexTotals sn,
            dh_RateLimits = sn_RateLimits sn, dh_ProjectURL = dc_ProjectURL ctx,
            dh_DashboardURL = dc_DashboardURL ctx, dh_NextRefresh = nextRefresh (sn_Polling sn) now\<rparr>,
          dv_Running = running, dv_Retrying = retrying\<rparr>, p1))"

definition empty_header :: dashboard_header where
  "empty_header = \<lparr>dh_AgentCount = 0, dh_MaxAgents = 0, dh_ThroughputTPS = 0, dh_RuntimeSeconds = 0,
     dh_Tokens = zero_totals, dh_RateLimits = None, dh_ProjectURL = [], dh_DashboardURL = [], dh_NextRefresh = []\<rparr>"

definition Offline :: dashboard_view where
  "Offline = \<lparr>dv_Mode = DashboardModeOffline, dv_UnavailableReason = [], dv_Header = empty_header,
     dv_Running = [], dv_Retrying = []\<rparr>"

definition Unavailable :: "string \<Rightarrow> dashboard_view" where
  "Unavailable reason = Offline\<lparr>dv_Mode := DashboardModeUnavailable,
     dv_UnavailableReason := obs_firstNonEmpty [reason, ''Snapshot unavailable'']\<rparr>"

end
