(* ===== verification/Worker.thy ===== *)
theory Worker
  imports Workspace Observability Workflow_File Tracker
begin

text \<open>
  \<open>internal/cli/runtime.go\<close>, the worker of one run: it creates the workspace, runs the Codex turns
  inside the hooks, refreshes the work item after each turn, and emits the run events the scheduler
  acts on. The workspace controller is the interface \<open>WorkspaceController\<close> of the code
  (\<open>controller\<close>), with the manager of \<open>Workspace\<close> as its provider. What other goroutines do is an
  argument: \<open>we_cancelled\<close> says whether the run's context is cancelled when the hooks have returned,
  \<open>we_stopClosed\<close> whether \<open>stop\<close> has closed the session before a turn. \<open>None\<close> means that the
  worker never returns.
\<close>

subsection \<open>Prompts\<close>

definition stateIn :: "string \<Rightarrow> string list \<Rightarrow> bool" where
  "stateIn state states = list_ex (\<lambda>c. ToLower (TrimSpace c) = ToLower (TrimSpace state)) states"

definition renderIssueDescriptionConditional :: "string \<Rightarrow> string \<Rightarrow> string" where
  "renderIssueDescriptionConditional template description =
    (let ifMarker = ''{% if issue.description %}''; elseMarker = ''{% else %}''; endifMarker = ''{% endif %}'' in
     case Index template ifMarker of None \<Rightarrow> template
     | Some startIndex \<Rightarrow> (let thenStart = startIndex + length ifMarker in
         case Index (drop thenStart template) elseMarker of None \<Rightarrow> template
         | Some elseOffset \<Rightarrow> (let elseIndex = thenStart + elseOffset; elseStart = elseIndex + length elseMarker in
             case Index (drop elseStart template) endifMarker of None \<Rightarrow> template
             | Some endifOffset \<Rightarrow> (let endifIndex = elseStart + endifOffset;
                   endifEnd = endifIndex + length endifMarker;
                   selected = (if description = [] then take (endifIndex - elseStart) (drop elseStart template)
                     else take (elseIndex - thenStart) (drop thenStart template))
                 in take startIndex template @ selected @ drop endifEnd template))))"

definition replacements :: "work_item \<Rightarrow> (string, string) gomap" where
  "replacements item =
    [(''issue.id'', wi_ID item), (''issue.identifier'', wi_Identifier item), (''issue.title'', wi_Title item),
     (''issue.description'', wi_Description item), (''issue.state'', wi_State item), (''issue.url'', wi_URL item),
     (''issue.branch_name'', wi_BranchName item), (''issue.branchName'', wi_BranchName item)]"

definition replace_placeholder :: "string \<times> string \<Rightarrow> string \<Rightarrow> string" where
  "replace_placeholder kv template = (let (k, v) = kv in
     ReplaceAll (ReplaceAll template (''{{ '' @ k @ '' }}'') v) (''{{'' @ k @ ''}}'') v)"

text \<open>The replacements are a map, so the order they are applied in is that of a \<open>range\<close>.\<close>

definition renderPrompt :: "string range_order \<Rightarrow> string \<Rightarrow> work_item \<Rightarrow> string" where
  "renderPrompt ord template0 item =
    (let template1 = (if TrimSpace template0 = [] then defaultPromptTemplate else template0);
         template = (if Contains template1 ''{% if issue.description %}''
           then renderIssueDescriptionConditional template1 (TrimSpace (wi_Description item)) else template1)
     in TrimSpace (fold replace_placeholder (range_entries ord (replacements item)) template))"

definition continuationPrompt :: "int \<Rightarrow> int \<Rightarrow> string" where
  "continuationPrompt turn maxTurns = Join
    [''Continuation guidance:'', [],
     ''- The previous Codex turn completed normally, but the work item is still in an active state.'',
     ''- This is continuation turn #'' @ Itoa turn @ '' of '' @ Itoa maxTurns @ '' for the current agent run.'',
     ''- Resume from the current workspace and thread context instead of restarting from scratch.'',
     ''- Focus on the remaining ticket work.''] [CHR 0x0A]"

subsection \<open>Environment and state\<close>

record runtime_bundle =
  rb_PromptTemplate :: string
  rb_DynamicTools :: "tool_spec list"
  rb_ToolHandler :: "(tool_call list \<Rightarrow> tool_call \<Rightarrow> tool_error + tool_result) option"

record worker_env =
  we_workflow :: workflow
  we_settings :: settings
  we_bundles :: "workflow \<Rightarrow> settings \<Rightarrow> string + runtime_bundle"
  we_refresh :: "nat \<Rightarrow> string list \<Rightarrow> string + work_item list"
  we_session :: session_env
  we_order :: "string range_order"
  we_clock :: "nat \<Rightarrow> gtime"
  we_stopClosed :: "int \<Rightarrow> bool"
  we_cancelled :: "run_event list \<Rightarrow> bool"

text \<open>
  The worker: the events emitted, the refreshes made, and of its handle the workspace path and the open
  session; \<open>wk_sessions\<close> records the sessions that were opened and closed again.
\<close>

record worker =
  wk_events :: "run_event list"
  wk_refreshes :: nat
  wk_workspacePath :: string
  wk_session :: "session option"
  wk_sessions :: "session list"

definition new_worker :: worker where
  "new_worker = \<lparr>wk_events = [], wk_refreshes = 0, wk_workspacePath = [], wk_session = None, wk_sessions = []\<rparr>"

text \<open>\<open>WorkspaceController\<close>, over the controller's own state.\<close>

record 'l controller =
  wc_Create :: "string \<Rightarrow> string \<Rightarrow> 'l \<Rightarrow> ((string + create_result) \<times> 'l) option"
  wc_RunWithHooks :: "string \<Rightarrow> string \<Rightarrow> string \<Rightarrow> (worker \<Rightarrow> 'l \<Rightarrow> (string option \<times> worker \<times> 'l) option) \<Rightarrow>
    worker \<Rightarrow> 'l \<Rightarrow> (string option \<times> worker \<times> 'l) option"
  wc_Remove :: "string \<Rightarrow> string \<Rightarrow> string \<Rightarrow> 'l \<Rightarrow> (string option \<times> 'l) option"
  wc_RemoveIssueWorkspaces :: "string \<Rightarrow> string \<Rightarrow> 'l \<Rightarrow> (string option \<times> 'l) option"

definition run_failure_message :: "run_failure \<Rightarrow> string" where
  "run_failure_message f = (case f of HookFailure e \<Rightarrow> ws_error_message e | RunFailure m \<Rightarrow> m)"

text \<open>\<open>errors.Join\<close>: nil if there is no error, else the messages, one a line.\<close>

definition join_errors :: "ws_error list \<Rightarrow> string option" where
  "join_errors errs = (if errs = [] then None else Some (Join (map ws_error_message errs) [CHR 0x0A]))"

definition manager_controller :: "manager \<Rightarrow> ws_call list controller" where
  "manager_controller m =
    \<lparr>wc_Create = (\<lambda>identifier host lg.
       map_option (\<lambda>(r, l). (map_sum ws_error_message id r, l)) (ws_Create m identifier host lg)),
     wc_RunWithHooks = (\<lambda>path identifier host run w lg.
       map_option (\<lambda>(e, x, l). (map_option run_failure_message e, x, l)) (RunWithHooks m path host (Some run) w lg)),
     wc_Remove = (\<lambda>path identifier host lg.
       map_option (\<lambda>(e, l). (map_option ws_error_message e, l)) (ws_Remove m path host lg)),
     wc_RemoveIssueWorkspaces = (\<lambda>identifier host lg.
       map_option (\<lambda>(es, l). (join_errors es, l)) (RemoveIssueWorkspaces m identifier host lg))\<rparr>"

subsection \<open>Events\<close>

text \<open>The item, the attempt, the host and the workspace that all events of one run carry.\<close>

record worker_key =
  rk_Item :: work_item
  rk_Attempt :: int
  rk_Host :: string
  rk_Path :: string

definition worker_event :: "worker_env \<Rightarrow> run_event_kind \<Rightarrow> worker_key \<Rightarrow> worker \<Rightarrow> run_event" where
  "worker_event env kind k w =
    \<lparr>ev_Kind = kind, ev_ItemID = wi_ID (rk_Item k), ev_ItemIdentifier = wi_Identifier (rk_Item k),
     ev_At = we_clock env (length (wk_events w)), ev_Attempt = rk_Attempt k, ev_WorkerHost = rk_Host k,
     ev_WorkspacePath = rk_Path k, ev_SessionID = [], ev_Message = [], ev_Err = None,
     ev_CodexTotals = zero_totals, ev_RateLimits = None\<rparr>"

definition emitEvent :: "run_event \<Rightarrow> worker \<Rightarrow> worker" where
  "emitEvent ev w = w\<lparr>wk_events := wk_events w @ [ev]\<rparr>"

definition emitFailure :: "worker_env \<Rightarrow> worker_key \<Rightarrow> string \<Rightarrow> worker \<Rightarrow> worker" where
  "emitFailure env k err w = emitEvent
     ((worker_event env RunEventRunFailed k w)\<lparr>ev_Message := err, ev_Err := Some err\<rparr>) w"

definition codex_event_message :: "codex_event \<Rightarrow> string" where
  "codex_event_message event = (let message = SummarizeCodexEvent event in
     if message = [] then codex_kind_string (xe_Kind event)
       @ (if xe_Method event \<noteq> [] then CHR '':'' # xe_Method event else [])
     else message)"

definition emitCodexEvent :: "worker_env \<Rightarrow> worker_key \<Rightarrow> codex_event \<Rightarrow> worker \<Rightarrow> worker" where
  "emitCodexEvent env k event w = emitEvent
     ((worker_event env RunEventCodexEventReceived k w)
        \<lparr>ev_SessionID := (if xe_SessionID event = [] then xe_ThreadID event else xe_SessionID event),
         ev_Message := codex_event_message event\<rparr>) w"

definition turnCompletedEventMessage :: "token_usage \<Rightarrow> string" where
  "turnCompletedEventMessage usage = SummarizeCodexEvent
    \<lparr>xe_Kind = EventTurnCompleted, xe_Method = ''turn/completed'', xe_Raw = [], xe_SessionID = [],
     xe_ThreadID = [], xe_TurnID = [], xe_Message = [],
     xe_Payload = Some [(''params'', VMap [(''usage'', VMap
       [(''input_tokens'', VInt (tu_InputTokens usage)), (''output_tokens'', VInt (tu_OutputTokens usage)),
        (''total_tokens'', VInt (tu_TotalTokens usage))])])]\<rparr>"

definition turn_completed_event :: "worker_env \<Rightarrow> worker_key \<Rightarrow> string \<Rightarrow> token_usage \<Rightarrow> worker \<Rightarrow> worker" where
  "turn_completed_event env k threadID usage w = emitEvent
     ((worker_event env RunEventTurnCompleted k w)
        \<lparr>ev_SessionID := threadID, ev_Message := turnCompletedEventMessage usage,
         ev_CodexTotals := \<lparr>ct_InputTokens = tu_InputTokens usage, ct_OutputTokens = tu_OutputTokens usage,
           ct_TotalTokens = tu_TotalTokens usage, ct_SecondsRunning = 0\<rparr>\<rparr>) w"

text \<open>What the event sink has relayed when a session has emitted some events.\<close>

definition relay :: "worker_env \<Rightarrow> worker_key \<Rightarrow> codex_event list \<Rightarrow> worker \<Rightarrow> worker" where
  "relay env k events w = fold (emitCodexEvent env k) events w"

definition workspaceMessage :: "bool \<Rightarrow> string" where
  "workspaceMessage created = (if created then ''created'' else ''reused'')"

subsection \<open>The turns\<close>

definition still_active :: "settings \<Rightarrow> work_item \<Rightarrow> bool" where
  "still_active cfg item \<longleftrightarrow> wi_Routable item \<noteq> Some False
     \<and> stateIn (wi_State item) (pv_ActiveStates (st_Provider cfg))
     \<and> \<not> stateIn (wi_State item) (pv_TerminalStates (st_Provider cfg))"

definition refreshForContinuation ::
  "worker_env \<Rightarrow> string \<Rightarrow> worker \<Rightarrow> (string + work_item \<times> bool) \<times> worker" where
  "refreshForContinuation env itemID w =
    ((case we_refresh env (wk_refreshes w) [itemID] of
        Inl e \<Rightarrow> Inl e
      | Inr [] \<Rightarrow> Inr (empty_item, False)
      | Inr (item # _) \<Rightarrow> Inr (item, still_active (we_settings env) item)),
     w\<lparr>wk_refreshes := Suc (wk_refreshes w)\<rparr>)"

definition firstToolHandler ::
  "(tool_call list \<Rightarrow> tool_call \<Rightarrow> tool_error + tool_result) option \<Rightarrow>
     tool_call list \<Rightarrow> tool_call \<Rightarrow> tool_error + tool_result" where
  "firstToolHandler handler = (case handler of Some h \<Rightarrow> h | None \<Rightarrow> (\<lambda>calls call. Inl ToolUnsupported))"

definition turn_prompt :: "worker_env \<Rightarrow> runtime_bundle \<Rightarrow> int \<Rightarrow> int \<Rightarrow> work_item \<Rightarrow> string" where
  "turn_prompt env bundle turn maxTurns current = (if turn = 1
     then renderPrompt (we_order env) (rb_PromptTemplate bundle) current
     else continuationPrompt turn maxTurns)"

text \<open>
  The loop over the turns, with the number of turns left, so \<open>maxTurns - k\<close> is the current one when
  \<open>Suc k\<close> are left.
\<close>

fun codex_turns :: "worker_env \<Rightarrow> session_env \<Rightarrow> runtime_bundle \<Rightarrow> worker_key \<Rightarrow> int \<Rightarrow> nat \<Rightarrow> work_item \<Rightarrow> session \<Rightarrow>
    worker \<Rightarrow> (string option \<times> session \<times> worker) option" where
  "codex_turns env senv bundle k maxTurns 0 current s w = Some (None, s, w)"
| "codex_turns env senv bundle k maxTurns (Suc n) current s w =
    (let turn = maxTurns - int n;
         s0 = (if we_stopClosed env turn then session_Close s else s)
     in case RunTurn senv (turn_prompt env bundle turn maxTurns current)
              (wi_Identifier current @ '': '' @ wi_Title current) s0 of
          None \<Rightarrow> None
        | Some (res, s1) \<Rightarrow>
            (let w1 = relay env k (drop (length (ss_events s)) (ss_events s1)) w in
             case res of
               Inl e \<Rightarrow> Some (Some (codex_error_message e), s1, w1)
             | Inr r \<Rightarrow>
                 (if tn_Status r \<noteq> TurnCompleted
                  then Some (Some (''codex turn '' @ turn_status_string (tn_Status r)), s1, w1)
                  else case refreshForContinuation env (wi_ID current)
                           (turn_completed_event env k (ss_threadID s1) (tn_Usage r) w1) of
                    (Inl e, w3) \<Rightarrow> Some (Some e, s1, w3)
                  | (Inr (refreshed, active), w3) \<Rightarrow>
                      (if \<not> active then Some (None, s1, w3)
                       else codex_turns env senv bundle k maxTurns n refreshed s1 w3))))"

definition max_turns :: "settings \<Rightarrow> int" where
  "max_turns cfg = (if ag_MaxTurns (st_Agent cfg) \<le> 0 then 1 else ag_MaxTurns (st_Agent cfg))"

definition runCodexLoop :: "worker_env \<Rightarrow> worker_key \<Rightarrow> worker \<Rightarrow> (string option \<times> worker) option" where
  "runCodexLoop env k w = (case we_bundles env (we_workflow env) (we_settings env) of
     Inl e \<Rightarrow> Some (Some e, w)
   | Inr bundle \<Rightarrow>
      (let cfg = (ConfigFromSettings (we_settings env))\<lparr>sg_DynamicTools := rb_DynamicTools bundle\<rparr>;
           senv = (we_session env)\<lparr>se_tool := firstToolHandler (rb_ToolHandler bundle)\<rparr>;
           maxTurns = max_turns (we_settings env)
       in case StartSession senv cfg (rk_Path k) None True of
            None \<Rightarrow> None
          | Some (Inl (e, events)) \<Rightarrow> Some (Some (codex_error_message e), relay env k events w)
          | Some (Inr s) \<Rightarrow>
              (let w1 = (relay env k (ss_events s) w)\<lparr>wk_session := Some s\<rparr> in
               case codex_turns env senv bundle k maxTurns (nat maxTurns) (rk_Item k) s w1 of
                 None \<Rightarrow> None
               | Some (err, s1, w2) \<Rightarrow>
                   Some (err, w2\<lparr>wk_session := None, wk_sessions := wk_sessions w2 @ [session_Close s1]\<rparr>))))"

subsection \<open>The worker\<close>

definition runWorker ::
  "worker_env \<Rightarrow> 'l controller \<Rightarrow> start_run_request \<Rightarrow> 'l \<Rightarrow> (worker \<times> 'l) option" where
  "runWorker env c req lg =
    (let item = sq_Item req; host = sq_PreferredHost req;
         k0 = \<lparr>rk_Item = item, rk_Attempt = (if sq_Attempt req \<le> 0 then 0 else sq_Attempt req),
               rk_Host = host, rk_Path = []\<rparr>;
         w1 = emitEvent (worker_event env RunEventRunnerHostSelected k0 new_worker) new_worker
     in case wc_Create c (wi_Identifier item) host lg of
          None \<Rightarrow> None
        | Some (Inl e, lg1) \<Rightarrow> Some (emitFailure env k0 e w1, lg1)
        | Some (Inr created, lg1) \<Rightarrow>
            (let k = k0\<lparr>rk_Path := cw_Path created\<rparr>;
                 w2 = w1\<lparr>wk_workspacePath := cw_Path created\<rparr>;
                 w3 = emitEvent ((worker_event env RunEventWorkspaceCreated k w2)
                        \<lparr>ev_Message := workspaceMessage (cw_Created created)\<rparr>) w2;
                 w4 = emitEvent (worker_event env RunEventWorkspacePathDiscovered k w3) w3
             in case wc_RunWithHooks c (cw_Path created) (wi_Identifier item) host
                       (\<lambda>w l. map_option (\<lambda>(err, w'). (err, w', l)) (runCodexLoop env k w)) w4 lg1 of
                  None \<Rightarrow> None
                | Some (err, w5, lg2) \<Rightarrow>
                    (if we_cancelled env (wk_events w5) then Some (w5, lg2)
                     else case err of
                       Some e \<Rightarrow> Some (emitFailure env k e w5, lg2)
                     | None \<Rightarrow> Some (emitEvent (worker_event env RunEventRunCompleted k w5) w5, lg2))))"

end
