(* ===== verification/Codex_Props.thy ===== *)
theory Codex_Props
  imports Codex_Session
begin

text \<open>
  What a Codex session promises: it returns as soon as some read fails, it grants nothing that the
  approval policy does not allow, it answers every request of the server exactly once and in order,
  and its handshake is complete before the first turn.
\<close>

lemma vget_simps [simp]: "vget [] k = VNil" "vget ((k', v) # m) k = (if k' = k then v else vget m k)"
  by (simp_all add: vget_def)

subsection \<open>Termination\<close>

fun is_line :: "read_result \<Rightarrow> bool" where
  "is_line (ReadLine l) = True"
| "is_line _ = False"

lemma is_line_iff: "is_line r \<longleftrightarrow> (\<exists>l. r = ReadLine l)"
  by (cases r) auto

text \<open>
  Reads under a context with a timeout: however many lines the server sends, after any number of
  reads there is one that ends with an error.
\<close>

definition reads_end :: "session_env \<Rightarrow> bool" where
  "reads_end env \<longleftrightarrow> (\<forall>n. \<exists>i \<ge> n. \<not> is_line (se_read env i))"

lemma await_step_next:
  "await_step env rid s = (None, s1) \<Longrightarrow> is_line (se_read env (ss_reads s)) \<and> ss_reads s1 = Suc (ss_reads s)"
  by (auto simp: await_step_def Let_def session_event_def session_emit_def
      split: read_result.splits option.splits if_splits)

lemma awaitResponse_ends:
  assumes "\<not> is_line (se_read env i)" "ss_reads s \<le> i"
  shows "\<exists>out. awaitResponse env rid s = Some out"
  using assms(2)
proof (induction "i - ss_reads s" arbitrary: s rule: less_induct)
  case (less s)
  obtain r s1 where st: "await_step env rid s = (r, s1)" by fastforce
  show ?case
  proof (cases r)
    case None
    then have n: "is_line (se_read env (ss_reads s))" "ss_reads s1 = Suc (ss_reads s)"
      using st await_step_next by blast+
    then have "ss_reads s \<noteq> i" using assms(1) by auto
    then have "i - ss_reads s1 < i - ss_reads s" "ss_reads s1 \<le> i" using n(2) less.prems by simp_all
    from less.hyps [OF this] show ?thesis by (subst awaitResponse.simps) (simp add: st None)
  qed (subst awaitResponse.simps, simp add: st)
qed

subsection \<open>The handlers\<close>

text \<open>Everything but the reads, writes, tool calls and events.\<close>

definition same_session :: "session \<Rightarrow> session \<Rightarrow> bool" where
  "same_session s t \<longleftrightarrow> ss_cfg t = ss_cfg s \<and> ss_workspacePath t = ss_workspacePath s
     \<and> ss_nonInteractive t = ss_nonInteractive s \<and> ss_threadID t = ss_threadID s \<and> ss_closed t = ss_closed s"

lemma same_session_refl [simp]: "same_session s s"
  by (simp add: same_session_def)

lemma same_session_trans: "same_session s t \<Longrightarrow> same_session t u \<Longrightarrow> same_session s u"
  by (simp add: same_session_def)

lemma session_event_fields [simp]:
  "ss_writes (session_event k m r t p s) = ss_writes s" "ss_reads (session_event k m r t p s) = ss_reads s"
  "same_session s' (session_event k m r t p s) = same_session s' s" "ss_cfg (session_event k m r t p s) = ss_cfg s"
  by (simp_all add: session_event_def session_emit_def same_session_def)

text \<open>An object that grants an approval.\<close>

definition grants :: "json \<Rightarrow> bool" where
  "grants w \<longleftrightarrow> (case vget w ''result'' of VMap m \<Rightarrow> map_of m ''decision'' \<noteq> None | _ \<Rightarrow> False)"

text \<open>What handling one request does: at most one answer, with the ID of the request.\<close>

definition one_answer :: "json \<Rightarrow> session \<Rightarrow> codex_error option \<times> session \<Rightarrow> bool" where
  "one_answer payload s out \<longleftrightarrow> same_session s (snd out) \<and> ss_reads (snd out) = ss_reads s
     \<and> (\<exists>ws. ss_writes (snd out) = ss_writes s @ ws
          \<and> (fst out = None \<longrightarrow> map (\<lambda>w. vget w ''id'') ws = [vget payload ''id''])
          \<and> (\<not> isNeverApprovalPolicy (sg_ApprovalPolicy (ss_cfg s)) \<longrightarrow> (\<forall>w \<in> set ws. \<not> grants w)))"

lemma one_answer_none: "one_answer payload s (Some e, s)"
  by (simp add: one_answer_def)

lemma one_answer_write:
  assumes "session_write env w s = (err, s1)" "vget w ''id'' = vget payload ''id''"
    and "isNeverApprovalPolicy (sg_ApprovalPolicy (ss_cfg s)) \<or> \<not> grants w"
    and "same_session s1 (snd out) \<and> ss_reads (snd out) = ss_reads s1 \<and> ss_writes (snd out) = ss_writes s1"
  shows "one_answer payload s out"
proof -
  have "ss_writes s1 = ss_writes s @ [w]" "same_session s s1" "ss_reads s1 = ss_reads s"
    using assms(1) by (auto simp: session_write_def same_session_def)
  then show ?thesis
    unfolding one_answer_def using assms(2-4) by (auto intro!: exI [of _ "[w]"] intro: same_session_trans)
qed

lemma handleApproval_answer: "one_answer payload s (handleApproval env payload raw t s)"
proof -
  let ?w = "[(''id'', vget payload ''id''), (''result'', VMap [(''decision'',
    VStr (approvalDecision (codex_stringValue env (vget payload ''method''))))])]"
  obtain err s1 where w: "session_write env ?w s = (err, s1)" by fastforce
  show ?thesis
  proof (cases "\<not> isNeverApprovalPolicy (sg_ApprovalPolicy (ss_cfg s))
      \<or> approvalDecision (codex_stringValue env (vget payload ''method'')) = []")
    case True
    then show ?thesis by (auto simp: handleApproval_def one_answer_none Let_def)
  next
    case False
    then show ?thesis
      by (intro one_answer_write [OF w])
        (auto simp: handleApproval_def Let_def w vget_simps split: option.split)
  qed
qed

lemma handleUserInput_answer: "one_answer payload s (handleUserInput env payload raw t s)"
proof (cases "case approvalAnswers env payload of Some a \<Rightarrow> Some a | None \<Rightarrow> unavailableAnswers env payload")
  case None
  then show ?thesis by (simp add: handleUserInput_def one_answer_none)
next
  case (Some answers)
  let ?w = "[(''id'', vget payload ''id''), (''result'', VMap [(''answers'', VMap answers)])]"
  obtain err s1 where w: "session_write env ?w s = (err, s1)" by fastforce
  show ?thesis
  proof (cases "ss_nonInteractive s")
    case True
    then show ?thesis
      by (intro one_answer_write [OF w])
        (auto simp: handleUserInput_def Some w vget_simps grants_def split: option.split)
  qed (simp add: handleUserInput_def one_answer_none)
qed

lemma tool_result_no_grant: "\<not> grants [(''id'', v), (''result'', tool_result_json r)]"
  by (simp add: grants_def tool_result_json_def vget_simps)

lemma handleToolCall_answer: "one_answer payload s (handleToolCall env payload raw t s)"
proof -
  let ?call = "\<lparr>tc_ID = idString env (vget payload ''id''), tc_Name = toolCallName env payload,
           tc_Arguments = toolCallArguments payload\<rparr>"
  obtain res s1 where c: "call_tool env ?call s = (res, s1)" by fastforce
  then have s1: "ss_writes s1 = ss_writes s" "same_session s s1" "ss_reads s1 = ss_reads s"
    by (auto simp: call_tool_def same_session_def split: if_splits)
  obtain result kind where rk: "(case res of
             Inl ToolUnsupported \<Rightarrow> (failed_tool ''unsupported_tool_call'', EventUnsupportedToolCall)
           | Inl (ToolFailed e) \<Rightarrow> (failed_tool e, EventToolCallFailed)
           | Inr r \<Rightarrow> (r, if \<not> tr_Success r then EventToolCallFailed else EventToolCallCompleted)) = (result, kind)"
    by fastforce
  let ?w = "[(''id'', vget payload ''id''), (''result'', tool_result_json result)]"
  obtain err s2 where w: "session_write env ?w s1 = (err, s2)" by fastforce
  have "one_answer payload s1 (handleToolCall env payload raw t s)"
    by (rule one_answer_write [OF w])
      (auto simp: handleToolCall_def Let_def c rk w vget_simps tool_result_no_grant split: option.split)
  then show ?thesis using s1 by (auto simp: one_answer_def same_session_def)
qed

lemmas handler_answers = handleApproval_answer handleUserInput_answer handleToolCall_answer

subsection \<open>One message of a turn\<close>

definition payload_at :: "session_env \<Rightarrow> nat \<Rightarrow> json option" where
  "payload_at env i = (case se_read env i of ReadLine l \<Rightarrow> se_decode env l | _ \<Rightarrow> None)"

definition method_at :: "session_env \<Rightarrow> nat \<Rightarrow> string" where
  "method_at env i = (case payload_at env i of None \<Rightarrow> [] | Some p \<Rightarrow> codex_stringValue env (vget p ''method''))"

fun terminal_status :: "string \<Rightarrow> turn_status option" where
  "terminal_status m = (if m = ''turn/completed'' then Some TurnCompleted
     else if m = ''turn/failed'' then Some TurnFailed
     else if m = ''turn/cancelled'' then Some TurnCancelled else None)"

definition is_request :: "session_env \<Rightarrow> nat \<Rightarrow> bool" where
  "is_request env i \<longleftrightarrow>
     method_at env i \<in> set (approval_methods @ [''item/tool/requestUserInput'', ''item/tool/call''])"

definition id_at :: "session_env \<Rightarrow> nat \<Rightarrow> gval" where
  "id_at env i = (case payload_at env i of None \<Rightarrow> VNil | Some p \<Rightarrow> vget p ''id'')"

definition step_ok :: "session_env \<Rightarrow> session \<Rightarrow> (codex_error + turn_result) option \<times> session \<Rightarrow> bool" where
  "step_ok env s out \<longleftrightarrow> same_session s (snd out) \<and> ss_reads (snd out) = Suc (ss_reads s)
     \<and> (\<exists>ws. ss_writes (snd out) = ss_writes s @ ws
          \<and> (\<not> isNeverApprovalPolicy (sg_ApprovalPolicy (ss_cfg s)) \<longrightarrow> (\<forall>w \<in> set ws. \<not> grants w))
          \<and> (fst out = None \<longrightarrow> terminal_status (method_at env (ss_reads s)) = None
               \<and> map (\<lambda>w. vget w ''id'') ws = (if is_request env (ss_reads s) then [id_at env (ss_reads s)] else []))
          \<and> (\<forall>r. fst out = Some (Inr r) \<longrightarrow> ws = []
               \<and> terminal_status (method_at env (ss_reads s)) = Some (tn_Status r)))"

lemma step_ok_plain:
  "same_session s t \<Longrightarrow> ss_reads t = Suc (ss_reads s) \<Longrightarrow> ss_writes t = ss_writes s \<Longrightarrow>
   (res = None \<longrightarrow> terminal_status (method_at env (ss_reads s)) = None \<and> \<not> is_request env (ss_reads s)) \<Longrightarrow>
   (\<forall>r. res = Some (Inr r) \<longrightarrow> terminal_status (method_at env (ss_reads s)) = Some (tn_Status r)) \<Longrightarrow>
   step_ok env s (res, t)"
  by (auto simp: step_ok_def)

lemma step_ok_request:
  assumes "one_answer payload (s\<lparr>ss_reads := Suc (ss_reads s)\<rparr>) out" "is_request env (ss_reads s)"
    and "payload_at env (ss_reads s) = Some payload" "terminal_status (method_at env (ss_reads s)) = None"
  shows "step_ok env s (case out of (Some e, s1) \<Rightarrow> (Some (Inl e), s1) | (None, s1) \<Rightarrow> (None, s1))"
proof -
  obtain o1 s1 where out: "out = (o1, s1)" by fastforce
  show ?thesis
    using assms unfolding out step_ok_def one_answer_def
    by (cases o1) (auto simp: same_session_def id_at_def)
qed

lemma turn_step_ok: "step_ok env s (turn_step env t s)"
proof (cases "se_read env (ss_reads s)")
  case (ReadLine line)
  let ?s1 = "s\<lparr>ss_reads := Suc (ss_reads s)\<rparr>"
  have same: "same_session s ?s1" by (simp add: same_session_def)
  show ?thesis
  proof (cases "se_decode env line")
    case None
    then have "method_at env (ss_reads s) = []" by (simp add: method_at_def payload_at_def ReadLine)
    then show ?thesis
      using same by (auto simp: turn_step_def Let_def ReadLine None is_request_def approval_methods_def intro!: step_ok_plain)
  next
    case (Some payload)
    let ?m = "codex_stringValue env (vget payload ''method'')"
    have p: "payload_at env (ss_reads s) = Some payload" by (simp add: payload_at_def ReadLine Some)
    then have m: "method_at env (ss_reads s) = ?m" by (simp add: method_at_def)
    have st: "turn_step env t s = turn_message env t line payload ?s1"
      by (simp add: turn_step_def Let_def ReadLine Some)
    consider "terminal_status ?m \<noteq> None" | "?m \<in> set approval_methods" "terminal_status ?m = None"
      | "?m = ''item/tool/requestUserInput''" | "?m = ''item/tool/call''"
      | "terminal_status ?m = None" "?m \<notin> set (approval_methods @ [''item/tool/requestUserInput'', ''item/tool/call''])"
      by auto
    then show ?thesis
    proof cases
      case 1
      then show ?thesis
        using same by (auto simp: st turn_message_def Let_def m intro!: step_ok_plain split: if_splits)
    next
      case 2
      then have "turn_step env t s = (case handleApproval env payload line t ?s1 of
          (Some e, s1) \<Rightarrow> (Some (Inl e), s1) | (None, s1) \<Rightarrow> (None, s1))"
        by (auto simp: st turn_message_def Let_def split: if_splits)
      then show ?thesis
        using step_ok_request [OF handleApproval_answer _ p] 2 by (simp add: is_request_def m)
    next
      case 3
      then have "turn_step env t s = (case handleUserInput env payload line t ?s1 of
          (Some e, s1) \<Rightarrow> (Some (Inl e), s1) | (None, s1) \<Rightarrow> (None, s1))"
        by (simp add: st turn_message_def Let_def approval_methods_def)
      then show ?thesis
        using step_ok_request [OF handleUserInput_answer _ p] 3 by (simp add: is_request_def m)
    next
      case 4
      then have "turn_step env t s = (case handleToolCall env payload line t ?s1 of
          (Some e, s1) \<Rightarrow> (Some (Inl e), s1) | (None, s1) \<Rightarrow> (None, s1))"
        by (simp add: st turn_message_def Let_def approval_methods_def)
      then show ?thesis
        using step_ok_request [OF handleToolCall_answer _ p] 4 by (simp add: is_request_def m)
    next
      case 5
      then have "turn_step env t s = (None, session_event EventUnknownMessage ?m line t (Some payload) ?s1)"
        by (auto simp: st turn_message_def Let_def split: if_splits)
      then show ?thesis
        using same 5 by (auto simp: is_request_def m intro!: step_ok_plain)
    qed
  qed
qed (simp_all add: turn_step_def Let_def same_session_def step_ok_plain)

lemma turn_step_line: "turn_step env t s = (None, s1) \<Longrightarrow> is_line (se_read env (ss_reads s))"
  by (auto simp: turn_step_def Let_def split: read_result.splits)

lemma turn_loop_ends:
  assumes "\<not> is_line (se_read env i)" "ss_reads s \<le> i"
  shows "\<exists>out. turn_loop env t s = Some out"
  using assms(2)
proof (induction "i - ss_reads s" arbitrary: s rule: less_induct)
  case (less s)
  obtain r s1 where st: "turn_step env t s = (r, s1)" by fastforce
  show ?case
  proof (cases r)
    case None
    then have "is_line (se_read env (ss_reads s))" "ss_reads s1 = Suc (ss_reads s)"
      using st turn_step_line turn_step_ok [of env s t] by (auto simp: step_ok_def)
    moreover from this have "ss_reads s \<noteq> i" using assms(1) by auto
    ultimately have "i - ss_reads s1 < i - ss_reads s" "ss_reads s1 \<le> i" using less.prems by simp_all
    from less.hyps [OF this] show ?thesis by (subst turn_loop.simps) (simp add: st None)
  qed (subst turn_loop.simps, simp add: st)
qed

subsection \<open>A whole turn\<close>

lemma not_request: "terminal_status (method_at env i) = Some st \<Longrightarrow> \<not> is_request env i"
  by (auto simp: is_request_def approval_methods_def split: if_splits)

declare terminal_status.simps [simp del]

text \<open>The messages of a turn, from read \<open>a\<close> up to but not including read \<open>b\<close>.\<close>

definition turn_trace :: "session_env \<Rightarrow> nat \<Rightarrow> nat \<Rightarrow> json list \<Rightarrow> codex_error + turn_result \<Rightarrow> bool" where
  "turn_trace env a b ws res \<longleftrightarrow> a < b \<and> (\<forall>r. res = Inr r \<longrightarrow>
     (\<forall>i. a \<le> i \<longrightarrow> Suc i < b \<longrightarrow> terminal_status (method_at env i) = None)
     \<and> terminal_status (method_at env (b - 1)) = Some (tn_Status r)
     \<and> map (\<lambda>w. vget w ''id'') ws = map (id_at env) (filter (is_request env) [a..<b]))"

lemma turn_trace_last:
  assumes "\<forall>r. res = Inr r \<longrightarrow> ws = [] \<and> terminal_status (method_at env a) = Some (tn_Status r)"
  shows "turn_trace env a (Suc a) ws res"
  using assms not_request by (fastforce simp: turn_trace_def)

lemma turn_trace_step:
  assumes "turn_trace env (Suc a) b ws res" "terminal_status (method_at env a) = None"
    and "map (\<lambda>w. vget w ''id'') ws0 = (if is_request env a then [id_at env a] else [])"
  shows "turn_trace env a b (ws0 @ ws) res"
proof -
  have "a < b" using assms(1) by (simp add: turn_trace_def)
  then have "[a..<b] = a # [Suc a..<b]" by (rule upt_conv_Cons)
  moreover have "terminal_status (method_at env i) = None"
    if "res = Inr r" "a \<le> i" "Suc i < b" for r i
    using assms(1,2) that by (cases "i = a") (auto simp: turn_trace_def)
  ultimately show ?thesis
    using assms(1,3) \<open>a < b\<close> unfolding turn_trace_def by auto
qed

lemma turn_loop_trace:
  assumes "turn_loop env t s = Some (res, s1)"
  shows "same_session s s1 \<and> (\<exists>ws. ss_writes s1 = ss_writes s @ ws \<and> turn_trace env (ss_reads s) (ss_reads s1) ws res
    \<and> (\<not> isNeverApprovalPolicy (sg_ApprovalPolicy (ss_cfg s)) \<longrightarrow> (\<forall>w \<in> set ws. \<not> grants w)))"
proof -
  define Q where "Q env s y \<longleftrightarrow> same_session s (snd y) \<and> (\<exists>ws. ss_writes (snd y) = ss_writes s @ ws
      \<and> turn_trace env (ss_reads s) (ss_reads (snd y)) ws (fst y)
      \<and> (\<not> isNeverApprovalPolicy (sg_ApprovalPolicy (ss_cfg s)) \<longrightarrow> (\<forall>w \<in> set ws. \<not> grants w)))"
    for env s and y :: "(codex_error + turn_result) \<times> session"
  have "Q env s y" if "turn_loop env t s = Some y" for env t s y
    using that
  proof (induction rule: turn_loop.raw_induct [rotated 1, consumes 1])
    case (1 rec env t s y)
    obtain r s1 where st: "turn_step env t s = (r, s1)" by fastforce
    note ok = turn_step_ok [of env s t, unfolded st step_ok_def fst_conv snd_conv]
    from ok obtain ws0 where ws0: "ss_writes s1 = ss_writes s @ ws0"
      "\<not> isNeverApprovalPolicy (sg_ApprovalPolicy (ss_cfg s)) \<longrightarrow> (\<forall>w \<in> set ws0. \<not> grants w)"
      "r = None \<longrightarrow> terminal_status (method_at env (ss_reads s)) = None
         \<and> map (\<lambda>w. vget w ''id'') ws0 = (if is_request env (ss_reads s) then [id_at env (ss_reads s)] else [])"
      "\<forall>q. r = Some (Inr q) \<longrightarrow> ws0 = [] \<and> terminal_status (method_at env (ss_reads s)) = Some (tn_Status q)"
      by blast
    have s1: "same_session s s1" "ss_reads s1 = Suc (ss_reads s)" using ok by blast+
    show ?case
    proof (cases r)
      case None
      then have "rec env t s1 = Some y" using 1(2) st by simp
      from 1(1) [OF this] obtain ws where ws: "same_session s1 (snd y)" "ss_writes (snd y) = ss_writes s1 @ ws"
        "turn_trace env (ss_reads s1) (ss_reads (snd y)) ws (fst y)"
        "\<not> isNeverApprovalPolicy (sg_ApprovalPolicy (ss_cfg s1)) \<longrightarrow> (\<forall>w \<in> set ws. \<not> grants w)"
        unfolding Q_def by blast
      have "turn_trace env (ss_reads s) (ss_reads (snd y)) (ws0 @ ws) (fst y)"
        using turn_trace_step ws(3) ws0(3) None unfolding s1(2) by blast
      moreover have "ss_cfg s1 = ss_cfg s" using s1(1) by (simp add: same_session_def)
      ultimately show ?thesis
        unfolding Q_def using ws ws0(1,2) same_session_trans [OF s1(1)] by (intro conjI exI [of _ "ws0 @ ws"]) auto
    next
      case (Some res)
      then have y: "y = (res, s1)" using 1(2) st by simp
      have "turn_trace env (ss_reads s) (Suc (ss_reads s)) ws0 res"
        using ws0(4) Some by (intro turn_trace_last) simp
      then show ?thesis unfolding Q_def y using s1 ws0(1,2) by auto
    qed
  qed
  from this [OF assms] show ?thesis by (simp add: Q_def)
qed

lemma await_step_frame:
  "await_step env rid s = (r, s1) \<Longrightarrow> same_session s s1 \<and> ss_writes s1 = ss_writes s \<and> ss_reads s1 = Suc (ss_reads s)"
  by (auto simp: await_step_def Let_def same_session_def session_event_def session_emit_def
      split: read_result.splits option.splits if_splits)

lemma awaitResponse_frame:
  assumes "awaitResponse env rid s = Some (res, s1)"
  shows "same_session s s1 \<and> ss_writes s1 = ss_writes s \<and> ss_reads s < ss_reads s1"
proof -
  have "same_session s (snd y) \<and> ss_writes (snd y) = ss_writes s \<and> ss_reads s < ss_reads (snd y)"
    if "awaitResponse env rid s = Some y" for env rid s y
    using that
  proof (induction rule: awaitResponse.raw_induct [rotated 1, consumes 1])
    case (1 rec env rid s y)
    obtain r s1 where st: "await_step env rid s = (r, s1)" by fastforce
    note f = await_step_frame [OF st]
    show ?case
    proof (cases r)
      case None
      then have "rec env rid s1 = Some y" using 1(2) st by simp
      from 1(1) [OF this] f show ?thesis using same_session_trans by auto
    next
      case (Some res)
      then show ?thesis using 1(2) st f by auto
    qed
  qed
  from this [OF assms] show ?thesis by simp
qed

definition sent :: "json \<Rightarrow> session \<Rightarrow> session" where
  "sent req s = s\<lparr>ss_writes := ss_writes s @ [req]\<rparr>"

lemma sent_fields [simp]:
  "ss_writes (sent req s) = ss_writes s @ [req]" "ss_reads (sent req s) = ss_reads s" "same_session s (sent req s)"
  "ss_cfg (sent req s) = ss_cfg s"
  by (simp_all add: sent_def same_session_def)

text \<open>The ways a turn can go.\<close>

lemma RunTurn_cases:
  fixes env prompt title s
  defines "req \<equiv> turn_start_request s prompt title"
  obtains (closed) "RunTurn env prompt title s = Some (Inl ErrSessionClosed, s)"
  | (unsent) e where "RunTurn env prompt title s = Some (Inl e, sent req s)"
  | (hangs) "awaitResponse env turnStartID (sent req s) = None" "RunTurn env prompt title s = None"
  | (no_turn) res e s2 where "awaitResponse env turnStartID (sent req s) = Some (res, s2)"
      "RunTurn env prompt title s = Some (Inl e, s2)"
  | (turn) result s2 t where "awaitResponse env turnStartID (sent req s) = Some (Inr result, s2)"
      "RunTurn env prompt title s = turn_loop env t s2"
proof (cases "ss_closed s")
  case True
  then show ?thesis by (intro closed) (simp add: RunTurn_def)
next
  case False
  have w: "session_write env req s = (map_option ErrTransport (se_write env (ss_writes s) req), sent req s)"
    by (simp add: session_write_def sent_def)
  show ?thesis
  proof (cases "se_write env (ss_writes s) req")
    case (Some e)
    then show ?thesis using False w by (intro unsent [of "ErrTransport e"]) (simp add: RunTurn_def req_def)
  next
    case sent: None
    show ?thesis
    proof (cases "awaitResponse env turnStartID (sent req s)")
      case (Some out)
      obtain res s2 where out: "out = (res, s2)" by (cases out)
      have run: "RunTurn env prompt title s = (case res of Inl e \<Rightarrow> Some (Inl e, s2)
          | Inr result \<Rightarrow> (let t = codex_nestedString env result [''turn'', ''id''] in
            if t = [] then Some (Inl (ErrProtocol ''invalid_turn_payload'' [] result), s2) else turn_loop env t s2))"
        using False w sent Some out by (cases res) (simp_all add: RunTurn_def req_def)
      show ?thesis
      proof (cases res)
        case (Inl e)
        then show ?thesis using run Some out by (intro no_turn) simp_all
      next
        case (Inr result)
        then show ?thesis
          using run Some out no_turn turn
          by (cases "codex_nestedString env result [''turn'', ''id''] = []") (simp_all add: Let_def)
      qed
    next
      case None
      then show ?thesis using False w sent by (intro hangs) (simp_all add: RunTurn_def req_def)
    qed
  qed
qed

lemma session_ends:
  assumes "reads_end env"
  shows "RunTurn env prompt title s \<noteq> None \<and> StartSession env cfg path sandbox ni \<noteq> None"
proof -
  have await: "awaitResponse env rid s \<noteq> None" for rid s
  proof -
    obtain i where "ss_reads s \<le> i" "\<not> is_line (se_read env i)"
      using assms unfolding reads_end_def by blast
    then show ?thesis using awaitResponse_ends by force
  qed
  have turn: "turn_loop env t s \<noteq> None" for t s
  proof -
    obtain i where "ss_reads s \<le> i" "\<not> is_line (se_read env i)"
      using assms unfolding reads_end_def by blast
    then show ?thesis using turn_loop_ends by force
  qed
  have "RunTurn env prompt title s \<noteq> None"
    by (rule RunTurn_cases [of env prompt title s]) (use await turn in simp_all)
  moreover have req: "\<exists>r s1. request_response env q rid s = Some (r, s1)" for q rid s
    using await by (auto simp: request_response_def split: option.splits prod.splits)
  have boot: "bootstrap env s \<noteq> None" for s
  proof -
    obtain r1 s1 where 1: "request_response env initialize_request initializeID s = Some (r1, s1)" using req by blast
    obtain e s2 where w: "session_write env initialized_note s1 = (e, s2)" by fastforce
    obtain r3 s3 where 3: "request_response env (thread_start_request s2) threadStartID s2 = Some (r3, s3)"
      using req by blast
    show ?thesis by (cases r1; cases e; cases r3) (simp_all add: bootstrap_def 1 w 3 Let_def)
  qed
  moreover have "StartSession env cfg path sandbox ni \<noteq> None"
  proof (cases "validateWorkspacePath env (sg_WorkspaceRoot (normalizeConfig cfg)) path")
    case (Inr p)
    obtain e s1 where b: "bootstrap env (new_session (normalizeConfig cfg) p sandbox ni) = Some (e, s1)"
      using boot by (metis not_None_eq surj_pair)
    show ?thesis
      by (cases "se_factory env (sg_Command (normalizeConfig cfg)) p"; cases e)
        (simp_all add: StartSession_def Inr b Let_def)
  qed (simp add: StartSession_def Let_def)
  ultimately show ?thesis by blast
qed




subsection \<open>The handshake\<close>

lemma pathWithin_strict_prefix:
  assumes "\<forall>e \<in> set bs. proper e" "\<forall>e \<in> set ts. proper e" "pathWithin (abs_path bs) (abs_path ts)"
  shows "strict_prefix bs ts"
proof -
  obtain rel where rel: "path_Rel (abs_path bs) (abs_path ts) = Some rel" "rel \<noteq> ''.''" "rel_inside rel"
    using assms(3) by (auto simp: pathWithin_def rel_inside_def split: option.splits)
  show ?thesis using rel_inside_prefix [OF assms(1,2) rel(1)] rel(2,3) by (auto simp: strict_prefix_def)
qed

lemma validateWorkspacePath_inside:
  assumes "validateWorkspacePath env dir path = Inr p"
    and "\<And>d. se_cwd env = Some d \<Longrightarrow> IsAbs d"
    and "\<And>q r. IsAbs q \<Longrightarrow> se_evalSymlinks env q = Inr r \<Longrightarrow> IsAbs r"
  shows "\<exists>r rs es. (\<exists>q. path_Abs (se_cwd env) dir = Some q \<and> se_evalSymlinks env q = Inr r) \<and> Clean r = abs_path rs
    \<and> p = abs_path es \<and> (\<forall>e \<in> set es. proper e) \<and> strict_prefix rs es"
proof -
  from assms(1) obtain q r q' r' where q: "path_Abs (se_cwd env) dir = Some q" "se_evalSymlinks env q = Inr r"
    "path_Abs (se_cwd env) path = Some q'" "se_evalSymlinks env q' = Inr r'" "p = Clean r'" "pathWithin (Clean r) p"
    by (auto simp: validateWorkspacePath_def Let_def split: option.splits sum.splits if_splits)
  have "IsAbs r" "IsAbs r'" using q(1-4) path_Abs_abs assms(2,3) by blast+
  then obtain rs es where p: "Clean r = abs_path rs" "\<forall>e \<in> set rs. proper e" "Clean r' = abs_path es" "\<forall>e \<in> set es. proper e"
    by (metis Clean_abs)
  then have "strict_prefix rs es" using pathWithin_strict_prefix q(5,6) by simp
  with q p show ?thesis by blast
qed

lemma request_response_ok:
  assumes "request_response env req rid s = Some (Inr res, s1)"
  shows "same_session s s1 \<and> ss_writes s1 = ss_writes s @ [req]"
proof -
  have "awaitResponse env rid (sent req s) = Some (Inr res, s1)"
    using assms by (auto simp: request_response_def session_write_def sent_def split: option.splits)
  from awaitResponse_frame [OF this] show ?thesis using same_session_trans sent_fields by fastforce
qed

lemma bootstrap_ok:
  assumes "bootstrap env s = Some (None, s1)" "ss_writes s = []"
  shows "ss_writes s1 = [initialize_request, initialized_note, thread_start_request s]
    \<and> ss_threadID s1 \<noteq> [] \<and> ss_cfg s1 = ss_cfg s \<and> ss_workspacePath s1 = ss_workspacePath s
    \<and> ss_nonInteractive s1 = ss_nonInteractive s \<and> ss_closed s1 = ss_closed s
    \<and> ss_events s1 \<noteq> [] \<and> xe_Kind (last (ss_events s1)) = EventSessionStarted
    \<and> xe_ThreadID (last (ss_events s1)) = ss_threadID s1"
proof -
  from assms(1) obtain r1 sa sb r3 sc where b: "request_response env initialize_request initializeID s = Some (Inr r1, sa)"
    "session_write env initialized_note sa = (None, sb)"
    "request_response env (thread_start_request sb) threadStartID sb = Some (Inr r3, sc)"
    "codex_nestedString env r3 [''thread'', ''id''] \<noteq> []"
    "s1 = session_event EventSessionStarted [] [] [] None
      (sc\<lparr>ss_threadID := codex_nestedString env r3 [''thread'', ''id'']\<rparr>)"
    by (auto simp: bootstrap_def Let_def split: option.splits sum.splits prod.splits if_splits)
  note a = request_response_ok [OF b(1)] and c = request_response_ok [OF b(3)]
  have sb: "same_session sa sb" "ss_writes sb = ss_writes sa @ [initialized_note]"
    using b(2) by (auto simp: session_write_def same_session_def)
  have "same_session s sb" "same_session s sc" using a c sb by (meson same_session_trans)+
  moreover from this have "thread_start_request sb = thread_start_request s"
    by (simp add: thread_start_request_def same_session_def)
  ultimately show ?thesis
    using a b(4,5) c sb(2) assms(2)
    by (auto simp: session_event_def session_emit_def same_session_def)
qed


subsection \<open>A run\<close>

text \<open>
  A server for the examples: the lines it sends, and what they decode to; after the last line the
  deadline passes.
\<close>

definition script_env :: "(string \<times> json) list \<Rightarrow> session_env" where
  "script_env script =
    \<lparr>se_decode = (\<lambda>l. map_of script l), se_sprint = (\<lambda>v. ''map[]''),
     se_read = (\<lambda>i. if i < length script then ReadLine (fst (script ! i)) else ReadDone ''deadline'' None True),
     se_write = (\<lambda>ws w. None),
     se_tool = (\<lambda>cs c. Inr \<lparr>tr_Success = True, tr_ContentItems = [(''inputText'', ''ok'')], tr_Result = VNil, tr_Error = []\<rparr>),
     se_cwd = Some ''/'', se_evalSymlinks = Inr, se_factory = (\<lambda>c d. None)\<rparr>"

lemma script_env_ends: "reads_end (script_env script)"
proof -
  have "\<exists>i \<ge> n. \<not> is_line (se_read (script_env script) i)" for n
    by (intro exI [of _ "max n (length script)"]) (simp add: script_env_def)
  then show ?thesis by (simp add: reads_end_def)
qed

definition demo_codex :: session_config where
  "demo_codex = (ConfigFromSettings sample_settings)\<lparr>sg_WorkspaceRoot := ''/ws'', sg_ApprovalPolicy := VStr ''on-request''\<rparr>"

definition demo_session :: session where
  "demo_session = (new_session demo_codex ''/ws/a'' None True)\<lparr>ss_threadID := ''th''\<rparr>"

definition demo_turn :: "(string \<times> json) list" where
  "demo_turn =
    [(''r'', [(''id'', VInt 3), (''result'', VMap [(''turn'', VMap [(''id'', VStr ''t1'')])])]),
     (''call'', [(''id'', VInt 7), (''method'', VStr ''item/tool/call''), (''params'', VMap [(''tool'', VStr ''x'')])]),
     (''log'', [(''method'', VStr ''item/started'')]),
     (''end'', [(''method'', VStr ''turn/completed''),
        (''params'', VMap [(''usage'', VMap [(''input_tokens'', VInt 5), (''totalTokens'', VFloat 9)])])])]"

lemma demo_turn_run:
  "map_option (\<lambda>(res, s). (map_sum id (\<lambda>r. (tn_Status r, tn_TurnID r, tu_TotalTokens (tn_Usage r))) res,
      ss_reads s, map (\<lambda>w. vget w ''id'') (ss_writes s)))
    (RunTurn (script_env demo_turn) ''p'' ''t'' demo_session)
   = Some (Inr (TurnCompleted, ''t1'', 9), 4, [VInt 3, VInt 7])"
  by code_simp


lemma demo_turn_result:
  obtains r s1 where "RunTurn (script_env demo_turn) ''p'' ''t'' demo_session = Some (Inr r, s1)"
    "tn_Status r = TurnCompleted" "tu_TotalTokens (tn_Usage r) = 9" "ss_reads s1 = 4"
    "map (\<lambda>w. vget w ''id'') (ss_writes s1) = [VInt 3, VInt 7]"
proof -
  obtain res s1 where run: "RunTurn (script_env demo_turn) ''p'' ''t'' demo_session = Some (res, s1)"
    using demo_turn_run by (cases "RunTurn (script_env demo_turn) ''p'' ''t'' demo_session") auto
  with demo_turn_run that show ?thesis by (cases res) auto
qed




definition demo_handshake :: "(string \<times> json) list" where
  "demo_handshake =
    [(''a'', [(''id'', VInt 1), (''result'', VMap [])]),
     (''note'', [(''method'', VStr ''item/started'')]),
     (''b'', [(''id'', VFloat 2), (''result'', VMap [(''thread'', VMap [(''id'', VStr ''th'')])])])]"

lemma demo_handshake_run:
  "(case StartSession (script_env demo_handshake) demo_codex ''/ws/a'' None True of
      Some (Inr s) \<Rightarrow> ss_threadID s = ''th'' \<and> ss_workspacePath s = ''/ws/a'' | _ \<Rightarrow> False)"
  by code_simp


subsection \<open>Two corners\<close>

text \<open>
  A tool that the server names by an object is looked up under the printed form of the whole object, so
  the branch of \<open>toolCallName\<close> that reads the object's \<open>name\<close> is never taken (\<open>fmt.Sprint\<close> of a map is
  never empty).
\<close>

lemma toolCallName_object:
  assumes "vget (map_or_nil (vget payload ''params'')) ''tool'' = VMap m" "se_sprint env (VMap m) \<noteq> []"
  shows "toolCallName env payload = se_sprint env (VMap m)"
  using assms by (simp add: toolCallName_def Let_def codex_stringValue_def go_sprint_def)

text \<open>
  While a response is awaited, a request of the server whose own ID happens to be the awaited one is taken
  for the response and ends the session's start or the turn with a protocol error.
\<close>

lemma await_takes_request:
  assumes "se_read env (ss_reads s) = ReadLine l" "se_decode env l = Some p"
    and "sameID env (vget p ''id'') (VInt rid)" "map_of p ''error'' = None" "vget p ''result'' = VNil"
  shows "awaitResponse env rid s
    = Some (Inl (ErrProtocol ''response_error'' [] p), s\<lparr>ss_reads := Suc (ss_reads s)\<rparr>)"
  by (subst awaitResponse.simps) (simp add: await_step_def assms Let_def)

end
