(* ===== verification/Worker_Props.thy ===== *)
theory Worker_Props
  imports Worker Codex_Props Scheduler_Props Workspace_Props
begin

text \<open>
  What a worker promises the scheduler: its events are about its run, end with at most one terminal
  event, and with exactly one if the run was not stopped; it runs another turn only while the work
  item is still active, and at most the configured number; every session it opens is closed.
\<close>

subsection \<open>The contract of the hooks\<close>

text \<open>
  What the worker relies on of \<open>RunWithHooks\<close>: without an error the run was made, its result is
  returned, and with a hook's error it was not begun.
\<close>

locale run_contract =
  fixes c :: "'l controller"
  assumes run_once: "wc_RunWithHooks c path ident host run w lg = Some (err, w', lg') \<Longrightarrow>
      (err \<noteq> None \<and> w' = w) \<or> (\<exists>l l'. run w l = Some (err, w', l'))"
    and run_returns: "(\<And>x l. run x l \<noteq> None) \<Longrightarrow> wc_RunWithHooks c path ident host run w lg \<noteq> None"

lemma RunWithHooks_once:
  assumes "RunWithHooks m path host (Some run) x lg = Some (err, y, lg')"
  shows "(err \<noteq> None \<and> y = x) \<or> (\<exists>l e l'. run x l = Some (e, y, l') \<and> err = map_option RunFailure e)"
proof (cases "runHook m path host (before_run_hook m) lg")
  case (Pair e l)
  show ?thesis
  proof (cases e)
    case None
    then show ?thesis
      using assms Pair by (cases "run x l") (fastforce simp: RunWithHooks_def Let_def)+
  qed (use assms Pair in \<open>auto simp: RunWithHooks_def Let_def\<close>)
qed

lemma RunWithHooks_returns:
  assumes "\<And>y l. run y l \<noteq> None"
  shows "RunWithHooks m path host (Some run) x lg \<noteq> None"
proof -
  obtain e l where h: "runHook m path host (before_run_hook m) lg = (e, l)" by fastforce
  obtain r y l2 where r: "run x l = Some (r, y, l2)" using assms [of x l] by auto
  show ?thesis by (cases e) (simp_all add: RunWithHooks_def Let_def h r)
qed

interpretation mc: run_contract "manager_controller m" for m
proof
  fix path ident host run w lg err w' lg'
  assume "wc_RunWithHooks (manager_controller m) path ident host run w lg = Some (err, w', lg')"
  then obtain f where f: "RunWithHooks m path host (Some run) w lg = Some (f, w', lg')"
    "err = map_option run_failure_message f"
    by (auto simp: manager_controller_def)
  show "(err \<noteq> None \<and> w' = w) \<or> (\<exists>l l'. run w l = Some (err, w', l'))"
    using RunWithHooks_once [OF f(1)] f(2)
    by (auto simp: option.map_comp comp_def run_failure_message_def option.map_ident)
next
  fix run :: "worker \<Rightarrow> ws_call list \<Rightarrow> (string option \<times> worker \<times> ws_call list) option" and path ident host w lg
  assume "\<And>x l. run x l \<noteq> None"
  then have "RunWithHooks m path host (Some run) w lg \<noteq> None" by (rule RunWithHooks_returns)
  then show "wc_RunWithHooks (manager_controller m) path ident host run w lg \<noteq> None"
    by (simp add: manager_controller_def)
qed

lemma then_returns:
  "x \<noteq> None \<Longrightarrow> (\<And>y. f y \<noteq> None) \<Longrightarrow> (case x of None \<Rightarrow> None | Some y \<Rightarrow> f y) \<noteq> None"
  by (cases x) simp_all

subsection \<open>The events of a run\<close>

definition terminal :: "run_event \<Rightarrow> bool" where
  "terminal ev \<longleftrightarrow> ev_Kind ev = RunEventRunCompleted \<or> ev_Kind ev = RunEventRunFailed"

definition of_run :: "worker_key \<Rightarrow> run_event \<Rightarrow> bool" where
  "of_run k ev \<longleftrightarrow> ev_ItemID ev = wi_ID (rk_Item k) \<and> ev_ItemIdentifier ev = wi_Identifier (rk_Item k)
     \<and> ev_Attempt ev = rk_Attempt k \<and> ev_WorkerHost ev = rk_Host k"

lemma worker_event_fields [simp]:
  "of_run k (worker_event env kind k' w) \<longleftrightarrow> wi_ID (rk_Item k') = wi_ID (rk_Item k)
     \<and> wi_Identifier (rk_Item k') = wi_Identifier (rk_Item k) \<and> rk_Attempt k' = rk_Attempt k \<and> rk_Host k' = rk_Host k"
  "ev_Kind (worker_event env kind k' w) = kind"
  "of_run k (ev\<lparr>ev_Message := m\<rparr>) = of_run k ev" "of_run k (ev\<lparr>ev_Err := m'\<rparr>) = of_run k ev"
  "of_run k (ev\<lparr>ev_SessionID := m\<rparr>) = of_run k ev" "of_run k (ev\<lparr>ev_CodexTotals := ts\<rparr>) = of_run k ev"
  by (auto simp: worker_event_def of_run_def)

definition turns_of :: "run_event list \<Rightarrow> nat" where
  "turns_of evs = length (filter (\<lambda>ev. ev_Kind ev = RunEventTurnCompleted) evs)"

lemma turns_of_simps [simp]:
  "turns_of [] = 0" "turns_of (a @ b) = turns_of a + turns_of b"
  "turns_of (ev # evs) = (if ev_Kind ev = RunEventTurnCompleted then Suc (turns_of evs) else turns_of evs)"
  by (simp_all add: turns_of_def)

text \<open>The worker has only emitted events of its run, none of them terminal, \<open>n\<close> of them completed turns.\<close>

definition emits :: "worker_key \<Rightarrow> nat \<Rightarrow> worker \<Rightarrow> worker \<Rightarrow> bool" where
  "emits k n w w' \<longleftrightarrow> (\<exists>evs. wk_events w' = wk_events w @ evs \<and> turns_of evs = n
     \<and> (\<forall>ev \<in> set evs. of_run k ev \<and> \<not> terminal ev))"

lemma emits_refl [simp]: "emits k 0 w w"
  by (simp add: emits_def)

lemma emits_trans: "emits k n w w1 \<Longrightarrow> emits k n' w1 w2 \<Longrightarrow> emits k (n + n') w w2"
  unfolding emits_def
proof (elim exE conjE)
  fix a b
  assume "wk_events w1 = wk_events w @ a" "turns_of a = n" "\<forall>ev \<in> set a. of_run k ev \<and> \<not> terminal ev"
    "wk_events w2 = wk_events w1 @ b" "turns_of b = n'" "\<forall>ev \<in> set b. of_run k ev \<and> \<not> terminal ev"
  then show "\<exists>evs. wk_events w2 = wk_events w @ evs \<and> turns_of evs = n + n' \<and> (\<forall>ev \<in> set evs. of_run k ev \<and> \<not> terminal ev)"
    by (intro exI [of _ "a @ b"]) auto
qed

lemma emits_event:
  "of_run k ev \<Longrightarrow> \<not> terminal ev \<Longrightarrow> emits k (if ev_Kind ev = RunEventTurnCompleted then 1 else 0) w (emitEvent ev w)"
  by (auto simp: emits_def emitEvent_def)

lemma relay_emits: "emits k 0 w (relay env k events w)"
proof (induction events arbitrary: w)
  case (Cons ev events)
  have "emits k 0 w (emitCodexEvent env k ev w)"
    using emits_event [of k "(worker_event env RunEventCodexEventReceived k w)
        \<lparr>ev_SessionID := (if xe_SessionID ev = [] then xe_ThreadID ev else xe_SessionID ev),
         ev_Message := codex_event_message ev\<rparr>" w]
    by (simp add: emitCodexEvent_def terminal_def)
  from emits_trans [OF this Cons [unfolded relay_def]] show ?case by (simp add: relay_def)
qed (simp add: relay_def)

lemma relay_fields [simp]:
  "wk_refreshes (relay env k events w) = wk_refreshes w" "wk_sessions (relay env k events w) = wk_sessions w"
  "wk_session (relay env k events w) = wk_session w" "wk_workspacePath (relay env k events w) = wk_workspacePath w"
  by (induction events arbitrary: w) (simp_all add: relay_def emitCodexEvent_def emitEvent_def)

lemma turn_completed_emits: "emits k 1 w (turn_completed_event env k t u w)"
  using emits_event [of k "(worker_event env RunEventTurnCompleted k w)
        \<lparr>ev_SessionID := t, ev_Message := turnCompletedEventMessage u,
         ev_CodexTotals := \<lparr>ct_InputTokens = tu_InputTokens u, ct_OutputTokens = tu_OutputTokens u,
           ct_TotalTokens = tu_TotalTokens u, ct_SecondsRunning = 0\<rparr>\<rparr>" w]
  by (simp add: turn_completed_event_def terminal_def)

lemma turn_completed_fields [simp]:
  "wk_refreshes (turn_completed_event env k t u w) = wk_refreshes w"
  "wk_sessions (turn_completed_event env k t u w) = wk_sessions w"
  "wk_session (turn_completed_event env k t u w) = wk_session w"
  by (simp_all add: turn_completed_event_def emitEvent_def)

subsection \<open>The turns\<close>

text \<open>The refresh after a turn found the item still active.\<close>

definition went_on :: "worker_env \<Rightarrow> nat \<Rightarrow> bool" where
  "went_on env j \<longleftrightarrow> (\<exists>key item items. we_refresh env j [key] = Inr (item # items)
     \<and> still_active (we_settings env) item)"

definition turns_ok :: "worker_env \<Rightarrow> worker_key \<Rightarrow> nat \<Rightarrow> worker \<Rightarrow> worker \<Rightarrow> bool" where
  "turns_ok env k n w w' \<longleftrightarrow> (\<exists>d \<le> n. emits k d w w' \<and> wk_refreshes w' = wk_refreshes w + d
     \<and> (\<forall>j. wk_refreshes w \<le> j \<longrightarrow> Suc j < wk_refreshes w' \<longrightarrow> went_on env j)
     \<and> wk_session w' = wk_session w \<and> wk_sessions w' = wk_sessions w)"

lemma turns_ok_none: "emits k 0 w w' \<Longrightarrow> wk_refreshes w' = wk_refreshes w \<Longrightarrow> wk_session w' = wk_session w \<Longrightarrow>
    wk_sessions w' = wk_sessions w \<Longrightarrow> turns_ok env k n w w'"
  unfolding turns_ok_def by (intro exI [of _ 0]) simp

lemma turns_ok_one: "emits k 1 w w' \<Longrightarrow> wk_refreshes w' = Suc (wk_refreshes w) \<Longrightarrow> wk_session w' = wk_session w \<Longrightarrow>
    wk_sessions w' = wk_sessions w \<Longrightarrow> turns_ok env k (Suc n) w w'"
  unfolding turns_ok_def by (intro exI [of _ 1]) simp

lemma turns_ok_more:
  assumes "emits k 1 w w1" "wk_refreshes w1 = Suc (wk_refreshes w)" "wk_session w1 = wk_session w"
    and "wk_sessions w1 = wk_sessions w" "went_on env (wk_refreshes w)" "turns_ok env k n w1 w'"
  shows "turns_ok env k (Suc n) w w'"
proof -
  obtain d where d: "d \<le> n" "emits k d w1 w'" "wk_refreshes w' = wk_refreshes w1 + d"
    "\<forall>j. wk_refreshes w1 \<le> j \<longrightarrow> Suc j < wk_refreshes w' \<longrightarrow> went_on env j"
    "wk_session w' = wk_session w1" "wk_sessions w' = wk_sessions w1"
    using assms(6) unfolding turns_ok_def by blast
  have "went_on env j" if "wk_refreshes w \<le> j" "Suc j < wk_refreshes w'" for j
    using that assms(2,5) d(4) by (cases "j = wk_refreshes w") auto
  moreover have "emits k (Suc d) w w'" using emits_trans [OF assms(1) d(2)] by simp
  ultimately show ?thesis
    unfolding turns_ok_def using d assms(2-4) by (intro exI [of _ "Suc d"]) auto
qed

lemma codex_turns_ok:
  "codex_turns env senv bundle k mt n current s w = Some (err, s1, w') \<Longrightarrow> turns_ok env k n w w'"
proof (induction n arbitrary: current s w)
  case 0
  then show ?case by (simp add: turns_ok_none)
next
  case (Suc n)
  let ?turn = "mt - int n"
  obtain res s2 where run: "RunTurn senv (turn_prompt env bundle ?turn mt current)
      (wi_Identifier current @ '': '' @ wi_Title current) (if we_stopClosed env ?turn then session_Close s else s)
      = Some (res, s2)"
    using Suc.prems by (auto simp: Let_def split: option.splits)
  define w1 where "w1 = relay env k (drop (length (ss_events s)) (ss_events s2)) w"
  have r0: "emits k 0 w w1" by (simp add: w1_def relay_emits)
  note eq = Suc.prems [unfolded codex_turns.simps Let_def run option.case prod.case, folded w1_def]
  show ?case
  proof (cases res)
    case (Inl e)
    then show ?thesis using eq r0 by (intro turns_ok_none) (auto simp: w1_def)
  next
    case (Inr r)
    show ?thesis
    proof (cases "tn_Status r = TurnCompleted")
      case False
      then show ?thesis using eq Inr r0 by (intro turns_ok_none) (auto simp: w1_def)
    next
      case True
      define w2 where "w2 = turn_completed_event env k (ss_threadID s2) (tn_Usage r) w1"
      define w3 where "w3 = w2\<lparr>wk_refreshes := Suc (wk_refreshes w2)\<rparr>"
      have "emits k 1 w w2" using emits_trans [OF r0 turn_completed_emits] by (simp add: w2_def)
      then have w3: "emits k 1 w w3" "wk_refreshes w3 = Suc (wk_refreshes w)"
        "wk_session w3 = wk_session w" "wk_sessions w3 = wk_sessions w"
        by (simp_all add: w3_def emits_def w2_def w1_def)
      show ?thesis
      proof (cases "we_refresh env (wk_refreshes w) [wi_ID current]")
        case (Inl e)
        then have "w' = w3"
          using eq Inr True by (simp add: refreshForContinuation_def w2_def [symmetric] w3_def) (auto simp: w2_def w1_def)
        then show ?thesis using w3 by (simp add: turns_ok_one)
      next
        case refreshed: (Inr items)
        show ?thesis
        proof (cases "items \<noteq> [] \<and> still_active (we_settings env) (hd items)")
          case False
          then have "w' = w3"
            using eq Inr True refreshed
            by (cases items) (simp_all add: refreshForContinuation_def w2_def [symmetric] w3_def, auto simp: w2_def w1_def)
          then show ?thesis using w3 by (simp add: turns_ok_one)
        next
          case active: True
          then obtain item items' where items: "items = item # items'" "still_active (we_settings env) item"
            by (cases items) auto
          have "codex_turns env senv bundle k mt n item s2 w3 = Some (err, s1, w')"
            using eq Inr True refreshed items
            by (simp add: refreshForContinuation_def w2_def [symmetric] w3_def) (auto simp: w2_def w1_def)
          from Suc.IH [OF this] have "turns_ok env k n w3 w'" .
          moreover have "went_on env (wk_refreshes w)" using refreshed items by (auto simp: went_on_def)
          ultimately show ?thesis using turns_ok_more w3 by blast
        qed
      qed
    qed
  qed
qed

subsection \<open>The whole run\<close>

text \<open>What running Codex has done to the worker.\<close>

definition all_closed :: "worker \<Rightarrow> bool" where
  "all_closed w \<longleftrightarrow> wk_session w = None \<and> (\<forall>s \<in> set (wk_sessions w). ss_closed s)"

definition loop_ok :: "worker_env \<Rightarrow> worker_key \<Rightarrow> worker \<Rightarrow> worker \<Rightarrow> bool" where
  "loop_ok env k w w' \<longleftrightarrow> (\<exists>d. int d \<le> max_turns (we_settings env) \<and> emits k d w w'
     \<and> wk_refreshes w' = wk_refreshes w + d
     \<and> (\<forall>j. wk_refreshes w \<le> j \<longrightarrow> Suc j < wk_refreshes w' \<longrightarrow> went_on env j)
     \<and> (all_closed w \<longrightarrow> all_closed w'))"

lemma max_turns_pos: "0 < max_turns cfg"
  by (simp add: max_turns_def)

lemma loop_ok_none: "emits k 0 w w' \<Longrightarrow> wk_refreshes w' = wk_refreshes w \<Longrightarrow> (all_closed w \<longrightarrow> all_closed w') \<Longrightarrow>
    loop_ok env k w w'"
  unfolding loop_ok_def using max_turns_pos [of "we_settings env"] by (intro exI [of _ 0]) simp

lemma runCodexLoop_ok:
  assumes "runCodexLoop env k w = Some (err, w')"
  shows "loop_ok env k w w'"
proof (cases "we_bundles env (we_workflow env) (we_settings env)")
  case (Inl e)
  then show ?thesis using assms by (auto simp: runCodexLoop_def loop_ok_none)
next
  case (Inr bd)
  let ?senv = "(we_session env)\<lparr>se_tool := firstToolHandler (rb_ToolHandler bd)\<rparr>"
  let ?cfg = "(ConfigFromSettings (we_settings env))\<lparr>sg_DynamicTools := rb_DynamicTools bd\<rparr>"
  let ?mt = "max_turns (we_settings env)"
  note eq = assms [unfolded runCodexLoop_def Inr sum.case Let_def]
  show ?thesis
  proof (cases "StartSession ?senv ?cfg (rk_Path k) None True")
    case None
    then show ?thesis using eq by simp
  next
    case (Some out)
    show ?thesis
    proof (cases out)
      case (Inl p)
      then show ?thesis
        using eq Some by (cases p) (auto simp: relay_emits all_closed_def intro!: loop_ok_none)
    next
      case (Inr s)
      define w1 where "w1 = (relay env k (ss_events s) w)\<lparr>wk_session := Some s\<rparr>"
      obtain s1 w2 where t: "codex_turns env ?senv bd k ?mt (nat ?mt) (rk_Item k) s w1 = Some (err, s1, w2)"
        "w' = w2\<lparr>wk_session := None, wk_sessions := wk_sessions w2 @ [session_Close s1]\<rparr>"
        using eq Some Inr by (auto simp: w1_def split: option.splits)
      from codex_turns_ok [OF t(1)] obtain d where d: "d \<le> nat ?mt" "emits k d w1 w2"
        "wk_refreshes w2 = wk_refreshes w1 + d" "wk_sessions w2 = wk_sessions w1"
        "\<forall>j. wk_refreshes w1 \<le> j \<longrightarrow> Suc j < wk_refreshes w2 \<longrightarrow> went_on env j"
        unfolding turns_ok_def by blast
      have "emits k 0 w w1" using relay_emits [of k w env "ss_events s"] by (simp add: w1_def emits_def)
      from emits_trans [OF this d(2)] have "emits k d w w'" by (simp add: t(2) emits_def)
      moreover have "int d \<le> ?mt" using d(1) max_turns_pos [of "we_settings env"] by simp
      ultimately show ?thesis
        unfolding loop_ok_def using d
        by (intro exI [of _ d]) (auto simp: t(2) w1_def all_closed_def session_Close_def)
    qed
  qed
qed

lemma turns_not_terminal: "terminal ev \<Longrightarrow> turns_of [ev] = 0"
  by (auto simp: terminal_def)

text \<open>What the worker has done when it is through.\<close>

definition run_ok :: "worker_env \<Rightarrow> start_run_request \<Rightarrow> worker \<Rightarrow> bool" where
  "run_ok env req w \<longleftrightarrow> (\<exists>begun ended. wk_events w = begun @ ended
     \<and> (\<forall>ev \<in> set begun. \<not> terminal ev) \<and> (\<forall>ev \<in> set ended. terminal ev)
     \<and> length ended = (if we_cancelled env begun \<and> (\<exists>ev \<in> set begun. ev_Kind ev = RunEventWorkspaceCreated) then 0 else 1)
     \<and> (\<forall>ev \<in> set (wk_events w). ev_ItemID ev = wi_ID (sq_Item req) \<and> ev_ItemIdentifier ev = wi_Identifier (sq_Item req)
          \<and> ev_Attempt ev = max 0 (sq_Attempt req) \<and> ev_WorkerHost ev = sq_PreferredHost req)
     \<and> turns_of (wk_events w) = wk_refreshes w \<and> int (wk_refreshes w) \<le> max_turns (we_settings env)
     \<and> (\<forall>j. Suc j < wk_refreshes w \<longrightarrow> went_on env j) \<and> all_closed w)"

definition key_of :: "start_run_request \<Rightarrow> worker_key" where
  "key_of req = \<lparr>rk_Item = sq_Item req, rk_Attempt = (if sq_Attempt req \<le> 0 then 0 else sq_Attempt req),
     rk_Host = sq_PreferredHost req, rk_Path = []\<rparr>"

lemma run_okI:
  assumes "wk_events w = begun @ ended" "\<forall>ev \<in> set begun. of_run (key_of req) ev \<and> \<not> terminal ev"
    and "\<forall>ev \<in> set ended. of_run (key_of req) ev \<and> terminal ev"
    and "length ended = (if we_cancelled env begun \<and> (\<exists>ev \<in> set begun. ev_Kind ev = RunEventWorkspaceCreated) then 0 else 1)"
    and "turns_of begun = wk_refreshes w" "int (wk_refreshes w) \<le> max_turns (we_settings env)"
    and "\<forall>j. Suc j < wk_refreshes w \<longrightarrow> went_on env j" "all_closed w"
  shows "run_ok env req w"
proof -
  have run: "of_run (key_of req) ev \<longleftrightarrow> ev_ItemID ev = wi_ID (sq_Item req) \<and> ev_ItemIdentifier ev = wi_Identifier (sq_Item req)
      \<and> ev_Attempt ev = max 0 (sq_Attempt req) \<and> ev_WorkerHost ev = sq_PreferredHost req" for ev
    by (auto simp: of_run_def key_of_def)
  have "turns_of ended = 0" using assms(3) by (induction ended) (auto simp: terminal_def)
  with assms show ?thesis
    unfolding run_ok_def by (rule_tac x = begun in exI, rule_tac x = ended in exI) (auto simp: run)
qed

context run_contract
begin

lemma runWorker_ok:
  assumes "runWorker env c req lg = Some (w, lg')"
  shows "run_ok env req w"
proof -
  define k0 where "k0 = key_of req"
  define w1 where "w1 = emitEvent (worker_event env RunEventRunnerHostSelected k0 new_worker) new_worker"
  note eq = assms [unfolded runWorker_def Let_def, folded key_of_def, folded k0_def, folded w1_def]
  have w1: "emits k0 0 new_worker w1" "all_closed w1" "wk_refreshes w1 = 0"
    using emits_event [of k0 "worker_event env RunEventRunnerHostSelected k0 new_worker" new_worker]
    by (simp_all add: w1_def terminal_def all_closed_def emitEvent_def new_worker_def)
  obtain res lg1 where cr: "wc_Create c (wi_Identifier (sq_Item req)) (sq_PreferredHost req) lg = Some (res, lg1)"
    using eq by (auto split: option.splits)
  show ?thesis
  proof (cases res)
    case (Inl e)
    have kinds: "ev_Kind ev \<noteq> RunEventWorkspaceCreated" if "ev \<in> set (wk_events w1)" for ev
      using that by (auto simp: w1_def emitEvent_def new_worker_def)
    have w: "w = emitFailure env k0 e w1" using eq cr Inl by simp
    let ?t = "(worker_event env RunEventRunFailed k0 w1)\<lparr>ev_Message := e, ev_Err := Some e\<rparr>"
    have "wk_events w = wk_events w1 @ [?t]" "wk_refreshes w = 0" "all_closed w"
      using w1 by (simp_all add: w emitFailure_def emitEvent_def all_closed_def)
    moreover have "of_run k0 ?t" "terminal ?t" by (simp_all add: terminal_def)
    ultimately show ?thesis
      using w1(1) kinds max_turns_pos [of "we_settings env"]
      by (intro run_okI [of w "wk_events w1" "[?t]"]) (auto simp: emits_def new_worker_def k0_def)
  next
    case (Inr created)
    define k where "k = k0\<lparr>rk_Path := cw_Path created\<rparr>"
    define w2 where "w2 = w1\<lparr>wk_workspacePath := cw_Path created\<rparr>"
    define w3 where "w3 = emitEvent ((worker_event env RunEventWorkspaceCreated k w2)
                        \<lparr>ev_Message := workspaceMessage (cw_Created created)\<rparr>) w2"
    define w4 where "w4 = emitEvent (worker_event env RunEventWorkspacePathDiscovered k w3) w3"
    have kk: "of_run k ev = of_run k0 ev" for ev by (simp add: of_run_def k_def)
    have "emits k 0 w2 w3"
      using emits_event [of k "(worker_event env RunEventWorkspaceCreated k w2)
        \<lparr>ev_Message := workspaceMessage (cw_Created created)\<rparr>" w2]
      by (simp add: w3_def terminal_def)
    moreover have "emits k 0 w3 w4"
      using emits_event [of k "worker_event env RunEventWorkspacePathDiscovered k w3" w3]
      by (simp add: w4_def terminal_def)
    moreover have "emits k 0 new_worker w2" using w1(1) by (simp add: emits_def kk w2_def)
    ultimately have w4: "emits k 0 new_worker w4"
      using emits_trans [of k 0 _ _ 0, unfolded add_0] by blast
    have w4': "all_closed w4" "wk_refreshes w4 = 0"
      using w1(2,3) by (simp_all add: w4_def w3_def w2_def emitEvent_def all_closed_def)
    have created: "\<exists>ev \<in> set (wk_events w4). ev_Kind ev = RunEventWorkspaceCreated"
      by (auto simp: w4_def w3_def emitEvent_def)
    note eq2 = eq [unfolded cr Inr option.case prod.case sum.case, folded k_def, folded w2_def, folded w3_def, folded w4_def]
    let ?run = "\<lambda>w l. map_option (\<lambda>(err, w'). (err, w', l)) (runCodexLoop env k w)"
    obtain err w5 lg2 where r: "wc_RunWithHooks c (cw_Path created) (wi_Identifier (sq_Item req)) (sq_PreferredHost req)
        ?run w4 lg1 = Some (err, w5, lg2)"
      using eq2 by (auto split: option.splits)
    have "loop_ok env k w4 w5"
      using run_once [OF r] by (auto simp: loop_ok_none intro: runCodexLoop_ok)
    then obtain d where d: "int d \<le> max_turns (we_settings env)" "emits k d w4 w5" "wk_refreshes w5 = d"
      "\<forall>j. Suc j < wk_refreshes w5 \<longrightarrow> went_on env j" "all_closed w5"
      unfolding loop_ok_def using w4' by auto
    have w5: "emits k d new_worker w5" using emits_trans [OF w4 d(2)] by simp
    have created5: "\<exists>ev \<in> set (wk_events w5). ev_Kind ev = RunEventWorkspaceCreated"
      using created d(2) by (auto simp: emits_def)
    define ended where "ended = (if we_cancelled env (wk_events w5) then [] else
      [case err of Some e \<Rightarrow> (worker_event env RunEventRunFailed k w5)\<lparr>ev_Message := e, ev_Err := Some e\<rparr>
        | None \<Rightarrow> worker_event env RunEventRunCompleted k w5])"
    have w: "wk_events w = wk_events w5 @ ended" "wk_refreshes w = wk_refreshes w5" "all_closed w"
      using eq2 r d(5) by (auto simp: ended_def emitFailure_def emitEvent_def all_closed_def split: if_splits option.splits)
    have "\<forall>ev \<in> set ended. of_run k0 ev \<and> terminal ev" "length ended = (if we_cancelled env (wk_events w5) then 0 else 1)"
      by (auto simp: ended_def terminal_def k_def split: option.split)
    moreover have "turns_of (wk_events w5) = d" "\<forall>ev \<in> set (wk_events w5). of_run k0 ev \<and> \<not> terminal ev"
      using w5 by (auto simp: emits_def new_worker_def kk)
    ultimately show ?thesis
      using w d created5 by (intro run_okI [of w "wk_events w5" ended]) (auto simp: k0_def)
  qed
qed

lemma runWorker_returns:
  assumes "\<And>k w. runCodexLoop env k w \<noteq> None"
    and "wc_Create c (wi_Identifier (sq_Item req)) (sq_PreferredHost req) lg \<noteq> None"
  shows "runWorker env c req lg \<noteq> None"
proof -
  obtain res lg1 where cr: "wc_Create c (wi_Identifier (sq_Item req)) (sq_PreferredHost req) lg = Some (res, lg1)"
    using assms(2) by auto
  have hooks: "wc_RunWithHooks c p i h (\<lambda>w l. map_option (\<lambda>(err, w'). (err, w', l)) (runCodexLoop env k w)) w0 l0 \<noteq> None"
    for p i h k w0 l0
    by (rule run_returns) (use assms(1) in \<open>simp del: not_None_eq\<close>)
  show ?thesis
  proof (cases res)
    case (Inr created)
    show ?thesis
      unfolding runWorker_def Let_def cr Inr option.case prod.case sum.case
      by (rule then_returns [OF hooks]) (auto split: option.split)
  qed (simp add: runWorker_def cr Let_def)
qed

end

lemma codex_turns_returns: "reads_end senv \<Longrightarrow> codex_turns env senv bd k mt n current s w \<noteq> None"
proof (induction n arbitrary: current s w)
  case (Suc n)
  have run: "RunTurn senv prompt title s' \<noteq> None" for prompt title s'
    using session_ends [OF Suc.prems] by blast
  obtain res s1 where r: "RunTurn senv (turn_prompt env bd (mt - int n) mt current)
      (wi_Identifier current @ '': '' @ wi_Title current)
      (if we_stopClosed env (mt - int n) then session_Close s else s) = Some (res, s1)"
    using run [of "turn_prompt env bd (mt - int n) mt current" "wi_Identifier current @ '': '' @ wi_Title current"
        "if we_stopClosed env (mt - int n) then session_Close s else s"]
    by auto
  show ?case
    unfolding codex_turns.simps Let_def r option.case prod.case
    using Suc by (auto split: sum.split prod.split)
qed simp

lemma runCodexLoop_returns:
  assumes "reads_end (we_session env)"
  shows "runCodexLoop env k w \<noteq> None"
proof (cases "we_bundles env (we_workflow env) (we_settings env)")
  case (Inr bd)
  let ?senv = "(we_session env)\<lparr>se_tool := firstToolHandler (rb_ToolHandler bd)\<rparr>"
  let ?cfg = "(ConfigFromSettings (we_settings env))\<lparr>sg_DynamicTools := rb_DynamicTools bd\<rparr>"
  have e: "reads_end ?senv" using assms by (simp add: reads_end_def)
  obtain out where out: "StartSession ?senv ?cfg (rk_Path k) None True = Some out"
    using session_ends [OF e] by blast
  show ?thesis
  proof (cases out)
    case started: (Inr s)
    show ?thesis
      unfolding runCodexLoop_def Inr sum.case Let_def out option.case started
      by (rule then_returns [OF codex_turns_returns [OF e]]) (simp add: case_prod_beta)
  qed (auto simp: runCodexLoop_def Inr out Let_def split: prod.split)
qed (simp add: runCodexLoop_def)

lemma fold_goes_on:
  assumes "\<forall>ev \<in> set evs. ev_ItemID ev = k \<and> \<not> terminal ev" "sched_inv s" "mget (sd_running s) k = Some e"
  shows "sched_inv (fold applyRunEvent evs s) \<and> sd_claimed (fold applyRunEvent evs s) = sd_claimed s
    \<and> sd_retrying (fold applyRunEvent evs s) = sd_retrying s
    \<and> (\<exists>e'. mget (sd_running (fold applyRunEvent evs s)) k = Some e' \<and> re_Attempt e' = re_Attempt e)
    \<and> (\<forall>k'. k' \<noteq> k \<longrightarrow> mget (sd_running (fold applyRunEvent evs s)) k' = mget (sd_running s) k')"
  using assms
proof (induction evs arbitrary: s e)
  case (Cons ev evs)
  then have ev: "ev_ItemID ev = k" "\<not> terminal ev" by simp_all
  note c = applyRunEvent_cases [OF Cons.prems(2,3) ev(1)]
  have r: "sd_retrying (applyRunEvent ev s) = sd_retrying s"
    "\<exists>e'. mget (sd_running (applyRunEvent ev s)) k = Some e' \<and> re_Attempt e' = re_Attempt e"
    using c(2) ev(2) by (auto simp: terminal_def split: run_event_kind.splits)
  then obtain e1 where e1: "mget (sd_running (applyRunEvent ev s)) k = Some e1" "re_Attempt e1 = re_Attempt e" by blast
  have "\<forall>ev \<in> set evs. ev_ItemID ev = k \<and> \<not> terminal ev" using Cons.prems(1) by simp
  from Cons.IH [OF this inv_applyRunEvent [OF Cons.prems(2)] e1(1)] c(1,3) r(1) e1(2) show ?case by simp
qed simp

subsection \<open>Properties\<close>

text \<open>C12 (safety). A worker tells the scheduler once, and last, how its run ended: after any run, whatever the
  workspace, the hooks, Codex and the tracker did, its events are events of its item with its attempt
  and host; exactly one of them, the last, is a completion or a failure, and none is if the run was
  stopped after its workspace was created. All sessions it opened are closed.\<close>

theorem worker_ends_once:
  assumes "runWorker env (manager_controller m) req lg = Some (w, lg')"
  shows "\<exists>begun ended. wk_events w = begun @ ended
     \<and> (\<forall>ev \<in> set begun. \<not> terminal ev) \<and> (\<forall>ev \<in> set ended. terminal ev)
     \<and> length ended = (if we_cancelled env begun \<and> (\<exists>ev \<in> set begun. ev_Kind ev = RunEventWorkspaceCreated) then 0 else 1)
     \<and> (\<forall>ev \<in> set (wk_events w). ev_ItemID ev = wi_ID (sq_Item req) \<and> ev_ItemIdentifier ev = wi_Identifier (sq_Item req)
          \<and> ev_Attempt ev = max 0 (sq_Attempt req) \<and> ev_WorkerHost ev = sq_PreferredHost req)
     \<and> wk_session w = None \<and> (\<forall>s \<in> set (wk_sessions w). ss_closed s)"
  using mc.runWorker_ok [OF assms] unfolding run_ok_def all_closed_def by blast



text \<open>C6 (functional). Worker and scheduler agree on the end of a run. When the events of a worker that was not
  stopped have been applied in order to a scheduler in which its item runs, the item no longer runs and
  waits for a retry: with attempt 1 if the run completed, with the next attempt of the back-off if it
  failed. Its claim, and every other item, are as before.\<close>

theorem worker_hands_back:
  assumes "runWorker env (manager_controller m) req lg = Some (w, lg')" "terminal (last (wk_events w))"
    and "sched_inv s" "mget (sd_running s) (wi_ID (sq_Item req)) = Some e"
  defines "t \<equiv> fold applyRunEvent (wk_events w) s"
  shows "mget (sd_running t) (wi_ID (sq_Item req)) = None \<and> sd_claimed t = sd_claimed s
    \<and> (\<exists>r. mget (sd_retrying t) (wi_ID (sq_Item req)) = Some r
        \<and> te_Attempt r = (if ev_Kind (last (wk_events w)) = RunEventRunCompleted then 1
             else nextFailureAttempt (re_Attempt e)))
    \<and> (\<forall>k'. k' \<noteq> wi_ID (sq_Item req) \<longrightarrow> mget (sd_running t) k' = mget (sd_running s) k'
        \<and> mget (sd_retrying t) k' = mget (sd_retrying s) k')"
proof -
  let ?k = "wi_ID (sq_Item req)"
  obtain begun ended where split: "wk_events w = begun @ ended" "\<forall>ev \<in> set begun. \<not> terminal ev"
    "\<forall>ev \<in> set ended. terminal ev" "length ended \<le> 1" "\<forall>ev \<in> set (wk_events w). ev_ItemID ev = ?k"
    using mc.runWorker_ok [OF assms(1)] unfolding run_ok_def by (metis le_numeral_extra(3,4) zero_le_one)
  have ne: "wk_events w \<noteq> []"
  proof
    assume "wk_events w = []"
    with mc.runWorker_ok [OF assms(1)] show False unfolding run_ok_def by auto
  qed
  obtain ev where ev: "ended = [ev]"
    using split assms(2) ne by (cases ended) auto
  then have last: "last (wk_events w) = ev" using split by simp
  define s1 where "s1 = fold applyRunEvent begun s"
  have "\<forall>x \<in> set begun. ev_ItemID x = ?k \<and> \<not> terminal x" using split by auto
  from fold_goes_on [OF this assms(3,4)] obtain e1 where s1: "sched_inv s1" "sd_claimed s1 = sd_claimed s"
    "sd_retrying s1 = sd_retrying s" "mget (sd_running s1) ?k = Some e1" "re_Attempt e1 = re_Attempt e"
    "\<forall>k'. k' \<noteq> ?k \<longrightarrow> mget (sd_running s1) k' = mget (sd_running s) k'"
    unfolding s1_def by blast
  have id: "ev_ItemID ev = ?k" using split ev by simp
  note c = applyRunEvent_cases [OF s1(1,4) id]
  have t: "t = applyRunEvent ev s1" by (simp add: t_def split ev s1_def)
  have kind: "ev_Kind ev = RunEventRunCompleted \<or> ev_Kind ev = RunEventRunFailed"
    using split(3) ev by (simp add: terminal_def)
  then have "mget (sd_running t) ?k = None \<and> (\<exists>r. mget (sd_retrying t) ?k = Some r
      \<and> te_Attempt r = (if ev_Kind ev = RunEventRunCompleted then 1 else nextFailureAttempt (re_Attempt e)))"
    using c(2) s1(5) unfolding t by auto
  with c(1,3) s1(2,3,6) show ?thesis unfolding last t by auto
qed

subsection \<open>A run\<close>

text \<open>Two turns: after the first the item is still to do, after the second it is done.\<close>

definition two_turns :: "(string \<times> json) list" where
  "two_turns =
    [(''a'', [(''id'', VInt 1), (''result'', VMap [])]),
     (''b'', [(''id'', VInt 2), (''result'', VMap [(''thread'', VMap [(''id'', VStr ''th'')])])]),
     (''r'', [(''id'', VInt 3), (''result'', VMap [(''turn'', VMap [(''id'', VStr ''t1'')])])]),
     (''end'', [(''method'', VStr ''turn/completed'')]),
     (''r'', [(''id'', VInt 3), (''result'', VMap [(''turn'', VMap [(''id'', VStr ''t1'')])])]),
     (''end'', [(''method'', VStr ''turn/completed'')])]"

definition demo_run_settings :: settings where
  "demo_run_settings = sample_settings\<lparr>st_Workspace := (st_Workspace sample_settings)\<lparr>wo_Root := ''/srv/ws''\<rparr>,
     st_Agent := (st_Agent sample_settings)\<lparr>ag_MaxTurns := 3\<rparr>\<rparr>"

definition demo_env :: worker_env where
  "demo_env =
    \<lparr>we_workflow = sample_workflow, we_settings = demo_run_settings,
     we_bundles = (\<lambda>w c. Inr \<lparr>rb_PromptTemplate = ''Do {{ issue.identifier }}'', rb_DynamicTools = [], rb_ToolHandler = None\<rparr>),
     we_refresh = (\<lambda>n ids. Inr [if n = 0 then demo_item ''a'' ''ENG-1''
        else (demo_item ''a'' ''ENG-1'')\<lparr>wi_State := ''Done''\<rparr>]),
     we_session = script_env two_turns, we_order = (\<lambda>ks. ks), we_clock = (\<lambda>n. 5 * second),
     we_stopClosed = (\<lambda>turn. False), we_cancelled = (\<lambda>evs. False)\<rparr>"

definition quiet_manager :: manager where
  "quiet_manager = sample_manager\<lparr>mg_hooks := (mg_hooks sample_manager)\<lparr>hk_AfterCreate := [], hk_AfterRun := []\<rparr>\<rparr>"

definition demo_request :: start_run_request where
  "demo_request = \<lparr>sq_Item = demo_item ''a'' ''ENG-1'', sq_Attempt = 0, sq_PreferredHost = []\<rparr>"

lemma demo_worker_run:
  "map_option (\<lambda>(w, lg). (map ev_Kind (wk_events w), wk_refreshes w))
     (runWorker demo_env (manager_controller quiet_manager) demo_request [])
   = Some ([RunEventRunnerHostSelected, RunEventWorkspaceCreated, RunEventWorkspacePathDiscovered,
       RunEventCodexEventReceived, RunEventCodexEventReceived, RunEventTurnCompleted,
       RunEventCodexEventReceived, RunEventTurnCompleted, RunEventRunCompleted], 2)"
  by code_simp

lemma demo_worker_result:
  obtains w lg where "runWorker demo_env (manager_controller quiet_manager) demo_request [] = Some (w, lg)"
    "turns_of (wk_events w) = 2" "ev_Kind (last (wk_events w)) = RunEventRunCompleted"
proof -
  obtain w lg where r: "runWorker demo_env (manager_controller quiet_manager) demo_request [] = Some (w, lg)"
    using demo_worker_run by (cases "runWorker demo_env (manager_controller quiet_manager) demo_request []") auto
  have kinds: "map ev_Kind (wk_events w) = [RunEventRunnerHostSelected, RunEventWorkspaceCreated,
       RunEventWorkspacePathDiscovered, RunEventCodexEventReceived, RunEventCodexEventReceived, RunEventTurnCompleted,
       RunEventCodexEventReceived, RunEventTurnCompleted, RunEventRunCompleted]"
    using demo_worker_run r by simp
  have ne: "wk_events w \<noteq> []" using arg_cong [OF kinds, of length] by auto
  have "turns_of (wk_events w) = length (filter (\<lambda>k. k = RunEventTurnCompleted) (map ev_Kind (wk_events w)))"
    by (simp add: turns_of_def filter_map comp_def)
  then have "turns_of (wk_events w) = 2" by (simp add: kinds)
  moreover have "ev_Kind (last (wk_events w)) = last (map ev_Kind (wk_events w))" using ne by (simp add: last_map)
  then have "ev_Kind (last (wk_events w)) = RunEventRunCompleted" by (simp add: kinds)
  ultimately show ?thesis using r that by blast
qed

theorem worker_ends_once_witness:
  "\<exists>w lg begun ended. runWorker demo_env (manager_controller quiet_manager) demo_request [] = Some (w, lg)
     \<and> wk_events w = begun @ ended \<and> length ended = 1 \<and> (\<forall>ev \<in> set begun. \<not> terminal ev)"
proof -
  obtain w lg where r: "runWorker demo_env (manager_controller quiet_manager) demo_request [] = Some (w, lg)"
    by (rule demo_worker_result)
  moreover have "\<not> we_cancelled demo_env evs" for evs by (simp add: demo_env_def)
  ultimately show ?thesis using worker_ends_once [OF r] by auto
qed



theorem worker_hands_back_witness:
  "\<exists>w lg r. runWorker demo_env (manager_controller quiet_manager) demo_request [] = Some (w, lg)
     \<and> mget (sd_retrying (fold applyRunEvent (wk_events w) (vc_state demo_polled))) ''a'' = Some r \<and> te_Attempt r = 1"
proof -
  obtain w lg where r: "runWorker demo_env (manager_controller quiet_manager) demo_request [] = Some (w, lg)"
    "ev_Kind (last (wk_events w)) = RunEventRunCompleted"
    by (rule demo_worker_result)
  have item: "wi_ID (sq_Item demo_request) = ''a''" by (simp add: demo_request_def demo_item_def)
  obtain e where e: "mget (sd_running (vc_state demo_polled)) ''a'' = Some e" by (rule demo_polled_run)
  have "terminal (last (wk_events w))" using r(2) by (simp add: terminal_def)
  from worker_hands_back [OF r(1) this demo_polled_inv, unfolded item, OF e] r show ?thesis by auto
qed

subsection \<open>Two findings\<close>

text \<open>
  Codex runs on this machine. Whatever host was chosen for the run, the session's directory is
  validated in the local file system; so if the workspace of a run on a worker host does not exist
  here, the run fails before its first turn.
\<close>

lemma remote_run_fails:
  assumes "we_bundles env (we_workflow env) (we_settings env) = Inr bd"
    and "TrimSpace (rk_Path k) \<noteq> []" "TrimSpace (wo_Root (st_Workspace (we_settings env))) \<noteq> []"
    and "IsAbs (TrimSpace (wo_Root (st_Workspace (we_settings env))))" "IsAbs (rk_Path k)"
    and "\<And>p. se_evalSymlinks (we_session env) p = (if p = Clean (rk_Path k) then Inl e else Inr p)"
    and "Clean (TrimSpace (wo_Root (st_Workspace (we_settings env)))) \<noteq> Clean (rk_Path k)"
  shows "\<exists>msg. runCodexLoop env k w = Some (Some msg, w)"
  using assms
  by (simp add: runCodexLoop_def StartSession_def validateWorkspacePath_def normalizeConfig_def Let_def
      ConfigFromSettings_def path_Abs_def relay_def)

text \<open>
  A value that itself looks like a placeholder may or may not be replaced: the text of the prompt
  depends on the order in which Go's \<open>range\<close> visits the map.
\<close>

lemma renderPrompt_depends_on_order:
  "renderPrompt (\<lambda>ks. ks) ''{{ issue.title }}'' (empty_item\<lparr>wi_ID := ''7'', wi_Title := ''{{issue.id}}''\<rparr>) = ''{{issue.id}}''
   \<and> renderPrompt rev ''{{ issue.title }}'' (empty_item\<lparr>wi_ID := ''7'', wi_Title := ''{{issue.id}}''\<rparr>) = ''7''"
  by code_simp

end
