(* ===== verification/Observability_Props.thy ===== *)
theory Observability_Props
  imports Observability Orch_Demo
begin

text \<open>
  What the dashboards rely on: the rows of a projected view are those of the snapshot, in a fixed order;
  commands are shown on one line of bounded length; the throughput is steady within a second.
\<close>

subsection \<open>Texts\<close>

lemma fields_acc_no_space:
  "\<forall>c \<in> set w. \<not> is_space c \<Longrightarrow> \<forall>f \<in> set (fields_acc w s). f \<noteq> [] \<and> (\<forall>c \<in> set f. \<not> is_space c)"
proof (induction s arbitrary: w)
  case (Cons c s)
  show ?case
  proof (cases "is_space c")
    case True
    then have "fields_acc w (c # s) = (if w = [] then [] else [w]) @ fields_acc [] s" by simp
    then show ?thesis using Cons.IH [of "[]"] Cons.prems by (cases "w = []") (simp_all del: fields_acc.simps)
  next
    case False
    then have "fields_acc w (c # s) = fields_acc (w @ [c]) s" by simp
    moreover have "\<forall>x \<in> set (w @ [c]). \<not> is_space x" using Cons.prems False by simp
    ultimately show ?thesis using Cons.IH by (simp only:)
  qed
next
  case Nil
  then show ?case by (cases "w = []") simp_all
qed

lemma Join_chars: "set (Join ws sep) \<subseteq> \<Union> (set ` set ws) \<union> set sep"
  by (induction ws sep rule: Join.induct) auto

lemma sanitizeInline_spaces: "c \<in> set (sanitizeInline s) \<Longrightarrow> is_space c \<Longrightarrow> c = CHR '' ''"
  using Join_chars [of "Fields (replace_breaks 0 s)" "'' ''"] fields_acc_no_space [of "[]" "replace_breaks 0 s"]
  by (auto simp: sanitizeInline_def Fields_def)

lemma length_truncate: "0 < n \<Longrightarrow> length (obs_truncate s n) \<le> n"
  by (auto simp: obs_truncate_def)

lemma truncate_chars: "set (obs_truncate s n) \<subseteq> set s \<union> {CHR ''.''}"
  using set_take_subset [of _ s] by (auto simp: obs_truncate_def)

text \<open>A command takes one line: whatever JSON value a Codex event gives for a command, what is shown
  has at most 80 bytes and no white space but blanks; and the error of a retry has no line break either.\<close>

theorem commands_on_one_line:
  "length (normalizeCommand v) \<le> 80 \<and> (\<forall>c \<in> set (normalizeCommand v). is_space c \<longrightarrow> c = CHR '' '')
   \<and> (\<forall>c \<in> set (tw_Error (retry_row_of now entry)). is_space c \<longrightarrow> c = CHR '' '')"
proof -
  have "\<forall>c \<in> set (obs_truncate (sanitizeInline s) 80). is_space c \<longrightarrow> c = CHR '' ''" for s
    using truncate_chars [of "sanitizeInline s" 80] sanitizeInline_spaces [of _ s]
    by (auto simp: is_space_def)
  then have "\<forall>c \<in> set (normalizeCommand v). is_space c \<longrightarrow> c = CHR '' ''" for v
    by (auto simp: normalizeCommand_def split: gval.splits if_splits)
  moreover have "length (normalizeCommand v) \<le> 80" for v
    using length_truncate [of 80] by (auto simp: normalizeCommand_def split: gval.splits)
  moreover have "\<forall>c \<in> set (tw_Error (retry_row_of now entry)). is_space c \<longrightarrow> c = CHR '' ''"
    using sanitizeInline_spaces [of _ "rv_LastError entry"] by (simp add: retry_row_of_def)
  ultimately show ?thesis by blast
qed

theorem commands_on_one_line_witness:
  "length (normalizeCommand (VList [VStr ''git'', VStr [CHR ''a'', CHR 0x0A, CHR ''b'']])) \<le> 80
   \<and> normalizeCommand (VList [VStr ''git'', VStr [CHR ''a'', CHR 0x0A, CHR ''b'']]) = ''git a b''"
proof
  show "length (normalizeCommand (VList [VStr ''git'', VStr [CHR ''a'', CHR 0x0A, CHR ''b'']])) \<le> 80"
    using commands_on_one_line by blast
  show "normalizeCommand (VList [VStr ''git'', VStr [CHR ''a'', CHR 0x0A, CHR ''b'']]) = ''git a b''"
    by code_simp
qed

subsection \<open>The projection\<close>

lemma retry_row_order: "weak_order retry_row_less"
  unfolding weak_order_def retry_row_less_def by auto

text \<open>A view shows what the snapshot holds. Its running rows are those of the running entries in
  their order, and as many as the header counts; its retry rows are those of the retry entries,
  rearranged so that no row comes after one that is due later or, if due at the same time, has a greater
  identifier; and no row is due in the past.\<close>

theorem Project_rows:
  assumes "Project sn ctx wall p = (view, p1)" "dc_Now ctx \<noteq> zero_time"
  shows "dv_Running view = map (running_row_of (dc_Now ctx)) (sn_Running sn)
    \<and> dh_AgentCount (dv_Header view) = length (sn_Running sn)
    \<and> mset (dv_Retrying view) = image_mset (retry_row_of (dc_Now ctx)) (mset (sn_Retrying sn))
    \<and> sorted_wrt (\<lambda>a b. tw_DueIn a < tw_DueIn b \<or> tw_DueIn a = tw_DueIn b \<and> tw_ID a \<le> tw_ID b) (dv_Retrying view)
    \<and> (\<forall>row \<in> set (dv_Retrying view). 0 \<le> tw_DueIn row)"
proof -
  have v: "dv_Running view = map (running_row_of (dc_Now ctx)) (sn_Running sn)"
    "dh_AgentCount (dv_Header view) = length (sn_Running sn)"
    "dv_Retrying view = sort_by retry_row_less (map (retry_row_of (dc_Now ctx)) (sn_Retrying sn))"
    using assms by (auto simp: Project_def Let_def split: prod.splits)
  have "sorted_wrt (\<lambda>a b. tw_DueIn a < tw_DueIn b \<or> tw_DueIn a = tw_DueIn b \<and> tw_ID a \<le> tw_ID b) (dv_Retrying view)"
    unfolding v(3)
    by (rule sorted_wrt_mono_rel [OF _ sorted_sort_by [OF retry_row_order]]) (auto simp: retry_row_less_def split: if_splits)
  moreover have "\<forall>row \<in> set (dv_Retrying view). 0 \<le> tw_DueIn row"
    by (auto simp: v(3) retry_row_of_def Let_def)
  ultimately show ?thesis using v by simp
qed

theorem Project_rows_witness:
  "map tw_DueIn (dv_Retrying (fst (Project (snapshot_of rev rev (vc_state demo_failed))
      \<lparr>dc_Now = 7 * second, dc_MaxAgents = 1, dc_DashboardURL = [], dc_ProjectURL = []\<rparr> 0 NewProjector))) = [5 * second]
   \<and> dh_AgentCount (dv_Header (fst (Project (snapshot_of rev rev (vc_state demo_failed))
      \<lparr>dc_Now = 7 * second, dc_MaxAgents = 1, dc_DashboardURL = [], dc_ProjectURL = []\<rparr> 0 NewProjector))) = 0"
proof -
  let ?sn = "snapshot_of rev rev (vc_state demo_failed)"
  let ?ctx = "\<lparr>dc_Now = 7 * second, dc_MaxAgents = 1, dc_DashboardURL = [], dc_ProjectURL = []\<rparr>"
  obtain view p1 where v: "Project ?sn ?ctx 0 NewProjector = (view, p1)" by fastforce
  have "dc_Now ?ctx \<noteq> zero_time" by (simp add: zero_time_def second_def)
  from Project_rows [OF v this] have "dh_AgentCount (dv_Header view) = length (sn_Running ?sn)" by blast
  moreover have "length (sn_Running ?sn) = 0"
    by (simp add: snapshot_of_def demo_failed_fields range_entries_def List.map_filter_def)
  moreover have "map tw_DueIn (dv_Retrying (fst (Project ?sn ?ctx 0 NewProjector))) = [5 * second]" by code_simp
  ultimately show ?thesis by (simp add: v)
qed

subsection \<open>Throughput\<close>

inductive projected :: "projector \<Rightarrow> bool" where
  projected_new: "projected NewProjector"
| projected_step: "projected p \<Longrightarrow> projected (snd (throughput now tokens p))"

lemma new_tps_nonneg: "0 \<le> new_tps now tokens kept"
  by (simp add: new_tps_def Let_def trunc_rat_def second_def)

lemma projected_nonneg: "projected p \<Longrightarrow> 0 \<le> pj_lastTPSValue p"
  by (induction rule: projected.induct)
    (simp_all add: NewProjector_def throughput_def Let_def new_tps_nonneg)

text \<open>The throughput shown is steady and never negative: from a new projector on, whatever times
  and token counts it is given, a value is at least zero, is shown again for every later call in the same
  second, and is computed from samples of the last five seconds only, the newest of them being the call's.\<close>

theorem throughput_steady:
  assumes "projected p" "throughput now tokens p = (v, p1)"
  shows "0 \<le> v \<and> (\<forall>now' tokens'. time_Unix now' = time_Unix now \<longrightarrow> fst (throughput now' tokens' p1) = v)
    \<and> (\<forall>s \<in> set (pj_samples p1). now - 5 * second \<le> sm_at s)
    \<and> pj_samples p1 \<noteq> [] \<and> last (pj_samples p1) = \<lparr>sm_at = now, sm_tokens = tokens\<rparr>"
proof -
  have s: "0 < second" by (simp add: second_def)
  have "pj_samples p1 = filter (\<lambda>s. \<not> sm_at s < now - 5 * second) (pj_samples p) @ [\<lparr>sm_at = now, sm_tokens = tokens\<rparr>]"
    using assms(2) s by (auto simp: throughput_def Let_def split: if_splits)
  moreover have "0 \<le> v"
    using assms(2) projected_nonneg [OF assms(1)] new_tps_nonneg by (auto simp: throughput_def Let_def split: if_splits)
  moreover have "pj_hasLastTPS p1 \<and> pj_lastTPSSecond p1 = time_Unix now \<and> pj_lastTPSValue p1 = v"
    using assms(2) by (auto simp: throughput_def Let_def split: if_splits)
  ultimately show ?thesis using s by (auto simp: throughput_def Let_def)
qed

theorem throughput_steady_witness:
  "let (v, p1) = throughput (12 * second) 700 (snd (throughput (10 * second) 100 NewProjector))
   in v = 300 \<and> fst (throughput (12 * second + 5) 9000 p1) = 300"
proof -
  let ?p = "snd (throughput (10 * second) 100 NewProjector)"
  have p: "projected ?p" by (intro projected_new projected_step)
  obtain v p1 where t: "throughput (12 * second) 700 ?p = (v, p1)" by fastforce
  have "fst (throughput (12 * second) 700 ?p) = 300" by code_simp
  then have v: "v = 300" by (simp add: t)
  have "time_Unix (12 * second + 5) = time_Unix (12 * second)" by (simp add: time_Unix_def second_def)
  with throughput_steady [OF p t] v show ?thesis by (simp add: t)
qed

end
