(* ===== verification/Terminal.thy ===== *)
theory Terminal
  imports Observability
begin

text \<open>
  \<open>internal/dashboard\<close>: the terminal dashboard. \<open>humanize.go\<close> formats numbers and texts, \<open>renderer.go\<close>
  turns a \<open>DashboardView\<close> into the lines of a frame (strings are bytes, so the box characters are
  written as their UTF-8 codes; \<open>fmt\<close> pads by runes), and \<open>live.go\<close> is the gate that limits how
  often a frame is drawn. \<open>fmt2\<close> is \<open>%.2f\<close> of a 64-bit float.
\<close>

subsection \<open>Runes\<close>

text \<open>
  The bytes of the first rune as Go's decoder finds it; an ill-formed byte counts as one rune.
\<close>

definition is_cont :: "string \<Rightarrow> nat \<Rightarrow> nat \<Rightarrow> nat \<Rightarrow> bool" where
  "is_cont s i lo hi \<longleftrightarrow> i < length s \<and> lo \<le> byte (s ! i) \<and> byte (s ! i) \<le> hi"

definition rune_len :: "string \<Rightarrow> nat" where
  "rune_len s = (if s = [] then 1 else
    (let b = byte (hd s);
         lo = (if b = 224 then 160 else if b = 240 then 144 else 128);
         hi = (if b = 237 then 159 else if b = 244 then 143 else 191)
     in if 194 \<le> b \<and> b \<le> 223 \<and> is_cont s 1 lo hi then 2
        else if 224 \<le> b \<and> b \<le> 239 \<and> is_cont s 1 lo hi \<and> is_cont s 2 128 191 then 3
        else if 240 \<le> b \<and> b \<le> 244 \<and> is_cont s 1 lo hi \<and> is_cont s 2 128 191 \<and> is_cont s 3 128 191 then 4
        else 1))"

fun count_runes :: "nat \<Rightarrow> string \<Rightarrow> nat" where
  "count_runes k [] = 0"
| "count_runes (Suc k) (c # s) = count_runes k s"
| "count_runes 0 (c # s) = Suc (count_runes (rune_len (c # s) - 1) s)"

definition RuneCount :: "string \<Rightarrow> nat" where
  "RuneCount s = count_runes 0 s"

definition pad_left :: "nat \<Rightarrow> char \<Rightarrow> string \<Rightarrow> string" where
  "pad_left width c s = replicate (width - RuneCount s) c @ s"

definition pad_right :: "nat \<Rightarrow> string \<Rightarrow> string" where
  "pad_right width s = s @ replicate (width - RuneCount s) (CHR '' '')"

subsection \<open>\<open>humanize.go\<close>\<close>

text \<open>A comma goes before every digit, but the first, that a multiple of three digits starts at.\<close>

fun group_digits :: "bool \<Rightarrow> string \<Rightarrow> string" where
  "group_digits started [] = []"
| "group_digits started (c # s) =
     (if started \<and> (length s + 1) mod 3 = 0 then CHR '','' # c # group_digits True s else c # group_digits True s)"

text \<open>Negating the least 64-bit integer gives itself.\<close>

definition FormatCount :: "int \<Rightarrow> string" where
  "FormatCount value =
    (let sign = (if value < 0 then ''-'' else []); v = (if value < 0 then wrap64 (- value) else value)
     in sign @ group_digits False (Itoa v))"

definition CompactSessionID :: "string \<Rightarrow> string" where
  "CompactSessionID sessionID =
    (if length sessionID \<le> 10 then (if TrimSpace sessionID = [] then ''n/a'' else sessionID)
     else take 4 sessionID @ ''...'' @ drop (length sessionID - 6) sessionID)"

definition dash_SanitizeInline :: "string \<Rightarrow> string" where
  "dash_SanitizeInline value = Join (Fields (replace_breaks 0 value)) '' ''"

definition dash_Truncate :: "string \<Rightarrow> nat \<Rightarrow> string" where
  "dash_Truncate value maxLen =
    (if maxLen = 0 \<or> length value \<le> maxLen then value
     else if maxLen \<le> 3 then take maxLen value
     else take (maxLen - 3) value @ ''...'')"

definition formatRuntime :: "int \<Rightarrow> string" where
  "formatRuntime seconds0 = (let seconds = (if seconds0 < 0 then 0 else seconds0) in
     Itoa (seconds div 60) @ ''m '' @ Itoa (seconds mod 60) @ ''s'')"

definition formatRuntimeTurns :: "int \<Rightarrow> int \<Rightarrow> string" where
  "formatRuntimeTurns seconds turns =
    (if 0 < turns then formatRuntime seconds @ '' / '' @ Itoa turns else formatRuntime seconds)"

definition formatDue :: "gduration \<Rightarrow> string" where
  "formatDue duration0 =
    (let duration = (if duration0 < 0 then 0 else duration0);
         ms = \<lceil>(of_int duration / of_int millisecond :: rat)\<rceil>
     in Itoa (ms div 1000) @ ''.'' @ pad_left 3 (CHR ''0'') (Itoa (ms mod 1000)) @ ''s'')"

subsection \<open>\<open>renderer.go\<close>\<close>

definition esc :: "string \<Rightarrow> string" where
  "esc code = CHR 0x1B # CHR ''['' # code"

definition ansiReset :: string where "ansiReset = esc ''0m''"
definition ansiBold :: string where "ansiBold = esc ''1m''"
definition ansiDim :: string where "ansiDim = esc ''2m''"
definition ansiBlue :: string where "ansiBlue = esc ''34m''"
definition ansiCyan :: string where "ansiCyan = esc ''36m''"
definition ansiGray :: string where "ansiGray = esc ''90m''"
definition ansiGreen :: string where "ansiGreen = esc ''32m''"
definition ansiYellow :: string where "ansiYellow = esc ''33m''"
definition ansiRed :: string where "ansiRed = esc ''31m''"
definition ansiPurple :: string where "ansiPurple = esc ''35m''"

definition terminalPrefix :: string where
  "terminalPrefix = esc ''H'' @ esc ''2J''"

definition rule_mark :: string where "rule_mark = [CHR 0xE2, CHR 0x94, CHR 0x80]"
definition bar_mark :: string where "bar_mark = [CHR 0xE2, CHR 0x94, CHR 0x82]"
definition top_mark :: string where "top_mark = [CHR 0xE2, CHR 0x95, CHR 0xAD] @ rule_mark"
definition tee_mark :: string where "tee_mark = [CHR 0xE2, CHR 0x94, CHR 0x9C] @ rule_mark"
definition end_mark :: string where "end_mark = [CHR 0xE2, CHR 0x95, CHR 0xB0] @ rule_mark"
definition dot_mark :: string where "dot_mark = [CHR 0xE2, CHR 0x97, CHR 0x8F]"
definition again_mark :: string where "again_mark = [CHR 0xE2, CHR 0x86, CHR 0xBB]"

definition colorize :: "string \<Rightarrow> string \<Rightarrow> string" where
  "colorize value code = code @ value @ ansiReset"

definition colorForOptional :: "string \<Rightarrow> string" where
  "colorForOptional value = (if TrimSpace value = [] \<or> value = ''n/a'' then ansiGray else ansiCyan)"

fun dash_firstNonEmpty :: "string list \<Rightarrow> string" where
  "dash_firstNonEmpty [] = []"
| "dash_firstNonEmpty (v # vs) = (if TrimSpace v \<noteq> [] then v else dash_firstNonEmpty vs)"

definition cell :: "string \<Rightarrow> nat \<Rightarrow> bool \<Rightarrow> string" where
  "cell value0 width right = (let value = dash_Truncate (dash_SanitizeInline value0) width in
     if right then pad_left width (CHR '' '') value else pad_right width value)"

definition formatBucket :: "rate_limit_bucket option \<Rightarrow> string" where
  "formatBucket bucket = (case bucket of None \<Rightarrow> ''n/a''
   | Some b \<Rightarrow> (case (rb_Remaining b, rb_Limit b) of
       (Some r, Some l) \<Rightarrow> (let base = FormatCount r @ ''/'' @ FormatCount l in
         case rb_ResetInSeconds b of Some t \<Rightarrow> base @ '' reset '' @ FormatCount t @ ''s'' | None \<Rightarrow> base)
     | (Some r, None) \<Rightarrow> ''remaining '' @ FormatCount r
     | (None, Some l) \<Rightarrow> ''limit '' @ FormatCount l
     | (None, None) \<Rightarrow> ''n/a''))"

definition formatCredits :: "(float64 \<Rightarrow> string) \<Rightarrow> rate_limit_credits option \<Rightarrow> string" where
  "formatCredits fmt2 credits = (case credits of None \<Rightarrow> ''credits n/a''
   | Some c \<Rightarrow> (if rc_Unlimited c = Some True then ''credits unlimited''
       else if rc_HasCredits c = Some True then
         (case rc_Balance c of Some b \<Rightarrow> ''credits '' @ fmt2 b | None \<Rightarrow> ''credits available'')
       else ''credits none''))"

definition formatRateLimits :: "(float64 \<Rightarrow> string) \<Rightarrow> rate_limits option \<Rightarrow> string" where
  "formatRateLimits fmt2 limits = (case limits of None \<Rightarrow> colorize ''unavailable'' ansiGray
   | Some l \<Rightarrow> colorize (dash_firstNonEmpty [rl_LimitID l, ''unknown'']) ansiYellow @ colorize '' | '' ansiGray
       @ colorize (''primary '' @ formatBucket (rl_Primary l)) ansiCyan @ colorize '' | '' ansiGray
       @ colorize (''secondary '' @ formatBucket (rl_Secondary l)) ansiCyan @ colorize '' | '' ansiGray
       @ colorize (formatCredits fmt2 (rl_Credits l)) ansiGreen)"

definition status_color :: "string \<Rightarrow> string" where
  "status_color event = (if Contains event ''token'' then ansiYellow
     else if Contains event ''task'' \<or> Contains event ''command'' then ansiGreen
     else if Contains event ''turn completed'' then ansiPurple
     else ansiBlue)"

definition renderRunningRow :: "running_row \<Rightarrow> string" where
  "renderRunningRow row =
    (let statusColor = status_color (nr_Event row) in
     bar_mark @ '' '' @ Join
       [colorize dot_mark statusColor,
        colorize (cell (nr_ID row) 8 False) ansiCyan,
        colorize (cell (nr_State row) 14 False) statusColor,
        colorize (cell (dash_firstNonEmpty [nr_PID row, ''n/a'']) 8 False) ansiYellow,
        colorize (cell (formatRuntimeTurns (nr_RuntimeSeconds row) (nr_TurnCount row)) 12 False) ansiPurple,
        colorize (cell (FormatCount (nr_TotalTokens row)) 10 True) ansiYellow,
        colorize (cell (CompactSessionID (nr_SessionID row)) 14 False) ansiCyan,
        colorize (cell (dash_Truncate (nr_Event row) 140) 44 False) statusColor] '' '')"

definition renderRetryRow :: "retry_row \<Rightarrow> string" where
  "renderRetryRow row =
    (let errorText = (if TrimSpace (tw_Error row) = [] then []
           else '' '' @ colorize (''error='' @ dash_Truncate (dash_SanitizeInline (tw_Error row)) 96) ansiDim)
     in bar_mark @ ''  '' @ colorize again_mark ansiYellow @ '' ''
        @ colorize (dash_firstNonEmpty [tw_ID row, ''unknown'']) ansiRed @ '' ''
        @ colorize (''attempt='' @ Itoa (tw_Attempt row)) ansiYellow @ colorize '' in '' ansiDim
        @ colorize (formatDue (tw_DueIn row)) ansiCyan @ errorText)"

definition title_line :: string where
  "title_line = colorize (top_mark @ '' SYMPHONY STATUS'') ansiBold"

definition RenderOffline :: string where
  "RenderOffline = terminalPrefix @ Join
     [title_line, colorize (bar_mark @ '' app_status=offline'') ansiRed, end_mark] [CHR 0x0A]"

definition RenderUnavailable :: "string \<Rightarrow> string" where
  "RenderUnavailable reason = terminalPrefix @ Join
     [title_line, colorize (bar_mark @ '' '' @ dash_firstNonEmpty [reason, ''Snapshot unavailable'']) ansiRed,
      end_mark] [CHR 0x0A]"

definition header_lines :: "(float64 \<Rightarrow> string) \<Rightarrow> dashboard_header \<Rightarrow> string list" where
  "header_lines fmt2 h =
    (let label = (\<lambda>name. colorize (bar_mark @ '' '' @ name @ '': '') ansiBold) in
     [title_line,
      label ''Agents'' @ colorize (Itoa (int (dh_AgentCount h))) ansiGreen @ colorize ''/'' ansiGray
        @ colorize (Itoa (dh_MaxAgents h)) ansiGray,
      label ''Throughput'' @ colorize (FormatCount (dh_ThroughputTPS h) @ '' tps'') ansiCyan,
      label ''Runtime'' @ colorize (formatRuntime (dh_RuntimeSeconds h)) ansiPurple,
      label ''Tokens'' @ colorize (''in '' @ FormatCount (ct_InputTokens (dh_Tokens h))) ansiYellow
        @ colorize '' | '' ansiGray @ colorize (''out '' @ FormatCount (ct_OutputTokens (dh_Tokens h))) ansiYellow
        @ colorize '' | '' ansiGray @ colorize (''total '' @ FormatCount (ct_TotalTokens (dh_Tokens h))) ansiYellow,
      label ''Rate Limits'' @ formatRateLimits fmt2 (dh_RateLimits h),
      label ''Project'' @ colorize (dash_firstNonEmpty [dh_ProjectURL h, ''n/a'']) (colorForOptional (dh_ProjectURL h))]
     @ (if TrimSpace (dh_DashboardURL h) \<noteq> [] then [label ''Dashboard'' @ colorize (dh_DashboardURL h) ansiCyan] else [])
     @ [label ''Next refresh'' @ colorize (dash_firstNonEmpty [dh_NextRefresh h, ''n/a''])
          (colorForOptional (dh_NextRefresh h))])"

definition Render :: "(float64 \<Rightarrow> string) \<Rightarrow> dashboard_view \<Rightarrow> string" where
  "Render fmt2 view = (case dv_Mode view of
     DashboardModeOffline \<Rightarrow> RenderOffline
   | DashboardModeUnavailable \<Rightarrow> RenderUnavailable (dv_UnavailableReason view)
   | DashboardModeNormal \<Rightarrow> terminalPrefix @ Join
      (header_lines fmt2 (dv_Header view)
       @ [colorize (tee_mark @ '' Running'') ansiBold, bar_mark,
          bar_mark @ ''   '' @ colorize ''ID       STAGE          PID      AGE / TURN   TOKENS     SESSION        EVENT'' ansiGray,
          bar_mark @ ''   '' @ colorize (concat (replicate 111 rule_mark)) ansiGray]
       @ (if dv_Running view = [] then [bar_mark @ ''  '' @ colorize ''No active agents'' ansiGray]
          else map renderRunningRow (dv_Running view))
       @ [bar_mark, colorize (tee_mark @ '' Backoff queue'') ansiBold, bar_mark]
       @ (if dv_Retrying view = [] then [bar_mark @ ''  '' @ colorize ''No queued retries'' ansiGray]
          else map renderRetryRow (dv_Retrying view))
       @ [end_mark]) [CHR 0x0A])"

subsection \<open>\<open>live.go\<close>\<close>

definition minimumIdleRerender :: gduration where
  "minimumIdleRerender = second"

record render_gate =
  rg_renderInterval :: gduration
  rg_lastContent :: string
  rg_lastRenderedAt :: gtime
  rg_pendingContent :: string
  rg_pendingFlushAt :: "gtime option"
  rg_lastFingerprint :: string

record render_decision =
  re_Render :: bool
  re_Pending :: bool
  re_Content :: string
  re_FlushAt :: "gtime option"

definition NewRenderGate :: "gduration \<Rightarrow> render_gate" where
  "NewRenderGate renderInterval =
    \<lparr>rg_renderInterval = (if renderInterval \<le> 0 then second else renderInterval), rg_lastContent = [],
     rg_lastRenderedAt = zero_time, rg_pendingContent = [], rg_pendingFlushAt = None, rg_lastFingerprint = []\<rparr>"

definition decide_render :: "string \<Rightarrow> render_decision" where
  "decide_render content = \<lparr>re_Render = True, re_Pending = False, re_Content = content, re_FlushAt = None\<rparr>"

definition decide_nothing :: render_decision where
  "decide_nothing = \<lparr>re_Render = False, re_Pending = False, re_Content = [], re_FlushAt = None\<rparr>"

definition Enqueue ::
  "string \<Rightarrow> string \<Rightarrow> gtime \<Rightarrow> render_gate option \<Rightarrow> render_decision \<times> render_gate option" where
  "Enqueue content fingerprint now gate = (case gate of
     None \<Rightarrow> (decide_render content, None)
   | Some g \<Rightarrow>
      (if content = rg_lastContent g \<and> rg_pendingContent g = [] then
         (if fingerprint = rg_lastFingerprint g \<and> minimumIdleRerender \<le> time_Sub now (rg_lastRenderedAt g)
          then (decide_render content, Some (g\<lparr>rg_lastRenderedAt := now\<rparr>))
          else (decide_nothing, gate))
       else if rg_lastRenderedAt g = zero_time \<or> rg_renderInterval g \<le> time_Sub now (rg_lastRenderedAt g) then
         (decide_render content, Some (g\<lparr>rg_lastContent := content, rg_lastRenderedAt := now, rg_pendingContent := [],
            rg_pendingFlushAt := None, rg_lastFingerprint := fingerprint\<rparr>))
       else
         (let flushAt = rg_lastRenderedAt g + rg_renderInterval g in
          (\<lparr>re_Render = False, re_Pending = True, re_Content = [], re_FlushAt = Some flushAt\<rparr>,
           Some (g\<lparr>rg_pendingContent := content, rg_pendingFlushAt := Some flushAt,
             rg_lastFingerprint := fingerprint\<rparr>)))))"

text \<open>\<open>None\<close> is the second result \<open>false\<close>.\<close>

definition Flush :: "gtime \<Rightarrow> render_gate option \<Rightarrow> string option \<times> render_gate option" where
  "Flush now gate = (case gate of None \<Rightarrow> (None, None)
   | Some g \<Rightarrow> (case rg_pendingFlushAt g of None \<Rightarrow> (None, gate)
     | Some flushAt \<Rightarrow>
        (if rg_pendingContent g = [] \<or> now < flushAt then (None, gate)
         else (Some (rg_pendingContent g), Some (g\<lparr>rg_lastContent := rg_pendingContent g, rg_lastRenderedAt := now,
           rg_pendingContent := [], rg_pendingFlushAt := None\<rparr>)))))"

definition ForceIdleRerender :: "string \<Rightarrow> gtime \<Rightarrow> render_gate option \<Rightarrow> bool" where
  "ForceIdleRerender fingerprint now gate = (case gate of None \<Rightarrow> True
   | Some g \<Rightarrow> rg_lastRenderedAt g = zero_time
       \<or> fingerprint = rg_lastFingerprint g \<and> minimumIdleRerender \<le> time_Sub now (rg_lastRenderedAt g))"

end
