(* ===== verification/Terminal_Props.thy ===== *)
theory Terminal_Props
  imports Terminal
begin

text \<open>
  What the terminal dashboard promises: grouped numbers keep their digits, frames are not drawn faster than
  the gate allows, and no frame is lost.
\<close>

subsection \<open>Numbers\<close>

lemma group_digits_filter: "CHR '','' \<notin> set s \<Longrightarrow> filter (\<lambda>c. c \<noteq> CHR '','') (group_digits b s) = s"
  by (induction b s rule: group_digits.induct) auto

lemma comma_not_digit: "CHR '','' \<notin> set (digits_of n)"
proof
  assume "CHR '','' \<in> set (digits_of n)"
  then have "is_digit (CHR '','')" using digits_of_ok [of n] by (simp add: list_all_iff)
  then show False by (simp add: is_digit_def byte_def)
qed

subsection \<open>The gate\<close>

datatype gate_op = OpEnqueue string string gtime | OpFlush gtime

fun op_time :: "gate_op \<Rightarrow> gtime" where
  "op_time (OpEnqueue c f t) = t"
| "op_time (OpFlush t) = t"

fun proper_op :: "gate_op \<Rightarrow> bool" where
  "proper_op (OpEnqueue c f t) \<longleftrightarrow> 0 < t \<and> c \<noteq> []"
| "proper_op (OpFlush t) \<longleftrightarrow> 0 < t"

text \<open>The frames that an operation draws, with the time.\<close>

definition gate_step :: "gate_op \<Rightarrow> render_gate \<Rightarrow> (gtime \<times> string) list \<times> render_gate" where
  "gate_step op g = (case op of
     OpEnqueue c f t \<Rightarrow> (let (d, g') = Enqueue c f t (Some g) in
       (if re_Render d then [(t, re_Content d)] else [], the g'))
   | OpFlush t \<Rightarrow> (let (r, g') = Flush t (Some g) in
       (case r of Some c \<Rightarrow> [(t, c)] | None \<Rightarrow> [], the g')))"

fun gate_run :: "gate_op list \<Rightarrow> render_gate \<Rightarrow> (gtime \<times> string) list \<times> render_gate" where
  "gate_run [] g = ([], g)"
| "gate_run (op # ops) g = (let (out, g1) = gate_step op g; (outs, g2) = gate_run ops g1 in (out @ outs, g2))"

text \<open>The content enqueued last.\<close>

fun latest :: "string \<Rightarrow> gate_op list \<Rightarrow> string" where
  "latest c [] = c"
| "latest c (OpEnqueue c' f t # ops) = latest c' ops"
| "latest c (OpFlush t # ops) = latest c ops"

definition gate_inv :: "render_gate \<Rightarrow> (gtime \<times> string) list \<Rightarrow> string \<Rightarrow> bool" where
  "gate_inv g rs c \<longleftrightarrow> 0 < rg_renderInterval g
     \<and> (rs = [] \<longrightarrow> rg_lastRenderedAt g = 0 \<and> rg_lastContent g = [])
     \<and> (rs \<noteq> [] \<longrightarrow> 0 < rg_lastRenderedAt g \<and> last rs = (rg_lastRenderedAt g, rg_lastContent g))
     \<and> (if rg_pendingContent g = [] then rg_lastContent g = c
        else rg_pendingContent g = c \<and> rs \<noteq> [] \<and> rg_pendingFlushAt g = Some (rg_lastRenderedAt g + rg_renderInterval g))"

lemma time_Sub_le: "d \<le> time_Sub a b \<Longrightarrow> 0 < d \<Longrightarrow> d \<le> a - b"
  by (auto simp: time_Sub_def)

definition gate_pace :: "render_gate \<Rightarrow> gduration" where
  "gate_pace g = min (rg_renderInterval g) minimumIdleRerender"

lemma gate_step_inv:
  assumes "gate_inv g rs c" "gate_step op g = (out, g')" "proper_op op"
  shows "gate_inv g' (rs @ out) (latest c [op]) \<and> rg_renderInterval g' = rg_renderInterval g
    \<and> (\<forall>x \<in> set out. fst x = op_time op) \<and> length out \<le> 1
    \<and> (out \<noteq> [] \<and> rs \<noteq> [] \<longrightarrow> gate_pace g \<le> op_time op - fst (last rs))"
proof (cases op)
  case (OpEnqueue content f t)
  have ne: "content \<noteq> []" and t: "0 < t" using assms(3) OpEnqueue by simp_all
  have s: "0 < minimumIdleRerender" by (simp add: minimumIdleRerender_def second_def)
  consider (idle) "content = rg_lastContent g" "rg_pendingContent g = []"
      "f = rg_lastFingerprint g" "minimumIdleRerender \<le> time_Sub t (rg_lastRenderedAt g)"
    | (same) "content = rg_lastContent g" "rg_pendingContent g = []"
      "\<not> (f = rg_lastFingerprint g \<and> minimumIdleRerender \<le> time_Sub t (rg_lastRenderedAt g))"
    | (draw) "\<not> (content = rg_lastContent g \<and> rg_pendingContent g = [])"
      "rg_lastRenderedAt g = zero_time \<or> rg_renderInterval g \<le> time_Sub t (rg_lastRenderedAt g)"
    | (wait) "\<not> (content = rg_lastContent g \<and> rg_pendingContent g = [])"
      "rg_lastRenderedAt g \<noteq> zero_time" "\<not> rg_renderInterval g \<le> time_Sub t (rg_lastRenderedAt g)"
    by blast
  then show ?thesis
  proof cases
    case idle
    then have "out = [(t, content)]" "g' = g\<lparr>rg_lastRenderedAt := t\<rparr>"
      using assms(2) by (simp_all add: gate_step_def OpEnqueue Enqueue_def decide_render_def)
    moreover have "minimumIdleRerender \<le> t - rg_lastRenderedAt g" using time_Sub_le [OF idle(4) s] .
    ultimately show ?thesis using assms(1) idle t by (auto simp: gate_inv_def OpEnqueue gate_pace_def)
  next
    case same
    then have "out = []" "g' = g"
      using assms(2) by (auto simp: gate_step_def OpEnqueue Enqueue_def decide_nothing_def)
    then show ?thesis using assms(1) same by (auto simp: gate_inv_def OpEnqueue)
  next
    case draw
    then have "out = [(t, content)]" "g' = g\<lparr>rg_lastContent := content, rg_lastRenderedAt := t, rg_pendingContent := [],
            rg_pendingFlushAt := None, rg_lastFingerprint := f\<rparr>"
      using assms(2) by (auto simp: gate_step_def OpEnqueue Enqueue_def decide_render_def)
    moreover have "rs \<noteq> [] \<longrightarrow> gate_pace g \<le> t - fst (last rs)"
      using draw(2) assms(1) time_Sub_le [of "rg_renderInterval g" t "rg_lastRenderedAt g"]
      by (auto simp: gate_inv_def zero_time_def gate_pace_def)
    ultimately show ?thesis using assms(1) t by (simp add: gate_inv_def OpEnqueue)
  next
    case wait
    then have "out = []" "g' = g\<lparr>rg_pendingContent := content,
        rg_pendingFlushAt := Some (rg_lastRenderedAt g + rg_renderInterval g), rg_lastFingerprint := f\<rparr>"
      using assms(2) by (auto simp: gate_step_def OpEnqueue Enqueue_def Let_def)
    moreover have "rs \<noteq> []" using wait(2) assms(1) by (auto simp: gate_inv_def zero_time_def)
    ultimately show ?thesis using assms(1) ne by (simp add: gate_inv_def OpEnqueue)
  qed
next
  case (OpFlush t)
  show ?thesis
  proof (cases "rg_pendingContent g = [] \<or> t < rg_lastRenderedAt g + rg_renderInterval g")
    case True
    then have "out = []" "g' = g"
      using assms(1,2) by (auto simp: gate_step_def OpFlush Flush_def gate_inv_def split: option.splits if_splits)
    then show ?thesis using assms(1) by (simp add: OpFlush)
  next
    case False
    then have p: "rg_pendingFlushAt g = Some (rg_lastRenderedAt g + rg_renderInterval g)"
      using assms(1) by (simp add: gate_inv_def)
    then have "out = [(t, rg_pendingContent g)]" "g' = g\<lparr>rg_lastContent := rg_pendingContent g, rg_lastRenderedAt := t,
           rg_pendingContent := [], rg_pendingFlushAt := None\<rparr>"
      using assms(2) False by (auto simp: gate_step_def OpFlush Flush_def)
    then show ?thesis using assms(1,3) False by (auto simp: gate_inv_def OpFlush gate_pace_def)
  qed
qed

lemma latest_Cons: "latest c (op # ops) = latest (latest c [op]) ops"
  by (cases op) simp_all

definition paced :: "gduration \<Rightarrow> (gtime \<times> string) list \<Rightarrow> bool" where
  "paced p rs \<longleftrightarrow> (\<forall>i. Suc i < length rs \<longrightarrow> p \<le> fst (rs ! Suc i) - fst (rs ! i))"

lemma paced_snoc: "paced p rs \<Longrightarrow> (rs \<noteq> [] \<Longrightarrow> p \<le> fst x - fst (last rs)) \<Longrightarrow> paced p (rs @ [x])"
  unfolding paced_def
proof (intro allI impI)
  fix i
  assume old: "\<forall>i. Suc i < length rs \<longrightarrow> p \<le> fst (rs ! Suc i) - fst (rs ! i)"
    and new: "rs \<noteq> [] \<Longrightarrow> p \<le> fst x - fst (last rs)" and i: "Suc i < length (rs @ [x])"
  show "p \<le> fst ((rs @ [x]) ! Suc i) - fst ((rs @ [x]) ! i)"
  proof (cases "Suc i < length rs")
    case False
    then have n: "Suc i = length rs" "rs \<noteq> []" using i by auto
    then have "last rs = rs ! i" by (simp add: last_conv_nth flip: n(1))
    with new n show ?thesis by (simp add: nth_append)
  qed (use old in \<open>simp add: nth_append\<close>)
qed

lemma gate_run_inv:
  assumes "gate_inv g rs c" "paced (gate_pace g) rs" "gate_run ops g = (outs, g')" "\<forall>op \<in> set ops. proper_op op"
  shows "gate_inv g' (rs @ outs) (latest c ops) \<and> paced (gate_pace g) (rs @ outs)
    \<and> rg_renderInterval g' = rg_renderInterval g"
  using assms
proof (induction ops arbitrary: g rs c outs)
  case (Cons op ops)
  obtain out g1 where s: "gate_step op g = (out, g1)" by fastforce
  obtain outs1 where r: "gate_run ops g1 = (outs1, g')" "outs = out @ outs1"
    using Cons.prems(3) s by (auto split: prod.splits)
  have "proper_op op" "\<forall>op \<in> set ops. proper_op op" using Cons.prems(4) by simp_all
  note ops = this
  from gate_step_inv [OF Cons.prems(1) s ops(1)]
  have step: "gate_inv g1 (rs @ out) (latest c [op])" "rg_renderInterval g1 = rg_renderInterval g"
    "\<forall>x \<in> set out. fst x = op_time op" "length out \<le> 1"
    "out \<noteq> [] \<and> rs \<noteq> [] \<longrightarrow> gate_pace g \<le> op_time op - fst (last rs)"
    by blast+
  have pace: "gate_pace g1 = gate_pace g" by (simp add: gate_pace_def step(2))
  have "paced (gate_pace g) (rs @ out)"
  proof (cases out)
    case (Cons x xs)
    then have "out = [x]" using step(4) by simp
    with step(3,5) Cons.prems(2) show ?thesis using paced_snoc by simp
  qed (use Cons.prems(2) in simp)
  then have "gate_inv g' ((rs @ out) @ outs1) (latest (latest c [op]) ops)
      \<and> paced (gate_pace g1) ((rs @ out) @ outs1) \<and> rg_renderInterval g' = rg_renderInterval g1"
    by (intro Cons.IH [OF step(1) _ r(1) ops(2)]) (simp add: pace)
  then show ?case using step(2) unfolding r(2) latest_Cons [of c op ops] pace by simp
qed simp

lemma new_gate_inv: "gate_inv (NewRenderGate i) [] []"
  by (simp add: gate_inv_def NewRenderGate_def zero_time_def second_def)

text \<open>The gate draws slowly enough and loses nothing. After any sequence of enqueued frames
  (none of them empty, at times after the zero time) and flushes, two frames drawn one after the other are at least the render
  interval or one second apart, whichever is less; and the frame enqueued last is either the one drawn
  last, or it waits, and then a flush at any time from the announced one on draws it.\<close>

theorem gate_keeps_pace_and_latest:
  assumes "gate_run ops (NewRenderGate interval) = (frames, g)"
    and "\<forall>op \<in> set ops. proper_op op"
  shows "(\<forall>i. Suc i < length frames \<longrightarrow>
        min (rg_renderInterval g) minimumIdleRerender \<le> fst (frames ! Suc i) - fst (frames ! i))
    \<and> (latest [] ops = rg_lastContent g \<and> (frames \<noteq> [] \<longrightarrow> snd (last frames) = latest [] ops)
       \<or> (\<exists>flushAt. rg_pendingFlushAt g = Some flushAt
           \<and> (\<forall>now \<ge> flushAt. fst (Flush now (Some g)) = Some (latest [] ops))))"
proof -
  let ?n = "NewRenderGate interval"
  have "paced (gate_pace ?n) []" by (simp add: paced_def)
  then have r: "gate_inv g ([] @ frames) (latest [] ops) \<and> paced (gate_pace ?n) ([] @ frames)
      \<and> rg_renderInterval g = rg_renderInterval ?n"
    by (rule gate_run_inv [OF new_gate_inv _ assms(1)]) (rule assms(2))
  have pace: "gate_pace ?n = min (rg_renderInterval g) minimumIdleRerender"
    using r by (simp add: gate_pace_def)
  show ?thesis
  proof (cases "rg_pendingContent g = []")
    case True
    then show ?thesis using r unfolding paced_def pace by (auto simp: gate_inv_def)
  next
    case False
    then have "rg_pendingContent g = latest [] ops"
      "rg_pendingFlushAt g = Some (rg_lastRenderedAt g + rg_renderInterval g)"
      using r by (simp_all add: gate_inv_def)
    then show ?thesis using r False unfolding paced_def pace by (auto simp: Flush_def)
  qed
qed

theorem gate_keeps_pace_and_latest_witness:
  "let ops = [OpEnqueue ''A'' ''f'' (5 * second), OpEnqueue ''B'' ''g'' (6 * second), OpFlush (8 * second)];
       (frames, g) = gate_run ops (NewRenderGate (2 * second))
   in frames = [(5 * second, ''A''), (8 * second, ''B'')] \<and> snd (last frames) = latest [] ops"
proof -
  let ?ops = "[OpEnqueue ''A'' ''f'' (5 * second), OpEnqueue ''B'' ''g'' (6 * second), OpFlush (8 * second)]"
  obtain frames g where r: "gate_run ?ops (NewRenderGate (2 * second)) = (frames, g)" by fastforce
  have f: "fst (gate_run ?ops (NewRenderGate (2 * second))) = [(5 * second, ''A''), (8 * second, ''B'')]
      \<and> rg_pendingFlushAt (snd (gate_run ?ops (NewRenderGate (2 * second)))) = None"
    by code_simp
  have "\<forall>op \<in> set ?ops. proper_op op" by (simp add: second_def)
  from gate_keeps_pace_and_latest [OF r this] f r show ?thesis by auto
qed

text \<open>An empty frame that has to wait is lost: the gate takes no pending content for none.\<close>

lemma gate_loses_empty_frame:
  "let (frames, g) = gate_run [OpEnqueue ''A'' ''f'' (5 * second), OpEnqueue [] ''g'' (6 * second), OpFlush (9 * second)]
      (NewRenderGate (2 * second))
   in frames = [(5 * second, ''A'')] \<and> rg_pendingContent g = []"
  by code_simp

text \<open>Grouping a number only adds commas: without them \<open>FormatCount\<close> is the decimal
  text of the number, for every 64-bit integer but the least one, so \<open>Atoi\<close> reads it back.\<close>

theorem FormatCount_digits:
  assumes "- (2 ^ 63) < v" "v < 2 ^ 63"
  shows "filter (\<lambda>c. c \<noteq> CHR '','') (FormatCount v) = Itoa v
    \<and> Atoi (filter (\<lambda>c. c \<noteq> CHR '','') (FormatCount v)) = Some v"
proof -
  have "wrap64 (- v) = - v" using assms by (intro wrap64_id) simp_all
  then have "filter (\<lambda>c. c \<noteq> CHR '','') (FormatCount v) = Itoa v"
    by (simp add: FormatCount_def Let_def Itoa_def group_digits_filter comma_not_digit)
  then show ?thesis using Atoi_Itoa [of v] assms by simp
qed

theorem FormatCount_digits_witness:
  "Atoi (filter (\<lambda>c. c \<noteq> CHR '','') (FormatCount (-1234567))) = Some (-1234567) \<and> FormatCount (-1234567) = ''-1,234,567''"
proof -
  have "FormatCount (-1234567) = ''-1,234,567''"
    by (simp add: FormatCount_def Let_def Itoa_def digits_of.simps wrap64_def, code_simp)
  moreover have "- (2 ^ 63) < (-1234567 :: int)" "(-1234567 :: int) < 2 ^ 63" by simp_all
  ultimately show ?thesis using FormatCount_digits [of "-1234567"] by blast
qed

text \<open>The least 64-bit integer keeps its sign twice.\<close>

lemma FormatCount_least: "FormatCount (- (2 ^ 63)) = ''--9,223,372,036,854,775,808''"
  by (simp add: FormatCount_def Let_def Itoa_def digits_of.simps wrap64_def, code_simp)

end
