(* ===== verification/Go_Json.thy ===== *)
theory Go_Json
  imports Go_Values Prelude
begin

text \<open>
  \<open>json.MarshalIndent(v, "", "  ")\<close> and \<open>%q\<close> of Go's standard library, on the values that
  decoding with \<open>UseNumber\<close> gives. Object keys are sorted; strings are escaped as the encoder does,
  with \<open><\<close>, \<open>>\<close> and \<open>&\<close> as Unicode escapes. Bytes beyond ASCII are taken to be well-formed
  UTF-8 without the two line separators, and are copied.
\<close>

definition hex_digit :: "nat \<Rightarrow> char" where
  "hex_digit n = (if n < 10 then char_of (n + 48) else char_of (n + 87))"

definition hex2 :: "nat \<Rightarrow> string" where
  "hex2 n = [hex_digit (n div 16 mod 16), hex_digit (n mod 16)]"

definition json_char :: "char \<Rightarrow> string" where
  "json_char c =
    (if c = CHR 0x22 then [CHR 0x5C, CHR 0x22]
     else if c = CHR 0x5C then [CHR 0x5C, CHR 0x5C]
     else if c = CHR 0x08 then [CHR 0x5C, CHR ''b'']
     else if c = CHR 0x0C then [CHR 0x5C, CHR ''f'']
     else if c = CHR 0x0A then [CHR 0x5C, CHR ''n'']
     else if c = CHR 0x0D then [CHR 0x5C, CHR ''r'']
     else if c = CHR 0x09 then [CHR 0x5C, CHR ''t'']
     else if byte c < 32 \<or> c = CHR ''<'' \<or> c = CHR ''>'' \<or> c = CHR ''&''
       then [CHR 0x5C, CHR ''u'', CHR ''0'', CHR ''0''] @ hex2 (byte c)
     else [c])"

definition json_string :: "string \<Rightarrow> string" where
  "json_string s = CHR 0x22 # concat (map json_char s) @ [CHR 0x22]"

definition json_indent :: "nat \<Rightarrow> string" where
  "json_indent n = CHR 0x0A # replicate (2 * n) (CHR '' '')"

text \<open>Members or elements between brackets, one a line.\<close>

definition json_block :: "char \<Rightarrow> char \<Rightarrow> nat \<Rightarrow> string list \<Rightarrow> string" where
  "json_block a b n items = (if items = [] then [a, b]
     else a # Join (map (\<lambda>t. json_indent (Suc n) @ t) items) '','' @ json_indent n @ [b])"

definition key_less :: "string \<times> 'a \<Rightarrow> string \<times> 'a \<Rightarrow> bool" where
  "key_less a b = (fst a < fst b)"

primrec json_text :: "gval \<Rightarrow> nat \<Rightarrow> string" where
  "json_text VNil n = ''null''"
| "json_text (VBool b) n = (if b then ''true'' else ''false'')"
| "json_text (VInt i) n = Itoa i"
| "json_text (VFloat r) n = []"
| "json_text (VNumber s) n = (if s = [] then ''0'' else s)"
| "json_text (VStr s) n = json_string s"
| "json_text (VList vs) n = json_block (CHR ''['') (CHR '']'') n (map (\<lambda>v. json_text v (Suc n)) vs)"
| "json_text (VMap m) n = json_block (CHR ''{'') (CHR ''}'') n
     (map (\<lambda>kt. json_string (fst kt) @ '': '' @ snd kt)
       (sort_by key_less (map (map_prod id (\<lambda>v. json_text v (Suc n))) m)))"
| "json_text (VAnyMap m) n = []"

text \<open>Values whose text is modelled: a \<open>map[any]any\<close> is an error of the encoder, floats do not arise.\<close>

primrec json_ok :: "gval \<Rightarrow> bool" where
  "json_ok VNil = True"
| "json_ok (VBool b) = True"
| "json_ok (VInt i) = True"
| "json_ok (VFloat r) = False"
| "json_ok (VNumber s) = True"
| "json_ok (VStr s) = True"
| "json_ok (VList vs) = list_all (\<lambda>b. b) (map json_ok vs)"
| "json_ok (VMap m) = list_all snd (map (map_prod id json_ok) m)"
| "json_ok (VAnyMap m) = False"

definition MarshalIndent :: "gval \<Rightarrow> string option" where
  "MarshalIndent v = (if json_ok v then Some (json_text v 0) else None)"

text \<open>\<open>strconv.Quote\<close>, the text of \<open>%q\<close>.\<close>

definition quote_char :: "char \<Rightarrow> string" where
  "quote_char c =
    (if c = CHR 0x22 then [CHR 0x5C, CHR 0x22]
     else if c = CHR 0x5C then [CHR 0x5C, CHR 0x5C]
     else if c = CHR 0x07 then [CHR 0x5C, CHR ''a'']
     else if c = CHR 0x08 then [CHR 0x5C, CHR ''b'']
     else if c = CHR 0x0C then [CHR 0x5C, CHR ''f'']
     else if c = CHR 0x0A then [CHR 0x5C, CHR ''n'']
     else if c = CHR 0x0D then [CHR 0x5C, CHR ''r'']
     else if c = CHR 0x09 then [CHR 0x5C, CHR ''t'']
     else if c = CHR 0x0B then [CHR 0x5C, CHR ''v'']
     else if byte c < 32 \<or> byte c = 127 then [CHR 0x5C, CHR ''x''] @ hex2 (byte c)
     else [c])"

definition go_quote :: "string \<Rightarrow> string" where
  "go_quote s = CHR 0x22 # concat (map quote_char s) @ [CHR 0x22]"

lemma marshal_example:
  "MarshalIndent (VMap [(''b'', VList [VInt 1, VNil]), (''a'', VMap [])])
   = Some ([CHR ''{'', CHR 0x0A] @ ''  '' @ [CHR 0x22, CHR ''a'', CHR 0x22] @ '': {},'' @ [CHR 0x0A] @ ''  ''
       @ [CHR 0x22, CHR ''b'', CHR 0x22] @ '': ['' @ [CHR 0x0A] @ ''    1,'' @ [CHR 0x0A] @ ''    null'' @ [CHR 0x0A]
       @ ''  ]'' @ [CHR 0x0A, CHR ''}''])"
  by code_simp

end
