(* ===== verification/Tool_Bridge.thy ===== *)
theory Tool_Bridge
  imports Codex_Session Go_Json Workflow_File
begin

text \<open>
  \<open>internal/toolbridge/linear/bridge.go\<close>: the tool \<open>linear_graphql\<close> that Codex may call, and the two
  mutations of the bridge; and \<open>internal/workflow\<close>, which picks the bundle of a provider. The client is
  the interface of the code, a function of the requests made so far and the request; \<open>HTTPClient\<close> is
  modelled over the outcome of the HTTP exchange, with the JSON codec and \<open>net/http\<close> as its parameters.
\<close>

datatype bridge_error =
    BErrMissingAPIToken
  | BErrCommentCreateFailed
  | BErrStateNotFound
  | BErrIssueUpdateFailed
  | BRequestError string
  | BStatusError int
  | BOtherError string

definition bridge_error_message :: "bridge_error \<Rightarrow> string" where
  "bridge_error_message e = (case e of
     BErrMissingAPIToken \<Rightarrow> ''linear api token missing''
   | BErrCommentCreateFailed \<Rightarrow> ''linear comment create failed''
   | BErrStateNotFound \<Rightarrow> ''linear state not found''
   | BErrIssueUpdateFailed \<Rightarrow> ''linear issue update failed''
   | BRequestError m \<Rightarrow> ''linear api request failed: '' @ m
   | BStatusError s \<Rightarrow> ''linear api status '' @ Itoa s
   | BOtherError m \<Rightarrow> m)"

text \<open>A request is the query and its variables; an answer is a map, \<open>None\<close> if nil.\<close>

type_synonym bridge_request = "string \<times> json"
type_synonym bridge_client = "bridge_request list \<Rightarrow> bridge_request \<Rightarrow> bridge_error + json option"

definition linearGraphQLTool :: string where "linearGraphQLTool = ''linear_graphql''"

definition linearGraphQLDesc :: string where
  "linearGraphQLDesc = ''Execute a raw GraphQL query or mutation against Linear using Symphony'' @ [CHR 0x27]
     @ ''s configured auth.''"

definition missingAuthMessage :: string where
  "missingAuthMessage = ''Symphony is missing Linear auth. Set `linear.api_key` in `WORKFLOW.md` or export `LINEAR_API_KEY`.''"

definition missingQueryMessage :: string where
  "missingQueryMessage = ''`linear_graphql` requires a non-empty `query` string.''"

definition invalidArgsMessage :: string where
  "invalidArgsMessage = ''`linear_graphql` expects either a GraphQL query string or an object with `query` and optional `variables`.''"

definition invalidVariablesMsg :: string where
  "invalidVariablesMsg = ''`linear_graphql.variables` must be a JSON object when provided.''"

definition requestFailedMessage :: string where
  "requestFailedMessage = ''Linear GraphQL request failed before receiving a successful response.''"

definition unexpectedToolErrorMsg :: string where
  "unexpectedToolErrorMsg = ''Linear GraphQL tool execution failed.''"

subsection \<open>Arguments and results\<close>

datatype args_error = errMissingQuery | errInvalidArgs | errInvalidVariables

definition normalizeVariables :: "json \<Rightarrow> json option" where
  "normalizeVariables arguments = (case map_of arguments ''variables'' of
     None \<Rightarrow> Some []
   | Some raw \<Rightarrow> if raw = VNil then Some [] else as_map raw)"

definition normalizeArguments :: "gval \<Rightarrow> args_error + bridge_request" where
  "normalizeArguments arguments = (case arguments of
     VStr s \<Rightarrow> (let query = TrimSpace s in if query = [] then Inl errMissingQuery else Inr (query, []))
   | VMap typed \<Rightarrow>
      (let query = TrimSpace (case vget typed ''query'' of VStr s \<Rightarrow> s | _ \<Rightarrow> []) in
       if query = [] then Inl errMissingQuery
       else (case normalizeVariables typed of None \<Rightarrow> Inl errInvalidVariables
         | Some variables \<Rightarrow> Inr (query, variables)))
   | _ \<Rightarrow> Inl errInvalidArgs)"

definition textItem :: "string \<Rightarrow> string \<times> string" where
  "textItem text = (''inputText'', text)"

text \<open>\<open>sprint\<close> is \<open>fmt.Sprint\<close> of a value that the encoder refuses.\<close>

definition encodePayload :: "(gval \<Rightarrow> string) \<Rightarrow> gval \<Rightarrow> string" where
  "encodePayload sprint payload = (case MarshalIndent payload of Some s \<Rightarrow> s | None \<Rightarrow> sprint payload)"

definition hasGraphQLErrors :: "json option \<Rightarrow> bool" where
  "hasGraphQLErrors body = (case body of None \<Rightarrow> False
   | Some b \<Rightarrow> (case map_of b ''errors'' of
       None \<Rightarrow> False
     | Some v \<Rightarrow> (case as_list v of Some vs \<Rightarrow> vs \<noteq> [] | None \<Rightarrow> False)))"

definition graphqlResponse :: "(gval \<Rightarrow> string) \<Rightarrow> json option \<Rightarrow> tool_result" where
  "graphqlResponse sprint body =
    \<lparr>tr_Success = (\<not> hasGraphQLErrors body),
     tr_ContentItems = [textItem (encodePayload sprint (case body of None \<Rightarrow> VNil | Some b \<Rightarrow> VMap b))],
     tr_Result = VNil, tr_Error = []\<rparr>"

definition failureResponse :: "(gval \<Rightarrow> string) \<Rightarrow> json \<Rightarrow> tool_result" where
  "failureResponse sprint payload =
    \<lparr>tr_Success = False, tr_ContentItems = [textItem (encodePayload sprint (VMap payload))],
     tr_Result = VNil, tr_Error = []\<rparr>"

definition error_object :: "json \<Rightarrow> json" where
  "error_object members = [(''error'', VMap members)]"

definition toolErrorPayload :: "args_error \<Rightarrow> json" where
  "toolErrorPayload e = error_object [(''message'', VStr (case e of
     errMissingQuery \<Rightarrow> missingQueryMessage | errInvalidVariables \<Rightarrow> invalidVariablesMsg | _ \<Rightarrow> invalidArgsMessage))]"

text \<open>The \<open>Status\<close> field that reflection finds, and the test for a request error.\<close>

definition statusFromError :: "bridge_error \<Rightarrow> int option" where
  "statusFromError e = (case e of BStatusError s \<Rightarrow> Some s | _ \<Rightarrow> None)"

definition isRequestError :: "bridge_error \<Rightarrow> bool" where
  "isRequestError e = ((case e of BRequestError m \<Rightarrow> True | _ \<Rightarrow> False)
     \<or> Contains (bridge_error_message e) ''linear api request failed'')"

definition clientErrorPayload :: "bridge_error \<Rightarrow> json" where
  "clientErrorPayload e =
    (if e = BErrMissingAPIToken then error_object [(''message'', VStr missingAuthMessage)]
     else case statusFromError e of
       Some status \<Rightarrow> error_object
         [(''message'', VStr (''Linear GraphQL request failed with HTTP '' @ Itoa status @ ''.'')), (''status'', VInt status)]
     | None \<Rightarrow> error_object
         [(''message'', VStr (if isRequestError e then requestFailedMessage else unexpectedToolErrorMsg)),
          (''reason'', VStr (bridge_error_message e))])"

definition linearGraphQLInputSchema :: json where
  "linearGraphQLInputSchema =
    [(''type'', VStr ''object''), (''additionalProperties'', VBool False), (''required'', VList [VStr ''query'']),
     (''properties'', VMap
       [(''query'', VMap [(''type'', VStr ''string''),
          (''description'', VStr ''GraphQL query or mutation document to execute against Linear.'')]),
        (''variables'', VMap [(''type'', VList [VStr ''object'', VStr ''null'']),
          (''description'', VStr ''Optional GraphQL variables object.''), (''additionalProperties'', VBool True)])])]"

subsection \<open>The tool\<close>

definition ToolSpecs :: "tool_spec list" where
  "ToolSpecs = [\<lparr>ts_Name = linearGraphQLTool, ts_Description = linearGraphQLDesc,
     ts_InputSchema = linearGraphQLInputSchema, ts_Parameters = []\<rparr>]"

text \<open>The result, and the requests made so far with the new one.\<close>

definition HandleTool ::
  "(gval \<Rightarrow> string) \<Rightarrow> bridge_client \<Rightarrow> tool_call \<Rightarrow> bridge_request list \<Rightarrow> tool_result \<times> bridge_request list" where
  "HandleTool sprint client call reqs =
    (if TrimSpace (tc_Name call) \<noteq> linearGraphQLTool then
       (failureResponse sprint (error_object
         [(''message'', VStr (''Unsupported dynamic tool: '' @ go_quote (tc_Name call) @ ''.'')),
          (''supportedTools'', VList [VStr linearGraphQLTool])]), reqs)
     else case normalizeArguments (tc_Arguments call) of
       Inl e \<Rightarrow> (failureResponse sprint (toolErrorPayload e), reqs)
     | Inr req \<Rightarrow>
        ((case client reqs req of
            Inl e \<Rightarrow> failureResponse sprint (clientErrorPayload e)
          | Inr body \<Rightarrow> graphqlResponse sprint body), reqs @ [req]))"

subsection \<open>Mutations\<close>

definition newline_lines :: "string list \<Rightarrow> string" where
  "newline_lines ls = concat (map (\<lambda>l. CHR 0x0A # l) ls)"

definition createCommentMutation :: string where
  "createCommentMutation = newline_lines
    [''mutation SymphonyCreateComment($issueId: String!, $body: String!) {'',
     ''  commentCreate(input: {issueId: $issueId, body: $body}) {'',
     ''    success'',
     ''  }'',
     ''}'']"

definition updateStateMutation :: string where
  "updateStateMutation = newline_lines
    [''mutation SymphonyUpdateIssueState($issueId: String!, $stateId: String!) {'',
     ''  issueUpdate(id: $issueId, input: {stateId: $stateId}) {'',
     ''    success'',
     ''  }'',
     ''}'']"

definition stateLookupQuery :: string where
  "stateLookupQuery = newline_lines
    [''query SymphonyResolveStateId($issueId: String!, $stateName: String!) {'',
     ''  issue(id: $issueId) {'',
     ''    team {'',
     ''      states(filter: {name: {eq: $stateName}}, first: 1) {'',
     ''        nodes {'',
     ''          id'',
     ''        }'',
     ''      }'',
     ''    }'',
     ''  }'',
     ''}'']"

fun bridge_nestedAny :: "gval \<Rightarrow> string list \<Rightarrow> gval option" where
  "bridge_nestedAny v [] = Some v"
| "bridge_nestedAny v (k # ks) = (case as_map v of None \<Rightarrow> None
     | Some m \<Rightarrow> (case map_of m k of None \<Rightarrow> None | Some w \<Rightarrow> bridge_nestedAny w ks))"

text \<open>A nil answer reads like an empty map.\<close>

definition body_value :: "json option \<Rightarrow> gval" where
  "body_value body = VMap (case body of None \<Rightarrow> [] | Some b \<Rightarrow> b)"

definition nestedBool :: "json option \<Rightarrow> string list \<Rightarrow> bool" where
  "nestedBool body keys = (bridge_nestedAny (body_value body) keys = Some (VBool True))"

definition firstStateID :: "json option \<Rightarrow> string" where
  "firstStateID body = (case bridge_nestedAny (body_value body) [''data'', ''issue'', ''team'', ''states'', ''nodes''] of
     Some (VList (VMap node # _)) \<Rightarrow> (case vget node ''id'' of VStr s \<Rightarrow> TrimSpace s | _ \<Rightarrow> [])
   | _ \<Rightarrow> [])"

definition CreateComment ::
  "bridge_client \<Rightarrow> string \<Rightarrow> string \<Rightarrow> bridge_request list \<Rightarrow> bridge_error option \<times> bridge_request list" where
  "CreateComment client issueID body reqs =
    (let req = (createCommentMutation, [(''issueId'', VStr issueID), (''body'', VStr body)]) in
     (case client reqs req of
        Inl e \<Rightarrow> Some e
      | Inr response \<Rightarrow> if nestedBool response [''data'', ''commentCreate'', ''success''] then None
          else Some BErrCommentCreateFailed, reqs @ [req]))"

definition UpdateIssueState ::
  "bridge_client \<Rightarrow> string \<Rightarrow> string \<Rightarrow> bridge_request list \<Rightarrow> bridge_error option \<times> bridge_request list" where
  "UpdateIssueState client issueID stateName reqs =
    (let lookup = (stateLookupQuery, [(''issueId'', VStr issueID), (''stateName'', VStr stateName)]) in
     case client reqs lookup of
       Inl e \<Rightarrow> (Some e, reqs @ [lookup])
     | Inr found \<Rightarrow>
        (let stateID = firstStateID found in
         if stateID = [] then (Some BErrStateNotFound, reqs @ [lookup])
         else (let update = (updateStateMutation, [(''issueId'', VStr issueID), (''stateId'', VStr stateID)]) in
           (case client (reqs @ [lookup]) update of
              Inl e \<Rightarrow> Some e
            | Inr response \<Rightarrow> if nestedBool response [''data'', ''issueUpdate'', ''success''] then None
                else Some BErrIssueUpdateFailed, reqs @ [lookup, update]))))"

subsection \<open>The HTTP client\<close>

datatype bridge_http =
    BDoCanceled string
  | BDoFailed string
  | BResponse int bridge_body
and bridge_body = BReadCanceled string | BReadFailed string | BReadAll string

record bridge_env =
  bh_marshal :: "gval \<Rightarrow> string + string"
  bh_newRequest :: "string \<Rightarrow> string option"
  bh_do :: "string \<Rightarrow> (string \<times> string) list \<Rightarrow> string \<Rightarrow> bridge_http"
  bh_decode :: "string \<Rightarrow> string + json option"

definition Bridge_GraphQL ::
  "bridge_env \<Rightarrow> string \<Rightarrow> string \<Rightarrow> bridge_request \<Rightarrow> bridge_error + json option" where
  "Bridge_GraphQL env endpoint apiKey req =
    (if TrimSpace apiKey = [] then Inl BErrMissingAPIToken
     else case bh_marshal env (VMap [(''query'', VStr (fst req)), (''variables'', VMap (snd req))]) of
       Inl e \<Rightarrow> Inl (BRequestError e)
     | Inr encoded \<Rightarrow> (case bh_newRequest env endpoint of
         Some e \<Rightarrow> Inl (BRequestError e)
       | None \<Rightarrow>
          (case bh_do env endpoint [(''Authorization'', apiKey), (''Content-Type'', ''application/json'')] encoded of
             BDoCanceled e \<Rightarrow> Inl (BOtherError e)
           | BDoFailed e \<Rightarrow> Inl (BRequestError e)
           | BResponse status rd \<Rightarrow> (case rd of
               BReadCanceled e \<Rightarrow> Inl (BOtherError e)
             | BReadFailed e \<Rightarrow> Inl (BRequestError e)
             | BReadAll content \<Rightarrow>
                (if status \<noteq> 200 then Inl (BStatusError status)
                 else case bh_decode env content of Inl e \<Rightarrow> Inl (BOtherError e) | Inr d \<Rightarrow> Inr d)))))"

text \<open>\<open>New\<close> with a nil client: the client it makes from the settings.\<close>

definition NewBridge :: "(nat \<Rightarrow> bridge_env) \<Rightarrow> provider_settings \<Rightarrow> bridge_client option \<Rightarrow> bridge_client" where
  "NewBridge env cfg client = (case client of Some c \<Rightarrow> c
   | None \<Rightarrow> (let endpoint = (if TrimSpace (pv_Endpoint cfg) = [] then ''https://api.linear.app/graphql''
               else TrimSpace (pv_Endpoint cfg))
       in (\<lambda>reqs req. Bridge_GraphQL (env (length reqs)) endpoint (TrimSpace (pv_APIKey cfg)) req)))"

subsection \<open>Bundles\<close>

text \<open>\<open>internal/workflow\<close>: the handler is the bridge's client, from which \<open>HandleTool\<close> is made.\<close>

record workflow_bundle =
  wb_ID :: string
  wb_PromptTemplate :: string
  wb_DynamicTools :: "tool_spec list"
  wb_Bridge :: bridge_client

definition CompatLinearDefault :: string where
  "CompatLinearDefault = ''compat_linear_default''"

definition CompatLinearDefaultBundle :: "(nat \<Rightarrow> bridge_env) \<Rightarrow> workflow \<Rightarrow> settings \<Rightarrow> workflow_bundle" where
  "CompatLinearDefaultBundle env raw cfg =
    \<lparr>wb_ID = CompatLinearDefault, wb_PromptTemplate = EffectivePromptTemplate raw, wb_DynamicTools = ToolSpecs,
     wb_Bridge = NewBridge env (st_Provider cfg) None\<rparr>"

definition Select_bundle :: "(nat \<Rightarrow> bridge_env) \<Rightarrow> workflow \<Rightarrow> settings \<Rightarrow> string + workflow_bundle" where
  "Select_bundle env raw cfg =
    (if pv_Kind (st_Provider cfg) = ProviderLinear then Inr (CompatLinearDefaultBundle env raw cfg)
     else Inl (''unsupported workflow provider: '' @ pv_Kind (st_Provider cfg)))"

end
