(* ===== verification/Tool_Bridge_Props.thy ===== *)
theory Tool_Bridge_Props
  imports Tool_Bridge
begin

text \<open>
  What Codex can do to Linear through the tool: at most one request for each call, with a real query, and
  the result says success exactly if Linear answered without errors.
\<close>

declare map_of_eq_Some_iff [simp del]

lemma normalizeArguments_query:
  assumes "normalizeArguments arguments = Inr (query, variables)"
  shows "query \<noteq> [] \<and> TrimSpace query = query"
  using assms by (auto simp: normalizeArguments_def Let_def split: gval.splits if_splits option.splits)

lemma failure_not_success [simp]:
  "\<not> tr_Success (failureResponse sprint payload)" "length (tr_ContentItems (failureResponse sprint payload)) = 1"
  by (simp_all add: failureResponse_def)

lemma response_success [simp]:
  "tr_Success (graphqlResponse sprint body) = (\<not> hasGraphQLErrors body)"
  "length (tr_ContentItems (graphqlResponse sprint body)) = 1"
  by (simp_all add: graphqlResponse_def)

text \<open>C26 (safety). What a tool call can do. Whatever the call and whatever the client answers: either no request is
  made, and the result is a failure; or the tool is \<open>linear_graphql\<close>, exactly one request is made, with a
  non-empty query without surrounding white space, and the result is a success exactly if the client answers
  without an error and the answer lists no GraphQL errors. Codex gets one text item back in any case.\<close>

theorem tool_call_requests:
  "case HandleTool sprint client call reqs of (result, reqs1) \<Rightarrow>
     length (tr_ContentItems result) = 1
     \<and> (reqs1 = reqs \<and> \<not> tr_Success result
        \<or> (\<exists>query variables. reqs1 = reqs @ [(query, variables)] \<and> TrimSpace (tc_Name call) = linearGraphQLTool
             \<and> query \<noteq> [] \<and> TrimSpace query = query
             \<and> (tr_Success result \<longleftrightarrow> (\<exists>body. client reqs (query, variables) = Inr body \<and> \<not> hasGraphQLErrors body))))"
proof (cases "TrimSpace (tc_Name call) = linearGraphQLTool")
  case True
  show ?thesis
  proof (cases "normalizeArguments (tc_Arguments call)")
    case (Inr req)
    obtain query variables where req: "req = (query, variables)" by fastforce
    from normalizeArguments_query [OF Inr [unfolded req]] show ?thesis
      by (simp add: HandleTool_def True Inr req split: sum.split)
  qed (simp add: HandleTool_def True)
qed (simp add: HandleTool_def)

text \<open>A query with blanks around it, and a call of another tool.\<close>

definition demo_call :: "string \<Rightarrow> gval \<Rightarrow> tool_call" where
  "demo_call name arguments = \<lparr>tc_ID = [], tc_Name = name, tc_Arguments = arguments\<rparr>"

theorem tool_call_requests_witness:
  "HandleTool (\<lambda>v. []) (\<lambda>reqs req. Inr None) (demo_call ''linear_graphql'' (VStr '' { viewer } '')) [] =
     (graphqlResponse (\<lambda>v. []) None, [(''{ viewer }'', [])])
   \<and> \<not> tr_Success (fst (HandleTool (\<lambda>v. []) (\<lambda>reqs req. Inr None) (demo_call ''shell'' (VStr ''ls'')) []))"
proof
  show "HandleTool (\<lambda>v. []) (\<lambda>reqs req. Inr None) (demo_call ''linear_graphql'' (VStr '' { viewer } '')) [] =
     (graphqlResponse (\<lambda>v. []) None, [(''{ viewer }'', [])])"
    by (simp add: HandleTool_def demo_call_def normalizeArguments_def linearGraphQLTool_def TrimSpace_def is_space_def)
  have "TrimSpace ''shell'' \<noteq> linearGraphQLTool" by code_simp
  then show "\<not> tr_Success (fst (HandleTool (\<lambda>v. []) (\<lambda>reqs req. Inr None) (demo_call ''shell'' (VStr ''ls'')) []))"
    using tool_call_requests [where sprint = "\<lambda>v. []" and client = "\<lambda>reqs req. Inr None"
      and call = "demo_call ''shell'' (VStr ''ls'')" and reqs = "[]"]
    by (auto simp: demo_call_def split: prod.splits)
qed

text \<open>Moving an issue takes a look-up and a mutation, in this order: if \<open>UpdateIssueState\<close> succeeds,
  then exactly two requests were made, the first resolved the name of the state within the team of the
  issue, the second set the issue to a non-empty state ID that the first answer named, and Linear confirmed it;
  and if the name cannot be resolved, no mutation is sent.\<close>

theorem issue_state_update:
  assumes "UpdateIssueState client issueID stateName reqs = (err, reqs1)"
  shows "(err = None \<longrightarrow> (\<exists>found response.
      client reqs (stateLookupQuery, [(''issueId'', VStr issueID), (''stateName'', VStr stateName)]) = Inr found
      \<and> firstStateID found \<noteq> []
      \<and> reqs1 = reqs @ [(stateLookupQuery, [(''issueId'', VStr issueID), (''stateName'', VStr stateName)]),
                        (updateStateMutation, [(''issueId'', VStr issueID), (''stateId'', VStr (firstStateID found))])]
      \<and> client (butlast reqs1) (last reqs1) = Inr response
      \<and> bridge_nestedAny (body_value response) [''data'', ''issueUpdate'', ''success''] = Some (VBool True)))
    \<and> (length reqs1 = Suc (length reqs) \<longrightarrow> err \<noteq> None)"
  using assms by (auto simp: UpdateIssueState_def Let_def nestedBool_def butlast_append split: sum.splits if_splits)

text \<open>A client that resolves every state to the ID \<open>s1\<close> and accepts the update.\<close>

definition demo_linear :: bridge_client where
  "demo_linear reqs req = Inr (Some [(''data'', VMap (if fst req = updateStateMutation
     then [(''issueUpdate'', VMap [(''success'', VBool True)])]
     else [(''issue'', VMap [(''team'', VMap [(''states'', VMap [(''nodes'', VList [VMap [(''id'', VStr ''s1'')]])])])])]))])"

theorem issue_state_update_witness:
  "\<exists>reqs1. UpdateIssueState demo_linear ''i'' ''Done'' [] = (None, reqs1) \<and> length reqs1 = 2
     \<and> snd (last reqs1) = [(''issueId'', VStr ''i''), (''stateId'', VStr ''s1'')]"
proof -
  have "fst (UpdateIssueState demo_linear ''i'' ''Done'' []) = None" by code_simp
  then obtain reqs1 where r: "UpdateIssueState demo_linear ''i'' ''Done'' [] = (None, reqs1)"
    by (metis prod.collapse)
  obtain found where f: "demo_linear [] (stateLookupQuery, [(''issueId'', VStr ''i''), (''stateName'', VStr ''Done'')]) = Inr found"
    and q: "reqs1 = [(stateLookupQuery, [(''issueId'', VStr ''i''), (''stateName'', VStr ''Done'')]),
      (updateStateMutation, [(''issueId'', VStr ''i''), (''stateId'', VStr (firstStateID found))])]"
    using issue_state_update [OF r] by auto
  have "(case demo_linear [] (stateLookupQuery, [(''issueId'', VStr ''i''), (''stateName'', VStr ''Done'')]) of
      Inr b \<Rightarrow> firstStateID b | Inl e \<Rightarrow> []) = ''s1''" by code_simp
  with f have "firstStateID found = ''s1''" by simp
  with q r show ?thesis by simp
qed

end
