(* ===== verification/Codex_Process.thy ===== *)
theory Codex_Process
  imports Codex_Session Go_Json
begin

text \<open>
  The process transport of \<open>internal/codex/session.go\<close>: the child process, the goroutine \<open>scan\<close> that cuts its
  output into lines, the buffered channel between that goroutine and \<open>ReadLine\<close>, and the objects written to
  the child's input. The transport is a step relation: the process, the goroutine and the callers move in
  any order. \<open>json.Marshal\<close> is the compact text of a value; the text of a float is an argument.
\<close>

subsection \<open>\<open>json.Marshal\<close>\<close>

text \<open>A \<open>json.Number\<close> is printed if it is a number of the JSON grammar, and is an error otherwise.\<close>

definition skip_digits :: "string \<Rightarrow> string" where
  "skip_digits s = dropWhile is_digit s"

definition skip_int :: "string \<Rightarrow> string option" where
  "skip_int s = (case s of [] \<Rightarrow> None
     | c # r \<Rightarrow> if c = CHR ''0'' then Some r else if is_digit c then Some (skip_digits r) else None)"

definition skip_fraction :: "string \<Rightarrow> string" where
  "skip_fraction s = (case s of c # d # r \<Rightarrow> if c = CHR ''.'' \<and> is_digit d then skip_digits r else s | _ \<Rightarrow> s)"

definition skip_exponent :: "string \<Rightarrow> string option" where
  "skip_exponent s = (case s of c # d # r \<Rightarrow>
       if c = CHR ''e'' \<or> c = CHR ''E'' then
         (if d = CHR ''+'' \<or> d = CHR ''-'' then (if r = [] then None else Some (skip_digits r))
          else Some (skip_digits (d # r)))
       else Some s
     | _ \<Rightarrow> Some s)"

definition isValidNumber :: "string \<Rightarrow> bool" where
  "isValidNumber s =
    (case skip_int (if s \<noteq> [] \<and> hd s = CHR ''-'' then tl s else s) of None \<Rightarrow> False
     | Some r \<Rightarrow> skip_exponent (skip_fraction r) = Some [])"

primrec marshal_text :: "(rat \<Rightarrow> string) \<Rightarrow> gval \<Rightarrow> string" where
  "marshal_text flt VNil = ''null''"
| "marshal_text flt (VBool b) = (if b then ''true'' else ''false'')"
| "marshal_text flt (VInt i) = Itoa i"
| "marshal_text flt (VFloat r) = flt r"
| "marshal_text flt (VNumber s) = (if s = [] then ''0'' else s)"
| "marshal_text flt (VStr s) = json_string s"
| "marshal_text flt (VList vs) = ''['' @ Join (map (marshal_text flt) vs) '','' @ '']''"
| "marshal_text flt (VMap m) = ''{'' @ Join (map (\<lambda>kt. json_string (fst kt) @ '':'' @ snd kt)
     (sort_by key_less (map (map_prod id (marshal_text flt)) m))) '','' @ ''}''"
| "marshal_text flt (VAnyMap m) = []"

primrec marshal_ok :: "gval \<Rightarrow> bool" where
  "marshal_ok VNil = True"
| "marshal_ok (VBool b) = True"
| "marshal_ok (VInt i) = True"
| "marshal_ok (VFloat r) = True"
| "marshal_ok (VNumber s) = (s = [] \<or> isValidNumber s)"
| "marshal_ok (VStr s) = True"
| "marshal_ok (VList vs) = list_all (\<lambda>b. b) (map marshal_ok vs)"
| "marshal_ok (VMap m) = list_all snd (map (map_prod id marshal_ok) m)"
| "marshal_ok (VAnyMap m) = False"

definition Marshal :: "(rat \<Rightarrow> string) \<Rightarrow> gval \<Rightarrow> string + string" where
  "Marshal flt v = (if marshal_ok v then Inr (marshal_text flt v) else Inl ''json: unsupported type'')"

subsection \<open>The transport\<close>

definition newline :: char where
  "newline = CHR 0x0A"

text \<open>
  \<open>pt_stdout\<close> is what the child has written and \<open>scan\<close> has not yet read, \<open>pt_end\<close> the error that follows it once
  the output has ended (\<open>io.EOF\<close> or another); \<open>pt_blocked\<close> are the results \<open>scan\<close> is about to send, and
  \<open>pt_scanned\<close> says that it has met the error. \<open>pt_reads\<close> is the channel, \<open>pt_stdin\<close> what was written to the child.
\<close>

record process_transport =
  pt_stdout :: string
  pt_end :: "string option"
  pt_blocked :: "read_result list"
  pt_scanned :: bool
  pt_reads :: "read_result list"
  pt_stdin :: string
  pt_closed :: bool

definition reads_capacity :: nat where
  "reads_capacity = 128"

text \<open>\<open>start\<close> is \<open>cmd.Start\<close> for the program, its arguments and the directory.\<close>

definition StartProcessTransport ::
  "(string \<Rightarrow> string list \<Rightarrow> string \<Rightarrow> string option) \<Rightarrow> string \<Rightarrow> string \<Rightarrow> string + process_transport" where
  "StartProcessTransport start command0 dir =
    (let command = (if TrimSpace command0 = [] then ''codex app-server'' else TrimSpace command0) in
     case start ''bash'' [''-lc'', command] dir of
       Some e \<Rightarrow> Inl e
     | None \<Rightarrow> Inr \<lparr>pt_stdout = [], pt_end = None, pt_blocked = [], pt_scanned = False, pt_reads = [],
                  pt_stdin = [], pt_closed = False\<rparr>)"

definition trim_line :: "string \<Rightarrow> string" where
  "trim_line s = rev (dropWhile (\<lambda>c. c = CHR 0x0D \<or> c = newline) (rev s))"

text \<open>\<open>ReadBytes\<close>: the bytes up to a newline, or the rest with the error; \<open>None\<close> while it has to wait.\<close>

definition ReadBytes :: "string \<Rightarrow> string option \<Rightarrow> (string \<times> string option \<times> string) option" where
  "ReadBytes out fin =
    (if newline \<in> set out then
       (let w = takeWhile (\<lambda>c. c \<noteq> newline) out in Some (w @ [newline], None, drop (Suc (length w)) out))
     else (case fin of None \<Rightarrow> None | Some e \<Rightarrow> Some (out, Some e, [])))"

definition scan_results :: "string \<Rightarrow> string option \<Rightarrow> read_result list" where
  "scan_results line err = (if line \<noteq> [] then [ReadLine (trim_line line)] else [])
     @ (case err of None \<Rightarrow> [] | Some e \<Rightarrow> [ReadFailed e])"

text \<open>The loop of \<open>scan\<close>: one read, then one send for each result; a send waits while the channel is full.\<close>

definition scan_read :: "process_transport \<Rightarrow> process_transport option" where
  "scan_read t = (if pt_blocked t \<noteq> [] \<or> pt_scanned t then None
     else case ReadBytes (pt_stdout t) (pt_end t) of None \<Rightarrow> None
       | Some (line, err, rest) \<Rightarrow> Some (t\<lparr>pt_stdout := rest, pt_blocked := scan_results line err,
            pt_scanned := (err \<noteq> None)\<rparr>))"

definition scan_send :: "process_transport \<Rightarrow> process_transport option" where
  "scan_send t = (case pt_blocked t of [] \<Rightarrow> None
     | r # rs \<Rightarrow> if length (pt_reads t) < reads_capacity
         then Some (t\<lparr>pt_blocked := rs, pt_reads := pt_reads t @ [r]\<rparr>) else None)"

text \<open>The receiving branch of \<open>ReadLine\<close>; when the context is done it returns \<open>ReadDone\<close> and leaves the transport.\<close>

definition receive_line :: "process_transport \<Rightarrow> (read_result \<times> process_transport) option" where
  "receive_line t = (case pt_reads t of [] \<Rightarrow> None | r # rs \<Rightarrow> Some (r, t\<lparr>pt_reads := rs\<rparr>))"

text \<open>\<open>write\<close> is the write on the pipe: how many bytes went out, and the error. A closed pipe takes nothing.\<close>

definition transport_WriteJSON :: "(rat \<Rightarrow> string) \<Rightarrow> (string \<Rightarrow> nat \<times> string option) \<Rightarrow> json \<Rightarrow> process_transport
    \<Rightarrow> string option \<times> process_transport" where
  "transport_WriteJSON flt write payload t = (case Marshal flt (VMap payload) of
     Inl e \<Rightarrow> (Some e, t)
   | Inr content \<Rightarrow> (case (if pt_closed t then (0, Some ''file already closed'') else write (content @ [newline])) of
       (n, None) \<Rightarrow> (None, t\<lparr>pt_stdin := pt_stdin t @ content @ [newline]\<rparr>)
     | (n, Some e) \<Rightarrow> (Some e, t\<lparr>pt_stdin := pt_stdin t @ take n (content @ [newline])\<rparr>)))"

text \<open>
  \<open>Close\<close> kills the child and waits for it; \<open>Wait\<close> closes the reading end, so \<open>scan\<close> gets the first \<open>n\<close> unread
  bytes, which it may have buffered, and then an error.
\<close>

definition transport_Close :: "nat \<Rightarrow> string \<Rightarrow> process_transport \<Rightarrow> process_transport" where
  "transport_Close n err t = (if pt_closed t then t
     else t\<lparr>pt_closed := True, pt_stdout := take n (pt_stdout t),
            pt_end := (if n < length (pt_stdout t) \<or> pt_end t = None then Some err else pt_end t)\<rparr>)"

subsection \<open>Steps\<close>

datatype transport_event =
    ChildWrites string
  | ChildEnds string
  | ScanReads
  | ScanSends
  | LineRead read_result
  | ContextDone
  | ObjectWritten json
  | WriteFailed json
  | TransportClosed

inductive transport_step ::
  "(rat \<Rightarrow> string) \<Rightarrow> process_transport \<Rightarrow> transport_event \<Rightarrow> process_transport \<Rightarrow> bool" for flt where
  child_writes: "pt_end t = None \<Longrightarrow> transport_step flt t (ChildWrites s) (t\<lparr>pt_stdout := pt_stdout t @ s\<rparr>)"
| child_ends: "pt_end t = None \<Longrightarrow> transport_step flt t (ChildEnds e) (t\<lparr>pt_end := Some e\<rparr>)"
| scan_reads: "scan_read t = Some t' \<Longrightarrow> transport_step flt t ScanReads t'"
| scan_sends: "scan_send t = Some t' \<Longrightarrow> transport_step flt t ScanSends t'"
| line_read: "receive_line t = Some (r, t') \<Longrightarrow> transport_step flt t (LineRead r) t'"
| context_done: "transport_step flt t ContextDone t"
| object_written: "transport_WriteJSON flt write payload t = (None, t') \<Longrightarrow> transport_step flt t (ObjectWritten payload) t'"
| write_failed: "transport_WriteJSON flt write payload t = (Some e, t') \<Longrightarrow> transport_step flt t (WriteFailed payload) t'"
| transport_closed: "transport_step flt t TransportClosed (transport_Close n err t)"

inductive transport_run :: "(rat \<Rightarrow> string) \<Rightarrow> transport_event list \<Rightarrow> process_transport \<Rightarrow> bool" for flt where
  run_start: "StartProcessTransport start command dir = Inr t \<Longrightarrow> transport_run flt [] t"
| run_step: "transport_run flt evs t \<Longrightarrow> transport_step flt t ev t' \<Longrightarrow> transport_run flt (evs @ [ev]) t'"

end
