(* ===== verification/Codex_Process_Props.thy ===== *)
theory Codex_Process_Props
  imports Codex_Process
begin

text \<open>
  What the process transport promises: the lines of the child's output arrive in order, none lost and none
  twice, with the error once and last; and each object written is one line of the child's input.
\<close>

subsection \<open>The abstract transport\<close>

text \<open>
  What the callers of \<open>ReadLine\<close> are to be given for a whole output: its lines, and when it has ended the
  unfinished last line and the error.
\<close>

definition output_results :: "string \<Rightarrow> string option \<Rightarrow> read_result list" where
  "output_results out fin = (let ws = Split newline out in
     map (\<lambda>w. ReadLine (trim_line w)) (butlast ws)
     @ (case fin of None \<Rightarrow> []
        | Some e \<Rightarrow> (if last ws = [] then [] else [ReadLine (trim_line (last ws))]) @ [ReadFailed e]))"

fun written :: "transport_event \<Rightarrow> string" where
  "written (ChildWrites s) = s"
| "written _ = []"

definition child_output :: "transport_event list \<Rightarrow> string" where
  "child_output evs = concat (map written evs)"

fun ended_with :: "transport_event \<Rightarrow> string option" where
  "ended_with (ChildEnds e) = Some e"
| "ended_with _ = None"

definition child_end :: "transport_event list \<Rightarrow> string option" where
  "child_end evs = (case List.map_filter ended_with evs of [] \<Rightarrow> None | e # es \<Rightarrow> Some e)"

fun result_read :: "transport_event \<Rightarrow> read_result option" where
  "result_read (LineRead r) = Some r"
| "result_read _ = None"

definition delivered_lines :: "transport_event list \<Rightarrow> read_result list" where
  "delivered_lines evs = List.map_filter result_read evs"

lemma trim_line_newline: "trim_line (w @ [newline]) = trim_line w"
  by (simp add: trim_line_def)

lemma output_results_line:
  assumes "newline \<notin> set w"
  shows "output_results (w @ newline # out) fin = ReadLine (trim_line w) # output_results out fin"
  by (simp add: output_results_def Split_append [OF assms] Let_def split: option.split)

lemma output_results_lines:
  assumes "\<forall>w \<in> set ws. newline \<notin> set w"
  shows "output_results (concat (map (\<lambda>w. w @ [newline]) ws) @ out) fin
    = map (\<lambda>w. ReadLine (trim_line w)) ws @ output_results out fin"
  using assms by (induction ws) (simp_all add: output_results_line)

lemma output_results_open: "newline \<notin> set out \<Longrightarrow> output_results out None = []"
  by (simp add: output_results_def Split_single)

lemma output_results_end: "newline \<notin> set out \<Longrightarrow> output_results out (Some e) = scan_results out (Some e)"
  by (simp add: scan_results_def output_results_def Split_single)

text \<open>One read of \<open>scan\<close> takes the first result off what is still to come, or the last ones.\<close>

lemma ReadBytes_cases:
  assumes "ReadBytes out fin = Some (line, err, rest)"
  obtains w where "newline \<notin> set w" "out = w @ newline # rest" "line = w @ [newline]" "err = None"
    | e where "newline \<notin> set out" "fin = Some e" "err = Some e" "line = out" "rest = []"
proof (cases "newline \<in> set out")
  case True
  let ?w = "takeWhile (\<lambda>c. c \<noteq> newline) out"
  have d: "dropWhile (\<lambda>c. c \<noteq> newline) out \<noteq> []" "hd (dropWhile (\<lambda>c. c \<noteq> newline) out) = newline"
    using True by (simp_all add: dropWhile_eq_Nil_conv) (metis (mono_tags) True dropWhile_eq_Nil_conv hd_dropWhile)
  have o: "out = ?w @ newline # tl (dropWhile (\<lambda>c. c \<noteq> newline) out)"
    using d by (metis list.collapse takeWhile_dropWhile_id)
  have "drop (Suc (length ?w)) out = tl (dropWhile (\<lambda>c. c \<noteq> newline) out)"
    by (metis drop_Suc dropWhile_eq_drop tl_drop)
  moreover have "newline \<notin> set ?w" using set_takeWhileD by fastforce
  ultimately show ?thesis using True assms o that(1) [of ?w] by (simp add: ReadBytes_def Let_def)
next
  case False
  then show ?thesis using assms that(2) by (auto simp: ReadBytes_def split: option.splits)
qed

lemma ReadBytes_results:
  assumes "ReadBytes out fin = Some (line, err, rest)"
  shows "output_results out fin = scan_results line err @ (if err = None then output_results rest fin else [])"
  using assms
proof (cases rule: ReadBytes_cases)
  case (1 w)
  then show ?thesis by (simp add: output_results_line scan_results_def trim_line_newline)
qed (simp add: output_results_end)

subsection \<open>The invariant\<close>

definition as_lines :: "string list \<Rightarrow> string" where
  "as_lines ws = concat (map (\<lambda>w. w @ [newline]) ws)"

lemma as_lines_simps [simp]: "as_lines [] = []" "as_lines (ws @ [w]) = as_lines ws @ w @ [newline]"
  by (simp_all add: as_lines_def)

text \<open>
  The output is a number of whole lines, already cut, followed by the rest; unless it has met the error,
  \<open>scan\<close> has the rest still to read.
\<close>

definition cut_inv :: "transport_event list \<Rightarrow> process_transport \<Rightarrow> string list \<Rightarrow> string \<Rightarrow> bool" where
  "cut_inv evs t ws rest \<longleftrightarrow> (\<forall>w \<in> set ws. newline \<notin> set w) \<and> child_output evs = as_lines ws @ rest
     \<and> delivered_lines evs @ pt_reads t @ pt_blocked t
         = map (\<lambda>w. ReadLine (trim_line w)) ws @ (if pt_scanned t then scan_results rest (pt_end t) else [])
     \<and> (if pt_scanned t then newline \<notin> set rest \<and> pt_stdout t = [] \<and> pt_end t \<noteq> None else rest = pt_stdout t)
     \<and> pt_end t = child_end evs \<and> length (pt_reads t) \<le> reads_capacity"

definition transport_inv :: "transport_event list \<Rightarrow> process_transport \<Rightarrow> bool" where
  "transport_inv evs t \<longleftrightarrow> (\<exists>ws rest. cut_inv evs t ws rest)"

lemma events_append [simp]:
  "child_output (evs @ [ev]) = child_output evs @ written ev"
  "delivered_lines (evs @ [ev]) = delivered_lines evs @ (case result_read ev of None \<Rightarrow> [] | Some r \<Rightarrow> [r])"
  "child_end (evs @ [ev]) = (case child_end evs of None \<Rightarrow> ended_with ev | Some e \<Rightarrow> Some e)"
  by (simp_all add: child_output_def delivered_lines_def child_end_def List.map_filter_def split: option.split list.split)

lemma inv_scan_read:
  assumes "cut_inv evs t ws rest" "scan_read t = Some t'"
  shows "transport_inv (evs @ [ScanReads]) t'"
proof -
  obtain line err left where b: "pt_blocked t = []" "\<not> pt_scanned t"
    and r: "ReadBytes (pt_stdout t) (pt_end t) = Some (line, err, left)"
    and t': "t' = t\<lparr>pt_stdout := left, pt_blocked := scan_results line err, pt_scanned := (err \<noteq> None)\<rparr>"
    using assms(2) by (auto simp: scan_read_def split: if_splits option.splits)
  note i = assms(1) [unfolded cut_inv_def] b
  from r show ?thesis
  proof (cases rule: ReadBytes_cases)
    case (1 w)
    then have "cut_inv (evs @ [ScanReads]) t' (ws @ [w]) left"
      using i by (auto simp: cut_inv_def t' scan_results_def trim_line_newline split: option.split)
    then show ?thesis unfolding transport_inv_def by blast
  next
    case (2 e)
    then have "cut_inv (evs @ [ScanReads]) t' ws (pt_stdout t)"
      using i by (auto simp: cut_inv_def t' split: option.split)
    then show ?thesis unfolding transport_inv_def by blast
  qed
qed

lemma WriteJSON_frame:
  assumes "transport_WriteJSON flt write payload t = (e, t')"
  shows "\<exists>s. t' = t\<lparr>pt_stdin := s\<rparr>"
proof -
  have "\<exists>s. t = t\<lparr>pt_stdin := s\<rparr>" by (rule exI [of _ "pt_stdin t"]) simp
  then show ?thesis using assms by (auto simp: transport_WriteJSON_def split: sum.splits prod.splits option.splits)
qed

lemma inv_stdin: "cut_inv evs t ws rest \<Longrightarrow> cut_inv evs (t\<lparr>pt_stdin := s\<rparr>) ws rest"
  by (auto simp: cut_inv_def)

lemma inv_silent:
  assumes "cut_inv evs t ws rest" "written ev = []" "ended_with ev = None" "result_read ev = None"
  shows "cut_inv (evs @ [ev]) t ws rest"
  using assms by (auto simp: cut_inv_def split: option.split)

lemma transport_inv_step:
  assumes "transport_step flt t ev t'" "cut_inv evs t ws rest" "ev \<noteq> TransportClosed"
  shows "transport_inv (evs @ [ev]) t'"
  using assms
proof (induction rule: transport_step.induct)
  case (child_writes t s)
  then have "cut_inv (evs @ [ChildWrites s]) (t\<lparr>pt_stdout := pt_stdout t @ s\<rparr>) ws (rest @ s)"
    by (auto simp: cut_inv_def split: if_splits option.split)
  then show ?case unfolding transport_inv_def by blast
next
  case (child_ends t e)
  then have "cut_inv (evs @ [ChildEnds e]) (t\<lparr>pt_end := Some e\<rparr>) ws rest"
    by (auto simp: cut_inv_def split: if_splits option.split)
  then show ?case unfolding transport_inv_def by blast
next
  case (scan_reads t t')
  then show ?case using inv_scan_read by blast
next
  case (scan_sends t t')
  then have "cut_inv (evs @ [ScanSends]) t' ws rest"
    by (auto simp: cut_inv_def scan_send_def split: list.splits if_splits option.split)
  then show ?case unfolding transport_inv_def by blast
next
  case (line_read t r t')
  then have "cut_inv (evs @ [LineRead r]) t' ws rest"
    by (auto simp: cut_inv_def receive_line_def split: list.splits if_splits option.split)
  then show ?case unfolding transport_inv_def by blast
next
  case (context_done t)
  then show ?case using inv_silent [of evs t ws rest ContextDone] by (auto simp: transport_inv_def)
next
  case (object_written out payload t t')
  then show ?case
    using inv_silent [of evs _ ws rest "ObjectWritten payload"] WriteJSON_frame inv_stdin
    by (fastforce simp: transport_inv_def)
next
  case (write_failed out payload t e t')
  then show ?case
    using inv_silent [of evs _ ws rest "WriteFailed payload"] WriteJSON_frame inv_stdin
    by (fastforce simp: transport_inv_def)
qed simp

lemma transport_run_inv:
  assumes "transport_run flt evs t" "TransportClosed \<notin> set evs"
  shows "transport_inv evs t"
  using assms
proof (induction rule: transport_run.induct)
  case (run_start start command dir t)
  then have "cut_inv [] t [] []"
    by (auto simp: cut_inv_def StartProcessTransport_def Let_def child_output_def delivered_lines_def child_end_def
        List.map_filter_def reads_capacity_def split: option.splits)
  then show ?case unfolding transport_inv_def by blast
next
  case (run_step evs t ev t')
  then show ?case using transport_inv_step by (fastforce simp: transport_inv_def)
qed

text \<open>C9 (refinement). The transport loses no line. Until \<open>Close\<close>, in every state the child, the scanning goroutine
  and the callers of \<open>ReadLine\<close> can reach, in whatever order they move, what the callers have received is a
  prefix of what they are to be given for the child's whole output: its lines in order, each once, and
  after the end the unfinished last line and the error, once and last. Never more than 128 results wait
  in the channel; and as long as anything is still to be received, someone can move: the goroutine can
  read or send, or a caller can receive.
\<close>

theorem transport_delivers_lines:
  assumes "transport_run flt evs t" "TransportClosed \<notin> set evs"
  shows "(\<exists>more. output_results (child_output evs) (child_end evs) = delivered_lines evs @ more
      \<and> (more \<noteq> [] \<longrightarrow> scan_read t \<noteq> None \<or> scan_send t \<noteq> None \<or> receive_line t \<noteq> None))
    \<and> length (pt_reads t) \<le> 128"
proof -
  obtain ws rest where i: "cut_inv evs t ws rest" using transport_run_inv [OF assms] by (auto simp: transport_inv_def)
  let ?more = "pt_reads t @ pt_blocked t @ (if pt_scanned t then [] else output_results (pt_stdout t) (pt_end t))"
  have "output_results (child_output evs) (child_end evs)
      = map (\<lambda>w. ReadLine (trim_line w)) ws @ output_results rest (pt_end t)"
    using i output_results_lines [of ws rest "pt_end t"] by (auto simp: cut_inv_def as_lines_def)
  moreover have "output_results rest (pt_end t) = scan_results rest (pt_end t)" if "pt_scanned t"
    using i that output_results_end by (auto simp: cut_inv_def)
  ultimately have "output_results (child_output evs) (child_end evs) = delivered_lines evs @ ?more"
    using i by (auto simp: cut_inv_def split: if_splits)
  moreover have "receive_line t \<noteq> None" if "pt_reads t \<noteq> []" using that by (cases "pt_reads t") (simp_all add: receive_line_def)
  moreover have "scan_send t \<noteq> None" if "pt_reads t = []" "pt_blocked t \<noteq> []"
    using that by (cases "pt_blocked t") (simp_all add: scan_send_def reads_capacity_def)
  moreover have "scan_read t \<noteq> None"
    if "pt_blocked t = []" "\<not> pt_scanned t" "output_results (pt_stdout t) (pt_end t) \<noteq> []"
    using that output_results_open [of "pt_stdout t"]
    by (cases "newline \<in> set (pt_stdout t)"; cases "pt_end t") (simp_all add: scan_read_def ReadBytes_def Let_def)
  ultimately show ?thesis using i by (force simp: cut_inv_def reads_capacity_def split: if_splits)
qed

text \<open>A child that writes a line and the beginning of a second one and then ends.\<close>

definition demo_child :: "transport_event list" where
  "demo_child = [ChildWrites ''ab'', ChildWrites [CHR 0x0D, newline, CHR ''c''], ChildEnds ''EOF'', ScanReads, ScanSends,
     LineRead (ReadLine ''ab''), ScanReads, ScanSends]"

definition demo_transport :: "string \<Rightarrow> string option \<Rightarrow> read_result list \<Rightarrow> bool \<Rightarrow> read_result list \<Rightarrow> process_transport" where
  "demo_transport out fin blocked scanned reads =
    \<lparr>pt_stdout = out, pt_end = fin, pt_blocked = blocked, pt_scanned = scanned, pt_reads = reads, pt_stdin = [], pt_closed = False\<rparr>"

lemma demo_child_run: "transport_run flt demo_child
    (demo_transport [] (Some ''EOF'') [ReadFailed ''EOF''] True [ReadLine ''c''])"
proof -
  note step = run_step [where flt = flt]
  let ?line = "ReadLine ''ab''" and ?rest = "[ReadLine ''c'', ReadFailed ''EOF'']"
  have r0: "transport_run flt [] (demo_transport [] None [] False [])"
    by (rule run_start [of "\<lambda>p args dir. None" "''codex''" "''/w''"])
      (simp add: StartProcessTransport_def demo_transport_def Let_def)
  have r1: "transport_run flt ([] @ [ChildWrites ''ab'']) (demo_transport ''ab'' None [] False [])"
    using step [OF r0 child_writes] by (simp add: demo_transport_def)
  have r2: "transport_run flt (([] @ [ChildWrites ''ab'']) @ [ChildWrites [CHR 0x0D, newline, CHR ''c'']])
      (demo_transport (''ab'' @ [CHR 0x0D, newline, CHR ''c'']) None [] False [])"
    using step [OF r1 child_writes] by (simp add: demo_transport_def)
  note r3 = step [OF r2 child_ends, of "''EOF''"]
  have s4: "scan_read (demo_transport (''ab'' @ [CHR 0x0D, newline, CHR ''c'']) (Some ''EOF'') [] False [])
      = Some (demo_transport ''c'' (Some ''EOF'') [?line] False [])"
    "scan_send (demo_transport ''c'' (Some ''EOF'') [?line] False []) = Some (demo_transport ''c'' (Some ''EOF'') [] False [?line])"
    "receive_line (demo_transport ''c'' (Some ''EOF'') [] False [?line]) = Some (?line, demo_transport ''c'' (Some ''EOF'') [] False [])"
    "scan_read (demo_transport ''c'' (Some ''EOF'') [] False []) = Some (demo_transport [] (Some ''EOF'') ?rest True [])"
    "scan_send (demo_transport [] (Some ''EOF'') ?rest True [])
      = Some (demo_transport [] (Some ''EOF'') [ReadFailed ''EOF''] True [ReadLine ''c''])"
    by code_simp+
  have "transport_run flt (((((((([] @ [ChildWrites ''ab'']) @ [ChildWrites [CHR 0x0D, newline, CHR ''c'']]) @ [ChildEnds ''EOF''])
      @ [ScanReads]) @ [ScanSends]) @ [LineRead ?line]) @ [ScanReads]) @ [ScanSends])
      (demo_transport [] (Some ''EOF'') [ReadFailed ''EOF''] True [ReadLine ''c''])"
    by (rule step [OF step [OF step [OF step [OF step [OF _ scan_reads [OF s4(1)]] scan_sends [OF s4(2)]]
          line_read [OF s4(3)]] scan_reads [OF s4(4)]] scan_sends [OF s4(5)]])
      (use r3 in \<open>simp add: demo_transport_def\<close>)
  then show ?thesis by (simp add: demo_child_def)
qed

theorem transport_delivers_lines_witness:
  "output_results (child_output demo_child) (child_end demo_child) = [ReadLine ''ab'', ReadLine ''c'', ReadFailed ''EOF'']
   \<and> (\<exists>more. output_results (child_output demo_child) (child_end demo_child) = delivered_lines demo_child @ more)"
proof -
  have "output_results (child_output demo_child) (child_end demo_child) = [ReadLine ''ab'', ReadLine ''c'', ReadFailed ''EOF'']"
    by code_simp
  moreover have "TransportClosed \<notin> set demo_child" by (simp add: demo_child_def)
  ultimately show ?thesis using transport_delivers_lines [OF demo_child_run] by blast
qed

subsection \<open>One object, one line\<close>

lemma byte_newline: "c = newline \<longleftrightarrow> byte c = 10"
  using byte_inject [of c newline] by (auto simp: newline_def byte_def)

lemma hex_digit_newline: "newline \<noteq> hex_digit n" if "n < 16"
  using that by (auto simp: hex_digit_def byte_newline [THEN iffD1, OF sym] byte_def dest!: sym [of newline] byte_newline [THEN iffD1])

lemma json_char_newline: "newline \<notin> set (json_char c)"
  using hex_digit_newline [of "byte c div 16 mod 16"] hex_digit_newline [of "byte c mod 16"]
  by (auto simp: json_char_def hex2_def newline_def)

lemma json_string_newline: "newline \<notin> set (json_string s)"
  using json_char_newline by (auto simp: json_string_def) (auto simp: newline_def)

lemma digits_newline: "list_all is_digit s \<Longrightarrow> newline \<notin> set s"
  by (auto simp: list_all_iff is_digit_def newline_def byte_def)

lemma Itoa_newline: "newline \<notin> set (Itoa i)"
  using digits_newline digits_of_ok by (auto simp: Itoa_def) (auto simp: newline_def)

lemma skip_digits_newline: "newline \<in> set s \<Longrightarrow> newline \<in> set (skip_digits s)"
  using digits_newline [of "takeWhile is_digit s"] set_takeWhileD [of _ is_digit s]
  by (metis UnE list_all_iff set_append skip_digits_def takeWhile_dropWhile_id)

lemma valid_number_newline: "isValidNumber s \<Longrightarrow> newline \<notin> set s"
proof
  assume v: "isValidNumber s" and n: "newline \<in> set s"
  let ?s = "if s \<noteq> [] \<and> hd s = CHR ''-'' then tl s else s"
  obtain r where r: "skip_int ?s = Some r" "skip_exponent (skip_fraction r) = Some []"
    using v by (auto simp: isValidNumber_def split: option.splits)
  have "newline \<in> set ?s" using n by (cases s) (auto simp: newline_def)
  then have "newline \<in> set r" using r(1) skip_digits_newline
    by (auto simp: skip_int_def is_digit_def newline_def byte_def split: list.splits if_splits)
  then have f: "newline \<in> set (skip_fraction r)" using skip_digits_newline
    by (auto simp: skip_fraction_def is_digit_def newline_def byte_def split: list.splits if_splits)
  have "newline \<notin> set u" if "skip_digits u = []" for u using that skip_digits_newline [of u] by auto
  then show False
    using r(2) f by (fastforce simp: skip_exponent_def newline_def split: list.splits if_splits)
qed

lemma Join_set: "set (Join ws sep) \<subseteq> \<Union> (set ` set ws) \<union> set sep"
  by (induction ws sep rule: Join.induct) auto

lemma marshal_newline:
  assumes "\<And>r. newline \<notin> set (flt r)"
  shows "marshal_ok v \<Longrightarrow> newline \<notin> set (marshal_text flt v)"
proof (induction v)
  case (VNumber s)
  then show ?case using valid_number_newline by (auto simp: newline_def)
next
  case (VList vs)
  have "newline \<notin> \<Union> (set ` set (map (marshal_text flt) vs))" using VList by (auto simp: list_all_iff)
  then show ?case using Join_set [of "map (marshal_text flt) vs" "'',''"] by (auto simp: newline_def)
next
  case (VMap m)
  let ?ts = "map (\<lambda>kt. json_string (fst kt) @ '':'' @ snd kt) (sort_by key_less (map (map_prod id (marshal_text flt)) m))"
  have "newline \<notin> set (marshal_text flt v)" if "(k, v) \<in> set m" for k v
    using VMap.IH [OF that, of v] VMap.prems that by (auto simp: list_all_iff)
  then have "newline \<notin> \<Union> (set ` set ?ts)"
    using json_string_newline by (auto simp: set_sort_by) (auto simp: newline_def)
  then show ?case using Join_set [of ?ts "'',''"] by (auto simp: newline_def)
qed (use assms Itoa_newline json_string_newline in \<open>auto simp: newline_def\<close>)

fun object_of :: "transport_event \<Rightarrow> json option" where
  "object_of (ObjectWritten payload) = Some payload"
| "object_of _ = None"

definition objects_written :: "transport_event list \<Rightarrow> json list" where
  "objects_written evs = List.map_filter object_of evs"

lemma objects_append [simp]:
  "objects_written (evs @ [ev]) = objects_written evs @ (case object_of ev of None \<Rightarrow> [] | Some v \<Rightarrow> [v])"
  by (simp add: objects_written_def List.map_filter_def split: option.split)

lemma scan_stdin:
  "scan_read t = Some t' \<Longrightarrow> pt_stdin t' = pt_stdin t" "scan_send t = Some t' \<Longrightarrow> pt_stdin t' = pt_stdin t"
  "receive_line t = Some (r, t') \<Longrightarrow> pt_stdin t' = pt_stdin t"
  by (auto simp: scan_read_def scan_send_def receive_line_def split: if_splits option.splits list.splits)

lemma stdin_run:
  assumes "transport_run flt evs t" "\<forall>payload. WriteFailed payload \<notin> set evs"
  shows "pt_stdin t = as_lines (map (\<lambda>p. marshal_text flt (VMap p)) (objects_written evs))
    \<and> (\<forall>p \<in> set (objects_written evs). marshal_ok (VMap p))"
  using assms
proof (induction rule: transport_run.induct)
  case (run_start start command dir t)
  then show ?case
    by (auto simp: StartProcessTransport_def Let_def objects_written_def List.map_filter_def split: option.splits)
next
  case (run_step evs t ev t')
  then have IH: "pt_stdin t = as_lines (map (\<lambda>p. marshal_text flt (VMap p)) (objects_written evs))"
    "\<forall>p \<in> set (objects_written evs). marshal_ok (VMap p)" by auto
  from run_step.hyps(2) show ?case
  proof cases
    case (object_written out payload)
    then have "pt_stdin t' = pt_stdin t @ marshal_text flt (VMap payload) @ [newline]" "marshal_ok (VMap payload)"
      by (auto simp: transport_WriteJSON_def Marshal_def simp del: marshal_text.simps marshal_ok.simps
          split: if_splits prod.splits option.splits)
    then show ?thesis using IH object_written(1) by auto
  next
    case (write_failed out payload e)
    then have "WriteFailed payload \<in> set (evs @ [ev])" by simp
    then show ?thesis using run_step.prems by blast
  qed (use IH scan_stdin in \<open>auto simp: transport_Close_def\<close>)
qed

lemma Split_as_lines: "\<forall>w \<in> set ws. newline \<notin> set w \<Longrightarrow> Split newline (as_lines ws) = ws @ [[]]"
  by (induction ws) (simp_all add: as_lines_def Split_append)

text \<open>C37 (roundtrip). The child reads back what was written. As long as no write has failed, the child that splits
  its input at the newlines gets exactly the texts of the objects written, each on one line, in order
  and complete, whatever strings the objects hold; only the text of a float is assumed not to break a line.
\<close>

theorem transport_one_line_per_object:
  assumes "transport_run flt evs t" "\<forall>payload. WriteFailed payload \<notin> set evs" "\<And>r. newline \<notin> set (flt r)"
  shows "Split newline (pt_stdin t) = map (\<lambda>p. marshal_text flt (VMap p)) (objects_written evs) @ [[]]"
  using stdin_run [OF assms(1,2)] marshal_newline [of flt, OF assms(3)]
  by (simp add: Split_as_lines del: marshal_text.simps marshal_ok.simps)

definition demo_object :: json where
  "demo_object = [(''method'', VStr ''a b''), (''id'', VInt 1), (''text'', VStr [newline])]"

theorem transport_one_line_per_object_witness:
  "\<exists>t. transport_run (\<lambda>r. ''0'') [ObjectWritten demo_object, ObjectWritten []] t
     \<and> Split newline (pt_stdin t) = [marshal_text (\<lambda>r. ''0'') (VMap demo_object), ''{}'', []]"
proof -
  let ?flt = "\<lambda>r. ''0''" and ?t0 = "demo_transport [] None [] False []"
  let ?w = "transport_WriteJSON ?flt (\<lambda>s. (length s, None))"
  have r0: "transport_run ?flt [] ?t0"
    by (rule run_start [of "\<lambda>p args dir. None" "''codex''" "''/w''"])
      (simp add: StartProcessTransport_def demo_transport_def Let_def)
  have "fst (?w demo_object ?t0) = None" by code_simp
  then obtain t1 where w1: "?w demo_object ?t0 = (None, t1)" by (metis prod.collapse)
  have "fst (?w [] t1) = None" if "\<not> pt_closed t1" using that by (simp add: transport_WriteJSON_def Marshal_def)
  moreover have "\<not> pt_closed t1"
    using WriteJSON_frame [OF w1] by (auto simp: demo_transport_def)
  ultimately obtain t2 where w2: "?w [] t1 = (None, t2)" by (metis prod.collapse)
  have r: "transport_run ?flt [ObjectWritten demo_object, ObjectWritten []] t2"
    using run_step [OF run_step [OF r0 object_written [OF w1]] object_written [OF w2]] by simp
  have e: "marshal_text ?flt (VMap []) = ''{}''" by code_simp
  show ?thesis
    using r transport_one_line_per_object [OF r]
    by (intro exI [of _ t2]) (simp add: objects_written_def List.map_filter_def e newline_def del: marshal_text.simps)
qed

subsection \<open>After Close\<close>

text \<open>
  Nobody reads any more after \<open>Close\<close>. If the channel is full then, the goroutine stays on its send for
  good: no step other than a caller's \<open>ReadLine\<close> lets it go on.
\<close>

lemma scan_stuck:
  assumes "transport_step flt t ev t'" "length (pt_reads t) = reads_capacity" "pt_blocked t = r # rs"
    "\<forall>r. ev \<noteq> LineRead r"
  shows "pt_blocked t' = pt_blocked t \<and> pt_reads t' = pt_reads t"
  using assms
proof (induction rule: transport_step.induct)
  case (object_written out payload t t')
  then show ?case using WriteJSON_frame by fastforce
next
  case (write_failed out payload t e t')
  then show ?case using WriteJSON_frame by fastforce
qed (auto simp: scan_read_def scan_send_def transport_Close_def)

end
