(* ===== verification/Runtime_Pool.thy ===== *)
theory Runtime_Pool
  imports Worker
begin

text \<open>
  \<open>internal/cli/runtime.go\<close>, the worker manager around the workers: which runs it has started, how they
  are stopped, and how it shuts down. A \<open>*runHandle\<close> is an index into \<open>wp_handles\<close>, where the handles
  stay after their worker has ended; \<open>m.handles\<close> is \<open>wp_registered\<close>. A session is an index into
  \<open>wp_sessions\<close>, which says whether it is closed. What the worker of \<open>Worker\<close> does to its handle is four
  steps here (\<open>set_workspace\<close>, \<open>set_session\<close>, \<open>clear_session\<close>, \<open>worker_end\<close>), and \<open>pool_step\<close> interleaves
  them with the calls of the scheduler. The loop of \<open>Close\<close> that stops the handles is one step; a worker
  that opens its session later than that is a step after it.
\<close>

declare map_of_eq_Some_iff [simp del]

subsection \<open>State\<close>

record run_handle =
  hn_itemID :: string
  hn_identifier :: string
  hn_workerHost :: string
  hn_workspacePath :: string
  hn_cancelled :: bool
  hn_stopped :: bool
  hn_session :: "nat option"
  hn_done :: bool

record pool =
  wp_handles :: "run_handle list"
  wp_registered :: "(string, nat) gomap"
  wp_sessions :: "bool list"
  wp_closed :: bool
  wp_rootCancelled :: bool
  wp_closeWait :: nat

definition newWorkerManager :: pool where
  "newWorkerManager = \<lparr>wp_handles = [], wp_registered = [], wp_sessions = [], wp_closed = False,
     wp_rootCancelled = False, wp_closeWait = 0\<rparr>"

definition upd_handle :: "nat \<Rightarrow> (run_handle \<Rightarrow> run_handle) \<Rightarrow> pool \<Rightarrow> pool" where
  "upd_handle i f p = p\<lparr>wp_handles := (wp_handles p)[i := f (wp_handles p ! i)]\<rparr>"

text \<open>\<open>Close\<close> of a session, and the context of a run.\<close>

definition close_session :: "nat \<Rightarrow> pool \<Rightarrow> pool" where
  "close_session n p = p\<lparr>wp_sessions := (wp_sessions p)[n := True]\<rparr>"

definition run_cancelled :: "pool \<Rightarrow> nat \<Rightarrow> bool" where
  "run_cancelled p i \<longleftrightarrow> wp_rootCancelled p \<or> hn_cancelled (wp_handles p ! i)"

subsection \<open>The handle\<close>

definition handle_stop :: "nat \<Rightarrow> pool \<Rightarrow> pool" where
  "handle_stop i p = (let h = wp_handles p ! i in
     if hn_stopped h then p
     else let p1 = upd_handle i (\<lambda>h. h\<lparr>hn_stopped := True, hn_cancelled := True\<rparr>) p in
       (case hn_session h of None \<Rightarrow> p1 | Some n \<Rightarrow> close_session n p1))"

definition set_workspace :: "nat \<Rightarrow> string \<Rightarrow> pool \<Rightarrow> pool" where
  "set_workspace i path p = upd_handle i (\<lambda>h. h\<lparr>hn_workspacePath := path\<rparr>) p"

text \<open>The worker has opened a session and sets it; it closes the session and clears it.\<close>

definition set_session :: "nat \<Rightarrow> pool \<Rightarrow> pool" where
  "set_session i p = upd_handle i (\<lambda>h. h\<lparr>hn_session := Some (length (wp_sessions p))\<rparr>)
     (p\<lparr>wp_sessions := wp_sessions p @ [False]\<rparr>)"

definition clear_session :: "nat \<Rightarrow> nat \<Rightarrow> pool \<Rightarrow> pool" where
  "clear_session i n p = upd_handle i
     (\<lambda>h. if hn_session h = Some n then h\<lparr>hn_session := None\<rparr> else h) (close_session n p)"

subsection \<open>The manager\<close>

definition pool_StartRun :: "start_run_request \<Rightarrow> pool \<Rightarrow> (string + start_run_result) \<times> pool" where
  "pool_StartRun q p =
    (if wp_closed p then (Inl ''context canceled'', p)
     else let i = length (wp_handles p);
              h = \<lparr>hn_itemID = wi_ID (sq_Item q), hn_identifier = wi_Identifier (sq_Item q),
                   hn_workerHost = sq_PreferredHost q, hn_workspacePath = [], hn_cancelled = False,
                   hn_stopped = False, hn_session = None, hn_done = False\<rparr>
          in (Inr \<lparr>sr_Handle = Some i, sr_WorkerHost = sq_PreferredHost q, sr_WorkspacePath = [], sr_SessionID = []\<rparr>,
              p\<lparr>wp_handles := wp_handles p @ [h], wp_registered := mput (wi_ID (sq_Item q)) i (wp_registered p),
                wp_closeWait := Suc (wp_closeWait p)\<rparr>))"

text \<open>What \<open>StopRun\<close> does to the handle; then it removes the workspace through the controller, if asked.\<close>

definition stop_run :: "stop_run_request \<Rightarrow> pool \<Rightarrow> pool" where
  "stop_run q p = (case sp_Handle q of None \<Rightarrow> p | Some i \<Rightarrow> handle_stop i p)"

definition pool_StopRun :: "'l controller \<Rightarrow> stop_run_request \<Rightarrow> pool \<Rightarrow> 'l \<Rightarrow> ((string option \<times> 'l) \<times> pool) option" where
  "pool_StopRun c q p lg =
    (let p1 = stop_run q p in
     map_option (\<lambda>r. (r, p1))
       (if \<not> sp_CleanupWorkspace q then Some (None, lg)
        else case sp_Handle q of
          None \<Rightarrow> wc_RemoveIssueWorkspaces c (sp_ItemIdentifier q) [] lg
        | Some i \<Rightarrow> (let h = wp_handles p1 ! i; path = hn_workspacePath h in
            if path \<noteq> [] then wc_Remove c path (sp_ItemIdentifier q) (hn_workerHost h) lg
            else wc_RemoveIssueWorkspaces c (sp_ItemIdentifier q) (hn_workerHost h) lg)))"

definition unregister :: "string \<Rightarrow> pool \<Rightarrow> pool" where
  "unregister itemID p = p\<lparr>wp_registered := mdel itemID (wp_registered p)\<rparr>"

text \<open>The deferred calls when the worker has returned.\<close>

definition worker_end :: "nat \<Rightarrow> pool \<Rightarrow> pool" where
  "worker_end i p =
    (let p1 = upd_handle i (\<lambda>h. h\<lparr>hn_done := True\<rparr>) (unregister (hn_itemID (wp_handles p ! i)) p)
     in p1\<lparr>wp_closeWait := wp_closeWait p1 - 1\<rparr>)"

text \<open>
  \<open>Close\<close> up to the wait, on which it blocks until \<open>wp_closeWait\<close> is 0; \<open>wp_closed\<close> also stands for the
  \<open>sync.Once\<close>, as nothing else sets it.
\<close>

definition pool_Close :: "string range_order \<Rightarrow> pool \<Rightarrow> pool" where
  "pool_Close ord p =
    (if wp_closed p then p
     else fold handle_stop (map snd (range_entries ord (wp_registered p)))
       (p\<lparr>wp_closed := True, wp_rootCancelled := True\<rparr>))"

subsection \<open>Interleavings\<close>

definition working :: "nat \<Rightarrow> pool \<Rightarrow> bool" where
  "working i p \<longleftrightarrow> i < length (wp_handles p) \<and> \<not> hn_done (wp_handles p ! i)"

inductive worker_step :: "pool \<Rightarrow> pool \<Rightarrow> bool" where
  wp_workspace: "working i p \<Longrightarrow> worker_step p (set_workspace i path p)"
| wp_open: "working i p \<Longrightarrow> hn_session (wp_handles p ! i) = None \<Longrightarrow> worker_step p (set_session i p)"
| wp_clear: "working i p \<Longrightarrow> hn_session (wp_handles p ! i) = Some n \<Longrightarrow> worker_step p (clear_session i n p)"
| wp_end: "working i p \<Longrightarrow> hn_session (wp_handles p ! i) = None \<Longrightarrow> worker_step p (worker_end i p)"

inductive pool_step :: "pool \<Rightarrow> pool \<Rightarrow> bool" where
  wp_worker: "worker_step p p' \<Longrightarrow> pool_step p p'"
| wp_start: "pool_step p (snd (pool_StartRun q p))"
| wp_stop: "(\<forall>i. sp_Handle q = Some i \<longrightarrow> i < length (wp_handles p)) \<Longrightarrow> pool_step p (stop_run q p)"
| wp_close: "order_ok ord \<Longrightarrow> pool_step p (pool_Close ord p)"

inductive pool_reachable :: "pool \<Rightarrow> bool" where
  wp_new: "pool_reachable newWorkerManager"
| wp_step: "pool_reachable p \<Longrightarrow> pool_step p p' \<Longrightarrow> pool_reachable p'"

inductive_cases worker_stepE: "worker_step p p'"
inductive_cases pool_stepE: "pool_step p p'"

end
