(* ===== verification/Runtime_Pool_Props.thy ===== *)
theory Runtime_Pool_Props
  imports Runtime_Pool
begin

text \<open>
  What the worker manager promises, however the calls of the scheduler and the workers interleave:
  \<open>pool_inv\<close> ties the wait counter to the workers that have not ended and every open session to one of
  them; \<open>closed_pool_drains\<close> is the shutdown.
\<close>

declare map_of_eq_Some_iff [simp del]

subsection \<open>The invariant\<close>

definition undone :: "pool \<Rightarrow> nat" where
  "undone p = length (filter (\<lambda>h. \<not> hn_done h) (wp_handles p))"

definition sessions_held :: "pool \<Rightarrow> bool" where
  "sessions_held p \<longleftrightarrow>
     (\<forall>n < length (wp_sessions p). \<not> wp_sessions p ! n \<longrightarrow>
        (\<exists>i. working i p \<and> hn_session (wp_handles p ! i) = Some n))
     \<and> (\<forall>i < length (wp_handles p). \<forall>n. hn_session (wp_handles p ! i) = Some n \<longrightarrow>
          n < length (wp_sessions p) \<and> \<not> hn_done (wp_handles p ! i))"

definition registered_ok :: "pool \<Rightarrow> bool" where
  "registered_ok p \<longleftrightarrow> mok (wp_registered p) \<and> (\<forall>k i. mget (wp_registered p) k = Some i \<longrightarrow>
     working i p \<and> hn_itemID (wp_handles p ! i) = k)"

definition pool_inv :: "pool \<Rightarrow> bool" where
  "pool_inv p \<longleftrightarrow> wp_closeWait p = undone p \<and> sessions_held p \<and> registered_ok p
     \<and> (wp_rootCancelled p \<longleftrightarrow> wp_closed p)"

lemmas pool_inv_unfold = pool_inv_def undone_def sessions_held_def registered_ok_def working_def

lemma upd_handle_fields [simp]:
  "wp_registered (upd_handle i f p) = wp_registered p" "wp_sessions (upd_handle i f p) = wp_sessions p"
  "wp_closed (upd_handle i f p) = wp_closed p" "wp_rootCancelled (upd_handle i f p) = wp_rootCancelled p"
  "wp_closeWait (upd_handle i f p) = wp_closeWait p"
  "length (wp_handles (upd_handle i f p)) = length (wp_handles p)"
  by (simp_all add: upd_handle_def)

lemma upd_handle_nth: "i < length (wp_handles p) \<Longrightarrow>
    wp_handles (upd_handle i f p) ! j = (if j = i then f (wp_handles p ! i) else wp_handles p ! j)"
  by (auto simp: upd_handle_def)

lemma close_session_fields [simp]:
  "wp_registered (close_session n p) = wp_registered p" "wp_handles (close_session n p) = wp_handles p"
  "wp_closed (close_session n p) = wp_closed p" "wp_rootCancelled (close_session n p) = wp_rootCancelled p"
  "wp_closeWait (close_session n p) = wp_closeWait p"
  "length (wp_sessions (close_session n p)) = length (wp_sessions p)"
  by (simp_all add: close_session_def)

text \<open>Setting a handle to one that is done as before keeps the count; ending a worker lowers it.\<close>

lemma filter_update_length:
  assumes "i < length xs"
  shows "length (filter P (xs[i := x])) + (if P (xs ! i) then 1 else 0)
    = length (filter P xs) + (if P x then 1 else 0)"
proof -
  have "xs = take i xs @ xs ! i # drop (Suc i) xs" using assms by (rule id_take_nth_drop)
  then have "length (filter P xs) = length (filter P (take i xs @ xs ! i # drop (Suc i) xs))" by simp
  moreover have "xs[i := x] = take i xs @ x # drop (Suc i) xs" using assms by (rule upd_conv_take_nth_drop)
  ultimately show ?thesis by simp
qed

lemma undone_end:
  assumes "working i p"
  shows "undone p = Suc (undone (upd_handle i (\<lambda>h. h\<lparr>hn_done := True\<rparr>) p))"
  using filter_update_length [of i "wp_handles p" "\<lambda>h. \<not> hn_done h" "(wp_handles p ! i)\<lparr>hn_done := True\<rparr>"] assms
  by (simp add: undone_def upd_handle_def working_def)

subsection \<open>Every step keeps it\<close>

lemma handle_stop_fields [simp]:
  "wp_registered (handle_stop i p) = wp_registered p" "wp_closed (handle_stop i p) = wp_closed p"
  "wp_rootCancelled (handle_stop i p) = wp_rootCancelled p" "wp_closeWait (handle_stop i p) = wp_closeWait p"
  "length (wp_handles (handle_stop i p)) = length (wp_handles p)"
  "length (wp_sessions (handle_stop i p)) = length (wp_sessions p)"
  by (simp_all add: handle_stop_def Let_def split: option.split)

lemma handle_stop_nth:
  assumes "i < length (wp_handles p)"
  shows "wp_handles (handle_stop i p) ! j = (if j = i \<and> \<not> hn_stopped (wp_handles p ! i)
      then (wp_handles p ! i)\<lparr>hn_stopped := True, hn_cancelled := True\<rparr> else wp_handles p ! j)"
  using assms by (simp add: handle_stop_def Let_def upd_handle_nth split: option.split)

lemma closed_stays: "xs ! n \<Longrightarrow> xs[m := True] ! n"
  by (cases "m < length xs") (simp_all add: nth_list_update list_update_beyond)

lemma handle_stop_open:
  assumes "n < length (wp_sessions p)" "\<not> wp_sessions (handle_stop i p) ! n"
  shows "\<not> wp_sessions p ! n"
proof -
  have "wp_sessions p ! n \<longrightarrow> wp_sessions (handle_stop i p) ! n"
    by (simp add: handle_stop_def close_session_def Let_def closed_stays split: option.split)
  with assms(2) show ?thesis by blast
qed

text \<open>Steps that leave the workers and their sessions as they are, or close sessions.\<close>

definition same_runs :: "pool \<Rightarrow> pool \<Rightarrow> bool" where
  "same_runs p p' \<longleftrightarrow> length (wp_handles p') = length (wp_handles p)
     \<and> length (wp_sessions p') = length (wp_sessions p)
     \<and> (\<forall>j < length (wp_handles p). hn_done (wp_handles p' ! j) = hn_done (wp_handles p ! j)
          \<and> hn_session (wp_handles p' ! j) = hn_session (wp_handles p ! j)
          \<and> hn_itemID (wp_handles p' ! j) = hn_itemID (wp_handles p ! j))
     \<and> (\<forall>n < length (wp_sessions p). \<not> wp_sessions p' ! n \<longrightarrow> \<not> wp_sessions p ! n)
     \<and> wp_registered p' = wp_registered p \<and> wp_closed p' = wp_closed p
     \<and> wp_rootCancelled p' = wp_rootCancelled p \<and> wp_closeWait p' = wp_closeWait p"

lemma same_runs_done: "same_runs p p' \<Longrightarrow> map hn_done (wp_handles p') = map hn_done (wp_handles p)"
  by (rule nth_equalityI) (simp_all add: same_runs_def)

lemma undone_done: "undone p = length (filter Not (map hn_done (wp_handles p)))"
  by (simp add: undone_def filter_map comp_def)

lemma inv_same_runs:
  assumes "pool_inv p" "same_runs p p'"
  shows "pool_inv p'"
proof -
  have w: "working i p' = working i p" for i using assms(2) by (auto simp: same_runs_def working_def)
  have ss: "i < length (wp_handles p) \<Longrightarrow> hn_session (wp_handles p' ! i) = hn_session (wp_handles p ! i)" for i
    using assms(2) by (simp add: same_runs_def)
  have len: "length (wp_handles p') = length (wp_handles p)" "length (wp_sessions p') = length (wp_sessions p)"
    using assms(2) by (simp_all add: same_runs_def)
  have held: "sessions_held p" using assms(1) by (simp add: pool_inv_def)
  have "sessions_held p'"
    unfolding sessions_held_def
  proof (intro conjI allI impI)
    fix n assume n: "n < length (wp_sessions p')" "\<not> wp_sessions p' ! n"
    then have "\<not> wp_sessions p ! n" using assms(2) by (simp add: same_runs_def)
    with held n len obtain i where i: "working i p" "hn_session (wp_handles p ! i) = Some n"
      unfolding sessions_held_def by metis
    then show "\<exists>i. working i p' \<and> hn_session (wp_handles p' ! i) = Some n"
      using w ss by (intro exI [of _ i]) (simp add: working_def)
  next
    fix i n assume i: "i < length (wp_handles p')" "hn_session (wp_handles p' ! i) = Some n"
    then have "n < length (wp_sessions p) \<and> \<not> hn_done (wp_handles p ! i)"
      using held ss len by (simp add: sessions_held_def)
    then show "n < length (wp_sessions p')" "\<not> hn_done (wp_handles p' ! i)"
      using i assms(2) by (simp_all add: same_runs_def)
  qed
  moreover have "undone p' = undone p" by (simp add: undone_done same_runs_done [OF assms(2)])
  moreover have "registered_ok p'"
    using assms w by (fastforce simp: pool_inv_def registered_ok_def same_runs_def working_def)
  ultimately show ?thesis using assms by (simp add: pool_inv_def same_runs_def)
qed

lemma same_runs_stop: "i < length (wp_handles p) \<Longrightarrow> same_runs p (handle_stop i p)"
  by (simp add: same_runs_def handle_stop_nth) (blast dest: handle_stop_open)

lemma inv_handle_stop: "pool_inv p \<Longrightarrow> i < length (wp_handles p) \<Longrightarrow> pool_inv (handle_stop i p)"
  using inv_same_runs same_runs_stop by blast

lemma inv_fold_stop:
  "pool_inv p \<Longrightarrow> \<forall>i \<in> set is. i < length (wp_handles p) \<Longrightarrow> pool_inv (fold handle_stop is p)"
  by (induction "is" arbitrary: p) (simp_all add: inv_handle_stop)

lemma fold_stop_fields [simp]:
  "wp_registered (fold handle_stop is p) = wp_registered p" "wp_closed (fold handle_stop is p) = wp_closed p"
  "wp_rootCancelled (fold handle_stop is p) = wp_rootCancelled p"
  "wp_closeWait (fold handle_stop is p) = wp_closeWait p"
  "length (wp_handles (fold handle_stop is p)) = length (wp_handles p)"
  by (induction "is" arbitrary: p) simp_all

lemma inv_close:
  assumes "pool_inv p" "order_ok ord"
  shows "pool_inv (pool_Close ord p)"
proof (cases "wp_closed p")
  case False
  let ?q = "p\<lparr>wp_closed := True, wp_rootCancelled := True\<rparr>"
  have "pool_inv ?q" using assms(1) by (simp add: pool_inv_unfold)
  moreover have "\<forall>i \<in> set (map snd (range_entries ord (wp_registered p))). i < length (wp_handles ?q)"
    using assms by (auto simp: pool_inv_def registered_ok_def working_def set_range_entries mget_mem)
  ultimately show ?thesis using False by (simp add: pool_Close_def inv_fold_stop)
qed (use assms in \<open>simp add: pool_Close_def\<close>)

lemma inv_pool_start:
  assumes "pool_inv p"
  shows "pool_inv (snd (pool_StartRun q p))"
proof (cases "wp_closed p")
  case False
  with assms show ?thesis
    by (auto simp: pool_StartRun_def pool_inv_unfold Let_def nth_append gomap less_Suc_eq)
qed (use assms in \<open>simp add: pool_StartRun_def\<close>)

subsection \<open>The workers\<close>

lemma inv_set_workspace: "pool_inv p \<Longrightarrow> working i p \<Longrightarrow> pool_inv (set_workspace i path p)"
  by (erule inv_same_runs) (simp add: same_runs_def set_workspace_def working_def upd_handle_nth)

lemma map_done_upd:
  "i < length (wp_handles p) \<Longrightarrow> hn_done (f (wp_handles p ! i)) = hn_done (wp_handles p ! i) \<Longrightarrow>
     map hn_done (wp_handles (upd_handle i f p)) = map hn_done (wp_handles p)"
  by (rule nth_equalityI) (simp_all add: upd_handle_nth)

lemma inv_set_session:
  assumes "pool_inv p" "working i p" "hn_session (wp_handles p ! i) = None"
  shows "pool_inv (set_session i p)"
proof -
  let ?p1 = "p\<lparr>wp_sessions := wp_sessions p @ [False]\<rparr>"
  have i: "i < length (wp_handles ?p1)" using assms(2) by (simp add: working_def)
  have "undone (set_session i p) = undone p"
    by (simp add: undone_done set_session_def map_done_upd [OF i])
  moreover have "sessions_held (set_session i p)"
    unfolding sessions_held_def
  proof (intro conjI allI impI)
    fix n assume n: "n < length (wp_sessions (set_session i p))" "\<not> wp_sessions (set_session i p) ! n"
    show "\<exists>j. working j (set_session i p) \<and> hn_session (wp_handles (set_session i p) ! j) = Some n"
    proof (cases "n < length (wp_sessions p)")
      case True
      with n assms(1) obtain j where "working j p" "hn_session (wp_handles p ! j) = Some n"
        by (auto simp: pool_inv_def sessions_held_def set_session_def nth_append)
      then show ?thesis using assms(3) i by (auto simp: set_session_def working_def upd_handle_nth)
    next
      case False
      with n show ?thesis using assms(2) i
        by (intro exI [of _ i]) (simp add: set_session_def working_def upd_handle_nth)
    qed
  qed (use assms i in \<open>auto simp: pool_inv_def sessions_held_def set_session_def working_def upd_handle_nth
         split: if_splits\<close>)
  moreover have "registered_ok (set_session i p)"
    using assms i by (auto simp: pool_inv_def registered_ok_def set_session_def working_def upd_handle_nth)
  ultimately show ?thesis using assms(1) by (simp add: pool_inv_def set_session_def)
qed

lemma inv_clear_session:
  assumes "pool_inv p" "working i p" "hn_session (wp_handles p ! i) = Some n"
  shows "pool_inv (clear_session i n p)"
proof -
  have i: "i < length (wp_handles (close_session n p))" using assms(2) by (simp add: working_def)
  have n: "n < length (wp_sessions p)" using assms by (auto simp: pool_inv_def sessions_held_def working_def)
  have "undone (clear_session i n p) = undone p"
    by (simp add: undone_done clear_session_def map_done_upd [OF i])
  moreover have "sessions_held (clear_session i n p)"
    unfolding sessions_held_def
  proof (intro conjI allI impI)
    fix m assume m: "m < length (wp_sessions (clear_session i n p))" "\<not> wp_sessions (clear_session i n p) ! m"
    then have "m \<noteq> n" "\<not> wp_sessions p ! m" "m < length (wp_sessions p)" using n
      by (auto simp: clear_session_def close_session_def nth_list_update split: if_splits)
    with assms(1) obtain j where j: "working j p" "hn_session (wp_handles p ! j) = Some m"
      by (auto simp: pool_inv_def sessions_held_def)
    with \<open>m \<noteq> n\<close> assms(3) have "j \<noteq> i" by auto
    with j i show "\<exists>j. working j (clear_session i n p) \<and> hn_session (wp_handles (clear_session i n p) ! j) = Some m"
      by (intro exI [of _ j]) (simp add: clear_session_def working_def upd_handle_nth)
  qed (use assms i in \<open>auto simp: pool_inv_def sessions_held_def clear_session_def working_def upd_handle_nth
         split: if_splits\<close>)
  moreover have "registered_ok (clear_session i n p)"
    using assms i by (auto simp: pool_inv_def registered_ok_def clear_session_def working_def upd_handle_nth)
  ultimately show ?thesis using assms(1) by (simp add: pool_inv_def clear_session_def)
qed

lemma inv_worker_end:
  assumes "pool_inv p" "working i p" "hn_session (wp_handles p ! i) = None"
  shows "pool_inv (worker_end i p)"
proof -
  let ?p1 = "unregister (hn_itemID (wp_handles p ! i)) p"
  have i: "i < length (wp_handles ?p1)" and un: "wp_handles ?p1 = wp_handles p" "wp_sessions ?p1 = wp_sessions p"
    "wp_closeWait ?p1 = wp_closeWait p" "wp_closed ?p1 = wp_closed p" "wp_rootCancelled ?p1 = wp_rootCancelled p"
    using assms(2) by (simp_all add: working_def unregister_def)
  have nth: "wp_handles (worker_end i p) ! j = (if j = i then (wp_handles p ! i)\<lparr>hn_done := True\<rparr> else wp_handles p ! j)"
    "length (wp_handles (worker_end i p)) = length (wp_handles p)" "wp_sessions (worker_end i p) = wp_sessions p" for j
    using upd_handle_nth [OF i] by (simp_all add: worker_end_def Let_def un)
  have "undone p = Suc (undone (worker_end i p))"
    using undone_end [of i ?p1] assms(2) by (simp add: worker_end_def Let_def undone_def working_def un)
  moreover have "sessions_held (worker_end i p)"
    unfolding sessions_held_def
  proof (intro conjI allI impI)
    fix m assume m: "m < length (wp_sessions (worker_end i p))" "\<not> wp_sessions (worker_end i p) ! m"
    then obtain j where j: "working j p" "hn_session (wp_handles p ! j) = Some m"
      using assms(1) by (auto simp: pool_inv_def sessions_held_def nth)
    with assms(3) have "j \<noteq> i" by auto
    with j show "\<exists>j. working j (worker_end i p) \<and> hn_session (wp_handles (worker_end i p) ! j) = Some m"
      by (intro exI [of _ j]) (simp add: working_def nth)
  qed (use assms in \<open>auto simp: pool_inv_def sessions_held_def nth split: if_splits\<close>)
  moreover have "registered_ok (worker_end i p)"
  proof -
    have reg: "wp_registered (worker_end i p) = mdel (hn_itemID (wp_handles p ! i)) (wp_registered p)"
      by (simp add: worker_end_def Let_def unregister_def)
    show ?thesis
      using assms(1) by (auto simp: pool_inv_def registered_ok_def reg working_def nth gomap split: if_splits)
  qed
  moreover have "wp_closeWait (worker_end i p) = wp_closeWait p - 1"
    "wp_closed (worker_end i p) = wp_closed p" "wp_rootCancelled (worker_end i p) = wp_rootCancelled p"
    by (simp_all add: worker_end_def Let_def un)
  ultimately show ?thesis using assms(1) by (simp add: pool_inv_def)
qed

lemma inv_worker_step: "worker_step p p' \<Longrightarrow> pool_inv p \<Longrightarrow> pool_inv p'"
  by (induction rule: worker_step.induct)
    (simp_all add: inv_set_workspace inv_set_session inv_clear_session inv_worker_end)

lemma inv_stop_run:
  "pool_inv p \<Longrightarrow> (\<And>i. sp_Handle q = Some i \<Longrightarrow> i < length (wp_handles p)) \<Longrightarrow> pool_inv (stop_run q p)"
  by (simp add: stop_run_def inv_handle_stop split: option.split)

lemma inv_pool_step: "pool_step p p' \<Longrightarrow> pool_inv p \<Longrightarrow> pool_inv p'"
  by (induction rule: pool_step.induct) (simp_all add: inv_worker_step inv_pool_start inv_stop_run inv_close)

lemma pool_reachable_inv: "pool_reachable p \<Longrightarrow> pool_inv p"
proof (induction rule: pool_reachable.induct)
  case wp_new
  show ?case by (simp add: pool_inv_unfold newWorkerManager_def)
qed (simp add: inv_pool_step)

subsection \<open>Shutdown\<close>

lemma worker_step_count:
  "worker_step p p' \<Longrightarrow> length (wp_handles p') = length (wp_handles p) \<and> wp_closeWait p' \<le> wp_closeWait p
     \<and> wp_closed p' = wp_closed p"
  by (erule worker_stepE)
    (simp_all add: set_workspace_def set_session_def clear_session_def worker_end_def unregister_def Let_def)

lemma stop_run_count [simp]:
  "length (wp_handles (stop_run q p)) = length (wp_handles p)" "wp_closed (stop_run q p) = wp_closed p"
  "wp_closeWait (stop_run q p) = wp_closeWait p"
  by (simp_all add: stop_run_def split: option.split)

text \<open>C13 (safety). After \<open>Close\<close> the worker manager winds down completely. In every reachable state of a
  closed manager, however starts, stops and workers were interleaved, the context of every run ever
  started is cancelled, also of one whose handle is no longer registered; \<open>StartRun\<close> refuses and changes
  nothing; every further step leaves the number of runs as it is and lowers the wait counter at most;
  and the counter \<open>Close\<close> waits on is zero exactly when every worker has ended, and then every Codex
  session ever opened is closed.\<close>

theorem closed_pool_drains:
  assumes "pool_reachable p" "wp_closed p"
  shows "(\<forall>i < length (wp_handles p). run_cancelled p i)
    \<and> pool_StartRun q p = (Inl ''context canceled'', p)
    \<and> (\<forall>p'. pool_step p p' \<longrightarrow> wp_closed p' \<and> length (wp_handles p') = length (wp_handles p)
          \<and> wp_closeWait p' \<le> wp_closeWait p)
    \<and> (wp_closeWait p = 0 \<longleftrightarrow> (\<forall>h \<in> set (wp_handles p). hn_done h))
    \<and> (wp_closeWait p = 0 \<longrightarrow> (\<forall>c \<in> set (wp_sessions p). c))"
proof -
  have inv: "pool_inv p" using assms(1) by (rule pool_reachable_inv)
  then have zero: "wp_closeWait p = 0 \<longleftrightarrow> (\<forall>h \<in> set (wp_handles p). hn_done h)"
    by (auto simp: pool_inv_def undone_def filter_empty_conv)
  moreover have "\<forall>i < length (wp_handles p). run_cancelled p i"
    using inv assms(2) by (simp add: run_cancelled_def pool_inv_def)
  moreover have "pool_StartRun q p = (Inl ''context canceled'', p)"
    using assms(2) by (simp add: pool_StartRun_def)
  moreover have "wp_closed p' \<and> length (wp_handles p') = length (wp_handles p) \<and> wp_closeWait p' \<le> wp_closeWait p"
    if "pool_step p p'" for p'
    using that assms(2) worker_step_count [of p p']
    by (auto elim!: pool_stepE simp: pool_StartRun_def pool_Close_def)
  moreover have "\<forall>c \<in> set (wp_sessions p). c" if "wp_closeWait p = 0"
  proof -
    have "wp_sessions p ! n" if "n < length (wp_sessions p)" for n
    proof (rule ccontr)
      assume "\<not> wp_sessions p ! n"
      then obtain i where "working i p"
        using inv \<open>n < length (wp_sessions p)\<close> by (auto simp: pool_inv_def sessions_held_def)
      with zero \<open>wp_closeWait p = 0\<close> show False by (auto simp: working_def)
    qed
    then show ?thesis by (auto simp: in_set_conv_nth)
  qed
  ultimately show ?thesis by blast
qed

text \<open>One run whose session is open when the manager is closed, and the end of its worker.\<close>

definition pool_request :: "string \<Rightarrow> start_run_request" where
  "pool_request key = \<lparr>sq_Item = empty_item\<lparr>wi_ID := key\<rparr>, sq_Attempt = 0, sq_PreferredHost = []\<rparr>"

definition demo_pool :: pool where
  "demo_pool = worker_end 0 (clear_session 0 0 (pool_Close (\<lambda>ks. ks)
     (set_session 0 (snd (pool_StartRun (pool_request ''a'') newWorkerManager)))))"

lemma demo_pool_reachable: "pool_reachable demo_pool"
proof -
  let ?p1 = "snd (pool_StartRun (pool_request ''a'') newWorkerManager)"
  have 1: "pool_reachable ?p1" by (rule wp_step [OF wp_new wp_start])
  have 2: "pool_reachable (set_session 0 ?p1)"
    by (rule wp_step [OF 1 wp_worker], rule wp_open) code_simp+
  have 3: "pool_reachable (pool_Close (\<lambda>ks. ks) (set_session 0 ?p1))"
    by (rule wp_step [OF 2 wp_close]) simp
  have 4: "pool_reachable (clear_session 0 0 (pool_Close (\<lambda>ks. ks) (set_session 0 ?p1)))"
    by (rule wp_step [OF 3 wp_worker], rule wp_clear) code_simp+
  show ?thesis unfolding demo_pool_def
    by (rule wp_step [OF 4 wp_worker], rule wp_end) code_simp+
qed

theorem closed_pool_drains_witness:
  "wp_closeWait demo_pool = 0 \<and> length (wp_handles demo_pool) = 1 \<and> list_all hn_done (wp_handles demo_pool)
   \<and> list_all (\<lambda>c. c) (wp_sessions demo_pool)"
proof -
  have "wp_closed demo_pool" "wp_closeWait demo_pool = 0" "length (wp_handles demo_pool) = 1" by code_simp+
  with closed_pool_drains [OF demo_pool_reachable this(1), of "pool_request ''b''"] show ?thesis
    unfolding list_all_iff by blast
qed

text \<open>
  A worker that ends takes the entry of its item out of \<open>m.handles\<close>, also when a newer run of the same item has
  replaced it: that run goes on without being registered.
\<close>

lemma newer_handle_dropped:
  "let p1 = snd (pool_StartRun (pool_request ''a'') newWorkerManager);
       p2 = snd (pool_StartRun (pool_request ''a'') (stop_run \<lparr>sp_ItemID = ''a'', sp_ItemIdentifier = ''A'',
              sp_Handle = Some 0, sp_CleanupWorkspace = False\<rparr> p1));
       p3 = worker_end 0 p2
   in working 0 p2 \<and> mget (wp_registered p2) ''a'' = Some 1 \<and> working 1 p3 \<and> mget (wp_registered p3) ''a'' = None"
  by code_simp

text \<open>\<open>StopRun\<close> removes the workspace at once: the worker whose run it cancels may still be in it.\<close>

lemma stop_does_not_wait:
  assumes "working i p" "sp_Handle q = Some i" "sp_CleanupWorkspace q" "hn_workspacePath (wp_handles p ! i) \<noteq> []"
  shows "pool_StopRun c q p lg = map_option (\<lambda>r. (r, stop_run q p))
           (wc_Remove c (hn_workspacePath (wp_handles p ! i)) (sp_ItemIdentifier q) (hn_workerHost (wp_handles p ! i)) lg)
         \<and> working i (stop_run q p)"
  using assms by (simp add: pool_StopRun_def stop_run_def working_def Let_def handle_stop_nth)

end
