(* ===== verification/Runtime_System.thy ===== *)
theory Runtime_System
  imports Runtime_Pool_Props Tracker Orch_Demo
begin

text \<open>
  The orchestrator and the worker manager together, as \<open>startRuntime\<close> of \<open>internal/cli/runtime.go\<close> wires
  them: the answers the scheduler gets are those of \<open>StartRun\<close> after the calls it has made so far
  (\<open>pool_deps\<close>), and a step of the service makes its new calls on the manager, while the workers go on in
  between (\<open>system_reachable\<close>). \<open>live_handle\<close> is read off the log of the calls, and every operation of the
  scheduler keeps it (\<open>salive\<close>).
\<close>

declare map_of_eq_Some_iff [simp del]

subsection \<open>Wiring\<close>

fun pool_call :: "call \<Rightarrow> pool \<Rightarrow> pool" where
  "pool_call (CallStart q) p = snd (pool_StartRun q p)"
| "pool_call (CallStop q) p = stop_run q p"
| "pool_call _ p = p"

definition pool_calls :: "call list \<Rightarrow> pool \<Rightarrow> pool" where
  "pool_calls cs p = fold pool_call cs p"

definition pool_deps :: "tracker_reader \<Rightarrow> deps" where
  "pool_deps reader = runtime_deps reader
     (\<lambda>cs q. fst (pool_StartRun q (pool_calls cs newWorkerManager))) (\<lambda>cs q. None)"

text \<open>\<open>Runtime.Close\<close> closes the service first, then the manager.\<close>

inductive system_reachable :: "settings \<Rightarrow> tracker_reader \<Rightarrow> service \<Rightarrow> pool \<Rightarrow> bool" for cfg reader where
  sys_new: "order_ok ord \<Longrightarrow>
     system_reachable cfg reader (newService cfg (pool_deps reader) clk ord delay) newWorkerManager"
| sys_service: "system_reachable cfg reader v p \<Longrightarrow> svc_step v w \<Longrightarrow>
     system_reachable cfg reader w
       (pool_calls (drop (length (sd_calls (vc_state v))) (sd_calls (vc_state w))) p)"
| sys_worker: "system_reachable cfg reader v p \<Longrightarrow> worker_step p p' \<Longrightarrow> system_reachable cfg reader v p'"
| sys_close: "system_reachable cfg reader v p \<Longrightarrow> vc_closed v \<Longrightarrow> order_ok ord \<Longrightarrow>
     system_reachable cfg reader v (pool_Close ord p)"

subsection \<open>The log of the calls\<close>

definition starts :: "call list \<Rightarrow> start_run_request list" where
  "starts cs = List.map_filter (\<lambda>c. case c of CallStart q \<Rightarrow> Some q | _ \<Rightarrow> None) cs"

lemma starts_append [simp]: "starts (xs @ ys) = starts xs @ starts ys"
  by (simp add: starts_def map_filter_def)

lemma starts_simps [simp]:
  "starts [] = []" "starts [CallStart q] = [q]" "\<not> is_start c \<Longrightarrow> starts [c] = []"
  by (simp_all add: starts_def map_filter_def) (cases c; simp)

fun is_stop :: "call \<Rightarrow> bool" where
  "is_stop (CallStop q) = True"
| "is_stop _ = False"

definition stopped_handle :: "call list \<Rightarrow> nat \<Rightarrow> bool" where
  "stopped_handle cs i \<longleftrightarrow> (\<exists>q. CallStop q \<in> set cs \<and> sp_Handle q = Some i)"

text \<open>The run of an entry for item \<open>k\<close>: started for that item and not stopped.\<close>

definition live_handle :: "call list \<Rightarrow> string \<Rightarrow> running_entry \<Rightarrow> bool" where
  "live_handle cs k e \<longleftrightarrow> (\<exists>i. re_Handle e = Some i \<and> i < length (starts cs)
     \<and> wi_ID (sq_Item (starts cs ! i)) = k \<and> \<not> stopped_handle cs i)"

definition stops_known :: "call list \<Rightarrow> bool" where
  "stops_known cs \<longleftrightarrow> (\<forall>i. stopped_handle cs i \<longrightarrow> i < length (starts cs))"

definition salive :: "sched \<Rightarrow> bool" where
  "salive s \<longleftrightarrow> stops_known (sd_calls s)
     \<and> (\<forall>k e. mget (sd_running s) k = Some e \<longrightarrow> live_handle (sd_calls s) k e)"

lemma stopped_simps [simp]:
  "\<not> stopped_handle [] i" "stopped_handle (xs @ ys) i \<longleftrightarrow> stopped_handle xs i \<or> stopped_handle ys i"
  "stopped_handle [CallStop q] i \<longleftrightarrow> sp_Handle q = Some i" "\<not> is_stop c \<Longrightarrow> \<not> stopped_handle [c] i"
  by (auto simp: stopped_handle_def)

lemma live_plain:
  "\<not> is_start c \<Longrightarrow> \<not> is_stop c \<Longrightarrow> live_handle (cs @ [c]) k e = live_handle cs k e"
  "\<not> is_start c \<Longrightarrow> \<not> is_stop c \<Longrightarrow> stops_known (cs @ [c]) = stops_known cs"
  by (simp_all add: live_handle_def stops_known_def)

lemma live_start:
  assumes "stops_known cs"
  shows "live_handle cs k e \<Longrightarrow> live_handle (cs @ [CallStart q]) k e" "stops_known (cs @ [CallStart q])"
    "re_Handle e = Some (length (starts cs)) \<Longrightarrow> live_handle (cs @ [CallStart q]) (wi_ID (sq_Item q)) e"
  using assms by (auto simp: live_handle_def stops_known_def nth_append less_Suc_eq)

lemma live_stop:
  assumes "sp_Handle q = None \<or> (\<exists>e'. live_handle cs k' e' \<and> sp_Handle q = re_Handle e' \<and> k' \<noteq> k)"
  shows "live_handle cs k e \<Longrightarrow> live_handle (cs @ [CallStop q]) k e"
  using assms by (auto simp: live_handle_def)

lemma stops_known_stop:
  assumes "sp_Handle q = None \<or> (\<exists>e'. live_handle cs k' e' \<and> sp_Handle q = re_Handle e')"
  shows "stops_known cs \<Longrightarrow> stops_known (cs @ [CallStop q])"
  using assms by (auto simp: live_handle_def stops_known_def)

lemma saliveI: "salive s \<Longrightarrow> sd_calls t = sd_calls s \<Longrightarrow>
    (\<And>k e. mget (sd_running t) k = Some e \<Longrightarrow>
       \<exists>e'. mget (sd_running s) k = Some e' \<and> re_Handle e = re_Handle e') \<Longrightarrow> salive t"
  by (simp add: salive_def live_handle_def) metis

lemma salive_same: "salive s \<Longrightarrow> sd_calls t = sd_calls s \<Longrightarrow> sd_running t = sd_running s \<Longrightarrow> salive t"
  by (simp add: salive_def)

lemma salive_log [simp]: "\<not> is_start c \<Longrightarrow> \<not> is_stop c \<Longrightarrow> salive (log_call c s) = salive s"
  by (simp add: salive_def live_plain)

text \<open>The log only grows.\<close>

definition grows :: "sched \<Rightarrow> sched \<Rightarrow> bool" where
  "grows s t \<longleftrightarrow> (\<exists>cs. sd_calls t = sd_calls s @ cs)"

lemma grows_same [simp]: "sd_calls t = sd_calls s \<Longrightarrow> grows s t"
  by (simp add: grows_def)

lemma grows_trans: "grows s t \<Longrightarrow> grows t u \<Longrightarrow> grows s u"
  by (auto simp: grows_def)

lemma quiet_grows: "quiet s t \<Longrightarrow> grows s t"
  by (auto simp: quiet_def grows_def)

lemma grows_log [simp]: "grows s (log_call c s)"
  by (simp add: grows_def)

lemma grows_fold: "(\<And>x s. grows s (f x s)) \<Longrightarrow> grows s (fold f xs s)"
proof (induction xs arbitrary: s)
  case (Cons x xs)
  then show ?case by (metis fold_simps(2) grows_trans)
qed simp

subsection \<open>The manager after these calls\<close>

lemma pool_calls_open:
  "\<not> wp_closed p \<Longrightarrow> \<not> wp_closed (pool_calls cs p)
     \<and> length (wp_handles (pool_calls cs p)) = length (wp_handles p) + length (starts cs)"
proof (induction cs arbitrary: p)
  case (Cons c cs)
  have c: "\<not> wp_closed (pool_call c p)" "length (wp_handles (pool_call c p)) = length (wp_handles p) + length (starts [c])"
    using Cons.prems by (cases c; simp add: pool_StartRun_def Let_def)+
  have "pool_calls (c # cs) p = pool_calls cs (pool_call c p)" by (simp add: pool_calls_def)
  moreover have "starts (c # cs) = starts [c] @ starts cs" using starts_append [of "[c]" cs] by simp
  ultimately show ?case using Cons.IH [OF c(1)] c(2) by simp
qed (simp add: pool_calls_def)

lemma pool_start_answer:
  "\<exists>r. fst (pool_StartRun q (pool_calls cs newWorkerManager)) = Inr r \<and> sr_Handle r = Some (length (starts cs))"
  using pool_calls_open [of newWorkerManager cs]
  by (simp add: pool_StartRun_def Let_def newWorkerManager_def)

text \<open>What the operations need to know of the dependencies.\<close>

definition wired :: "deps \<Rightarrow> bool" where
  "wired d \<longleftrightarrow> dp_startRun d = Some (\<lambda>cs q. fst (pool_StartRun q (pool_calls cs newWorkerManager)))
     \<and> dp_stopRun d \<noteq> None"

subsection \<open>Every operation keeps live handles\<close>

lemma stop_calls: "wired d \<Longrightarrow> stopWithIntent d k ident h cleanup s = log_call (CallStop
    \<lparr>sp_ItemID = k, sp_ItemIdentifier = ident, sp_Handle = h, sp_CleanupWorkspace = cleanup\<rparr>) s"
  by (auto simp: stopWithIntent_def wired_def)

lemma salive_failure [simp]: "salive s \<Longrightarrow> salive (scheduleFailureRetry k i a m h p s)"
  by (erule salive_same) (simp_all add: scheduleFailureRetry_def Let_def)

lemma salive_continuation [simp]: "salive s \<Longrightarrow> salive (scheduleContinuationRetry k i h p s)"
  by (erule salive_same) (simp_all add: scheduleContinuationRetry_def Let_def)

lemma salive_stop_none: "salive s \<Longrightarrow> wired d \<Longrightarrow> salive (stopWithIntent d k i None b s)"
  by (auto simp: salive_def stop_calls intro!: live_stop stops_known_stop)

text \<open>Dropping the entry of \<open>k\<close> and stopping the run it had.\<close>

lemma salive_drop:
  assumes "salive s" "live_handle (sd_calls s) k e" "wired d"
    and "sd_calls t = sd_calls s" "sd_running t = mdel k (sd_running s)"
  shows "salive (stopWithIntent d k' i (re_Handle e) b t)"
proof -
  let ?q = "\<lparr>sp_ItemID = k', sp_ItemIdentifier = i, sp_Handle = re_Handle e, sp_CleanupWorkspace = b\<rparr>"
  have "live_handle (sd_calls s @ [CallStop ?q]) j f" if "j \<noteq> k" "mget (sd_running s) j = Some f" for j f
    by (rule live_stop [where k' = k]) (use assms(1,2) that in \<open>auto simp: salive_def\<close>)
  moreover have "stops_known (sd_calls s @ [CallStop ?q])"
    by (rule stops_known_stop [where k' = k]) (use assms(1,2) in \<open>auto simp: salive_def\<close>)
  ultimately show ?thesis
    using assms by (auto simp: salive_def stop_calls gomap split: if_splits)
qed

lemma salive_dispatchItem:
  assumes "salive s" "wired d"
  shows "salive (snd (dispatchItem d item a pref s))"
proof -
  obtain host admitted where ah: "admitHost d pref s = (host, admitted)" by fastforce
  let ?q = "\<lparr>sq_Item = item, sq_Attempt = a, sq_PreferredHost = host\<rparr>"
  obtain r where r: "fst (pool_StartRun ?q (pool_calls (sd_calls s) newWorkerManager)) = Inr r"
    "sr_Handle r = Some (length (starts (sd_calls s)))" using pool_start_answer by blast
  have cs: "call_start d ?q s = (Inr r, log_call (CallStart ?q) s)"
    using assms(2) r(1) by (simp add: call_start_def wired_def)
  have known: "stops_known (sd_calls s)" using assms(1) by (simp add: salive_def)
  have new: "live_handle (sd_calls s @ [CallStart ?q]) (wi_ID item) (start_entry item a started host r)" for started
    using live_start(3) [OF known, of "start_entry item a started host r" ?q] r(2) by (simp add: start_entry_def)
  show ?thesis
  proof (cases admitted)
    case True
    with assms(1) new known show ?thesis
      by (auto simp: dispatchItem_def ah cs Let_def salive_def gomap live_start split: if_splits)
  qed (use assms(1) in \<open>simp add: dispatchItem_def ah\<close>)
qed

lemma grows_dispatchItem: "grows s (snd (dispatchItem d item a pref s))"
proof -
  obtain host admitted where ah: "admitHost d pref s = (host, admitted)" by fastforce
  obtain r s1 where cs: "call_start d \<lparr>sq_Item = item, sq_Attempt = a, sq_PreferredHost = host\<rparr> s = (r, s1)"
    by fastforce
  have "grows s s1" using call_start_state [OF cs] by auto
  moreover have "grows s1 (snd (dispatchItem d item a pref s)) \<or> snd (dispatchItem d item a pref s) = s"
    by (simp add: dispatchItem_def ah cs Let_def scheduleFailureRetry_def split: sum.split)
  ultimately show ?thesis using grows_trans by auto
qed

lemma salive_process_candidate:
  assumes "salive s" "wired d"
  shows "salive (process_candidate d item s) \<and> grows s (process_candidate d item s)"
proof -
  obtain r t where rt: "revalidateCandidate d (wi_ID item) s = (r, t)" by fastforce
  have "salive t \<and> grows s t"
    using revalidateCandidate_frame [OF rt] assms(1) by auto
  then show ?thesis
    using salive_dispatchItem [of t d] grows_trans [OF _ grows_dispatchItem] assms
    by (auto simp: process_candidate_def rt split: option.split)
qed

lemma salive_processCandidates:
  assumes "salive s" "wired d"
  shows "salive (processCandidates d items s) \<and> grows s (processCandidates d items s)"
proof -
  have "salive (fold (process_candidate d) xs s) \<and> grows s (fold (process_candidate d) xs s)"
    if "salive s" for xs s
    using that
  proof (induction xs arbitrary: s)
    case (Cons x xs)
    with salive_process_candidate [OF Cons.prems assms(2)] show ?case
      using grows_trans by fastforce
  qed simp
  with assms(1) show ?thesis by (simp add: processCandidates_def)
qed

text \<open>The running entries after an event: handles stay as they were.\<close>

lemma event_running_handles:
  assumes "mget (sd_running (applyRunEvent ev s)) k = Some e"
  shows "\<exists>e'. mget (sd_running s) k = Some e' \<and> re_Handle e = re_Handle e'"
proof (cases "mget (sd_running s) (ev_ItemID ev)")
  case (Some entry0)
  obtain entry s1 where a: "(if hasTotals (ev_CodexTotals ev)
      then applyAggregateDelta (event_entry ev entry0) (ev_CodexTotals ev) s else (event_entry ev entry0, s)) = (entry, s1)"
    by fastforce
  have h: "re_Handle entry = re_Handle entry0" "sd_running s1 = sd_running s"
    using a by (auto simp: applyAggregateDelta_def event_entry_def Let_def split: if_splits)
  let ?s2 = "case ev_RateLimits ev of None \<Rightarrow> s1 | Some r \<Rightarrow> s1\<lparr>sd_rateLimits := Some r\<rparr>"
  have s2: "sd_running ?s2 = sd_running s" by (simp add: h split: option.split)
  have "sd_running (applyRunEvent ev s) = mput (ev_ItemID ev) entry (sd_running s)
      \<or> sd_running (applyRunEvent ev s) = mdel (ev_ItemID ev) (mput (ev_ItemID ev) entry (sd_running s))"
    by (simp add: applyRunEvent_def Some a Let_def s2 scheduleFailureRetry_def scheduleContinuationRetry_def
        split: run_event_kind.split)
  with assms Some h(1) show ?thesis by (auto simp: gomap split: if_splits)
qed (use assms in \<open>simp add: applyRunEvent_def\<close>)

lemma applyRunEvent_calls: "sd_calls (applyRunEvent ev s) = sd_calls s"
  by (auto simp: applyRunEvent_def applyAggregateDelta_def Let_def scheduleFailureRetry_def
      scheduleContinuationRetry_def split: option.splits run_event_kind.splits)

lemma salive_applyRunEvent: "salive s \<Longrightarrow> salive (applyRunEvent ev s)"
  by (erule saliveI) (simp_all add: applyRunEvent_calls event_running_handles)

subsection \<open>Loops over the running entries\<close>

definition spares :: "string \<Rightarrow> sched \<Rightarrow> sched \<Rightarrow> bool" where
  "spares k s t \<longleftrightarrow> (\<forall>j e. j \<noteq> k \<longrightarrow> live_handle (sd_calls s) j e \<longrightarrow> live_handle (sd_calls t) j e)"

lemma spares_same: "sd_calls t = sd_calls s \<Longrightarrow> spares k s t"
  by (simp add: spares_def)

lemma fold_live:
  assumes step: "\<And>kv s. kv \<in> set kvs \<Longrightarrow> salive s \<Longrightarrow> live_handle (sd_calls s) (fst kv) (snd kv) \<Longrightarrow>
      salive (f kv s) \<and> grows s (f kv s) \<and> spares (fst kv) s (f kv s)"
    and "distinct (map fst kvs)" "salive s" "\<forall>kv \<in> set kvs. live_handle (sd_calls s) (fst kv) (snd kv)"
  shows "salive (fold f kvs s) \<and> grows s (fold f kvs s)"
  using assms
proof (induction kvs arbitrary: s)
  case (Cons kv kvs)
  have kv: "salive (f kv s)" "grows s (f kv s)" "spares (fst kv) s (f kv s)"
    using Cons.prems(1) [of kv s] Cons.prems(3,4) by auto
  have "live_handle (sd_calls (f kv s)) (fst x) (snd x)" if "x \<in> set kvs" for x
  proof -
    have "fst kv \<notin> set (map fst kvs)" using Cons.prems(2) by simp
    moreover have "fst x \<in> set (map fst kvs)" using that by simp
    ultimately have "fst x \<noteq> fst kv" by metis
    with kv(3) Cons.prems(4) that show ?thesis by (simp add: spares_def)
  qed
  with Cons.IH [of "f kv s"] Cons.prems(1,2) kv(1)
  have "salive (fold f kvs (f kv s)) \<and> grows (f kv s) (fold f kvs (f kv s))" by simp
  with kv(2) show ?case using grows_trans by auto
qed simp

lemma spares_stop:
  assumes "live_handle (sd_calls s) k e" "wired d" "sd_calls t = sd_calls s"
  shows "spares k s (stopWithIntent d k' i (re_Handle e) b t)" "grows s (stopWithIntent d k' i (re_Handle e) b t)"
proof -
  show "grows s (stopWithIntent d k' i (re_Handle e) b t)"
    using assms(2,3) by (simp add: stop_calls grows_def)
  show "spares k s (stopWithIntent d k' i (re_Handle e) b t)"
    unfolding spares_def
  proof (intro allI impI)
    fix j f assume "j \<noteq> k" "live_handle (sd_calls s) j f"
    then show "live_handle (sd_calls (stopWithIntent d k' i (re_Handle e) b t)) j f"
      using assms by (auto simp: stop_calls intro!: live_stop)
  qed
qed

lemma stall_one_live:
  assumes "salive s" "live_handle (sd_calls s) k e" "wired d"
  shows "salive (stall_one d now (k, e) s) \<and> grows s (stall_one d now (k, e) s) \<and> spares k s (stall_one d now (k, e) s)"
proof -
  let ?s1 = "s\<lparr>sd_running := mdel k (sd_running s)\<rparr>"
  have st: "salive (stopWithIntent d k i (re_Handle e) False ?s1)" for i
    by (rule salive_drop [OF assms]) simp_all
  have sp: "spares k s (stopWithIntent d k i (re_Handle e) False ?s1)"
    "grows s (stopWithIntent d k i (re_Handle e) False ?s1)" for i
    by (rule spares_stop [OF assms(2,3)]; simp)+
  have "sd_calls (scheduleFailureRetry j i a m h p t) = sd_calls t" for j i a m h p t
    by (simp add: scheduleFailureRetry_def Let_def)
  then show ?thesis
    using st sp assms(1) by (auto simp: stall_one_def Let_def spares_def grows_def)
qed

lemma entries_live:
  assumes "salive s" "sched_inv s" "order_ok ord"
  shows "\<forall>kv \<in> set (range_entries ord (sd_running s)). live_handle (sd_calls s) (fst kv) (snd kv)
      \<and> wi_ID (re_Item (snd kv)) = fst kv"
    and "distinct (map fst (range_entries ord (sd_running s)))"
proof -
  have mok: "mok (sd_running s)" using assms(2) by (simp add: sched_inv_def keyed_def)
  show "distinct (map fst (range_entries ord (sd_running s)))"
    using assms(3) mok by simp
  have "mget (sd_running s) k = Some e" if "(k, e) \<in> set (range_entries ord (sd_running s))" for k e
    using that set_range_entries [OF assms(3) mok] mok by (simp add: mget_mem)
  then show "\<forall>kv \<in> set (range_entries ord (sd_running s)). live_handle (sd_calls s) (fst kv) (snd kv)
      \<and> wi_ID (re_Item (snd kv)) = fst kv"
    using assms(1,2) by (auto simp: salive_def sched_inv_def keyed_def)
qed

lemma salive_reconcileStalled:
  assumes "salive s" "sched_inv s" "order_ok ord" "wired d"
  shows "salive (reconcileStalled ord d s) \<and> grows s (reconcileStalled ord d s)"
proof -
  let ?kvs = "range_entries ord (sd_running s)"
  have "salive (fold (stall_one d (Now s)) ?kvs (tick s)) \<and> grows (tick s) (fold (stall_one d (Now s)) ?kvs (tick s))"
  proof (rule fold_live)
    fix kv t assume "salive t" "live_handle (sd_calls t) (fst kv) (snd kv)"
    with stall_one_live [of t "fst kv" "snd kv" d "Now s"] assms(4)
    show "salive (stall_one d (Now s) kv t) \<and> grows t (stall_one d (Now s) kv t)
        \<and> spares (fst kv) t (stall_one d (Now s) kv t)" by simp
  next
    show "salive (tick s)" using assms(1) by (rule salive_same) simp_all
  qed (use entries_live [OF assms(1-3)] in auto)
  then show ?thesis using assms(1) by (auto simp: reconcileStalled_def grows_def)
qed

lemma reconcile_one_live:
  assumes "salive s" "live_handle (sd_calls s) k e" "wired d" "wi_ID (re_Item e) = k"
  shows "salive (reconcile_one d vis (k, e) s) \<and> grows s (reconcile_one d vis (k, e) s)
    \<and> spares k s (reconcile_one d vis (k, e) s)"
proof -
  have drop: "salive (invalidateRun d e b s) \<and> grows s (invalidateRun d e b s) \<and> spares k s (invalidateRun d e b s)" for b
  proof -
    let ?t = "s\<lparr>sd_running := mdel k (sd_running s), sd_claimed := mdel k (sd_claimed s),
                sd_retrying := mdel k (sd_retrying s)\<rparr>"
    have "salive (stopWithIntent d k i (re_Handle e) b ?t)" for i
      by (rule salive_drop [OF assms(1-3)]) simp_all
    moreover have "spares k s (stopWithIntent d k i (re_Handle e) b ?t)"
      "grows s (stopWithIntent d k i (re_Handle e) b ?t)" for i
      by (rule spares_stop [OF assms(2,3)]; simp)+
    ultimately show ?thesis by (simp add: invalidateRun_def Let_def assms(4))
  qed
  have "salive (s\<lparr>sd_running := mput k (e\<lparr>re_Item := item\<rparr>) (sd_running s)\<rparr>)" for item
    using assms(1,2) by (auto simp: salive_def live_handle_def gomap)
  then show ?thesis
    using drop by (auto simp: reconcile_one_def Let_def spares_same split: option.split)
qed

lemma salive_reconcileRunning:
  assumes "salive s" "sched_inv s" "order_ok ord2" "wired d"
  shows "salive (reconcileRunning ord1 ord2 d s) \<and> grows s (reconcileRunning ord1 ord2 d s)"
proof -
  let ?s1 = "\<lambda>ids. log_call (CallRefresh ids) s"
  have "salive (fold (reconcile_one d vis) (range_entries ord2 (sd_running s)) (?s1 ids))
      \<and> grows (?s1 ids) (fold (reconcile_one d vis) (range_entries ord2 (sd_running s)) (?s1 ids))" for vis ids
  proof (rule fold_live)
    fix kv t assume "kv \<in> set (range_entries ord2 (sd_running s))" "salive t" "live_handle (sd_calls t) (fst kv) (snd kv)"
    with reconcile_one_live [of t "fst kv" "snd kv" d vis] assms(4) entries_live(1) [OF assms(1-3)]
    show "salive (reconcile_one d vis kv t) \<and> grows t (reconcile_one d vis kv t)
        \<and> spares (fst kv) t (reconcile_one d vis kv t)" by simp
  next
    show "\<forall>kv \<in> set (range_entries ord2 (sd_running s)). live_handle (sd_calls (?s1 ids)) (fst kv) (snd kv)"
      using entries_live(1) [OF assms(1-3)] by (simp add: live_plain)
  qed (use assms(1) entries_live(2) [OF assms(1-3)] in simp_all)
  then have loop: "salive (fold (reconcile_one d vis) (range_entries ord2 (sd_running s)) (?s1 ids))
      \<and> grows s (fold (reconcile_one d vis) (range_entries ord2 (sd_running s)) (?s1 ids))" for vis ids
    using grows_trans [OF grows_log] by blast
  show ?thesis
    by (simp add: reconcileRunning_def Let_def assms(1) loop split: option.split sum.split)
qed

lemma salive_handleDueRetry:
  assumes "salive s" "wired d"
  shows "salive (handleDueRetry d k nonce s) \<and> grows s (handleDueRetry d k nonce s)"
proof (cases "\<exists>entry. mget (sd_retrying s) k = Some entry \<and> te_Nonce entry = nonce")
  case False
  then show ?thesis using assms(1) by (auto simp: handleDueRetry_def split: option.split)
next
  case True
  then obtain entry where e: "mget (sd_retrying s) k = Some entry" "te_Nonce entry = nonce" by blast
  let ?s0 = "s\<lparr>sd_retrying := mdel k (sd_retrying s)\<rparr>"
  obtain item status s1 where r: "refreshRetryItem d k ?s0 = ((item, status), s1)" by (metis prod.exhaust)
  have s0: "salive ?s0" using assms(1) by (rule salive_same) simp_all
  have s1: "salive s1" "grows s s1" using refreshRetryItem_frame [OF r] s0 by (auto simp: grows_def)
  obtain b s2 where dis: "dispatchItem d item (te_Attempt entry) (te_WorkerHost entry) s1 = (b, s2)" by fastforce
  have s2: "salive s2" "grows s s2"
    using salive_dispatchItem [OF s1(1) assms(2), of item "te_Attempt entry" "te_WorkerHost entry"]
      grows_dispatchItem [of s1 d item "te_Attempt entry" "te_WorkerHost entry"] dis s1(2) grows_trans by auto
  have un: "salive (s1\<lparr>sd_claimed := z\<rparr>)" "grows s (s1\<lparr>sd_claimed := z\<rparr>)" for z
    using s1 salive_same [OF s1(1)] by (simp_all add: grows_def)
  have fail: "grows s (scheduleFailureRetry i j a m h p t)" if "grows s t" for i j a m h p t
    using that by (simp add: grows_def scheduleFailureRetry_def Let_def)
  have stop: "grows s (stopWithIntent d i j h c t)" if "grows s t" for i j h c t
    using that by (auto simp: grows_def stop_calls [OF assms(2)])
  show ?thesis
    unfolding handleDueRetry_def e option.case Let_def r prod.case
    using s1 s2 un fail stop salive_stop_none [OF _ assms(2)]
    by (simp add: dis split: retry_status.split bool.split)
qed

lemma salive_poll_work:
  assumes "salive s" "sched_inv s" "orders_ok r" "wired d"
  shows "salive (poll_work r d s) \<and> grows s (poll_work r d s)"
proof -
  let ?a = "reconcileStalled (or_stalled r) d s"
  let ?b = "reconcileRunning (or_ids r) (or_running r) d ?a"
  have a: "salive ?a" "grows s ?a" "sched_inv ?a"
    using salive_reconcileStalled [of s "or_stalled r" d] assms by (simp_all add: orders_ok_def inv_reconcileStalled)
  have b: "salive ?b" "grows ?a ?b"
    using salive_reconcileRunning [of ?a "or_running r" d "or_ids r"] a assms by (simp_all add: orders_ok_def)
  have sb: "grows s ?b" using a(2) b(2) grows_trans by blast
  have "salive (processCandidates d xs (log_call CallListCandidates ?b))
      \<and> grows s (processCandidates d xs (log_call CallListCandidates ?b))" for xs
    using salive_processCandidates [of "log_call CallListCandidates ?b" d xs] b(1) assms(4) sb
      grows_trans [OF grows_trans [OF sb grows_log]] by auto
  moreover have "grows s (log_call CallListCandidates ?b)" using sb grows_trans grows_log by blast
  ultimately show ?thesis
    using b(1) sb by (simp add: poll_work_def Let_def split: option.split sum.split)
qed

subsection \<open>Every step of the service\<close>

lemma schedulePoll_calls [simp]:
  "sd_calls (vc_state (schedulePoll d v)) = sd_calls (vc_state v)"
  "sd_running (vc_state (schedulePoll d v)) = sd_running (vc_state v)"
  by (simp_all add: schedulePoll_def schedulePollAt_def AfterFunc_def Let_def)

lemma poll_tick_calls:
  "sd_calls (vc_state (handlePollTick n v)) = sd_calls (vc_state v)"
  "sd_running (vc_state (handlePollTick n v)) = sd_running (vc_state v)"
  by (simp_all add: handlePollTick_def beginPoll_def AfterFunc_def Let_def)

lemma refresh_calls:
  "sd_calls (vc_state (snd (svc_requestRefresh v))) = sd_calls (vc_state v)"
  "sd_running (vc_state (snd (svc_requestRefresh v))) = sd_running (vc_state v)"
  by (simp_all add: svc_requestRefresh_def requestRefresh_def schedulePollAt_def Let_def)

lemma callback_live:
  assumes "salive (vc_state v)" "sched_inv (vc_state v)" "orders_ok r" "wired (vc_deps v)"
  shows "salive (vc_state (run_callback r c v)) \<and> grows (vc_state v) (vc_state (run_callback r c v))"
proof (cases c)
  case (PollTick n)
  then show ?thesis using assms(1) salive_same [OF assms(1)] by (simp add: poll_tick_calls)
next
  case (PollCycle n)
  let ?w = "poll_work r (vc_deps v) (vc_state v)"
  have w: "salive ?w" "grows (vc_state v) ?w" using salive_poll_work [OF assms] by simp_all
  show ?thesis
  proof (cases "vc_closed v \<or> \<not> sd_checking (vc_state v) \<or> n \<noteq> sd_pollNonce (vc_state v)")
    case False
    let ?t = "vc_state (handlePollCycle r n v)"
    have "sd_calls ?t = sd_calls ?w" "sd_running ?t = sd_running ?w"
      using False by (auto simp: handlePollCycle_def Let_def finishPoll_def)
    then show ?thesis using w salive_same [OF w(1)] PollCycle by (simp add: grows_def)
  qed (use assms(1) PollCycle in \<open>simp add: handlePollCycle_def\<close>)
next
  case (RetryTick k n)
  let ?w = "handleDueRetry (vc_deps v) k n (vc_state v)"
  have w: "salive ?w" "grows (vc_state v) ?w" using salive_handleDueRetry assms(1,4) by blast+
  show ?thesis
  proof (cases "vc_closed v")
    case False
    let ?t = "vc_state (handleRetryTick r k n v)"
    have "?t = tick ?w" using False by (simp add: handleRetryTick_def Let_def split: option.split)
    then show ?thesis using w salive_same [OF w(1)] RetryTick by (simp add: grows_def)
  qed (use assms(1) RetryTick in \<open>simp add: handleRetryTick_def\<close>)
qed

lemma svc_step_live:
  assumes "svc_step v w" "salive (vc_state v)" "sched_inv (vc_state v)" "wired (vc_deps v)"
  shows "salive (vc_state w) \<and> grows (vc_state v) (vc_state w)"
  using assms(1)
proof cases
  case (step_deliver i r)
  with callback_live [of "set_status i Delivered v"] assms show ?thesis by (simp add: set_status_def)
next
  case step_refresh
  then show ?thesis using salive_same [OF assms(2)] by (simp add: refresh_calls)
next
  case (step_event r ev)
  have "vc_state w = tick (applyRunEvent ev (vc_state v))"
    using step_event by (simp add: svc_applyRunEvent_def)
  then show ?thesis
    using salive_same [OF salive_applyRunEvent [OF assms(2)]] by (simp add: applyRunEvent_calls)
qed (use assms in \<open>simp_all add: set_status_def svc_close_def\<close>)

subsection \<open>The two together\<close>

text \<open>The manager holds the runs of the log, and has cancelled only those that were stopped.\<close>

definition pool_tracks :: "call list \<Rightarrow> pool \<Rightarrow> bool" where
  "pool_tracks cs p \<longleftrightarrow> \<not> wp_closed p \<and> \<not> wp_rootCancelled p \<and> length (wp_handles p) = length (starts cs)
     \<and> (\<forall>i < length (wp_handles p). hn_itemID (wp_handles p ! i) = wi_ID (sq_Item (starts cs ! i))
          \<and> (hn_cancelled (wp_handles p ! i) \<longrightarrow> stopped_handle cs i))"

lemma pool_tracks_call: "pool_tracks cs p \<Longrightarrow> pool_tracks (cs @ [c]) (pool_call c p)"
proof (cases c)
  case (CallStart q)
  assume "pool_tracks cs p"
  with CallStart show ?thesis
    by (auto simp: pool_tracks_def pool_StartRun_def Let_def nth_append less_Suc_eq)
next
  case (CallStop q)
  assume t: "pool_tracks cs p"
  show ?thesis
  proof (cases "sp_Handle q")
    case (Some i)
    show ?thesis
    proof (cases "i < length (wp_handles p)")
      case True
      with t CallStop Some show ?thesis
        by (auto simp: pool_tracks_def stop_run_def handle_stop_nth)
    next
      case False
      then have "wp_handles (handle_stop i p) = wp_handles p"
        by (simp add: handle_stop_def upd_handle_def Let_def list_update_beyond split: option.split)
      with t CallStop Some show ?thesis by (auto simp: pool_tracks_def stop_run_def)
    qed
  qed (use t CallStop in \<open>simp add: pool_tracks_def stop_run_def\<close>)
qed (simp_all add: pool_tracks_def)

lemma pool_tracks_calls: "pool_tracks cs p \<Longrightarrow> pool_tracks (cs @ ds) (pool_calls ds p)"
proof (induction ds arbitrary: cs p)
  case (Cons c ds)
  from Cons.IH [OF pool_tracks_call [OF Cons.prems, of c]] show ?case by (simp add: pool_calls_def)
qed (simp add: pool_calls_def)

lemma pool_calls_closed: "wp_closed p \<Longrightarrow> wp_closed (pool_calls cs p)"
proof (induction cs arbitrary: p)
  case (Cons c cs)
  have "wp_closed (pool_call c p)" using Cons.prems by (cases c) (simp_all add: pool_StartRun_def)
  with Cons.IH show ?case by (simp add: pool_calls_def)
qed (simp add: pool_calls_def)

lemma pool_tracks_worker:
  assumes "worker_step p p'" "pool_tracks cs p"
  shows "pool_tracks cs p'"
  using assms
  by (cases rule: worker_step.cases)
    (auto simp: pool_tracks_def set_workspace_def set_session_def clear_session_def worker_end_def unregister_def
      Let_def working_def upd_handle_nth)

definition system_inv :: "service \<Rightarrow> pool \<Rightarrow> bool" where
  "system_inv v p \<longleftrightarrow> svc_inv v \<and> salive (vc_state v) \<and> wired (vc_deps v) \<and> refresh_sound (vc_deps v)
     \<and> (wp_closed p \<or> pool_tracks (sd_calls (vc_state v)) p)"

lemma system_reachable_inv:
  assumes "system_reachable cfg reader v p" "refresh_sound (pool_deps reader)"
  shows "system_inv v p"
  using assms(1)
proof induction
  case (sys_new ord clk delay)
  let ?v = "newService cfg (pool_deps reader) clk ord delay"
  have "sd_calls (vc_state ?v) = []" "sd_running (vc_state ?v) = []"
    by (simp_all add: newService_def Let_def newSchedulerState_def)
  then have "salive (vc_state ?v)" "pool_tracks (sd_calls (vc_state ?v)) newWorkerManager"
    by (simp_all add: salive_def stops_known_def pool_tracks_def newWorkerManager_def)
  moreover have "wired (vc_deps ?v)" "refresh_sound (vc_deps ?v)"
    using assms(2) by (simp_all add: newService_def Let_def wired_def pool_deps_def runtime_deps_def refresh_sound_def)
  ultimately show ?case using svc_inv_newService by (simp add: system_inv_def)
next
  case (sys_service v p w)
  let ?ds = "drop (length (sd_calls (vc_state v))) (sd_calls (vc_state w))"
  have inv: "svc_inv v" "salive (vc_state v)" "wired (vc_deps v)" "refresh_sound (vc_deps v)"
    using sys_service.IH by (simp_all add: system_inv_def)
  have deps: "vc_deps w = vc_deps v" using vc_deps_step [OF sys_service.hyps(2)] .
  have live: "salive (vc_state w)" "grows (vc_state v) (vc_state w)"
    using svc_step_live [OF sys_service.hyps(2) inv(2) _ inv(3)] inv(1) by (simp_all add: svc_inv_def)
  then have "sd_calls (vc_state w) = sd_calls (vc_state v) @ ?ds" by (auto simp: grows_def)
  then have "pool_tracks (sd_calls (vc_state w)) (pool_calls ?ds p)" if "pool_tracks (sd_calls (vc_state v)) p"
    using pool_tracks_calls [OF that, of ?ds] by simp
  then have "wp_closed (pool_calls ?ds p) \<or> pool_tracks (sd_calls (vc_state w)) (pool_calls ?ds p)"
    using sys_service.IH pool_calls_closed by (auto simp: system_inv_def)
  then show ?case
    using live(1) inv deps svc_inv_step [OF sys_service.hyps(2) inv(1,4)] by (simp add: system_inv_def)
next
  case (sys_worker v p p')
  then show ?case using worker_step_count pool_tracks_worker by (auto simp: system_inv_def)
next
  case (sys_close v p ord)
  then show ?case by (auto simp: system_inv_def pool_Close_def)
qed


text \<open>The first poll of a service over the memory tracker.\<close>

lemma sys_fire:
  assumes "system_reachable cfg reader v p" "i < length (vc_timers v)" "tm_status (vc_timers v ! i) = Armed"
    and "sd_calls (vc_state (fire i v)) = sd_calls (vc_state v) @ cs"
  shows "system_reachable cfg reader (fire i v) (pool_calls cs p)"
proof -
  let ?w = "set_status i Expired v"
  have w: "sd_calls (vc_state ?w) = sd_calls (vc_state v)" by (simp add: set_status_def)
  have "svc_step v ?w" using assms(2,3) by (rule step_expire)
  from sys_service [OF assms(1) this] have 1: "system_reachable cfg reader ?w p" by (simp add: w pool_calls_def)
  have "svc_step ?w (fire i v)"
    unfolding fire_def Let_def using assms(2)
    by (intro step_deliver demo_orders_ok) (simp_all add: set_status_def)
  from sys_service [OF 1 this] show ?thesis by (simp add: w assms(4))
qed

definition system_start :: service where
  "system_start = demo_start (pool_deps (NewReader demo_items))"

lemma system_started: "system_reachable demo_settings (NewReader demo_items) system_start newWorkerManager"
  unfolding system_start_def demo_start_def by (rule sys_new) simp

definition system_polled :: service where
  "system_polled = fire 1 (fire 0 system_start)"

definition system_request :: start_run_request where
  "system_request = \<lparr>sq_Item = demo_item ''a'' ''ENG-1'', sq_Attempt = 0, sq_PreferredHost = []\<rparr>"

definition system_pool :: pool where
  "system_pool = set_session 0 (pool_calls [CallStart system_request] newWorkerManager)"

lemma system_eval:
  "(let st = system_start; c = fire 0 st; p = fire 1 c in
     (armed_at st 0, armed_at c 1, sd_calls (vc_state st), sd_calls (vc_state c), sd_calls (vc_state p),
      map (\<lambda>(k, e). (k, re_Handle e)) (sd_running (vc_state p)), wp_closed system_pool))
   = (True, True, [], [], [CallListCandidates, CallRefresh [''a''], CallStart system_request], [(''a'', Some 0)], False)"
  by code_simp

lemmas system_evaluated = system_eval [unfolded Let_def]

lemma system_polled_reachable:
  "system_reachable demo_settings (NewReader demo_items) system_polled system_pool"
proof -
  have 1: "system_reachable demo_settings (NewReader demo_items) (fire 0 system_start) (pool_calls [] newWorkerManager)"
    using system_evaluated by (intro sys_fire [OF system_started]) (simp_all add: armed_at_def system_start_def)
  have calls: "sd_calls (vc_state (fire 1 (fire 0 system_start)))
      = sd_calls (vc_state (fire 0 system_start)) @ [CallListCandidates, CallRefresh [''a''], CallStart system_request]"
    using system_evaluated by simp
  have "system_reachable demo_settings (NewReader demo_items) system_polled
      (pool_calls [CallListCandidates, CallRefresh [''a''], CallStart system_request] (pool_calls [] newWorkerManager))"
    unfolding system_polled_def using system_evaluated
    by (intro sys_fire [OF 1 _ _ calls]) (simp_all add: armed_at_def)
  then have "system_reachable demo_settings (NewReader demo_items) system_polled
      (pool_calls [CallStart system_request] newWorkerManager)" by (simp add: pool_calls_def)
  moreover have "worker_step (pool_calls [CallStart system_request] newWorkerManager) system_pool"
    unfolding system_pool_def by (rule wp_open; code_simp)
  ultimately show ?thesis by (rule sys_worker)
qed


end
