(* ===== verification/Go_Date_Format.thy ===== *)
theory Go_Date_Format
  imports Go_Date
begin

text \<open>
  \<open>t.UTC().Format(time.RFC3339)\<close> of Go's \<open>time\<close> package: the civil date of an instant, found year by
  year within a cycle of 400 years, and month by month. For instants of the years 1 to 9999
  \<open>parse_RFC3339\<close> reads back what is printed, cut to the second.
\<close>

definition year_len :: "int \<Rightarrow> int" where
  "year_len y = (if is_leap y then 366 else 365)"

function find_year :: "int \<Rightarrow> int \<Rightarrow> int \<times> int" where
  "find_year y d = (if d < year_len y then (y, d) else find_year (y + 1) (d - year_len y))"
  by auto
termination by (relation "measure (\<lambda>(y, d). nat d)") (auto simp: year_len_def split: if_splits)

function find_month :: "int \<Rightarrow> int \<Rightarrow> int \<Rightarrow> int \<times> int" where
  "find_month y m d = (if 12 \<le> m \<or> d < month_days y m then (m, d) else find_month y (m + 1) (d - month_days y m))"
  by auto
termination by (relation "measure (\<lambda>(y, m, d). nat (12 - m))") auto

declare find_year.simps [simp del] find_month.simps [simp del]

definition pad_digits :: "nat \<Rightarrow> int \<Rightarrow> string" where
  "pad_digits k n = (let ds = digits_of (nat n) in replicate (k - length ds) (CHR ''0'') @ ds)"

definition format_RFC3339 :: "gtime \<Rightarrow> string" where
  "format_RFC3339 t =
    (let secs = t div second; days = secs div 86400; sod = secs mod 86400;
         (y, yd) = find_year (1 + 400 * (days div 146097)) (days mod 146097);
         (m, md) = find_month y 1 yd
     in pad_digits 4 y @ ''-'' @ pad_digits 2 m @ ''-'' @ pad_digits 2 (md + 1) @ ''T''
        @ pad_digits 2 (sod div 3600) @ '':'' @ pad_digits 2 (sod div 60 mod 60) @ '':''
        @ pad_digits 2 (sod mod 60) @ ''Z'')"

subsection \<open>Reading digits back\<close>

lemma length_digits_of: "n < 10 ^ k \<Longrightarrow> 0 < k \<Longrightarrow> length (digits_of n) \<le> k"
proof (induction n arbitrary: k rule: digits_of.induct)
  case (1 n)
  show ?case
  proof (cases "n < 10")
    case True
    then show ?thesis using 1 by (simp add: digits_of.simps [of n])
  next
    case False
    obtain j where k: "k = Suc j" "0 < j" using 1(2,3) False by (cases k; cases "k = 1") auto
    have "n div 10 < 10 ^ j" using 1(2) k by (simp add: less_mult_imp_div_less mult.commute)
    then show ?thesis using 1(1) [OF False] k False by (simp add: digits_of.simps [of n])
  qed
qed

lemma digits_value_zeros: "digits_value (replicate k (CHR ''0'') @ s) = digits_value s"
  by (induction k) (simp_all add: digits_value_def byte_def)

lemma pad_digits_ok:
  assumes "0 \<le> n" "n < 10 ^ k" "0 < k"
  shows "length (pad_digits k n) = k" "list_all is_digit (pad_digits k n)" "int (digits_value (pad_digits k n)) = n"
proof -
  have "nat n < 10 ^ k" using assms(1,2) by (simp add: nat_less_iff)
  with assms(3) have "length (digits_of (nat n)) \<le> k" by (rule length_digits_of [rotated])
  then show "length (pad_digits k n) = k" by (simp add: pad_digits_def Let_def)
  have "is_digit (CHR ''0'')" by (simp add: is_digit_def byte_def)
  then show "list_all is_digit (pad_digits k n)"
    using digits_of_ok [of "nat n"] by (auto simp: pad_digits_def Let_def list_all_iff)
  show "int (digits_value (pad_digits k n)) = n"
    using digits_of_ok [of "nat n"] assms(1) by (simp add: pad_digits_def Let_def digits_value_zeros)
qed

lemma take_number_pad:
  "0 \<le> n \<Longrightarrow> n < 10 ^ k \<Longrightarrow> 0 < k \<Longrightarrow> take_number k (pad_digits k n @ s) = Some (n, s)"
  using pad_digits_ok [of n k] by (simp add: take_number_def)

lemma take_field_pad:
  "0 \<le> n \<Longrightarrow> n < 10 ^ k \<Longrightarrow> 0 < k \<Longrightarrow> take_field k c (pad_digits k n @ c # s) = Some (n, s)"
  by (simp add: take_field_def take_number_pad)

subsection \<open>The calendar\<close>

lemma year_days_next: "year_days (y + 1) = year_days y + year_len y"
  using year_days_Suc [of y] by (simp add: year_len_def)

lemma year_len_pos: "0 < year_len y"
  by (simp add: year_len_def)

lemma find_year_ok:
  "find_year y d = (y', d') \<Longrightarrow> 0 \<le> d \<Longrightarrow>
     year_days y' + d' = year_days y + d \<and> 0 \<le> d' \<and> d' < year_len y' \<and> y \<le> y'"
proof (induction y d rule: find_year.induct)
  case (1 y d)
  show ?case
  proof (cases "d < year_len y")
    case True
    then show ?thesis using 1(2,3) by (simp add: find_year.simps [of y d])
  next
    case False
    then have "find_year (y + 1) (d - year_len y) = (y', d')" using 1(2) by (simp add: find_year.simps [of y d])
    from 1(1) [OF False this] False show ?thesis by (simp add: year_days_next)
  qed
qed

lemma year_days_cycle: "year_days (1 + 400 * e) = 146097 * e"
proof -
  have "400 * e div 4 = 100 * e" "400 * e div 100 = 4 * e" "400 * e div 400 = e" by simp_all
  then show ?thesis by (simp add: year_days_def)
qed

lemma year_days_mono: "y \<le> z \<Longrightarrow> year_days y \<le> year_days z"
proof (induction z rule: int_ge_induct)
  case (step z)
  then show ?case using year_len_pos [of z] by (simp add: year_days_next)
qed simp

lemma months_before_next: "1 \<le> m \<Longrightarrow> months_before y (m + 1) = months_before y m + month_days y m"
proof -
  assume "1 \<le> m"
  then have "[1..m] = [1..m - 1] @ [m]" by (simp add: upto_rec2)
  then show ?thesis by (simp add: months_before_def)
qed

lemma months_before_one: "months_before y 1 = 0"
  by (simp add: months_before_def)

lemma months_before_nonneg: "0 \<le> months_before y m"
  unfolding months_before_def by (rule sum_list_nonneg) (auto simp: month_days_def)

lemma year_months: "months_before y 12 + month_days y 12 = year_len y"
proof -
  have "[1..11] = [1, 2, 3, 4, 5, 6, 7, 8, 9, 10, 11 :: int]" by (simp add: upto_rec1)
  then show ?thesis by (simp add: months_before_def month_days_def year_len_def)
qed

lemma find_month_ok:
  "find_month y m d = (m', d') \<Longrightarrow> 0 \<le> d \<Longrightarrow> 1 \<le> m \<Longrightarrow> m \<le> 12 \<Longrightarrow> months_before y m + d < year_len y \<Longrightarrow>
     months_before y m' + d' = months_before y m + d \<and> 0 \<le> d' \<and> d' < month_days y m' \<and> 1 \<le> m' \<and> m' \<le> 12"
proof (induction y m d rule: find_month.induct)
  case (1 y m d)
  show ?case
  proof (cases "12 \<le> m \<or> d < month_days y m")
    case True
    then have "m' = m" "d' = d" using 1(2) by (simp_all add: find_month.simps [of y m d])
    moreover have "d < month_days y m"
    proof (cases "m = 12")
      case True
      then show ?thesis using 1(6) year_months [of y] by simp
    qed (use True 1(5) in simp)
    ultimately show ?thesis using 1(3-5) by simp
  next
    case False
    then have "find_month y (m + 1) (d - month_days y m) = (m', d')"
      using 1(2) by (simp add: find_month.simps [of y m d])
    from 1(1) [OF False this] False 1(4,6) show ?thesis by (simp add: months_before_next)
  qed
qed

subsection \<open>Round trip\<close>

text \<open>The civil date of an instant.\<close>

lemma civil_date:
  assumes "0 \<le> days" "find_year (1 + 400 * (days div 146097)) (days mod 146097) = (y, yd)"
    and "find_month y 1 yd = (m, md)"
  shows "year_days y + months_before y m + md = days \<and> 1 \<le> y \<and> 1 \<le> m \<and> m \<le> 12 \<and> 0 \<le> md \<and> md < month_days y m"
proof -
  have y: "year_days y + yd = days" "0 \<le> yd" "yd < year_len y" "1 \<le> y"
    using find_year_ok [OF assms(2)] pos_imp_zdiv_nonneg_iff [of 146097 days] assms(1)
    by (simp_all add: year_days_cycle)
  from find_month_ok [OF assms(3) y(2)] y show ?thesis by (simp add: months_before_one)
qed

lemma time_of_day: "0 \<le> sod \<Longrightarrow> (sod div 3600 * 60 + sod div 60 mod 60) * 60 + sod mod 60 = (sod :: int)"
proof -
  have "sod div 3600 = sod div 60 div 60" by (simp add: zdiv_zmult2_eq)
  then have "sod div 3600 * 60 + sod div 60 mod 60 = sod div 60" by simp
  then show ?thesis by simp
qed

theorem format_parse_RFC3339:
  assumes "0 \<le> t" "t < date_instant 10000 1 1 0 0 0 0"
  shows "parse_RFC3339 (format_RFC3339 t) = Some (t - t mod second)"
proof -
  define secs where "secs = t div second"
  define days where "days = secs div 86400"
  define sod where "sod = secs mod 86400"
  obtain y yd where y: "find_year (1 + 400 * (days div 146097)) (days mod 146097) = (y, yd)" by fastforce
  obtain m md where m: "find_month y 1 yd = (m, md)" by fastforce
  have pos: "0 \<le> secs" "0 \<le> days" using assms(1) by (simp_all add: secs_def days_def second_def pos_imp_zdiv_nonneg_iff)
  have sod: "0 \<le> sod" "sod < 86400" by (simp_all add: sod_def)
  note c = civil_date [OF pos(2) y m]
  have hms: "0 \<le> sod div 3600" "sod div 3600 < 24" "0 \<le> sod div 60 mod 60" "sod div 60 mod 60 < 60"
    "0 \<le> sod mod 60" "sod mod 60 < 60"
    using sod zdiv_mono1 [of sod 86399 3600] by (simp_all add: pos_imp_zdiv_nonneg_iff)
  have "t < year_days 10000 * 86400 * second"
    using assms(2) by (simp add: date_instant_def months_before_one second_def)
  moreover have "secs * second \<le> t" "days * 86400 \<le> secs"
    unfolding secs_def days_def by (simp_all add: second_def minus_mod_eq_div_mult [symmetric])
  ultimately have "days < year_days 10000" by (simp add: second_def)
  with c months_before_nonneg [of y m] have "year_days y < year_days 10000" by linarith
  then have y9999: "y < 10000" using year_days_mono [of 10000 y] by linarith
  have "month_days y m \<le> 31" by (simp add: month_days_def)
  with c have md: "0 \<le> md + 1" "md + 1 < 100" by linarith+
  have "format_RFC3339 t = pad_digits 4 y @ CHR ''-'' # pad_digits 2 m @ CHR ''-'' # pad_digits 2 (md + 1) @ CHR ''T''
      # pad_digits 2 (sod div 3600) @ CHR '':'' # pad_digits 2 (sod div 60 mod 60) @ CHR '':''
      # pad_digits 2 (sod mod 60) @ ''Z''"
    unfolding format_RFC3339_def Let_def secs_def [symmetric] days_def [symmetric] sod_def [symmetric] y m prod.case
    by simp
  moreover have "take_fraction ''Z'' = Some (0, ''Z'')" "take_offset ''Z'' = Some 0"
    by (simp_all add: take_fraction_def take_offset_def)
  ultimately have "parse_RFC3339 (format_RFC3339 t)
      = Some (date_instant y m (md + 1) (sod div 3600) (sod div 60 mod 60) (sod mod 60) 0)"
    using c hms md y9999 by (simp add: parse_RFC3339_def take_field_pad take_number_pad)
  also have "date_instant y m (md + 1) (sod div 3600) (sod div 60 mod 60) (sod mod 60) 0
      = (days * 86400 + ((sod div 3600 * 60 + sod div 60 mod 60) * 60 + sod mod 60)) * second"
    using c by (simp add: date_instant_def algebra_simps)
  also have "\<dots> = secs * second" unfolding time_of_day [OF sod(1)] by (simp add: days_def sod_def)
  also have "\<dots> = t - t mod second" by (simp add: secs_def minus_mod_eq_div_mult)
  finally show ?thesis .
qed

lemma format_example: "format_RFC3339 (date_instant 2024 2 29 23 59 59 500) = ''2024-02-29T23:59:59Z''"
  by code_simp

end
