(* ===== verification/Http_Api.thy ===== *)
theory Http_Api
  imports Orch_Service Go_Date_Format Go_Path
begin

text \<open>
  \<open>internal/httpapi\<close>: the JSON API over the orchestrator. The payload structs of \<open>dto.go\<close> are
  records whose fields carry the names of the JSON tags; a pointer is an option. The handler of
  \<open>handler.go\<close> is a function from the method and the decoded path of a request to the status and the
  payload of the response, with the state of whatever serves snapshots and refreshes threaded
  through. Encoding the payload and the transport are \<open>encoding/json\<close> and \<open>net/http\<close>.
\<close>

subsection \<open>Payloads\<close>

record error_body =
  eb_code :: string
  eb_message :: string

record counts_payload =
  cp_running :: nat
  cp_retrying :: nat

record tokens_payload =
  tp_input_tokens :: int
  tp_output_tokens :: int
  tp_total_tokens :: int

record codex_totals_payload =
  cq_input_tokens :: int
  cq_output_tokens :: int
  cq_total_tokens :: int
  cq_seconds_running :: int

record running_entry_payload =
  rp_issue_id :: string
  rp_issue_identifier :: string
  rp_state :: string
  rp_session_id :: string
  rp_turn_count :: int
  rp_last_event :: string
  rp_last_message :: string
  rp_started_at :: "string option"
  rp_last_event_at :: "string option"
  rp_tokens :: tokens_payload

record retry_entry_payload =
  yp_issue_id :: string
  yp_issue_identifier :: string
  yp_attempt :: int
  yp_due_at :: "string option"
  yp_error :: string

record rate_limit_bucket_payload =
  kp_remaining :: "int option"
  kp_limit :: "int option"
  kp_reset_in_seconds :: "int option"

record rate_limit_credits_payload =
  ep_has_credits :: "bool option"
  ep_unlimited :: "bool option"
  ep_balance :: "float64 option"

record rate_limits_payload =
  lp_limit_id :: string
  lp_primary :: "rate_limit_bucket_payload option"
  lp_secondary :: "rate_limit_bucket_payload option"
  lp_credits :: "rate_limit_credits_payload option"

record state_payload =
  st_generated_at :: string
  st_counts :: counts_payload
  st_running :: "running_entry_payload list"
  st_retrying :: "retry_entry_payload list"
  st_codex_totals :: codex_totals_payload
  st_rate_limits :: "rate_limits_payload option"

record running_issue_payload =
  ri_session_id :: string
  ri_turn_count :: int
  ri_state :: string
  ri_started_at :: "string option"
  ri_last_event :: string
  ri_last_message :: string
  ri_last_event_at :: "string option"
  ri_tokens :: tokens_payload

record retry_issue_payload =
  yi_attempt :: int
  yi_due_at :: "string option"
  yi_error :: string

record recent_event_payload =
  ze_at :: string
  ze_event :: string
  ze_message :: string

record attempts_payload =
  at_restart_count :: int
  at_current_retry_attempt :: int

text \<open>The lists of session logs and the map of tracked data are always empty.\<close>

record issue_payload =
  ip_issue_identifier :: string
  ip_issue_id :: string
  ip_status :: string
  ip_workspace_path :: string
  ip_attempts :: attempts_payload
  ip_running :: "running_issue_payload option"
  ip_retry :: "retry_issue_payload option"
  ip_recent_events :: "recent_event_payload list"
  ip_last_error :: "string option"

record refresh_payload =
  fp_queued :: bool
  fp_coalesced :: bool
  fp_requested_at :: string
  fp_operations :: "string list"

subsection \<open>Building payloads\<close>

definition formatTimeValue :: "gtime \<Rightarrow> string" where
  "formatTimeValue t = format_RFC3339 (t - t mod second)"

definition formatTime :: "gtime \<Rightarrow> string option" where
  "formatTime t = (if t = zero_time then None else Some (formatTimeValue t))"

definition formatOptionalTime :: "gtime option \<Rightarrow> string option" where
  "formatOptionalTime t = (case t of None \<Rightarrow> None | Some t \<Rightarrow> formatTime t)"

definition newTokensPayload :: "codex_totals \<Rightarrow> tokens_payload" where
  "newTokensPayload totals = \<lparr>tp_input_tokens = ct_InputTokens totals, tp_output_tokens = ct_OutputTokens totals,
     tp_total_tokens = ct_TotalTokens totals\<rparr>"

definition newRateLimitBucketPayload :: "rate_limit_bucket option \<Rightarrow> rate_limit_bucket_payload option" where
  "newRateLimitBucketPayload bucket = (case bucket of None \<Rightarrow> None
     | Some b \<Rightarrow> Some \<lparr>kp_remaining = rb_Remaining b, kp_limit = rb_Limit b, kp_reset_in_seconds = rb_ResetInSeconds b\<rparr>)"

definition newRateLimitCreditsPayload :: "rate_limit_credits option \<Rightarrow> rate_limit_credits_payload option" where
  "newRateLimitCreditsPayload credits = (case credits of None \<Rightarrow> None
     | Some c \<Rightarrow> Some \<lparr>ep_has_credits = rc_HasCredits c, ep_unlimited = rc_Unlimited c, ep_balance = rc_Balance c\<rparr>)"

definition newRateLimitsPayload :: "rate_limits option \<Rightarrow> rate_limits_payload option" where
  "newRateLimitsPayload limits = (case limits of None \<Rightarrow> None
     | Some l \<Rightarrow> Some \<lparr>lp_limit_id = rl_LimitID l, lp_primary = newRateLimitBucketPayload (rl_Primary l),
         lp_secondary = newRateLimitBucketPayload (rl_Secondary l),
         lp_credits = newRateLimitCreditsPayload (rl_Credits l)\<rparr>)"

definition newRunningEntryPayload :: "active_run \<Rightarrow> running_entry_payload" where
  "newRunningEntryPayload e =
    \<lparr>rp_issue_id = ar_ItemID e, rp_issue_identifier = ar_ItemIdentifier e, rp_state = ar_State e,
     rp_session_id = ar_SessionID e, rp_turn_count = ar_TurnCount e,
     rp_last_event = kind_string (ar_LastEventKind e), rp_last_message = ar_LastEventMessage e,
     rp_started_at = formatTime (ar_StartedAt e), rp_last_event_at = formatOptionalTime (ar_LastEventAt e),
     rp_tokens = newTokensPayload (ar_CodexTotals e)\<rparr>"

definition newRetryEntryPayload :: "retry_view \<Rightarrow> retry_entry_payload" where
  "newRetryEntryPayload e =
    \<lparr>yp_issue_id = rv_ItemID e, yp_issue_identifier = rv_ItemIdentifier e, yp_attempt = rv_Attempt e,
     yp_due_at = formatTime (rv_DueAt e), yp_error = rv_LastError e\<rparr>"

definition newStatePayload :: "snapshot \<Rightarrow> string \<Rightarrow> state_payload" where
  "newStatePayload sn generatedAt =
    \<lparr>st_generated_at = generatedAt,
     st_counts = \<lparr>cp_running = length (sn_Running sn), cp_retrying = length (sn_Retrying sn)\<rparr>,
     st_running = map newRunningEntryPayload (sn_Running sn),
     st_retrying = map newRetryEntryPayload (sn_Retrying sn),
     st_codex_totals = \<lparr>cq_input_tokens = ct_InputTokens (sn_CodexTotals sn),
       cq_output_tokens = ct_OutputTokens (sn_CodexTotals sn), cq_total_tokens = ct_TotalTokens (sn_CodexTotals sn),
       cq_seconds_running = ct_SecondsRunning (sn_CodexTotals sn)\<rparr>,
     st_rate_limits = newRateLimitsPayload (sn_RateLimits sn)\<rparr>"

definition findRunning :: "active_run list \<Rightarrow> string \<Rightarrow> active_run option" where
  "findRunning entries identifier = find (\<lambda>e. ar_ItemIdentifier e = identifier) entries"

definition findRetry :: "retry_view list \<Rightarrow> string \<Rightarrow> retry_view option" where
  "findRetry entries identifier = find (\<lambda>e. rv_ItemIdentifier e = identifier) entries"

definition issueWorkspacePath :: "active_run option \<Rightarrow> retry_view option \<Rightarrow> string \<Rightarrow> string \<Rightarrow> string" where
  "issueWorkspacePath running retry dir identifier =
    (case running of
       Some r \<Rightarrow> if ar_WorkspacePath r \<noteq> [] then ar_WorkspacePath r
         else (case retry of Some y \<Rightarrow> if rv_WorkspacePath y \<noteq> [] then rv_WorkspacePath y
                 else path_Join [dir, identifier]
               | None \<Rightarrow> path_Join [dir, identifier])
     | None \<Rightarrow> (case retry of Some y \<Rightarrow> if rv_WorkspacePath y \<noteq> [] then rv_WorkspacePath y
                 else path_Join [dir, identifier]
               | None \<Rightarrow> path_Join [dir, identifier]))"

definition retryAttempt :: "retry_view option \<Rightarrow> int" where
  "retryAttempt retry = (case retry of None \<Rightarrow> 0 | Some y \<Rightarrow> rv_Attempt y)"

definition restartCount :: "retry_view option \<Rightarrow> int" where
  "restartCount retry = (if retryAttempt retry \<le> 0 then 0 else retryAttempt retry - 1)"

definition issueStatus :: "active_run option \<Rightarrow> string" where
  "issueStatus running = (if running \<noteq> None then ''running'' else ''retrying'')"

text \<open>\<open>issueID\<close> is only called when there is a running or a retry entry.\<close>

definition issueID :: "active_run option \<Rightarrow> retry_view option \<Rightarrow> string" where
  "issueID running retry = (case running of Some r \<Rightarrow> ar_ItemID r
     | None \<Rightarrow> (case retry of Some y \<Rightarrow> rv_ItemID y | None \<Rightarrow> []))"

definition running_issue :: "active_run \<Rightarrow> running_issue_payload" where
  "running_issue e =
    \<lparr>ri_session_id = ar_SessionID e, ri_turn_count = ar_TurnCount e, ri_state = ar_State e,
     ri_started_at = formatTime (ar_StartedAt e), ri_last_event = kind_string (ar_LastEventKind e),
     ri_last_message = ar_LastEventMessage e, ri_last_event_at = formatOptionalTime (ar_LastEventAt e),
     ri_tokens = newTokensPayload (ar_CodexTotals e)\<rparr>"

definition recent_events :: "active_run \<Rightarrow> recent_event_payload list" where
  "recent_events e = (case ar_LastEventAt e of None \<Rightarrow> []
     | Some t \<Rightarrow> [\<lparr>ze_at = formatTimeValue t, ze_event = kind_string (ar_LastEventKind e),
         ze_message = ar_LastEventMessage e\<rparr>])"

definition newIssuePayload :: "snapshot \<Rightarrow> string \<Rightarrow> string \<Rightarrow> issue_payload option" where
  "newIssuePayload sn identifier workspaceRoot =
    (let running = findRunning (sn_Running sn) identifier; retry = findRetry (sn_Retrying sn) identifier in
     if running = None \<and> retry = None then None
     else Some
      \<lparr>ip_issue_identifier = identifier, ip_issue_id = issueID running retry, ip_status = issueStatus running,
       ip_workspace_path = issueWorkspacePath running retry workspaceRoot identifier,
       ip_attempts = \<lparr>at_restart_count = restartCount retry, at_current_retry_attempt = retryAttempt retry\<rparr>,
       ip_running = map_option running_issue running,
       ip_retry = map_option (\<lambda>y. \<lparr>yi_attempt = rv_Attempt y, yi_due_at = formatTime (rv_DueAt y),
         yi_error = rv_LastError y\<rparr>) retry,
       ip_recent_events = (case running of None \<Rightarrow> [] | Some r \<Rightarrow> recent_events r),
       ip_last_error = map_option rv_LastError retry\<rparr>)"

subsection \<open>The handler\<close>

datatype response_body =
    BodyError error_body
  | BodyStateError string error_body
  | BodyState state_payload
  | BodyIssue issue_payload
  | BodyRefresh refresh_payload

record response =
  rs_status :: nat
  rs_body :: response_body

datatype snapshot_error = ErrSnapshotTimeout | ErrSnapshotUnavailable | SnapshotFailed string

text \<open>\<open>'s\<close> is the state behind the two functions; \<open>None\<close> is a nil function.\<close>

record 's handler =
  ha_snapshot :: "('s \<Rightarrow> snapshot_error + snapshot) option"
  ha_refresh :: "('s \<Rightarrow> (string + refresh_result) \<times> 's) option"
  ha_workspaceRoot :: string
  ha_now :: gtime

definition writeError :: "nat \<Rightarrow> string \<Rightarrow> string \<Rightarrow> response" where
  "writeError status code message =
     \<lparr>rs_status = status, rs_body = BodyError \<lparr>eb_code = code, eb_message = message\<rparr>\<rparr>"

definition api_loadSnapshot :: "'s handler \<Rightarrow> 's \<Rightarrow> snapshot_error + snapshot" where
  "api_loadSnapshot h s = (case ha_snapshot h of None \<Rightarrow> Inl ErrSnapshotUnavailable | Some f \<Rightarrow> f s)"

definition handleState :: "'s handler \<Rightarrow> 's \<Rightarrow> response" where
  "handleState h s = (let generatedAt = formatTimeValue (ha_now h) in
     case api_loadSnapshot h s of
       Inl e \<Rightarrow> \<lparr>rs_status = 200, rs_body = BodyStateError generatedAt (if e = ErrSnapshotTimeout
           then \<lparr>eb_code = ''snapshot_timeout'', eb_message = ''Snapshot timed out''\<rparr>
           else \<lparr>eb_code = ''snapshot_unavailable'', eb_message = ''Snapshot unavailable''\<rparr>)\<rparr>
     | Inr sn \<Rightarrow> \<lparr>rs_status = 200, rs_body = BodyState (newStatePayload sn generatedAt)\<rparr>)"

definition handleIssue :: "'s handler \<Rightarrow> string \<Rightarrow> 's \<Rightarrow> response" where
  "handleIssue h identifier s = (case api_loadSnapshot h s of
     Inl e \<Rightarrow> writeError 404 ''issue_not_found'' ''Issue not found''
   | Inr sn \<Rightarrow> (case newIssuePayload sn identifier (ha_workspaceRoot h) of
       None \<Rightarrow> writeError 404 ''issue_not_found'' ''Issue not found''
     | Some p \<Rightarrow> \<lparr>rs_status = 200, rs_body = BodyIssue p\<rparr>))"

definition handleRefresh :: "'s handler \<Rightarrow> 's \<Rightarrow> response \<times> 's" where
  "handleRefresh h s = (case ha_refresh h of
     None \<Rightarrow> (writeError 503 ''orchestrator_unavailable'' ''Orchestrator is unavailable'', s)
   | Some f \<Rightarrow> (case f s of
       (Inl e, s1) \<Rightarrow> (writeError 503 ''orchestrator_unavailable'' ''Orchestrator is unavailable'', s1)
     | (Inr result, s1) \<Rightarrow> (\<lparr>rs_status = 202, rs_body = BodyRefresh
         \<lparr>fp_queued = rr_Queued result, fp_coalesced = rr_Coalesced result,
          fp_requested_at = formatTimeValue (ha_now h), fp_operations = [''poll'', ''reconcile'']\<rparr>\<rparr>, s1)))"

definition issueIdentifier :: "string \<Rightarrow> string option" where
  "issueIdentifier path = (if \<not> HasPrefix path ''/api/v1/'' then None
     else let identifier = TrimPrefix path ''/api/v1/'' in
       if identifier = [] \<or> Contains identifier ''/'' then None else Some identifier)"

definition method_not_allowed :: response where
  "method_not_allowed = writeError 405 ''method_not_allowed'' ''Method not allowed''"

definition ServeHTTP :: "'s handler \<Rightarrow> string \<Rightarrow> string \<Rightarrow> 's \<Rightarrow> response \<times> 's" where
  "ServeHTTP h meth path s =
    (if path = ''/api/v1/state'' then
       (if meth \<noteq> ''GET'' then (method_not_allowed, s) else (handleState h s, s))
     else if path = ''/api/v1/refresh'' then
       (if meth \<noteq> ''POST'' then (method_not_allowed, s) else handleRefresh h s)
     else (case issueIdentifier path of
         None \<Rightarrow> (writeError 404 ''not_found'' ''Route not found'', s)
       | Some identifier \<Rightarrow>
           (if meth \<noteq> ''GET'' then (method_not_allowed, s) else (handleIssue h identifier s, s))))"

subsection \<open>Over the orchestrator\<close>

text \<open>The options that \<open>startHTTPServer\<close> passes: the API over the running service.\<close>

definition runtime_handler ::
  "string range_order \<Rightarrow> string range_order \<Rightarrow> string \<Rightarrow> gtime \<Rightarrow> public_service option handler" where
  "runtime_handler ord1 ord2 workspaceRoot now =
    \<lparr>ha_snapshot = Some (\<lambda>p. Inr (public_Snapshot ord1 ord2 p)),
     ha_refresh = Some (\<lambda>p. let (res, p1) = public_RequestRefresh p in (Inr res, p1)),
     ha_workspaceRoot = workspaceRoot, ha_now = now\<rparr>"

end
