(* ===== verification/Runtime.thy ===== *)
theory Runtime
  imports Runtime_System Store Tool_Bridge Http_Api Linear_Reader
begin

text \<open>
  \<open>internal/cli/runtime.go\<close>, start-up and shutdown: opening the store, choosing the tracker, cleaning up the
  workspaces of finished items, starting the orchestrator over the worker manager of \<open>Runtime_System\<close>, and
  the HTTP listener. The network, the file system behind the store and the Linear client are fields of
  \<open>runtime_env\<close>; \<open>rn_view\<close> gives the answers of a Linear reader (\<open>Linear_Reader\<close>, whose answers depend on its
  earlier requests) to the running orchestrator. The HTTP handler is \<open>runtime_handler\<close> of \<open>Http_Api\<close>.
\<close>

declare map_of_eq_Some_iff [simp del]

subsection \<open>Options and parameters\<close>

record 'l runtime_options =
  ro_WorkflowPath :: string
  ro_Store :: "store option"
  ro_Reader :: "tracker_reader option"
  ro_Workspace :: "'l controller option"
  ro_MemoryItems :: "work_item list"
  ro_ServerPortOverride :: "int option"

record 'l runtime_env =
  rn_parsers :: parsers
  rn_world :: "nat \<Rightarrow> world"
  rn_client :: "string \<Rightarrow> string \<Rightarrow> linear_client"
  rn_view :: "linear_reader \<Rightarrow> tracker_reader"
  rn_newManager :: "settings \<Rightarrow> 'l controller"
  rn_listen :: "string \<Rightarrow> string + string"
  rn_splitHostPort :: "string \<Rightarrow> string + string \<times> string"
  rn_clock :: "nat \<Rightarrow> gtime"
  rn_order :: "string range_order"

datatype runtime_error =
    RtConfig cfg_error
  | RtLinear linear_error
  | RtError string

record runtime =
  rm_store :: store
  rm_ownStore :: bool
  rm_workflow :: workflow
  rm_settings :: settings
  rm_service :: "public_service option"
  rm_workers :: pool
  rm_listening :: bool
  rm_dashboard :: string
  rm_closed :: bool
  rm_closeError :: "string option"

subsection \<open>Addresses\<close>

text \<open>\<open>net.JoinHostPort\<close>.\<close>

definition JoinHostPort :: "string \<Rightarrow> string \<Rightarrow> string" where
  "JoinHostPort host port = (if CHR '':'' \<in> set host then ''['' @ host @ '']:'' @ port else host @ '':'' @ port)"

definition dashboardDisplayHost :: "string \<Rightarrow> string" where
  "dashboardDisplayHost host = (let trimmed = TrimSpace host in
     if trimmed \<in> set [[], ''0.0.0.0'', ''::'', ''[::]''] then ''127.0.0.1''
     else if HasPrefix trimmed ''['' \<and> HasSuffix trimmed '']'' then TrimSuffix (TrimPrefix trimmed ''['') '']''
     else trimmed)"

definition runtimeProjectURL :: "settings \<Rightarrow> string" where
  "runtimeProjectURL cfg =
    (if pv_Kind (st_Provider cfg) \<noteq> ProviderLinear \<or> TrimSpace (pv_Project (st_Provider cfg)) = [] then []
     else ''https://linear.app/project/'' @ TrimSpace (pv_Project (st_Provider cfg)) @ ''/issues'')"

subsection \<open>The parts\<close>

definition runtimeStore :: "'l runtime_env \<Rightarrow> 'l runtime_options \<Rightarrow> cfg_error + store \<times> bool" where
  "runtimeStore env opts = (case ro_Store opts of
     Some s \<Rightarrow> Inr (s, False)
   | None \<Rightarrow> (case NewStore (rn_parsers env) contentHash (rn_world env 0) (ro_WorkflowPath opts) of
       Inl e \<Rightarrow> Inl e | Inr s \<Rightarrow> Inr (s, True)))"

datatype runtime_reader = PlainReader tracker_reader | LinearReader linear_reader

definition runtimeReader ::
  "'l runtime_env \<Rightarrow> settings \<Rightarrow> 'l runtime_options \<Rightarrow> runtime_error + runtime_reader" where
  "runtimeReader env cfg opts = (case ro_Reader opts of
     Some r \<Rightarrow> Inr (PlainReader r)
   | None \<Rightarrow>
      (if pv_Kind (st_Provider cfg) = ProviderLinear then
         (case NewLinearReader (rn_client env) (st_Provider cfg) None of
            Inl e \<Rightarrow> Inl (RtLinear e) | Inr r \<Rightarrow> Inr (LinearReader r))
       else if pv_Kind (st_Provider cfg) = ProviderMemory then Inr (PlainReader (NewReader (ro_MemoryItems opts)))
       else Inl (RtError (''unsupported provider: '' @ pv_Kind (st_Provider cfg)))))"

text \<open>The first call on a reader lists items; a Linear reader that is given pages without end never answers.\<close>

definition reader_ListByStates :: "runtime_reader \<Rightarrow> string list \<Rightarrow> (runtime_error + work_item list) option" where
  "reader_ListByStates r states = (case r of
     PlainReader t \<Rightarrow> Some (map_sum RtError id (tr_ListByStates t states))
   | LinearReader l \<Rightarrow> map_option (\<lambda>(res, lg). map_sum RtLinear id res) (linear_ListByStates l states []))"

definition reader_methods :: "'l runtime_env \<Rightarrow> runtime_reader \<Rightarrow> tracker_reader" where
  "reader_methods env r = (case r of PlainReader t \<Rightarrow> t | LinearReader l \<Rightarrow> rn_view env l)"

text \<open>The loop of \<open>startupCleanup\<close>.\<close>

fun cleanup_items :: "'l controller \<Rightarrow> work_item list \<Rightarrow> 'l \<Rightarrow> (string option \<times> 'l) option" where
  "cleanup_items c [] lg = Some (None, lg)"
| "cleanup_items c (item # items) lg =
    (if TrimSpace (wi_Identifier item) = [] then cleanup_items c items lg
     else case wc_RemoveIssueWorkspaces c (wi_Identifier item) [] lg of
       None \<Rightarrow> None
     | Some (Some e, lg1) \<Rightarrow> Some (Some e, lg1)
     | Some (None, lg1) \<Rightarrow> cleanup_items c items lg1)"

definition startupCleanup ::
  "runtime_reader \<Rightarrow> 'l controller \<Rightarrow> settings \<Rightarrow> 'l \<Rightarrow> (runtime_error option \<times> 'l) option" where
  "startupCleanup r c cfg lg = (case reader_ListByStates r (pv_TerminalStates (st_Provider cfg)) of
     None \<Rightarrow> None
   | Some (Inl e) \<Rightarrow> Some (Some e, lg)
   | Some (Inr items) \<Rightarrow> map_option (\<lambda>(e, lg1). (map_option RtError e, lg1)) (cleanup_items c items lg))"

subsection \<open>Bundles\<close>

text \<open>\<open>HandleTool\<close> as the handler of a session: the requests of the earlier calls have been made.\<close>

definition bridge_handler ::
  "(gval \<Rightarrow> string) \<Rightarrow> bridge_client \<Rightarrow> tool_call list \<Rightarrow> tool_call \<Rightarrow> tool_error + tool_result" where
  "bridge_handler sprint client calls call =
     Inr (fst (HandleTool sprint client call (fold (\<lambda>c reqs. snd (HandleTool sprint client c reqs)) calls [])))"

definition defaultBundleFactory ::
  "(gval \<Rightarrow> string) \<Rightarrow> (nat \<Rightarrow> bridge_env) \<Rightarrow> workflow \<Rightarrow> settings \<Rightarrow> string + runtime_bundle" where
  "defaultBundleFactory sprint net raw cfg =
    (if pv_Kind (st_Provider cfg) = ProviderLinear then
       (case Select_bundle net raw cfg of
          Inl e \<Rightarrow> Inl e
        | Inr b \<Rightarrow> Inr \<lparr>rb_PromptTemplate = wb_PromptTemplate b, rb_DynamicTools = wb_DynamicTools b,
                       rb_ToolHandler = Some (bridge_handler sprint (wb_Bridge b))\<rparr>)
     else if pv_Kind (st_Provider cfg) = ProviderMemory then
       Inr \<lparr>rb_PromptTemplate = EffectivePromptTemplate raw, rb_DynamicTools = [],
            rb_ToolHandler = Some (\<lambda>calls call. Inl ToolUnsupported)\<rparr>
     else Inl (''unsupported provider: '' @ pv_Kind (st_Provider cfg)))"

subsection \<open>Starting and closing\<close>

definition startHTTPServer :: "'l runtime_env \<Rightarrow> settings \<Rightarrow> runtime \<Rightarrow> string option \<times> runtime" where
  "startHTTPServer env cfg r = (case sv_Port (st_Server cfg) of
     None \<Rightarrow> (None, r)
   | Some port \<Rightarrow>
      (let host = (if TrimSpace (sv_Host (st_Server cfg)) = [] then ''127.0.0.1'' else TrimSpace (sv_Host (st_Server cfg)))
       in case rn_listen env (JoinHostPort host (Itoa port)) of
            Inl e \<Rightarrow> (Some e, r)
          | Inr address \<Rightarrow> (case rn_splitHostPort env address of
              Inl e \<Rightarrow> (Some e, r)
            | Inr (h, p) \<Rightarrow> (None, r\<lparr>rm_listening := True,
                rm_dashboard := ''http://'' @ JoinHostPort (dashboardDisplayHost host) p @ ''/''\<rparr>))))"

text \<open>\<open>shutdown\<close> is the error of \<open>Shutdown\<close>, which closes the listener in any case; the other parts return none.\<close>

definition runtime_Close :: "string range_order \<Rightarrow> string option \<Rightarrow> runtime \<Rightarrow> runtime" where
  "runtime_Close ord shutdown r =
    (if rm_closed r then r
     else r\<lparr>rm_closed := True, rm_closeError := (if rm_listening r then shutdown else None), rm_listening := False,
            rm_service := public_Close (rm_service r), rm_workers := pool_Close ord (rm_workers r),
            rm_store := (if rm_ownStore r then store_Close (rm_store r) else rm_store r)\<rparr>)"

definition runtime_Snapshot :: "string range_order \<Rightarrow> string range_order \<Rightarrow> runtime option \<Rightarrow> snapshot" where
  "runtime_Snapshot ord1 ord2 r = (case r of None \<Rightarrow> empty_snapshot | Some r \<Rightarrow> public_Snapshot ord1 ord2 (rm_service r))"

definition DashboardURL :: "runtime option \<Rightarrow> string" where
  "DashboardURL r = (case r of None \<Rightarrow> [] | Some r \<Rightarrow> rm_dashboard r)"

text \<open>The runtime before its HTTP server, and two choices \<open>StartRuntime\<close> makes.\<close>

definition begun_runtime ::
  "'l runtime_env \<Rightarrow> store \<Rightarrow> bool \<Rightarrow> workflow \<Rightarrow> settings \<Rightarrow> runtime_reader \<Rightarrow> runtime" where
  "begun_runtime env s own raw cfg reader =
    \<lparr>rm_store = s, rm_ownStore = own, rm_workflow = raw, rm_settings = cfg,
     rm_service = Some (public_Start cfg (pool_deps (reader_methods env reader)) (rn_clock env) (rn_order env)),
     rm_workers = newWorkerManager, rm_listening = False, rm_dashboard = [], rm_closed = False, rm_closeError = None\<rparr>"

definition runtime_workspace :: "'l runtime_env \<Rightarrow> 'l runtime_options \<Rightarrow> settings \<Rightarrow> 'l controller" where
  "runtime_workspace env opts cfg = (case ro_Workspace opts of Some c \<Rightarrow> c | None \<Rightarrow> rn_newManager env cfg)"

definition with_port :: "int option \<Rightarrow> settings \<Rightarrow> settings" where
  "with_port override cfg = (case override of None \<Rightarrow> cfg
     | Some port \<Rightarrow> cfg\<lparr>st_Server := (st_Server cfg)\<lparr>sv_Port := Some port\<rparr>\<rparr>)"

text \<open>
  \<open>StartRuntime\<close>. With an error come the things the failed start leaves behind: the store it had opened,
  or the runtime it had begun.
\<close>

datatype left_over = NothingLeft | StoreLeft store | RuntimeLeft runtime

definition StartRuntime :: "'l runtime_env \<Rightarrow> 'l runtime_options \<Rightarrow> 'l \<Rightarrow>
    ((runtime_error \<times> left_over + runtime) \<times> 'l) option" where
  "StartRuntime env opts lg = (case runtimeStore env opts of
     Inl e \<Rightarrow> Some (Inl (RtConfig e, NothingLeft), lg)
   | Inr (store0, own) \<Rightarrow>
      (let (cfg0, store1) = store_CurrentSettings (rn_world env 1) (rn_world env 2) store0;
           cfg = with_port (ro_ServerPortOverride opts) cfg0;
           (raw, store2) = store_Current (rn_world env 3) (rn_world env 4) store1;
           failed = (\<lambda>e. Inl (e, if own then StoreLeft (store_Close store2) else NothingLeft))
       in case runtimeReader env cfg opts of
            Inl e \<Rightarrow> Some (failed e, lg)
          | Inr reader \<Rightarrow>
             (case startupCleanup reader (runtime_workspace env opts cfg) cfg lg of
                None \<Rightarrow> None
              | Some (Some e, lg1) \<Rightarrow> Some (failed e, lg1)
              | Some (None, lg1) \<Rightarrow>
                 (case startHTTPServer env cfg (begun_runtime env store2 own raw cfg reader) of
                    (Some e, r1) \<Rightarrow> Some (Inl (RtError e, RuntimeLeft (runtime_Close (rn_order env) None r1)), lg1)
                  | (None, r1) \<Rightarrow> Some (Inr r1, lg1)))))"

end
