(* ===== verification/Web_Pages.thy ===== *)
theory Web_Pages
  imports Runtime Terminal Go_Json
begin

text \<open>
  \<open>internal/web/handler.go\<close>: the HTTP handler of the runtime. It serves the embedded assets, passes the API's
  paths to the handler of \<open>Http_Api\<close> and renders the dashboard page. The page is the list of fragments the
  template writes: the fixed markup of the template, and the data its actions print, escaped as
  \<open>html/template\<close> does for the place where they stand. The state is that of the service behind the
  handler and that of the projector.
\<close>

subsection \<open>Escaping\<close>

text \<open>
  In text and in quoted attributes; bytes beyond ASCII are copied. A NUL becomes the replacement character.
\<close>

definition html_char :: "char \<Rightarrow> string" where
  "html_char c =
    (if c = CHR 0x00 then [CHR 0xEF, CHR 0xBF, CHR 0xBD]
     else if c = CHR 0x22 then ''&#34;''
     else if c = CHR ''&'' then ''&amp;''
     else if c = CHR 0x27 then ''&#39;''
     else if c = CHR ''+'' then ''&#43;''
     else if c = CHR ''<'' then ''&lt;''
     else if c = CHR ''>'' then ''&gt;''
     else [c])"

definition html_escape :: "string \<Rightarrow> string" where
  "html_escape s = concat (map html_char s)"

text \<open>In the path of a URL: what is already a valid escape stays, other bytes are escaped.\<close>

definition url_plain :: "char \<Rightarrow> bool" where
  "url_plain c \<longleftrightarrow> is_digit c \<or> is_upper c \<or> is_lower c \<or> c \<in> set ''!#$&*+,/:;=?@[]-._~''"

definition is_hex :: "char \<Rightarrow> bool" where
  "is_hex c \<longleftrightarrow> is_digit c \<or> (97 \<le> byte c \<and> byte c \<le> 102) \<or> (65 \<le> byte c \<and> byte c \<le> 70)"

fun url_normalize :: "string \<Rightarrow> string" where
  "url_normalize [] = []"
| "url_normalize (c # s) =
    (if url_plain c \<or> (c = CHR ''%'' \<and> 2 \<le> length s \<and> is_hex (s ! 0) \<and> is_hex (s ! 1)) then [c]
     else CHR ''%'' # hex2 (byte c)) @ url_normalize s"

subsection \<open>Texts\<close>

definition web_formatRuntime :: "int \<Rightarrow> string" where
  "web_formatRuntime seconds0 = (let seconds = (if seconds0 < 0 then 0 else seconds0) in
     Itoa (seconds div 60) @ ''m '' @ Itoa (seconds mod 60) @ ''s'')"

definition web_formatRuntimeTurns :: "int \<Rightarrow> int \<Rightarrow> string" where
  "web_formatRuntimeTurns seconds turns = (if turns \<le> 0 then web_formatRuntime seconds
     else web_formatRuntime seconds @ '' / '' @ FormatCount turns)"

definition snapshotErrorReason :: "snapshot_error \<Rightarrow> string" where
  "snapshotErrorReason e = (if e = ErrSnapshotTimeout then ''snapshot_timeout: Snapshot timed out''
     else ''snapshot_unavailable: Snapshot unavailable'')"

text \<open>
  \<open>json.MarshalIndent\<close> of the rate limits: the fields of a struct in their order, a nil pointer as \<open>null\<close>.
  \<open>flt\<close> is the text of a float, \<open>None\<close> for one that has none.
\<close>

definition json_field :: "string \<Rightarrow> string \<Rightarrow> string" where
  "json_field key t = json_string key @ '': '' @ t"

definition json_opt :: "('a \<Rightarrow> string) \<Rightarrow> 'a option \<Rightarrow> string" where
  "json_opt f v = (case v of None \<Rightarrow> ''null'' | Some x \<Rightarrow> f x)"

definition json_bool :: "bool \<Rightarrow> string" where
  "json_bool b = (if b then ''true'' else ''false'')"

definition bucket_text :: "nat \<Rightarrow> rate_limit_bucket \<Rightarrow> string" where
  "bucket_text n b = json_block (CHR ''{'') (CHR ''}'') n
    [json_field ''Remaining'' (json_opt Itoa (rb_Remaining b)), json_field ''Limit'' (json_opt Itoa (rb_Limit b)),
     json_field ''ResetInSeconds'' (json_opt Itoa (rb_ResetInSeconds b))]"

definition credits_text :: "nat \<Rightarrow> (float64 \<Rightarrow> string) \<Rightarrow> rate_limit_credits \<Rightarrow> string" where
  "credits_text n flt c = json_block (CHR ''{'') (CHR ''}'') n
    [json_field ''HasCredits'' (json_opt json_bool (rc_HasCredits c)),
     json_field ''Unlimited'' (json_opt json_bool (rc_Unlimited c)),
     json_field ''Balance'' (json_opt flt (rc_Balance c))]"

definition prettyRateLimits :: "(float64 \<Rightarrow> string option) \<Rightarrow> rate_limits option \<Rightarrow> string" where
  "prettyRateLimits flt limits = (case limits of None \<Rightarrow> ''n/a''
   | Some l \<Rightarrow>
      (case (case rl_Credits l of None \<Rightarrow> Some [] | Some c \<Rightarrow>
               (case rc_Balance c of None \<Rightarrow> Some [] | Some b \<Rightarrow> flt b)) of
         None \<Rightarrow> ''n/a''
       | Some t \<Rightarrow> json_block (CHR ''{'') (CHR ''}'') 0
          [json_field ''LimitID'' (json_string (rl_LimitID l)),
           json_field ''Primary'' (json_opt (bucket_text 1) (rl_Primary l)),
           json_field ''Secondary'' (json_opt (bucket_text 1) (rl_Secondary l)),
           json_field ''Credits'' (json_opt (credits_text 1 (\<lambda>b. t)) (rl_Credits l))]))"

subsection \<open>The page\<close>

datatype fragment = Markup string | Data string

definition page_head :: "fragment list" where
  "page_head =
    [Markup (Join [''<!doctype html>'',
       ''<html lang=\"en\">'',
       ''  <head>'',
       ''    <meta charset=\"utf-8\">'',
       ''    <meta name=\"viewport\" content=\"width=device-width, initial-scale=1\">'',
       ''    <title>Symphony Observability</title>'',
       ''    <link rel=\"stylesheet\" href=\"/dashboard.css\">'',
       ''    <script defer src=\"/vendor/phoenix_html/phoenix_html.js\"></script>'',
       ''    <script defer src=\"/vendor/phoenix/phoenix.js\"></script>'',
       ''    <script defer src=\"/vendor/phoenix_live_view/phoenix_live_view.js\"></script>'',
       ''  </head>'',
       ''  <body>'',
       ''    <main class=\"app-shell\">'',
       ''      <section class=\"dashboard-shell\">'',
       ''        <header class=\"hero-card\">'',
       ''          <div class=\"hero-grid\">'',
       ''            <div>'',
       ''              <p class=\"eyebrow\">Symphony Observability</p>'',
       ''              <h1 class=\"hero-title\">Operations Dashboard</h1>'',
       ''              <p class=\"hero-copy\">Current state, retry pressure, token usage, and orchestration health for the active Symphony runtime.</p>'',
       ''            </div>'',
       ''            <div class=\"status-stack\" aria-label=\"Connection status\">'',
       ''              <span class=\"status-badge status-badge-live\"><span class=\"status-badge-dot\"></span>Live</span>'',
       ''              <span class=\"status-badge status-badge-offline\"><span class=\"status-badge-dot\"></span>Offline</span>'',
       ''            </div>'',
       ''          </div>'',
       ''        </header>'',
       [],
       ''        ''] [CHR 0x0A])]"

definition unavailable_card :: "string \<Rightarrow> fragment list" where
  "unavailable_card reason =
    [Markup (Join [[],
       ''          <section class=\"error-card\">'',
       ''            <h2 class=\"error-title\">Snapshot unavailable</h2>'',
       ''            <p class=\"error-copy\">''] [CHR 0x0A]),
     Data (html_escape (reason)),
     Markup (Join [''</p>'',
       ''          </section>'',
       ''        ''] [CHR 0x0A])]"

definition metric_cards :: "dashboard_header \<Rightarrow> nat \<Rightarrow> fragment list" where
  "metric_cards h retrying =
    [Markup (Join [[],
       ''          <section class=\"metric-grid\" aria-label=\"Runtime metrics\">'',
       ''            <article class=\"metric-card\">'',
       ''              <p class=\"metric-label\">Running</p>'',
       ''              <p class=\"metric-value numeric\">''] [CHR 0x0A]),
     Data (html_escape (FormatCount (int (dh_AgentCount h)))),
     Markup (Join [''</p>'',
       ''              <p class=\"metric-detail\">Active issue sessions in the current runtime.</p>'',
       ''            </article>'',
       ''            <article class=\"metric-card\">'',
       ''              <p class=\"metric-label\">Retrying</p>'',
       ''              <p class=\"metric-value numeric\">''] [CHR 0x0A]),
     Data (html_escape (FormatCount (int retrying))),
     Markup (Join [''</p>'',
       ''              <p class=\"metric-detail\">Issues waiting for the next retry window.</p>'',
       ''            </article>'',
       ''            <article class=\"metric-card\">'',
       ''              <p class=\"metric-label\">Total tokens</p>'',
       ''              <p class=\"metric-value numeric\">''] [CHR 0x0A]),
     Data (html_escape (FormatCount (ct_TotalTokens (dh_Tokens h)))),
     Markup (Join [''</p>'',
       ''              <p class=\"metric-detail numeric\">In ''] [CHR 0x0A]),
     Data (html_escape (FormatCount (ct_InputTokens (dh_Tokens h)))),
     Markup (Join ['' / Out ''] [CHR 0x0A]),
     Data (html_escape (FormatCount (ct_OutputTokens (dh_Tokens h)))),
     Markup (Join [''</p>'',
       ''            </article>'',
       ''            <article class=\"metric-card\">'',
       ''              <p class=\"metric-label\">Runtime</p>'',
       ''              <p class=\"metric-value numeric\">''] [CHR 0x0A]),
     Data (html_escape (web_formatRuntime (dh_RuntimeSeconds h)))]"

definition limits_card :: "string \<Rightarrow> fragment list" where
  "limits_card limits =
    [Markup (Join [''</p>'',
       ''              <p class=\"metric-detail\">Total Codex runtime across completed and active sessions.</p>'',
       ''            </article>'',
       ''          </section>'',
       [],
       ''          <section class=\"section-card\">'',
       ''            <div class=\"section-header\">'',
       ''              <div>'',
       ''                <h2 class=\"section-title\">Rate limits</h2>'',
       ''                <p class=\"section-copy\">Latest upstream rate-limit snapshot, when available.</p>'',
       ''              </div>'',
       ''            </div>'',
       ''            <pre class=\"code-panel\">''] [CHR 0x0A]),
     Data (html_escape (limits)),
     Markup (Join [''</pre>'',
       ''          </section>'',
       [],
       ''          <section class=\"section-card\">'',
       ''            <div class=\"section-header\">'',
       ''              <div>'',
       ''                <h2 class=\"section-title\">Running sessions</h2>'',
       ''                <p class=\"section-copy\">Active issues, last known agent activity, and token usage.</p>'',
       ''              </div>'',
       ''            </div>'',
       ''            ''] [CHR 0x0A])]"

definition session_cell :: "string \<Rightarrow> fragment list" where
  "session_cell sid = (if sid \<noteq> [] then
    [Markup (Join [[],
       ''                            <button type=\"button\" class=\"subtle-button\" data-copy=\"''] [CHR 0x0A]),
     Data (html_escape (sid)),
     Markup (Join [''\" onclick=\"navigator.clipboard && navigator.clipboard.writeText(this.dataset.copy); this.textContent = 'Copied';\">Copy ID</button>'',
       ''                            <span class=\"muted mono\">''] [CHR 0x0A]),
     Data (html_escape (CompactSessionID sid)),
     Markup (Join [''</span>'',
       ''                          ''] [CHR 0x0A])]
   else
    [Markup (Join [[],
       ''                            <span class=\"muted\">n/a</span>'',
       ''                          ''] [CHR 0x0A])])"

definition running_page_row :: "running_row \<Rightarrow> fragment list" where
  "running_page_row r =
    [Markup (Join [[],
       ''                      <tr>'',
       ''                        <td>'',
       ''                          <div class=\"issue-stack\">'',
       ''                            <span class=\"issue-id\">''] [CHR 0x0A]),
     Data (html_escape (nr_ID r)),
     Markup (Join [''</span>'',
       ''                            <a class=\"issue-link\" href=\"/api/v1/''] [CHR 0x0A]),
     Data (html_escape (url_normalize (nr_ID r))),
     Markup (Join [''\">JSON details</a>'',
       ''                          </div>'',
       ''                        </td>'',
       ''                        <td><span class=\"state-badge\">''] [CHR 0x0A]),
     Data (html_escape (nr_State r)),
     Markup (Join [''</span></td>'',
       ''                        <td>'',
       ''                          ''] [CHR 0x0A])]
    @ session_cell (nr_SessionID r) @
    [Markup (Join [[],
       ''                        </td>'',
       ''                        <td class=\"numeric\">''] [CHR 0x0A]),
     Data (html_escape (web_formatRuntimeTurns (nr_RuntimeSeconds r) (nr_TurnCount r))),
     Markup (Join [''</td>'',
       ''                        <td><span class=\"event-text\">''] [CHR 0x0A]),
     Data (html_escape (dash_Truncate (dash_SanitizeInline (nr_Event r)) 120)),
     Markup (Join [''</span></td>'',
       ''                        <td class=\"numeric\">''] [CHR 0x0A]),
     Data (html_escape (FormatCount (nr_TotalTokens r))),
     Markup (Join [''</td>'',
       ''                      </tr>'',
       ''                    ''] [CHR 0x0A])]"

definition running_table :: "running_row list \<Rightarrow> fragment list" where
  "running_table rows = (if rows \<noteq> [] then
    [Markup (Join [[],
       ''              <div class=\"table-wrap\">'',
       ''                <table class=\"data-table data-table-running\">'',
       ''                  <thead>'',
       ''                    <tr>'',
       ''                      <th>Issue</th>'',
       ''                      <th>State</th>'',
       ''                      <th>Session</th>'',
       ''                      <th>Runtime / turns</th>'',
       ''                      <th>Codex update</th>'',
       ''                      <th>Tokens</th>'',
       ''                    </tr>'',
       ''                  </thead>'',
       ''                  <tbody>'',
       ''                    ''] [CHR 0x0A])]
    @ concat (map running_page_row rows) @
    [Markup (Join [[],
       ''                  </tbody>'',
       ''                </table>'',
       ''              </div>'',
       ''            ''] [CHR 0x0A])]
   else
    [Markup (Join [[],
       ''              <p class=\"empty-state\">No active sessions.</p>'',
       ''            ''] [CHR 0x0A])])"

definition retry_page_row :: "(gduration \<Rightarrow> string) \<Rightarrow> retry_row \<Rightarrow> fragment list" where
  "retry_page_row fmt0 r =
    [Markup (Join [[],
       ''                      <tr>'',
       ''                        <td>'',
       ''                          <div class=\"issue-stack\">'',
       ''                            <span class=\"issue-id\">''] [CHR 0x0A]),
     Data (html_escape (tw_ID r)),
     Markup (Join [''</span>'',
       ''                            <a class=\"issue-link\" href=\"/api/v1/''] [CHR 0x0A]),
     Data (html_escape (url_normalize (tw_ID r))),
     Markup (Join [''\">JSON details</a>'',
       ''                          </div>'',
       ''                        </td>'',
       ''                        <td class=\"numeric\">''] [CHR 0x0A]),
     Data (html_escape (Itoa (tw_Attempt r))),
     Markup (Join [''</td>'',
       ''                        <td class=\"mono numeric\">''] [CHR 0x0A]),
     Data (html_escape (fmt0 (tw_DueIn r) @ ''s'')),
     Markup (Join [''</td>'',
       ''                        <td>''] [CHR 0x0A]),
     Data (html_escape (dash_Truncate (dash_SanitizeInline (tw_Error r)) 120)),
     Markup (Join [''</td>'',
       ''                      </tr>'',
       ''                    ''] [CHR 0x0A])]"

definition retry_table :: "(gduration \<Rightarrow> string) \<Rightarrow> retry_row list \<Rightarrow> fragment list" where
  "retry_table fmt0 rows = (if rows \<noteq> [] then
    [Markup (Join [[],
       ''              <div class=\"table-wrap\">'',
       ''                <table class=\"data-table\">'',
       ''                  <thead>'',
       ''                    <tr>'',
       ''                      <th>Issue</th>'',
       ''                      <th>Attempt</th>'',
       ''                      <th>Due in</th>'',
       ''                      <th>Error</th>'',
       ''                    </tr>'',
       ''                  </thead>'',
       ''                  <tbody>'',
       ''                    ''] [CHR 0x0A])]
    @ concat (map (retry_page_row fmt0) rows) @
    [Markup (Join [[],
       ''                  </tbody>'',
       ''                </table>'',
       ''              </div>'',
       ''            ''] [CHR 0x0A])]
   else
    [Markup (Join [[],
       ''              <p class=\"empty-state\">No issues are currently backing off.</p>'',
       ''            ''] [CHR 0x0A])])"

definition between_tables :: "fragment list" where
  "between_tables =
    [Markup (Join [[],
       ''          </section>'',
       [],
       ''          <section class=\"section-card\">'',
       ''            <div class=\"section-header\">'',
       ''              <div>'',
       ''                <h2 class=\"section-title\">Retry queue</h2>'',
       ''                <p class=\"section-copy\">Issues waiting for the next retry window.</p>'',
       ''              </div>'',
       ''            </div>'',
       ''            ''] [CHR 0x0A])]"

definition after_tables :: "fragment list" where
  "after_tables =
    [Markup (Join [[],
       ''          </section>'',
       ''        ''] [CHR 0x0A])]"

definition page_end :: "fragment list" where
  "page_end =
    [Markup (Join [[],
       ''      </section>'',
       ''    </main>'',
       ''  </body>'',
       ''</html>''] [CHR 0x0A])]"

text \<open>\<open>fmt0\<close> is \<open>%.0f\<close> of the seconds of a duration.\<close>

definition page :: "(gduration \<Rightarrow> string) \<Rightarrow> dashboard_view \<Rightarrow> string \<Rightarrow> fragment list" where
  "page fmt0 v limits = page_head
     @ (if dv_Mode v = DashboardModeUnavailable then unavailable_card (dv_UnavailableReason v)
        else metric_cards (dv_Header v) (length (dv_Retrying v)) @ limits_card limits
          @ running_table (dv_Running v) @ between_tables @ retry_table fmt0 (dv_Retrying v) @ after_tables)
     @ page_end"

fun fragment_text :: "fragment \<Rightarrow> string" where
  "fragment_text (Markup s) = s"
| "fragment_text (Data s) = s"

definition page_text :: "fragment list \<Rightarrow> string" where
  "page_text fs = concat (map fragment_text fs)"

subsection \<open>The handler\<close>

datatype web_body =
    WebAsset string string
  | WebPage string
  | WebText string
  | WebApi response_body
  | WebError string string

record web_response =
  wr_status :: nat
  wr_contentType :: string
  wr_body :: web_body

record asset_route =
  at_file :: string
  at_contentType :: string

definition assetRoutes :: "string \<Rightarrow> asset_route option" where
  "assetRoutes path =
    (if path = ''/dashboard.css'' then Some \<lparr>at_file = ''assets/dashboard.css'', at_contentType = ''text/css; charset=utf-8''\<rparr>
     else if path \<in> set [''/vendor/phoenix_html/phoenix_html.js'', ''/vendor/phoenix/phoenix.js'',
         ''/vendor/phoenix_live_view/phoenix_live_view.js'']
     then Some \<lparr>at_file = ''assets'' @ path, at_contentType = ''application/javascript; charset=utf-8''\<rparr>
     else None)"

text \<open>\<open>wh_files\<close> are the embedded files, \<open>wh_wall\<close> the clock of the projector; the page's float formats are fields too.\<close>

record 's web_handler =
  wh_api :: "'s handler"
  wh_maxAgents :: int
  wh_dashboardURL :: string
  wh_projectURL :: string
  wh_files :: "string \<Rightarrow> string option"
  wh_wall :: gtime
  wh_fmt0 :: "gduration \<Rightarrow> string"
  wh_float :: "float64 \<Rightarrow> string option"

definition isAPIRoute :: "string \<Rightarrow> bool" where
  "isAPIRoute path \<longleftrightarrow> path = ''/api/v1'' \<or> HasPrefix path ''/api/v1/''"

definition isAssetPath :: "string \<Rightarrow> bool" where
  "isAssetPath path \<longleftrightarrow> path = ''/dashboard.css'' \<or> HasPrefix path ''/vendor/''"

definition writeJSONError :: "nat \<Rightarrow> string \<Rightarrow> string \<Rightarrow> web_response" where
  "writeJSONError status code message =
     \<lparr>wr_status = status, wr_contentType = ''application/json'', wr_body = WebError code message\<rparr>"

definition http_NotFound :: web_response where
  "http_NotFound = \<lparr>wr_status = 404, wr_contentType = ''text/plain; charset=utf-8'', wr_body = WebText ''Not Found''\<rparr>"

definition serveAsset :: "'s web_handler \<Rightarrow> string \<Rightarrow> asset_route \<Rightarrow> web_response" where
  "serveAsset h meth route =
    (if meth \<noteq> ''GET'' then writeJSONError 405 ''method_not_allowed'' ''Method not allowed''
     else case wh_files h (at_file route) of None \<Rightarrow> http_NotFound
       | Some body \<Rightarrow> \<lparr>wr_status = 200, wr_contentType = at_contentType route,
           wr_body = WebAsset body ''public, max-age=31536000''\<rparr>)"

definition web_view :: "'s web_handler \<Rightarrow> 's \<Rightarrow> projector \<Rightarrow> dashboard_view \<times> projector" where
  "web_view h s pj = (case ha_snapshot (wh_api h) of
     None \<Rightarrow> (Unavailable ''snapshot_unavailable: Snapshot unavailable'', pj)
   | Some f \<Rightarrow> (case f s of
       Inl e \<Rightarrow> (Unavailable (snapshotErrorReason e), pj)
     | Inr sn \<Rightarrow> Project sn \<lparr>dc_Now = ha_now (wh_api h), dc_MaxAgents = wh_maxAgents h,
         dc_DashboardURL = wh_dashboardURL h, dc_ProjectURL = wh_projectURL h\<rparr> (wh_wall h) pj))"

definition serveRoot :: "'s web_handler \<Rightarrow> 's \<Rightarrow> projector \<Rightarrow> web_response \<times> projector" where
  "serveRoot h s pj = (let (v, pj1) = web_view h s pj in
     (\<lparr>wr_status = 200, wr_contentType = ''text/html; charset=utf-8'',
       wr_body = WebPage (page_text (page (wh_fmt0 h) v (prettyRateLimits (wh_float h) (dh_RateLimits (dv_Header v)))))\<rparr>, pj1))"

definition web_ServeHTTP ::
  "'s web_handler \<Rightarrow> string \<Rightarrow> string \<Rightarrow> 's \<Rightarrow> projector \<Rightarrow> web_response \<times> 's \<times> projector" where
  "web_ServeHTTP h meth path s pj = (case assetRoutes path of
     Some route \<Rightarrow> (serveAsset h meth route, s, pj)
   | None \<Rightarrow>
      (if isAssetPath path then (http_NotFound, s, pj)
       else if isAPIRoute path then
         (let (r, s1) = ServeHTTP (wh_api h) meth path s in
          (\<lparr>wr_status = rs_status r, wr_contentType = ''application/json'', wr_body = WebApi (rs_body r)\<rparr>, s1, pj))
       else if path = ''/'' then
         (if meth \<noteq> ''GET'' then (writeJSONError 405 ''method_not_allowed'' ''Method not allowed'', s, pj)
          else (let (r, pj1) = serveRoot h s pj in (r, s, pj1)))
       else (writeJSONError 404 ''not_found'' ''Route not found'', s, pj)))"

text \<open>What \<open>startHTTPServer\<close> serves: the handler over the running service, with the settings of the start.\<close>

definition runtime_web :: "string range_order \<Rightarrow> string range_order \<Rightarrow> settings \<Rightarrow> string \<Rightarrow> gtime \<Rightarrow> (string \<Rightarrow> string option)
    \<Rightarrow> (gduration \<Rightarrow> string) \<Rightarrow> (float64 \<Rightarrow> string option) \<Rightarrow> public_service option web_handler" where
  "runtime_web ord1 ord2 cfg dashboard now files fmt0 flt =
    \<lparr>wh_api = runtime_handler ord1 ord2 (wo_Root (st_Workspace cfg)) now,
     wh_maxAgents = ag_MaxConcurrentAgents (st_Agent cfg), wh_dashboardURL = dashboard,
     wh_projectURL = runtimeProjectURL cfg, wh_files = files, wh_wall = now, wh_fmt0 = fmt0, wh_float = flt\<rparr>"

end
