(* ===== verification/Http_Props.thy ===== *)
theory Http_Props
  imports Http_Api Orch_Demo Workspace
begin

text \<open>
  What the JSON API promises about the service behind it: only a refresh request changes it, an issue is
  found exactly if it runs or waits for a retry, and a printed time is read back to the second.
\<close>

lemma Contains_char: "Contains s [c] \<longleftrightarrow> c \<in> set s"
  by (induction s) (auto simp: Contains_def)

subsection \<open>Times\<close>

text \<open>Times survive the API: the text of an instant of the years 1 to 9999 is read back by
  \<open>time.Parse\<close> as the same instant without its fraction of a second, whatever the calendar day.\<close>

theorem formatTimeValue_roundtrip:
  assumes "0 \<le> t" "t < date_instant 10000 1 1 0 0 0 0"
  shows "parse_RFC3339 (formatTimeValue t) = Some (t - t mod second)"
proof -
  have s: "0 < second" by (simp add: second_def)
  have "0 \<le> t - t mod second" using assms(1) by (simp add: minus_mod_eq_div_mult second_def pos_imp_zdiv_nonneg_iff)
  moreover have "t - t mod second < date_instant 10000 1 1 0 0 0 0" using assms(2) pos_mod_sign [OF s, of t] by linarith
  moreover have "(t - t mod second) mod second = 0" by (simp add: minus_mod_eq_div_mult)
  ultimately show ?thesis using format_parse_RFC3339 [of "t - t mod second"] by (simp add: formatTimeValue_def)
qed

theorem formatTimeValue_roundtrip_witness:
  "parse_RFC3339 (formatTimeValue (date_instant 2026 12 31 23 59 59 999)) = Some (date_instant 2026 12 31 23 59 59 0)"
proof -
  let ?t = "date_instant 2026 12 31 23 59 59 999"
  have n: "0 \<le> ?t" "?t < date_instant 10000 1 1 0 0 0 0" "?t - ?t mod second = date_instant 2026 12 31 23 59 59 0"
    by code_simp+
  show ?thesis using formatTimeValue_roundtrip [OF n(1,2)] unfolding n(3) .
qed

subsection \<open>Routes\<close>

lemma api_refreshes:
  "let (r, p') = ServeHTTP (runtime_handler ord1 ord2 dir now) meth path p;
       refresh = (meth = ''POST'' \<and> path = ''/api/v1/refresh'')
   in p' = (if refresh then snd (public_RequestRefresh p) else p)
      \<and> (rs_status r = 202 \<longleftrightarrow> refresh) \<and> rs_status r \<in> {200, 202, 404, 405}"
proof (cases "path = ''/api/v1/refresh''")
  case True
  obtain res p1 where r: "public_RequestRefresh p = (res, p1)" by fastforce
  show ?thesis
    by (simp add: ServeHTTP_def True handleRefresh_def runtime_handler_def r method_not_allowed_def writeError_def)
next
  case False
  then show ?thesis
    by (simp add: ServeHTTP_def handleState_def handleIssue_def api_loadSnapshot_def runtime_handler_def Let_def
        method_not_allowed_def writeError_def split: option.split)
qed

text \<open>The API can only ask for a refresh: whatever the method and the path of a request, the service
  behind the API is afterwards the one it was, except after a \<open>POST\<close> of \<open>/api/v1/refresh\<close>, which
  is one call of \<open>RequestRefresh\<close>; and exactly that request is answered with 202.\<close>

theorem api_only_refreshes:
  "let (r, p') = ServeHTTP (runtime_handler ord1 ord2 dir now) meth path p;
       refresh = (meth = ''POST'' \<and> path = ''/api/v1/refresh'')
   in p' = (if refresh then snd (public_RequestRefresh p) else p)
      \<and> (rs_status r = 202 \<longleftrightarrow> refresh) \<and> rs_status r \<in> {200, 202, 404, 405}"
  by (rule api_refreshes)

subsection \<open>Looking up an issue\<close>

definition runs_as :: "service \<Rightarrow> string \<Rightarrow> bool" where
  "runs_as v ident \<longleftrightarrow> (\<exists>k e. mget (sd_running (vc_state v)) k = Some e \<and> wi_Identifier (re_Item e) = ident)"

definition waits_as :: "service \<Rightarrow> string \<Rightarrow> bool" where
  "waits_as v ident \<longleftrightarrow> (\<exists>k e. mget (sd_retrying (vc_state v)) k = Some e \<and> te_ItemIdentifier e = ident)"

lemma findRunning_snapshot:
  assumes "order_ok ord1" "mok (sd_running (vc_state v))"
  shows "findRunning (sn_Running (snapshot_of ord1 ord2 (vc_state v))) ident \<noteq> None \<longleftrightarrow> runs_as v ident"
  by (auto simp: findRunning_def find_None_iff snapshot_of_def set_range_entries [OF assms] runs_as_def run_view_def
      mget_mem [OF assms(2)] image_iff) force+

lemma findRetry_snapshot:
  assumes "order_ok ord2" "mok (sd_retrying (vc_state v))"
  shows "findRetry (sn_Retrying (snapshot_of ord1 ord2 (vc_state v))) ident \<noteq> None \<longleftrightarrow> waits_as v ident"
  by (auto simp: findRetry_def find_None_iff snapshot_of_def set_range_entries [OF assms] waits_as_def
      retry_entry_view_def mget_mem [OF assms(2)] image_iff) force+

text \<open>C39 (functional). The API knows an issue exactly while the service works on it. For every reachable service
  and every identifier without a slash other than \<open>state\<close> and \<open>refresh\<close>, the answer is 200 if an item
  of that identifier runs or waits for a retry, with the status \<open>running\<close> and a running part exactly in
  the first case and a retry part exactly in the second, and 404 otherwise.\<close>

theorem api_issue_found:
  fixes dir :: string and now :: gtime and c :: bool
  assumes "svc_reachable cfg d v" "refresh_sound d" "order_ok ord1" "order_ok ord2"
    and "ident \<noteq> []" "slash \<notin> set ident" "ident \<noteq> ''state''" "ident \<noteq> ''refresh''"
  defines "r \<equiv> fst (ServeHTTP (runtime_handler ord1 ord2 dir now) ''GET'' (''/api/v1/'' @ ident)
      (Some \<lparr>pu_inner = Some v, pu_closed = c\<rparr>))"
  shows "case rs_body r of
      BodyIssue p \<Rightarrow> rs_status r = 200 \<and> (runs_as v ident \<or> waits_as v ident) \<and> ip_issue_identifier p = ident
        \<and> (ip_status p = ''running'' \<longleftrightarrow> runs_as v ident) \<and> (ip_running p \<noteq> None \<longleftrightarrow> runs_as v ident)
        \<and> (ip_retry p \<noteq> None \<longleftrightarrow> waits_as v ident)
    | _ \<Rightarrow> rs_status r = 404 \<and> \<not> runs_as v ident \<and> \<not> waits_as v ident"
proof -
  let ?sn = "snapshot_of ord1 ord2 (vc_state v)"
  have inv: "mok (sd_running (vc_state v))" "mok (sd_retrying (vc_state v))"
    using reachable_inv [OF assms(1,2)] by (auto simp: svc_inv_def sched_inv_def keyed_def)
  note f = findRunning_snapshot [OF assms(3) inv(1), of ord2 ident] findRetry_snapshot [OF assms(4) inv(2), of ord1 ident]
  have "issueIdentifier (''/api/v1/'' @ ident) = Some ident"
    using assms(5,6) by (simp add: issueIdentifier_def TrimPrefix_def Let_def Contains_char)
  then have r: "r = handleIssue (runtime_handler ord1 ord2 dir now) ident (Some \<lparr>pu_inner = Some v, pu_closed = c\<rparr>)"
    using assms(7,8) by (simp add: r_def ServeHTTP_def)
  have "r = (case newIssuePayload ?sn ident dir of None \<Rightarrow> writeError 404 ''issue_not_found'' ''Issue not found''
      | Some p \<Rightarrow> \<lparr>rs_status = 200, rs_body = BodyIssue p\<rparr>)"
    by (simp add: r handleIssue_def api_loadSnapshot_def runtime_handler_def public_Snapshot_def)
  then show ?thesis
    using f by (auto simp: newIssuePayload_def Let_def writeError_def issueStatus_def)
qed

theorem api_issue_found_witness:
  "\<exists>p. rs_body (fst (ServeHTTP (runtime_handler rev rev ''/srv/ws'' 0) ''GET'' ''/api/v1/ENG-1''
      (Some \<lparr>pu_inner = Some demo_polled, pu_closed = False\<rparr>))) = BodyIssue p \<and> ip_status p = ''running''"
proof -
  obtain e where "sd_running (vc_state demo_polled) = [(''a'', e)]" "wi_Identifier (re_Item e) = ''ENG-1''"
    by (rule demo_polled_run)
  then have run: "runs_as demo_polled ''ENG-1''" by (auto simp: runs_as_def intro!: exI [of _ "''a''"])
  have "''ENG-1'' \<noteq> []" "slash \<notin> set ''ENG-1''" "''ENG-1'' \<noteq> ''state''" "''ENG-1'' \<noteq> ''refresh''" by simp_all
  from api_issue_found [OF demo_polled_reachable demo_refresh_sound(1) order_ok_rev order_ok_rev this,
      where dir = "''/srv/ws''" and now = 0 and c = False] run
  show ?thesis by (auto split: response_body.splits)
qed

subsection \<open>Two findings\<close>

text \<open>
  The workspace path that the API shows for an issue whose workspace is not known yet is the
  identifier joined to the root as it is, while the manager makes the identifier safe first.
\<close>

lemma api_path_differs:
  "issueWorkspacePath None (Some \<lparr>rv_ItemID = ''a'', rv_ItemIdentifier = ''ENG 1'', rv_Attempt = 1, rv_DueAt = 0,
      rv_LastError = [], rv_WorkerHost = [], rv_WorkspacePath = []\<rparr>) ''/srv/ws'' ''ENG 1'' = ''/srv/ws/ENG 1''
   \<and> path_Join [''/srv/ws'', safeIdentifier ''ENG 1''] = ''/srv/ws/ENG_1''"
  by code_simp

text \<open>An issue whose identifier is \<open>state\<close> or \<open>refresh\<close> cannot be looked up: its path is another route.\<close>

lemma api_shadowed:
  "fst (ServeHTTP h ''GET'' ''/api/v1/state'' s) = handleState h s"
  "fst (ServeHTTP h ''GET'' ''/api/v1/refresh'' s) = method_not_allowed"
  by (simp_all add: ServeHTTP_def)

end
