(* ===== verification/Web_Props.thy ===== *)
theory Web_Props
  imports Web_Pages Http_Props
begin

text \<open>
  What the web pages promise: the page's markup never depends on the texts it shows, and the web handler
  neither shadows the API nor changes the service in a way of its own.
\<close>

declare map_of_eq_Some_iff [simp del]

subsection \<open>Markup and data\<close>

definition is_markup :: "char \<Rightarrow> bool" where
  "is_markup c \<longleftrightarrow> c \<in> {CHR ''<'', CHR ''>'', CHR 0x22, CHR 0x27}"

definition markup_chars :: "string \<Rightarrow> string" where
  "markup_chars s = filter is_markup s"

lemma markup_append: "markup_chars (s @ t) = markup_chars s @ markup_chars t"
  by (simp add: markup_chars_def)

lemma escaped_no_markup: "markup_chars (html_escape s) = []"
proof -
  have "\<not> is_markup d" if "d \<in> set (html_char c)" for c d
    using that by (auto simp: html_char_def is_markup_def split: if_splits)
  then show ?thesis by (simp add: markup_chars_def html_escape_def filter_empty_conv)
qed

fun data_plain :: "fragment \<Rightarrow> bool" where
  "data_plain (Markup s) = True"
| "data_plain (Data s) = (markup_chars s = [])"

text \<open>The fragments without their data.\<close>

fun skeleton :: "fragment \<Rightarrow> fragment" where
  "skeleton (Markup s) = Markup s"
| "skeleton (Data s) = Data []"

lemma markup_of_skeleton:
  "list_all data_plain fs \<Longrightarrow> markup_chars (page_text fs) = markup_chars (page_text (map skeleton fs))"
proof (induction fs)
  case (Cons f fs)
  then show ?case by (cases f) (simp_all add: page_text_def markup_append markup_chars_def)
qed (simp add: page_text_def)

lemmas page_parts = page_head_def unavailable_card_def metric_cards_def limits_card_def between_tables_def
  after_tables_def page_end_def

lemmas list_parts = list_all_append list.pred_inject data_plain.simps escaped_no_markup simp_thms

lemma row_plain:
  "list_all data_plain (session_cell sid)" "list_all data_plain (running_page_row r)"
  "list_all data_plain (retry_page_row fmt0 y)"
  by (simp_all only: session_cell_def running_page_row_def retry_page_row_def list_parts if_split)

lemma tables_plain: "list_all data_plain (running_table rows)" "list_all data_plain (retry_table fmt0 ys)"
proof -
  have c: "list_all data_plain (concat (map f xs))" if "\<And>x. list_all data_plain (f x)" for f :: "'x \<Rightarrow> fragment list" and xs
    using that by (induction xs) simp_all
  show "list_all data_plain (running_table rows)"
    by (simp only: running_table_def list_parts if_split c row_plain)
  show "list_all data_plain (retry_table fmt0 ys)"
    by (simp only: retry_table_def list_parts if_split c row_plain)
qed

lemma page_plain: "list_all data_plain (page fmt0 v limits)"
  by (simp only: page_def page_parts list_parts tables_plain if_split)

lemmas skeleton_parts = map_append list.map skeleton.simps

lemma row_skeleton:
  "nr_SessionID r = [] \<longleftrightarrow> nr_SessionID q = [] \<Longrightarrow> map skeleton (running_page_row r) = map skeleton (running_page_row q)"
  "map skeleton (retry_page_row fmt0 y) = map skeleton (retry_page_row fmt1 z)"
  by (cases "nr_SessionID q = []";
      simp only: session_cell_def running_page_row_def retry_page_row_def skeleton_parts simp_thms if_True if_False)+

lemma rows_skeleton:
  assumes "map (\<lambda>r. nr_SessionID r = []) rs = map (\<lambda>r. nr_SessionID r = []) qs"
  shows "map skeleton (concat (map running_page_row rs)) = map skeleton (concat (map running_page_row qs))"
  using assms
proof (induction rs arbitrary: qs)
  case (Cons r rs)
  then obtain q qs' where q: "qs = q # qs'" "nr_SessionID r = [] \<longleftrightarrow> nr_SessionID q = []"
    "map (\<lambda>r. nr_SessionID r = []) rs = map (\<lambda>r. nr_SessionID r = []) qs'" by (auto simp: map_eq_Cons_conv)
  show ?case using row_skeleton(1) [OF q(2)] Cons.IH [OF q(3)] by (simp only: q(1) list.map concat.simps map_append)
qed simp

lemma retries_skeleton:
  "length ys = length zs \<Longrightarrow>
     map skeleton (concat (map (retry_page_row fmt0) ys)) = map skeleton (concat (map (retry_page_row fmt1) zs))"
proof (induction ys zs rule: list_induct2)
  case (Cons y ys z zs)
  show ?case using row_skeleton(2) [of fmt0 y fmt1 z] Cons.IH by (simp only: list.map concat.simps map_append)
qed simp

lemma page_skeleton:
  assumes "dv_Mode v = DashboardModeUnavailable \<longleftrightarrow> dv_Mode w = DashboardModeUnavailable"
    and "map (\<lambda>r. nr_SessionID r = []) (dv_Running v) = map (\<lambda>r. nr_SessionID r = []) (dv_Running w)"
    and "length (dv_Retrying v) = length (dv_Retrying w)"
  shows "map skeleton (page fmt0 v limits) = map skeleton (page fmt1 w limits')"
proof -
  have ne: "dv_Running v = [] \<longleftrightarrow> dv_Running w = []" "dv_Retrying v = [] \<longleftrightarrow> dv_Retrying w = []"
    using arg_cong [OF assms(2), of length] assms(3) by auto
  have run: "map skeleton (running_table (dv_Running v)) = map skeleton (running_table (dv_Running w))"
    using rows_skeleton [OF assms(2)]
    by (cases "dv_Running w = []") (simp_all only: running_table_def ne map_append simp_thms if_True if_False)
  have ret: "map skeleton (retry_table fmt0 (dv_Retrying v)) = map skeleton (retry_table fmt1 (dv_Retrying w))"
    using retries_skeleton [OF assms(3), of fmt0 fmt1]
    by (cases "dv_Retrying w = []") (simp_all only: retry_table_def ne map_append simp_thms if_True if_False)
  show ?thesis
    by (cases "dv_Mode w = DashboardModeUnavailable")
      (simp_all only: page_def page_parts assms(1) run ret skeleton_parts simp_thms if_True if_False)
qed

text \<open>C38 (safety). No text can add markup to the dashboard page. Two pages of the same shape (available or not, the
  same number of runs with a session at the same places, the same number of retries) have exactly the same
  tags and quotes, whatever the identifiers, states, messages, errors and session IDs the tracker and Codex
  supply: an issue title or an agent's message can neither open a tag nor leave an attribute.
\<close>

theorem page_markup_fixed:
  assumes "dv_Mode v = DashboardModeUnavailable \<longleftrightarrow> dv_Mode w = DashboardModeUnavailable"
    and "map (\<lambda>r. nr_SessionID r = []) (dv_Running v) = map (\<lambda>r. nr_SessionID r = []) (dv_Running w)"
    and "length (dv_Retrying v) = length (dv_Retrying w)"
  shows "markup_chars (page_text (page fmt0 v limits)) = markup_chars (page_text (page fmt0 w limits'))"
  using markup_of_skeleton [OF page_plain, of fmt0 v limits] markup_of_skeleton [OF page_plain, of fmt0 w limits']
  unfolding page_skeleton [OF assms, of fmt0 limits fmt0 limits'] by simp

text \<open>A page with one run and one waiting retry that show a given text.\<close>

definition demo_page :: "string \<Rightarrow> dashboard_view" where
  "demo_page t = \<lparr>dv_Mode = DashboardModeNormal, dv_UnavailableReason = [], dv_Header = empty_header,
     dv_Running = [\<lparr>nr_ID = t, nr_State = t, nr_PID = t, nr_RuntimeSeconds = 61, nr_TurnCount = 2, nr_TotalTokens = 1000,
       nr_SessionID = t @ ''s'', nr_Event = t\<rparr>],
     dv_Retrying = [\<lparr>tw_ID = t, tw_Attempt = 1, tw_DueIn = second, tw_Error = t\<rparr>]\<rparr>"

theorem page_markup_fixed_witness:
  "markup_chars (page_text (page (\<lambda>d. ''1'') (demo_page ''<script>'') ''n/a''))
   = markup_chars (page_text (page (\<lambda>d. ''1'') (demo_page ''ENG-1'') ''{}''))"
  by (rule page_markup_fixed) (simp_all add: demo_page_def)

subsection \<open>Routes\<close>

lemma asset_not_api: "assetRoutes path = Some route \<Longrightarrow> \<not> isAPIRoute path" "isAssetPath path \<Longrightarrow> \<not> isAPIRoute path"
  by (auto simp: assetRoutes_def isAPIRoute_def isAssetPath_def HasPrefix_iff split: if_splits)

lemma serveAsset_status: "wr_status (serveAsset h meth route) \<in> {200, 404, 405}"
  by (simp add: serveAsset_def writeJSONError_def http_NotFound_def split: option.split)

text \<open>The pages are no way around the API. Under the web handler of a runtime, a request for a path
  of the API gets exactly the API's answer, whatever assets exist; whatever the method and the path, the
  service is afterwards the one it was, except after a \<open>POST\<close> of \<open>/api/v1/refresh\<close>, which is one call of
  \<open>RequestRefresh\<close>; and only a \<open>GET\<close> of the dashboard page advances the throughput samples of the projector.
\<close>

theorem web_routes:
  "let h = runtime_web ord1 ord2 cfg dashboard now files fmt0 flt;
       (r, p', pj') = web_ServeHTTP h meth path p pj;
       refresh = (meth = ''POST'' \<and> path = ''/api/v1/refresh'')
   in p' = (if refresh then snd (public_RequestRefresh p) else p)
      \<and> (if isAPIRoute path
         then wr_body r = WebApi (rs_body (fst (ServeHTTP (wh_api h) meth path p)))
            \<and> wr_status r = rs_status (fst (ServeHTTP (wh_api h) meth path p))
         else wr_status r \<in> {200, 404, 405} \<and> (wr_status r = 200 \<longleftrightarrow> meth = ''GET''
            \<and> (path = ''/'' \<or> (\<exists>route. assetRoutes path = Some route \<and> files (at_file route) \<noteq> None))))
      \<and> (pj' = pj \<or> (meth = ''GET'' \<and> path = ''/''))"
proof -
  let ?h = "runtime_web ord1 ord2 cfg dashboard now files fmt0 flt"
  have api: "snd (ServeHTTP (wh_api ?h) meth path p)
      = (if meth = ''POST'' \<and> path = ''/api/v1/refresh'' then snd (public_RequestRefresh p) else p)"
    using api_refreshes [of ord1 ord2 "wo_Root (st_Workspace cfg)" now meth path p]
    by (simp add: runtime_web_def case_prod_beta Let_def)
  have files: "wh_files ?h = files" by (simp add: runtime_web_def)
  have refresh: "isAPIRoute ''/api/v1/refresh''" "assetRoutes ''/api/v1/refresh'' = None" "\<not> isAssetPath ''/api/v1/refresh''"
    "assetRoutes ''/'' = None" "\<not> isAssetPath ''/''" "\<not> isAPIRoute ''/''"
    by code_simp+
  show ?thesis
  proof (cases "assetRoutes path")
    case (Some route)
    then have "path \<noteq> ''/api/v1/refresh''" "path \<noteq> ''/''" using refresh by auto
    with asset_not_api(1) [OF Some] Some serveAsset_status [of ?h meth route] show ?thesis
      by (auto simp: web_ServeHTTP_def serveAsset_def files writeJSONError_def http_NotFound_def split: option.splits)
  next
    case None
    show ?thesis
    proof (cases "isAPIRoute path")
      case True
      then have "\<not> isAssetPath path" using asset_not_api(2) by blast
      with None True api show ?thesis by (simp add: web_ServeHTTP_def case_prod_beta Let_def)
    next
      case False
      then have "path \<noteq> ''/api/v1/refresh''" using refresh by auto
      with None False refresh show ?thesis
        by (auto simp: web_ServeHTTP_def writeJSONError_def http_NotFound_def serveRoot_def case_prod_beta Let_def)
    qed
  qed
qed

end
