(* ===== verification/Command_Line.thy ===== *)
theory Command_Line
  imports Terminal Go_Path
begin

text \<open>
  \<open>internal/cli/main.go\<close> and the path of \<open>log_file.go\<close>: parsing the arguments and the start-up of
  the program. The functions of \<open>mainDeps\<close> and the working directory are arguments; what \<open>main\<close> does to the
  outside is recorded in the order of the code, and the wait for the end of the context is the point
  after which the runtime is closed.
\<close>

definition acknowledgementFlag :: string where
  "acknowledgementFlag = ''--i-understand-that-this-will-be-running-without-the-usual-guardrails''"

record cli_args =
  ca_acknowledged :: bool
  ca_workflowPath :: string
  ca_logsRoot :: string
  ca_portOverride :: "int option"

definition parsePort :: "string \<Rightarrow> int option" where
  "parsePort value = (case Atoi (TrimSpace value) of None \<Rightarrow> None
     | Some port \<Rightarrow> if port < 0 then None else Some port)"

text \<open>The loop over the arguments with the positional ones collected; \<open>None\<close> is \<open>errUsage\<close>.\<close>

fun parse_args :: "string list \<Rightarrow> cli_args \<Rightarrow> string list \<Rightarrow> (cli_args \<times> string list) option" where
  "parse_args [] parsed pos = Some (parsed, pos)"
| "parse_args (arg # args) parsed pos =
    (if arg = acknowledgementFlag then parse_args args (parsed\<lparr>ca_acknowledged := True\<rparr>) pos
     else if arg = ''--logs-root'' then
       (case args of [] \<Rightarrow> None
        | value # rest \<Rightarrow>
            if TrimSpace value = [] \<or> HasPrefix value ''--'' then None
            else parse_args rest (parsed\<lparr>ca_logsRoot := TrimSpace value\<rparr>) pos)
     else if HasPrefix arg ''--logs-root='' then
       (let value = TrimSpace (TrimPrefix arg ''--logs-root='') in
        if value = [] then None else parse_args args (parsed\<lparr>ca_logsRoot := value\<rparr>) pos)
     else if arg = ''--port'' then
       (case args of [] \<Rightarrow> None
        | value # rest \<Rightarrow> (case parsePort value of None \<Rightarrow> None
            | Some port \<Rightarrow> parse_args rest (parsed\<lparr>ca_portOverride := Some port\<rparr>) pos))
     else if HasPrefix arg ''--port='' then
       (case parsePort (TrimPrefix arg ''--port='') of None \<Rightarrow> None
        | Some port \<Rightarrow> parse_args args (parsed\<lparr>ca_portOverride := Some port\<rparr>) pos)
     else if HasPrefix arg ''--'' then None
     else parse_args args parsed (pos @ [arg]))"

definition parseCLIArgs :: "string list \<Rightarrow> cli_args option" where
  "parseCLIArgs args =
    (case parse_args args \<lparr>ca_acknowledged = False, ca_workflowPath = ''WORKFLOW.md'', ca_logsRoot = [],
         ca_portOverride = None\<rparr> [] of
       None \<Rightarrow> None
     | Some (parsed, []) \<Rightarrow> Some parsed
     | Some (parsed, [p]) \<Rightarrow> Some (parsed\<lparr>ca_workflowPath := p\<rparr>)
     | Some (parsed, _) \<Rightarrow> None)"

definition usageMessage :: string where
  "usageMessage = ''Usage: symphony [--logs-root <path>] [--port <port>] [path-to-WORKFLOW.md]''"

definition acknowledgementBanner :: string where
  "acknowledgementBanner =
    (let lines = [''This Symphony implementation is a low key engineering preview.'',
           ''Codex will run without any guardrails.'',
           ''SymphonyElixir is not a supported product and is presented as-is.'',
           ''To proceed, start with `'' @ acknowledgementFlag @ ''` CLI argument''];
         width = foldl max 0 (map length lines);
         border = concat (replicate (width + 2) rule_mark);
         corner = (\<lambda>c. [CHR 0xE2, CHR 0x95, c]);
         empty_line = bar_mark @ '' '' @ replicate width (CHR '' '') @ '' '' @ bar_mark
     in esc ''31m'' @ esc ''1m'' @ Join
          ([corner (CHR 0xAD) @ border @ corner (CHR 0xAE), empty_line]
           @ map (\<lambda>l. bar_mark @ '' '' @ l @ replicate (width - length l) (CHR '' '') @ '' '' @ bar_mark) lines
           @ [empty_line, corner (CHR 0xB0) @ border @ corner (CHR 0xAF)]) [CHR 0x0A]
        @ esc ''0m'')"

text \<open>\<open>os.Getwd\<close> is an argument, \<open>None\<close> for its error.\<close>

definition expandedLogsRoot :: "string option \<Rightarrow> string \<Rightarrow> string option" where
  "expandedLogsRoot cwd dir = (if TrimSpace dir = [] then cwd else path_Abs cwd dir)"

definition DefaultLogFile :: "string option \<Rightarrow> string \<Rightarrow> string" where
  "DefaultLogFile cwd dir =
    (let d = (if dir = [] then (case cwd of Some c \<Rightarrow> c | None \<Rightarrow> dir) else dir) in path_Join [d, ''log'', ''symphony.log''])"

datatype main_call =
    OutLine string
  | ErrLine string
  | ConfigureLog string
  | StartRuntimeCall string "int option"
  | CloseRuntime
  | RestoreLog

record main_deps =
  md_cwd :: "string option"
  md_fileRegular :: "string \<Rightarrow> bool"
  md_configureLogFile :: "string \<Rightarrow> string option"
  md_startRuntime :: "string \<Rightarrow> int option \<Rightarrow> string option"
  md_close :: "string option"

text \<open>The exit status, and what was done, the deferred restoring of the log last.\<close>

definition mainWithDeps :: "string list \<Rightarrow> main_deps \<Rightarrow> int \<times> main_call list" where
  "mainWithDeps args d =
    (case parseCLIArgs args of
       None \<Rightarrow> (1, [ErrLine usageMessage])
     | Some parsed \<Rightarrow>
        if \<not> ca_acknowledged parsed then (1, [ErrLine acknowledgementBanner])
        else (case path_Abs (md_cwd d) (ca_workflowPath parsed) of
          None \<Rightarrow> (1, [ErrLine ''getwd''])
        | Some workflowPath \<Rightarrow>
           if \<not> md_fileRegular d workflowPath then (1, [ErrLine (''Workflow file not found: '' @ workflowPath)])
           else (case expandedLogsRoot (md_cwd d) (ca_logsRoot parsed) of
             None \<Rightarrow> (1, [ErrLine ''getwd''])
           | Some logsRoot \<Rightarrow> (case md_configureLogFile d logsRoot of
               Some e \<Rightarrow> (1, [ConfigureLog logsRoot, ErrLine e])
             | None \<Rightarrow> (case md_startRuntime d workflowPath (ca_portOverride parsed) of
                 Some e \<Rightarrow> (1, [ConfigureLog logsRoot, StartRuntimeCall workflowPath (ca_portOverride parsed),
                   ErrLine (''Failed to start Symphony with workflow '' @ workflowPath @ '': '' @ e), RestoreLog])
               | None \<Rightarrow> (case md_close d of
                   Some e \<Rightarrow> (1, [ConfigureLog logsRoot, StartRuntimeCall workflowPath (ca_portOverride parsed),
                     CloseRuntime, ErrLine e, RestoreLog])
                 | None \<Rightarrow> (0, [ConfigureLog logsRoot, StartRuntimeCall workflowPath (ca_portOverride parsed),
                     CloseRuntime, OutLine RenderOffline, RestoreLog])))))))"

subsection \<open>Properties\<close>

lemma parse_args_acknowledged:
  "parse_args args parsed pos = Some (p, ps) \<Longrightarrow>
     (ca_acknowledged p \<longleftrightarrow> ca_acknowledged parsed \<or> acknowledgementFlag \<in> set args)
     \<and> (\<forall>port. ca_portOverride p = Some port \<longrightarrow> ca_portOverride parsed = Some port \<or> 0 \<le> port)"
proof (induction args parsed pos rule: parse_args.induct)
  case (2 arg args parsed pos)
  have flags: "acknowledgementFlag \<noteq> ''--logs-root''" "acknowledgementFlag \<noteq> ''--port''"
    "HasPrefix acknowledgementFlag ''--''" "parsePort acknowledgementFlag = None"
    by (simp_all add: acknowledgementFlag_def, code_simp)
  have port: "0 \<le> port" if "parsePort arg2 = Some port" for port arg2
    using that by (auto simp: parsePort_def split: option.splits if_splits)
  note IH = 2
  consider "arg = acknowledgementFlag" | "arg \<noteq> acknowledgementFlag" "arg = ''--logs-root''"
    | "arg \<noteq> acknowledgementFlag" "arg \<noteq> ''--logs-root''" "HasPrefix arg ''--logs-root=''"
    | "arg \<noteq> acknowledgementFlag" "arg \<noteq> ''--logs-root''" "\<not> HasPrefix arg ''--logs-root=''" "arg = ''--port''"
    | "arg \<noteq> acknowledgementFlag" "arg \<noteq> ''--logs-root''" "\<not> HasPrefix arg ''--logs-root=''" "arg \<noteq> ''--port''"
      "HasPrefix arg ''--port=''"
    | "arg \<noteq> acknowledgementFlag" "arg \<noteq> ''--logs-root''" "\<not> HasPrefix arg ''--logs-root=''" "arg \<noteq> ''--port''"
      "\<not> HasPrefix arg ''--port=''"
    by blast
  then show ?case
  proof cases
    case 1
    then show ?thesis using IH(1,7) by simp
  next
    case 2
    then obtain arg2 rest where "args = arg2 # rest" "\<not> HasPrefix arg2 ''--''"
      "parse_args rest (parsed\<lparr>ca_logsRoot := TrimSpace arg2\<rparr>) pos = Some (p, ps)" "TrimSpace arg2 \<noteq> []"
      using IH(7) flags(1) by (auto split: list.splits if_splits)
    then show ?thesis using IH(2) [of arg2 rest] 2 flags by auto
  next
    case 3
    then show ?thesis using IH(3,7) by (auto simp: Let_def split: if_splits)
  next
    case 4
    then obtain arg2 rest port where "args = arg2 # rest" "parsePort arg2 = Some port"
      "parse_args rest (parsed\<lparr>ca_portOverride := Some port\<rparr>) pos = Some (p, ps)"
      using IH(7) flags(2) by (auto split: list.splits option.splits)
    then show ?thesis using IH(4) [of arg2 rest port] 4 flags port by auto
  next
    case 5
    then obtain q where "parsePort (TrimPrefix arg ''--port='') = Some q"
      "parse_args args (parsed\<lparr>ca_portOverride := Some q\<rparr>) pos = Some (p, ps)"
      using IH(7) by (auto split: option.splits)
    then show ?thesis using IH(5) [of q] 5 port by auto
  next
    case 6
    then show ?thesis using IH(6,7) by (auto split: if_splits)
  qed
qed simp


definition demo_main :: main_deps where
  "demo_main = \<lparr>md_cwd = Some ''/w'', md_fileRegular = (\<lambda>p. p = ''/w/flow.md''), md_configureLogFile = (\<lambda>dir. None),
     md_startRuntime = (\<lambda>path port. None), md_close = None\<rparr>"


end
