(* ===== verification/Logging.thy ===== *)
theory Logging
  imports Command_Line
begin

text \<open>
  \<open>internal/logging/logging.go\<close> and \<open>internal/cli/log_file.go\<close>: the logger that writes to a rotating file, and
  its installation as the process-wide default between the start and the end of the program. The state is
  what \<open>log\<close> and \<open>log/slog\<close> hold for the process, with the mutex of \<open>log_file.go\<close>; the rotating writer is a
  third-party one, known by the settings it is given.
\<close>

subsection \<open>\<open>logging.go\<close>\<close>

record log_config =
  gc_Path :: string
  gc_Level :: int
  gc_MaxSize :: int
  gc_MaxBackups :: int
  gc_MaxAge :: int
  gc_JSON :: bool

definition LevelDebug :: int where
  "LevelDebug = - 4"

definition DefaultConfig :: "string \<Rightarrow> log_config" where
  "DefaultConfig path = \<lparr>gc_Path = path, gc_Level = LevelDebug, gc_MaxSize = 100, gc_MaxBackups = 5, gc_MaxAge = 30,
     gc_JSON = False\<rparr>"

record rotating_file =
  rf_Filename :: string
  rf_MaxSize :: int
  rf_MaxBackups :: int
  rf_MaxAge :: int
  rf_Compress :: bool
  rf_LocalTime :: bool

text \<open>
  Where the \<open>log\<close> package writes: a file, the handler of a \<open>slog\<close> logger, or what was there before, by a
  number. A \<open>slog\<close> logger is known by its handler; the default handler of Go writes through \<open>log\<close>.
\<close>

datatype slog_handler =
    DefaultHandler
  | TextHandler rotating_file int bool
  | JSONHandler rotating_file int bool
  | OtherHandler nat

datatype log_writer = FileWriter rotating_file | HandlerWriter slog_handler | OtherWriter nat

text \<open>\<open>filepath.Dir\<close> of a cleaned path.\<close>

definition path_Dir :: "string \<Rightarrow> string" where
  "path_Dir path = (case LastIndex_char path (CHR ''/'') of None \<Rightarrow> ''.''
     | Some i \<Rightarrow> if i = 0 then ''/'' else Clean (take (Suc i) path))"

text \<open>\<open>mkdirAll\<close> gives the error of \<open>os.MkdirAll\<close>.\<close>

definition logging_New :: "(string \<Rightarrow> string option) \<Rightarrow> log_config \<Rightarrow> string + slog_handler \<times> rotating_file" where
  "logging_New mkdirAll cfg = (case mkdirAll (path_Dir (gc_Path cfg)) of
     Some e \<Rightarrow> Inl (''create log directory: '' @ e)
   | None \<Rightarrow>
      (let lw = \<lparr>rf_Filename = gc_Path cfg, rf_MaxSize = gc_MaxSize cfg, rf_MaxBackups = gc_MaxBackups cfg,
             rf_MaxAge = gc_MaxAge cfg, rf_Compress = True, rf_LocalTime = True\<rparr>;
           addSource = (gc_Level cfg = LevelDebug)
       in Inr (if gc_JSON cfg then JSONHandler lw (gc_Level cfg) addSource else TextHandler lw (gc_Level cfg) addSource, lw)))"

subsection \<open>\<open>log_file.go\<close>\<close>

record log_state =
  lg_default :: slog_handler
  lg_writer :: log_writer
  lg_flags :: int
  lg_prefix :: string
  lg_locked :: bool

text \<open>\<open>slog.SetDefault\<close> also makes \<open>log\<close> write through the new logger, unless that one writes through \<open>log\<close>.\<close>

definition SetDefault :: "slog_handler \<Rightarrow> log_state \<Rightarrow> log_state" where
  "SetDefault l st = (if l = DefaultHandler then st\<lparr>lg_default := l\<rparr>
     else st\<lparr>lg_default := l, lg_writer := HandlerWriter l, lg_flags := 0\<rparr>)"

text \<open>What the restoring function has captured, and whether its \<open>sync.Once\<close> has run.\<close>

record log_restore =
  re_logger :: slog_handler
  re_writer :: log_writer
  re_flags :: int
  re_prefix :: string
  re_file :: rotating_file
  re_done :: bool

text \<open>\<open>None\<close> while the mutex is held: the caller waits.\<close>

definition configureLogFile :: "string option \<Rightarrow> (nat \<Rightarrow> string \<Rightarrow> string option) \<Rightarrow> string \<Rightarrow> log_state
    \<Rightarrow> ((string + log_restore) \<times> string \<times> log_state) option" where
  "configureLogFile cwd mkdirAll dir st =
    (let path = DefaultLogFile cwd dir in
     case mkdirAll 0 (path_Dir path) of
       Some e \<Rightarrow> Some (Inl e, path, st)
     | None \<Rightarrow>
        (if lg_locked st then None
         else case logging_New (mkdirAll 1) (DefaultConfig path) of
           Inl e \<Rightarrow> Some (Inl e, path, st)
         | Inr (logger, lw) \<Rightarrow>
             Some (Inr \<lparr>re_logger = lg_default st, re_writer = lg_writer st, re_flags = lg_flags st,
                        re_prefix = lg_prefix st, re_file = lw, re_done = False\<rparr>,
               path, (SetDefault logger st)\<lparr>lg_writer := FileWriter lw, lg_locked := True\<rparr>)))"

text \<open>The function returned: the error of closing the file, once.\<close>

definition restore_log :: "string option \<Rightarrow> log_restore \<Rightarrow> log_state \<Rightarrow> string option \<times> log_restore \<times> log_state" where
  "restore_log closeErr r st =
    (if re_done r then (None, r, st)
     else (closeErr, r\<lparr>re_done := True\<rparr>,
       (SetDefault (re_logger r) st)\<lparr>lg_writer := re_writer r, lg_flags := re_flags r, lg_prefix := re_prefix r,
          lg_locked := False\<rparr>))"

subsection \<open>Properties\<close>

lemma SetDefault_default [simp]: "lg_default (SetDefault l st) = l" "lg_prefix (SetDefault l st) = lg_prefix st"
  "lg_locked (SetDefault l st) = lg_locked st"
  by (simp_all add: SetDefault_def)

text \<open>The process gets its logging back. If the log file could be configured, everything logged goes to
  that file and the mutex is held; and whatever the program does to the logging in between, restoring gives
  back exactly the logger, the writer, the flags and the prefix of before and releases the mutex, and
  restoring again changes nothing. If it could not be configured, nothing has changed and the mutex is free.
\<close>

theorem log_restored:
  assumes "configureLogFile cwd mkdirAll dir st = Some (res, path, st1)"
  shows "case res of
      Inl e \<Rightarrow> st1 = st
    | Inr r \<Rightarrow> \<not> lg_locked st \<and> lg_locked st1 \<and> rf_Filename (re_file r) = path \<and> lg_writer st1 = FileWriter (re_file r)
        \<and> (\<exists>level. lg_default st1 = TextHandler (re_file r) level True)
        \<and> restore_log closeErr r st2 = (closeErr, r\<lparr>re_done := True\<rparr>, st)
        \<and> restore_log closeErr (r\<lparr>re_done := True\<rparr>) st3 = (None, r\<lparr>re_done := True\<rparr>, st3)"
  using assms
  by (cases st) (auto simp: configureLogFile_def logging_New_def DefaultConfig_def Let_def restore_log_def SetDefault_def
      split: option.splits if_splits)

definition demo_log_state :: log_state where
  "demo_log_state = \<lparr>lg_default = DefaultHandler, lg_writer = OtherWriter 0, lg_flags = 3, lg_prefix = ''p'', lg_locked = False\<rparr>"

lemma configured_case:
  assumes "case x of Some (Inr r, path, st) \<Rightarrow> P path | _ \<Rightarrow> False"
  obtains r path st where "x = Some (Inr r, path, st)" "P path"
proof (cases x)
  case (Some a)
  then show ?thesis using assms that by (cases a; cases "fst a") auto
qed (use assms in simp)

theorem log_restored_witness:
  "\<exists>r st1. configureLogFile (Some ''/w'') (\<lambda>n d. None) [] demo_log_state = Some (Inr r, ''/w/log/symphony.log'', st1)
     \<and> snd (snd (restore_log None r (st1\<lparr>lg_prefix := ''q''\<rparr>))) = demo_log_state"
proof -
  have "case configureLogFile (Some ''/w'') (\<lambda>n d. None) [] demo_log_state of
      Some (Inr r, path, st1) \<Rightarrow> path = ''/w/log/symphony.log'' | _ \<Rightarrow> False" by code_simp
  then obtain r st1 where c: "configureLogFile (Some ''/w'') (\<lambda>n d. None) [] demo_log_state
      = Some (Inr r, ''/w/log/symphony.log'', st1)"
    by (rule configured_case) blast
  from log_restored [OF c] c show ?thesis by (intro exI [of _ r] exI [of _ st1]) simp
qed

end
