(* ===== verification/Go_Duration.thy ===== *)
theory Go_Duration
  imports Go_Strings
begin

text \<open>
  \<open>time.ParseDuration\<close> of Go's standard library: signed decimal numbers, each with an optional fraction and a
  unit. Integers are unsigned 64-bit ones, and overflow is an error. \<open>scaled f unit scale\<close> is the one
  floating-point step, \<open>uint64(float64(f) * (float64(unit) / scale))\<close>.
\<close>

fun leading_int :: "int \<Rightarrow> string \<Rightarrow> (int \<times> string) option" where
  "leading_int x [] = Some (x, [])"
| "leading_int x (c # s) = (if \<not> is_digit c then Some (x, c # s)
     else if 2 ^ 63 div 10 < x then None
     else let y = x * 10 + int (byte c - 48) in if 2 ^ 63 < y then None else leading_int y s)"

text \<open>The digits after the overflow of the fraction are skipped.\<close>

fun leading_fraction :: "int \<Rightarrow> int \<Rightarrow> bool \<Rightarrow> string \<Rightarrow> int \<times> int \<times> string" where
  "leading_fraction x scale over [] = (x, scale, [])"
| "leading_fraction x scale over (c # s) = (if \<not> is_digit c then (x, scale, c # s)
     else if over \<or> (2 ^ 63 - 1) div 10 < x then leading_fraction x scale True s
     else let y = x * 10 + int (byte c - 48) in
       if 2 ^ 63 < y then leading_fraction x scale True s else leading_fraction y (scale * 10) False s)"

text \<open>The micro sign and the Greek letter are both two bytes of UTF-8.\<close>

definition unitMap :: "string \<Rightarrow> int option" where
  "unitMap u =
    (if u = ''ns'' then Some 1
     else if u \<in> set [''us'', [CHR 0xC2, CHR 0xB5, CHR ''s''], [CHR 0xCE, CHR 0xBC, CHR ''s'']] then Some 1000
     else if u = ''ms'' then Some 1000000
     else if u = ''s'' then Some 1000000000
     else if u = ''m'' then Some 60000000000
     else if u = ''h'' then Some 3600000000000
     else None)"

definition is_unit_char :: "char \<Rightarrow> bool" where
  "is_unit_char c \<longleftrightarrow> c \<noteq> CHR ''.'' \<and> \<not> is_digit c"

text \<open>One number with its unit: the value and the rest of the text.\<close>

definition duration_part :: "(int \<Rightarrow> int \<Rightarrow> int \<Rightarrow> int) \<Rightarrow> string \<Rightarrow> (int \<times> string) option" where
  "duration_part scaled s =
    (if s = [] \<or> \<not> (hd s = CHR ''.'' \<or> is_digit (hd s)) then None
     else case leading_int 0 s of None \<Rightarrow> None
     | Some (v, s1) \<Rightarrow>
        (let pre = (length s1 \<noteq> length s); point = (s1 \<noteq> [] \<and> hd s1 = CHR ''.'');
             (f, scale, s2) = (if point then leading_fraction 0 1 False (tl s1) else (0, 1, s1));
             post = (point \<and> length s2 \<noteq> length (tl s1));
             u = takeWhile is_unit_char s2; rest = dropWhile is_unit_char s2
         in if \<not> pre \<and> \<not> post \<or> u = [] then None
            else case unitMap u of None \<Rightarrow> None
            | Some unit \<Rightarrow>
               (if 2 ^ 63 div unit < v then None
                else let w = v * unit + (if 0 < f then scaled f unit scale else 0) in
                  if 0 < f \<and> 2 ^ 63 < w then None else Some (w, rest))))"

function (sequential) duration_parts :: "(int \<Rightarrow> int \<Rightarrow> int \<Rightarrow> int) \<Rightarrow> int \<Rightarrow> string \<Rightarrow> int option" where
  "duration_parts scaled d [] = Some d"
| "duration_parts scaled d (c # s) = (case duration_part scaled (c # s) of None \<Rightarrow> None
     | Some (v, rest) \<Rightarrow> (let e = (d + v) mod 2 ^ 64 in
         if length rest < length (c # s) then (if 2 ^ 63 < e then None else duration_parts scaled e rest) else None))"
  by pat_completeness auto
termination by (relation "measure (\<lambda>(scaled, d, s). length s)") auto

text \<open>Each part takes at least its unit off the text, so the test of the lengths never fails.\<close>

lemma leading_int_length: "leading_int x s = Some (v, r) \<Longrightarrow> length r \<le> length s"
  by (induction x s rule: leading_int.induct) (auto simp: Let_def split: if_splits)

lemma leading_fraction_length: "leading_fraction x scale over s = (f, sc, r) \<Longrightarrow> length r \<le> length s"
proof (induction x scale over s rule: leading_fraction.induct)
  case (2 x scale over c s)
  have "length r \<le> length s" if "leading_fraction x scale True s = (f, sc, r)" "is_digit c"
    "over \<or> (2 ^ 63 - 1) div 10 < x \<or> 2 ^ 63 < x * 10 + int (byte c - 48)"
    using that 2(1,2) by (cases "over \<or> (2 ^ 63 - 1) div 10 < x") (simp_all add: Let_def)
  then show ?case using 2(3-) by (fastforce simp: Let_def split: if_splits)
qed simp

lemma duration_part_shorter:
  assumes "duration_part scaled s = Some (v, rest)"
  shows "length rest < length s"
proof -
  obtain n s1 where n: "leading_int 0 s = Some (n, s1)" "s \<noteq> []"
    using assms by (auto simp: duration_part_def split: if_splits option.splits)
  obtain f sc s2 where f: "(if s1 \<noteq> [] \<and> hd s1 = CHR ''.'' then leading_fraction 0 1 False (tl s1) else (0, 1, s1)) = (f, sc, s2)"
    using prod_cases3 by blast
  have u: "takeWhile is_unit_char s2 \<noteq> []" "rest = dropWhile is_unit_char s2"
    using assms unfolding duration_part_def n(1) f Let_def prod.case option.case
    by (auto split: if_splits option.splits)
  have "length s2 \<le> length s1" using f leading_fraction_length [of 0 1 False "tl s1"] by (auto split: if_splits)
  moreover have "length rest < length s2"
    using u by (metis append_Nil length_append less_add_same_cancel2 length_greater_0_conv takeWhile_dropWhile_id)
  ultimately show ?thesis using leading_int_length [OF n(1)] by simp
qed

definition ParseDuration :: "(int \<Rightarrow> int \<Rightarrow> int \<Rightarrow> int) \<Rightarrow> string \<Rightarrow> int option" where
  "ParseDuration scaled s0 =
    (let signed = (s0 \<noteq> [] \<and> hd s0 \<in> {CHR ''-'', CHR ''+''}); neg = (signed \<and> hd s0 = CHR ''-'');
         s = (if signed then tl s0 else s0)
     in if s = ''0'' then Some 0
        else if s = [] then None
        else case duration_parts scaled 0 s of None \<Rightarrow> None
        | Some d \<Rightarrow> if neg then Some (- d) else if 2 ^ 63 - 1 < d then None else Some d)"

lemma ParseDuration_example: "ParseDuration (\<lambda>f u s. f * u div s) ''1m2.5s'' = Some 62500000000"
  by code_simp

end
