(* ===== verification/Verify_Commands.thy ===== *)
theory Verify_Commands
  imports Runtime Go_Duration Command_Line
begin

text \<open>
  \<open>cmd/symphony-verify\<close> and \<open>internal/verify/linearprobe\<close>: the command that probes the Linear tracker and the
  one that runs the service on a single issue. The functions of \<open>verifyDeps\<close> are fields, \<open>realDeps\<close> fills them
  with the code of the other theories; what a command does is recorded in the order of the code, the
  deferred closing of the store last.
\<close>

declare map_of_eq_Some_iff [simp del]

subsection \<open>Arguments\<close>

record linear_args =
  la_workflowPath :: string
  la_limit :: int
  la_refreshIDs :: "string list"
  la_onlyIssue :: string

record run_args =
  ra_workflowPath :: string
  ra_ack :: bool
  ra_onlyIssue :: string
  ra_portOverride :: "int option"
  ra_timeout :: gduration

definition ackFlag :: string where
  "ackFlag = ''--i-understand-that-this-will-be-running-without-the-usual-guardrails''"

definition verify_parsePort :: "string \<Rightarrow> int option" where
  "verify_parsePort value = (case Atoi (TrimSpace value) of None \<Rightarrow> None
     | Some port \<Rightarrow> if port < 0 then None else Some port)"

definition parseTimeout :: "(int \<Rightarrow> int \<Rightarrow> int \<Rightarrow> int) \<Rightarrow> string \<Rightarrow> gduration option" where
  "parseTimeout scaled value = (let trimmed = TrimSpace value in
     if trimmed = ''0'' then Some 0
     else case ParseDuration scaled trimmed of None \<Rightarrow> None | Some d \<Rightarrow> if d < 0 then None else Some d)"

text \<open>A value given as the next argument must not be blank or another option.\<close>

definition option_value :: "string \<Rightarrow> string option" where
  "option_value value = (if TrimSpace value = [] \<or> HasPrefix value ''--'' then None else Some (TrimSpace value))"

definition inline_value :: "string \<Rightarrow> string \<Rightarrow> string option" where
  "inline_value arg flag = (let value = TrimSpace (TrimPrefix arg flag) in if value = [] then None else Some value)"

definition parse_limit :: "string \<Rightarrow> int option" where
  "parse_limit value = (case Atoi (TrimSpace value) of None \<Rightarrow> None | Some limit \<Rightarrow> if limit < 0 then None else Some limit)"

fun linear_args_loop :: "string list \<Rightarrow> linear_args \<Rightarrow> string list \<Rightarrow> (linear_args \<times> string list) option" where
  "linear_args_loop [] parsed pos = Some (parsed, pos)"
| "linear_args_loop (arg # args) parsed pos =
    (if arg = ''--limit'' then
       (case args of [] \<Rightarrow> None
        | value # rest \<Rightarrow> (case parse_limit value of None \<Rightarrow> None
            | Some limit \<Rightarrow> linear_args_loop rest (parsed\<lparr>la_limit := limit\<rparr>) pos))
     else if HasPrefix arg ''--limit='' then
       (case parse_limit (TrimPrefix arg ''--limit='') of None \<Rightarrow> None
        | Some limit \<Rightarrow> linear_args_loop args (parsed\<lparr>la_limit := limit\<rparr>) pos)
     else if arg = ''--refresh-id'' then
       (case args of [] \<Rightarrow> None
        | value # rest \<Rightarrow> (case option_value value of None \<Rightarrow> None
            | Some v \<Rightarrow> linear_args_loop rest (parsed\<lparr>la_refreshIDs := la_refreshIDs parsed @ [v]\<rparr>) pos))
     else if HasPrefix arg ''--refresh-id='' then
       (case inline_value arg ''--refresh-id='' of None \<Rightarrow> None
        | Some v \<Rightarrow> linear_args_loop args (parsed\<lparr>la_refreshIDs := la_refreshIDs parsed @ [v]\<rparr>) pos)
     else if arg = ''--only-issue'' then
       (case args of [] \<Rightarrow> None
        | value # rest \<Rightarrow> (case option_value value of None \<Rightarrow> None
            | Some v \<Rightarrow> linear_args_loop rest (parsed\<lparr>la_onlyIssue := v\<rparr>) pos))
     else if HasPrefix arg ''--only-issue='' then
       (case inline_value arg ''--only-issue='' of None \<Rightarrow> None
        | Some v \<Rightarrow> linear_args_loop args (parsed\<lparr>la_onlyIssue := v\<rparr>) pos)
     else if HasPrefix arg ''--'' then None
     else linear_args_loop args parsed (pos @ [arg]))"

definition parseLinearArgs :: "string list \<Rightarrow> linear_args option" where
  "parseLinearArgs args =
    (case linear_args_loop args \<lparr>la_workflowPath = ''WORKFLOW.md'', la_limit = 10, la_refreshIDs = [], la_onlyIssue = []\<rparr> [] of
       None \<Rightarrow> None
     | Some (parsed, []) \<Rightarrow> Some parsed
     | Some (parsed, [p]) \<Rightarrow> Some (parsed\<lparr>la_workflowPath := p\<rparr>)
     | Some (parsed, _) \<Rightarrow> None)"

fun run_args_loop :: "(int \<Rightarrow> int \<Rightarrow> int \<Rightarrow> int) \<Rightarrow> string list \<Rightarrow> run_args \<Rightarrow> string list
    \<Rightarrow> (run_args \<times> string list) option" where
  "run_args_loop scaled [] parsed pos = Some (parsed, pos)"
| "run_args_loop scaled (arg # args) parsed pos =
    (if arg = ackFlag then run_args_loop scaled args (parsed\<lparr>ra_ack := True\<rparr>) pos
     else if arg = ''--only-issue'' then
       (case args of [] \<Rightarrow> None
        | value # rest \<Rightarrow> (case option_value value of None \<Rightarrow> None
            | Some v \<Rightarrow> run_args_loop scaled rest (parsed\<lparr>ra_onlyIssue := v\<rparr>) pos))
     else if HasPrefix arg ''--only-issue='' then
       (case inline_value arg ''--only-issue='' of None \<Rightarrow> None
        | Some v \<Rightarrow> run_args_loop scaled args (parsed\<lparr>ra_onlyIssue := v\<rparr>) pos)
     else if arg = ''--port'' then
       (case args of [] \<Rightarrow> None
        | value # rest \<Rightarrow> (case verify_parsePort value of None \<Rightarrow> None
            | Some port \<Rightarrow> run_args_loop scaled rest (parsed\<lparr>ra_portOverride := Some port\<rparr>) pos))
     else if HasPrefix arg ''--port='' then
       (case verify_parsePort (TrimPrefix arg ''--port='') of None \<Rightarrow> None
        | Some port \<Rightarrow> run_args_loop scaled args (parsed\<lparr>ra_portOverride := Some port\<rparr>) pos)
     else if arg = ''--timeout'' then
       (case args of [] \<Rightarrow> None
        | value # rest \<Rightarrow> (case parseTimeout scaled value of None \<Rightarrow> None
            | Some d \<Rightarrow> run_args_loop scaled rest (parsed\<lparr>ra_timeout := d\<rparr>) pos))
     else if HasPrefix arg ''--timeout='' then
       (case parseTimeout scaled (TrimPrefix arg ''--timeout='') of None \<Rightarrow> None
        | Some d \<Rightarrow> run_args_loop scaled args (parsed\<lparr>ra_timeout := d\<rparr>) pos)
     else if HasPrefix arg ''--'' then None
     else run_args_loop scaled args parsed (pos @ [arg]))"

definition parseRunArgs :: "(int \<Rightarrow> int \<Rightarrow> int \<Rightarrow> int) \<Rightarrow> string list \<Rightarrow> run_args option" where
  "parseRunArgs scaled args =
    (case run_args_loop scaled args \<lparr>ra_workflowPath = ''WORKFLOW.md'', ra_ack = False, ra_onlyIssue = [],
         ra_portOverride = None, ra_timeout = 600 * second\<rparr> [] of
       None \<Rightarrow> None
     | Some (parsed, []) \<Rightarrow> Some parsed
     | Some (parsed, [p]) \<Rightarrow> Some (parsed\<lparr>ra_workflowPath := p\<rparr>)
     | Some (parsed, _) \<Rightarrow> None)"

subsection \<open>\<open>linearprobe\<close>\<close>

record probe_result =
  pr_Settings :: settings
  pr_Candidates :: "work_item list"
  pr_Terminal :: "work_item list"
  pr_Refresh :: "work_item list"

definition probe_Run :: "settings \<Rightarrow> tracker_reader option \<Rightarrow> string list \<Rightarrow> string + probe_result" where
  "probe_Run cfg reader refreshIDs0 = (case reader of None \<Rightarrow> Inl ''nil tracker reader''
     | Some r \<Rightarrow> (case tr_ListCandidates r of Inl e \<Rightarrow> Inl e
       | Inr candidates \<Rightarrow> (case tr_ListByStates r (pv_TerminalStates (st_Provider cfg)) of Inl e \<Rightarrow> Inl e
         | Inr finished \<Rightarrow>
            (let refreshIDs = (if refreshIDs0 = [] \<and> candidates \<noteq> [] then [wi_ID (hd candidates)] else refreshIDs0) in
             case tr_RefreshByIDs r refreshIDs of Inl e \<Rightarrow> Inl e
             | Inr refreshed \<Rightarrow> Inr \<lparr>pr_Settings = cfg, pr_Candidates = candidates, pr_Terminal = finished,
                 pr_Refresh = refreshed\<rparr>))))"

definition out_line :: "string \<Rightarrow> string" where
  "out_line s = s @ [CHR 0x0A]"

definition renderItems :: "string \<Rightarrow> work_item list \<Rightarrow> int \<Rightarrow> string" where
  "renderItems label items limit =
    (let shown = (if 0 < limit \<and> limit < int (length items) then nat limit else length items) in
     out_line (label @ '': '' @ Itoa (int (length items)))
     @ concat (map (\<lambda>item. out_line (''- '' @ wi_Identifier item @ '' | '' @ wi_State item @ '' | '' @ wi_Title item))
         (take shown items))
     @ (if shown < length items then out_line (''... '' @ Itoa (int (length items - shown)) @ '' more'') else []))"

definition probe_Render :: "probe_result \<Rightarrow> int \<Rightarrow> string" where
  "probe_Render result limit = (let pv = st_Provider (pr_Settings result) in
     out_line ''Linear probe'' @ out_line (''project: '' @ pv_Project pv)
     @ out_line (''active_states: '' @ Join (pv_ActiveStates pv) '', '')
     @ out_line (''terminal_states: '' @ Join (pv_TerminalStates pv) '', '')
     @ renderItems ''candidates'' (pr_Candidates result) limit
     @ renderItems ''terminal'' (pr_Terminal result) limit
     @ renderItems ''refresh'' (pr_Refresh result) limit)"

subsection \<open>The commands\<close>

datatype 'l verify_call =
    VerifyOut string
  | VerifyErr string
  | OpenStore string
  | CloseStore
  | StartCall "'l runtime_options"
  | CloseCall

text \<open>
  \<open>'r\<close> is the runtime a handle stands for, and \<open>vd_wait\<close> what becomes of it while the command waits. The errors
  are their texts. \<open>vd_worlds\<close> is the file system when the settings are read, and \<open>vd_ctxEnds\<close> says whether the
  context of the caller ends (that of \<open>main\<close> does not).
\<close>

record ('r, 'l) verify_deps =
  vd_openStore :: "string \<Rightarrow> string + store"
  vd_worlds :: "world \<times> world"
  vd_newLinearReader :: "provider_settings \<Rightarrow> string + tracker_reader"
  vd_startRuntime :: "'l runtime_options \<Rightarrow> (string + 'r) option"
  vd_wait :: "'r \<Rightarrow> 'r"
  vd_DashboardURL :: "'r \<Rightarrow> string"
  vd_Snapshot :: "'r \<Rightarrow> snapshot"
  vd_Close :: "'r \<Rightarrow> string option"
  vd_scaled :: "int \<Rightarrow> int \<Rightarrow> int \<Rightarrow> int"
  vd_ctxEnds :: bool

definition verify_usage :: string where
  "verify_usage = ''Usage: symphony-verify <linear|run> [options] [path-to-WORKFLOW.md]''"

definition runLinearCommand :: "('r, 'l) verify_deps \<Rightarrow> string list \<Rightarrow> int \<times> 'l verify_call list" where
  "runLinearCommand d args = (case parseLinearArgs args of
     None \<Rightarrow> (1, [VerifyErr (out_line verify_usage)])
   | Some parsed \<Rightarrow> (case vd_openStore d (la_workflowPath parsed) of
       Inl e \<Rightarrow> (1, [OpenStore (la_workflowPath parsed), VerifyErr (out_line (''failed to load workflow: '' @ e))])
     | Inr store \<Rightarrow>
        (let opened = OpenStore (la_workflowPath parsed);
             cfg = fst (store_CurrentSettings (fst (vd_worlds d)) (snd (vd_worlds d)) store)
         in if pv_Kind (st_Provider cfg) \<noteq> ProviderLinear
            then (1, [opened, VerifyErr (out_line ''linear probe requires tracker.kind=linear''), CloseStore])
            else (case vd_newLinearReader d (st_Provider cfg) of
              Inl e \<Rightarrow> (1, [opened, VerifyErr (out_line (''failed to create Linear reader: '' @ e)), CloseStore])
            | Inr reader0 \<Rightarrow>
               (let reader = (if la_onlyIssue parsed \<noteq> [] then NewFilteredReader reader0 (la_onlyIssue parsed) else reader0)
                in case probe_Run cfg (Some reader) (la_refreshIDs parsed) of
                     Inl e \<Rightarrow> (1, [opened, VerifyErr (out_line (''linear probe failed: '' @ e)), CloseStore])
                   | Inr result \<Rightarrow> (0, [opened, VerifyOut (probe_Render result (la_limit parsed)), CloseStore]))))))"

definition renderSnapshotSummary :: "snapshot \<Rightarrow> string" where
  "renderSnapshotSummary sn = out_line ''Final snapshot''
     @ out_line (''running: '' @ Itoa (int (length (sn_Running sn))))
     @ out_line (''retrying: '' @ Itoa (int (length (sn_Retrying sn))))
     @ out_line (''total_tokens: '' @ Itoa (ct_TotalTokens (sn_CodexTotals sn)))"

definition verify_options :: "run_args \<Rightarrow> store \<Rightarrow> tracker_reader \<Rightarrow> 'l runtime_options" where
  "verify_options parsed store reader =
    \<lparr>ro_WorkflowPath = [], ro_Store = Some store, ro_Reader = Some (NewFilteredReader reader (ra_onlyIssue parsed)),
     ro_Workspace = None, ro_MemoryItems = [], ro_ServerPortOverride = ra_portOverride parsed\<rparr>"

definition started_lines :: "('r, 'l) verify_deps \<Rightarrow> run_args \<Rightarrow> 'r \<Rightarrow> string" where
  "started_lines d parsed r = out_line ''Verification runtime started''
     @ out_line (''only_issue: '' @ ra_onlyIssue parsed)
     @ (if vd_DashboardURL d r \<noteq> [] then out_line (''dashboard: '' @ vd_DashboardURL d r) else [])"

text \<open>The end of the wait, with the store still open: the snapshot is taken before the runtime is closed.\<close>

definition finish_run :: "('r, 'l) verify_deps \<Rightarrow> 'r \<Rightarrow> int \<times> 'l verify_call list" where
  "finish_run d r = (case vd_Close d r of
     Some e \<Rightarrow> (1, [CloseCall, VerifyErr (out_line (''failed to close verification runtime: '' @ e))])
   | None \<Rightarrow> (0, [CloseCall, VerifyOut (renderSnapshotSummary (vd_Snapshot d r))]))"

text \<open>\<open>None\<close> if the start of the runtime, or the wait without a timeout, never ends.\<close>

definition runRuntimeCommand :: "('r, 'l) verify_deps \<Rightarrow> string list \<Rightarrow> (int \<times> 'l verify_call list) option" where
  "runRuntimeCommand d args = (case parseRunArgs (vd_scaled d) args of
     None \<Rightarrow> Some (1, [VerifyErr (out_line verify_usage)])
   | Some parsed \<Rightarrow>
      (if \<not> ra_ack parsed then Some (1, [VerifyErr (out_line (''runtime smoke requires '' @ ackFlag))])
       else if ra_onlyIssue parsed = []
       then Some (1, [VerifyErr (out_line ''runtime smoke requires --only-issue <id-or-identifier>'')])
       else case vd_openStore d (ra_workflowPath parsed) of
         Inl e \<Rightarrow> Some (1, [OpenStore (ra_workflowPath parsed), VerifyErr (out_line (''failed to load workflow: '' @ e))])
       | Inr store \<Rightarrow>
          (let opened = OpenStore (ra_workflowPath parsed);
               (cfg, store1) = store_CurrentSettings (fst (vd_worlds d)) (snd (vd_worlds d)) store
           in if pv_Kind (st_Provider cfg) \<noteq> ProviderLinear
              then Some (1, [opened, VerifyErr (out_line ''runtime smoke requires tracker.kind=linear''), CloseStore])
              else (case vd_newLinearReader d (st_Provider cfg) of
                Inl e \<Rightarrow> Some (1, [opened, VerifyErr (out_line (''failed to create Linear reader: '' @ e)), CloseStore])
              | Inr reader \<Rightarrow>
                 (let opts = verify_options parsed store1 reader in
                  case vd_startRuntime d opts of
                    None \<Rightarrow> None
                  | Some (Inl e) \<Rightarrow> Some (1, [opened, StartCall opts,
                      VerifyErr (out_line (''failed to start verification runtime: '' @ e)), CloseStore])
                  | Some (Inr r) \<Rightarrow>
                      (if ra_timeout parsed \<le> 0 \<and> \<not> vd_ctxEnds d then None
                       else case finish_run d (vd_wait d r) of
                         (status, closing) \<Rightarrow> Some (status, [opened, StartCall opts, VerifyOut (started_lines d parsed r)]
                           @ closing @ [CloseStore])))))))"

definition verify_main :: "('r, 'l) verify_deps \<Rightarrow> string list \<Rightarrow> (int \<times> 'l verify_call list) option" where
  "verify_main d args = (case args of
     [] \<Rightarrow> Some (1, [VerifyErr (out_line verify_usage)])
   | cmd # rest \<Rightarrow>
      (if cmd = ''linear'' then Some (runLinearCommand d rest)
       else if cmd = ''run'' then runRuntimeCommand d rest
       else Some (1, [VerifyErr (out_line verify_usage)])))"

text \<open>\<open>realDeps\<close>: the code of the other theories. \<open>text\<close> prints the errors of the runtime and the Linear reader.\<close>

definition realDeps :: "'l runtime_env \<Rightarrow> (runtime_error \<Rightarrow> string) \<Rightarrow> world \<times> world \<Rightarrow> 'l \<Rightarrow> (runtime \<Rightarrow> runtime)
    \<Rightarrow> string option \<Rightarrow> (int \<Rightarrow> int \<Rightarrow> int \<Rightarrow> int) \<Rightarrow> (runtime, 'l) verify_deps" where
  "realDeps env text worlds lg waited shutdown scaled =
    \<lparr>vd_openStore = (\<lambda>path. map_sum cfg_error_message id (NewStore (rn_parsers env) contentHash (rn_world env 0) path)),
     vd_worlds = worlds,
     vd_newLinearReader = (\<lambda>p. map_sum (\<lambda>e. text (RtLinear e)) (rn_view env) (NewLinearReader (rn_client env) p None)),
     vd_startRuntime = (\<lambda>opts. map_option (\<lambda>(res, lg1). map_sum (\<lambda>(e, left). text e) id res) (StartRuntime env opts lg)),
     vd_wait = waited,
     vd_DashboardURL = (\<lambda>r. DashboardURL (Some r)),
     vd_Snapshot = (\<lambda>r. runtime_Snapshot (rn_order env) (rn_order env) (Some r)),
     vd_Close = (\<lambda>r. rm_closeError (runtime_Close (rn_order env) shutdown r)),
     vd_scaled = scaled, vd_ctxEnds = False\<rparr>"

end
