(* ===== verification/Runtime_Props.thy ===== *)
theory Runtime_Props
  imports Runtime Workspace_Props
begin

text \<open>
  What start-up and shutdown promise: a start that fails leaves nothing open, a start that succeeds has
  cleaned up and runs the orchestrator over its worker manager with valid settings, and the clean-up of
  finished items reaches every worker host.
\<close>

declare map_of_eq_Some_iff [simp del]

subsection \<open>Failed starts\<close>

definition released :: "runtime \<Rightarrow> bool" where
  "released r \<longleftrightarrow> rm_closed r \<and> \<not> rm_listening r \<and> wp_closed (rm_workers r)
     \<and> (rm_ownStore r \<longrightarrow> so_stopped (rm_store r))
     \<and> (\<forall>p v. rm_service r = Some p \<longrightarrow> pu_inner p = Some v \<longrightarrow> vc_closed v)"

lemma svc_close_closed [simp]: "vc_closed (svc_close v)"
  by (simp add: svc_close_def)

lemma pool_Close_closed [simp]: "wp_closed (pool_Close ord p)"
  by (simp add: pool_Close_def)

lemma close_releases:
  assumes "\<not> rm_closed r" "\<And>p. rm_service r = Some p \<Longrightarrow> \<not> pu_closed p"
  shows "released (runtime_Close ord e r)"
  using assms by (auto simp: released_def runtime_Close_def public_Close_def store_Close_def split: option.splits)

lemma startHTTPServer_frame:
  assumes "startHTTPServer env cfg r = (e, r1)"
  shows "rm_closed r1 = rm_closed r" "rm_service r1 = rm_service r" "rm_workers r1 = rm_workers r"
    "rm_ownStore r1 = rm_ownStore r" "rm_store r1 = rm_store r" "rm_settings r1 = rm_settings r"
  using assms by (auto simp: startHTTPServer_def Let_def split: option.splits sum.splits)

text \<open>The ways a start can go.\<close>

lemma StartRuntime_cases:
  assumes "StartRuntime env opts lg = Some (res, lg1)"
  obtains (config) e where "runtimeStore env opts = Inl e" "res = Inl (RtConfig e, NothingLeft)"
  | (early) store0 own e s where "runtimeStore env opts = Inr (store0, own)"
      "res = Inl (e, if own then StoreLeft (store_Close s) else NothingLeft)"
  | (begun) store0 own cfg reader s raw e r where "runtimeStore env opts = Inr (store0, own)"
      "cfg = with_port (ro_ServerPortOverride opts) (fst (store_CurrentSettings (rn_world env 1) (rn_world env 2) store0))"
      "runtimeReader env cfg opts = Inr reader"
      "startupCleanup reader (runtime_workspace env opts cfg) cfg lg = Some (None, lg1)"
      "startHTTPServer env cfg (begun_runtime env s own raw cfg reader) = (e, r)"
      "res = (case e of None \<Rightarrow> Inr r
         | Some err \<Rightarrow> Inl (RtError err, RuntimeLeft (runtime_Close (rn_order env) None r)))"
proof (cases "runtimeStore env opts")
  case (Inl e)
  then show ?thesis using assms config by (simp add: StartRuntime_def)
next
  case (Inr so)
  obtain store0 own where so: "so = (store0, own)" by fastforce
  obtain cfg0 store1 where c: "store_CurrentSettings (rn_world env 1) (rn_world env 2) store0 = (cfg0, store1)" by fastforce
  obtain raw store2 where w: "store_Current (rn_world env 3) (rn_world env 4) store1 = (raw, store2)" by fastforce
  define cfg where "cfg = with_port (ro_ServerPortOverride opts) cfg0"
  have st: "runtimeStore env opts = Inr (store0, own)" using Inr so by simp
  note unf = StartRuntime_def st c w Let_def sum.case prod.case cfg_def [symmetric]
  show ?thesis
  proof (cases "runtimeReader env cfg opts")
    case (Inl e)
    from assms show ?thesis unfolding unf Inl by (intro early [OF st]) auto
  next
    case (Inr reader)
    show ?thesis
    proof (cases "startupCleanup reader (runtime_workspace env opts cfg) cfg lg")
      case None
      from assms show ?thesis unfolding unf Inr None by simp
    next
      case (Some ans)
      obtain e lg2 where ans: "ans = (e, lg2)" by fastforce
      show ?thesis
      proof (cases e)
        case None
        obtain e' r where h: "startHTTPServer env cfg (begun_runtime env store2 own raw cfg reader) = (e', r)" by fastforce
        have "lg2 = lg1 \<and> res = (case e' of None \<Rightarrow> Inr r
            | Some err \<Rightarrow> Inl (RtError err, RuntimeLeft (runtime_Close (rn_order env) None r)))"
          using assms unfolding unf Inr Some ans None option.case h by (auto split: option.splits)
        with h Inr Some ans None st c cfg_def show ?thesis
          by (intro begun [of store0 own cfg reader store2 raw e' r]) simp_all
      next
        case (Some err)
        from assms show ?thesis unfolding unf Inr \<open>startupCleanup _ _ _ _ = Some ans\<close> ans Some
          by (intro early [OF st]) auto
      qed
    qed
  qed
qed


subsection \<open>Successful starts\<close>

lemma runtimeStore_reachable:
  assumes "runtimeStore env opts = Inr (s, own)" "\<And>s. ro_Store opts = Some s \<Longrightarrow> store_reachable s"
    and "order_ok (pa_order2 (rn_parsers env))"
  shows "good_snapshot s"
proof (cases "ro_Store opts")
  case None
  with assms(1) have "NewStore (rn_parsers env) contentHash (rn_world env 0) (ro_WorkflowPath opts) = Inr s"
    by (auto simp: runtimeStore_def split: sum.splits)
  from store_reachable_good [OF so_new [OF this assms(3)]] show ?thesis .
next
  case (Some s')
  with assms(1,2) show ?thesis by (auto simp: runtimeStore_def intro: store_reachable_good)
qed

lemma good_settings: "good_snapshot s \<Longrightarrow> settings_ok (ls_settings (so_snapshot s))"
  unfolding good_snapshot_def using loadSnapshot_facts(1) by blast

lemma started_runtime:
  assumes "StartRuntime env opts lg = Some (Inr r, lg1)"
    and "\<And>s. ro_Store opts = Some s \<Longrightarrow> store_reachable s"
    and "order_ok (pa_order2 (rn_parsers env))" "order_ok (rn_order env)"
  shows "\<exists>cfg reader p v. settings_ok cfg \<and> rm_settings r = with_port (ro_ServerPortOverride opts) cfg
    \<and> runtimeReader env (rm_settings r) opts = Inr reader
    \<and> startupCleanup reader (runtime_workspace env opts (rm_settings r)) (rm_settings r) lg = Some (None, lg1)
    \<and> rm_service r = Some p \<and> pu_inner p = Some v
    \<and> system_reachable (rm_settings r) (reader_methods env reader) v (rm_workers r)"
  using assms(1)
proof (cases rule: StartRuntime_cases)
  case (begun store0 own cfg reader s raw e r')
  then have r: "r' = r" "e = None" by (auto split: option.splits)
  note f = startHTTPServer_frame [OF begun(5), unfolded r]
  have cfg: "rm_settings r = cfg" by (simp add: f begun_runtime_def)
  have "good_snapshot store0" using runtimeStore_reachable [OF begun(1) assms(2,3)] .
  then have "settings_ok (fst (store_CurrentSettings (rn_world env 1) (rn_world env 2) store0))"
    using good_settings [OF reloadLocked_good] by (simp add: store_CurrentSettings_def Let_def case_prod_beta)
  moreover have "system_reachable cfg (reader_methods env reader)
      (newService cfg (pool_deps (reader_methods env reader)) (rn_clock env) (rn_order env)
        defaultPollTransitionDelay) newWorkerManager"
    by (rule sys_new [OF assms(4)])
  moreover have "(pool_deps rd)\<lparr>dp_hostSelection := None, dp_admitRun := None\<rparr> = pool_deps rd" for rd
    by (simp add: pool_deps_def runtime_deps_def)
  ultimately show ?thesis
    using begun(2-4) by (auto simp: cfg f begun_runtime_def public_Start_def)
qed (auto split: if_splits)


subsection \<open>The clean-up\<close>

definition issue_path :: "manager \<Rightarrow> work_item \<Rightarrow> string" where
  "issue_path m item = path_Join [mg_root m, safeIdentifier (wi_Identifier item)]"

lemma remove_on_host_clean:
  assumes "remove_on_host m ident h lg = Some ([], lg1)" "h \<noteq> []"
  shows "removals lg1 = removals lg @ [(h, path_Join [mg_root m, safeIdentifier ident])]"
proof (cases "validateRemotePath (path_Join [mg_root m, safeIdentifier ident]) h")
  case (Inr p)
  from remote_remove_on_host [OF Inr assms(2), of lg] assms(1) validateRemotePath_same [OF Inr]
  show ?thesis by auto
qed (use assms in \<open>simp add: remove_on_host_def PathForIdentifier_def\<close>)

lemma remove_on_hosts_clean:
  assumes "remove_on_hosts m ident hs errs lg = Some ([], lg1)" "\<forall>h \<in> set hs. h \<noteq> []"
  shows "errs = [] \<and> removals lg1 = removals lg @ map (\<lambda>h. (h, path_Join [mg_root m, safeIdentifier ident])) hs"
  using assms
proof (induction hs arbitrary: errs lg)
  case (Cons h hs)
  from Cons.prems(1) obtain es lg2 where h: "remove_on_host m ident h lg = Some (es, lg2)"
    "remove_on_hosts m ident hs (errs @ es) lg2 = Some ([], lg1)" by (auto split: option.splits)
  have IH: "errs @ es = [] \<and> removals lg1 = removals lg2 @ map (\<lambda>h. (h, path_Join [mg_root m, safeIdentifier ident])) hs"
    using Cons.IH [OF h(2)] Cons.prems(2) by simp
  then show ?case using remove_on_host_clean [of m ident h lg lg2] h(1) Cons.prems(2) by simp
qed simp

lemma cleanup_items_clean:
  assumes "cleanup_items (manager_controller m) items lg = Some (None, lg1)"
    and "mg_workerHosts m \<noteq> []" "\<forall>h \<in> set (mg_workerHosts m). h \<noteq> []"
  shows "removals lg1 = removals lg @ concat (map (\<lambda>item. map (\<lambda>h. (h, issue_path m item)) (mg_workerHosts m))
    (filter (\<lambda>item. TrimSpace (wi_Identifier item) \<noteq> []) items))"
  using assms(1)
proof (induction items arbitrary: lg)
  case (Cons item items)
  show ?case
  proof (cases "TrimSpace (wi_Identifier item) = []")
    case False
    with Cons.prems obtain lg2 where r: "RemoveIssueWorkspaces m (wi_Identifier item) [] lg = Some ([], lg2)"
      "cleanup_items (manager_controller m) items lg2 = Some (None, lg1)"
      by (auto simp: manager_controller_def join_errors_def split: option.splits if_splits)
    have "remove_on_hosts m (wi_Identifier item) (mg_workerHosts m) [] lg = Some ([], lg2)"
      using r(1) assms(2) by (simp add: RemoveIssueWorkspaces_def)
    from remove_on_hosts_clean [OF this assms(3)] Cons.IH [OF r(2)] False
    show ?thesis by (simp add: issue_path_def)
  qed (use Cons in simp)
qed simp


subsection \<open>Witnesses\<close>

text \<open>A finished item, a manager with two worker hosts, a store that is given and a port that is taken.\<close>

definition finished_item :: work_item where
  "finished_item = (demo_item ''d'' ''ENG 9'')\<lparr>wi_State := ''Done''\<rparr>"

definition clean_manager :: manager where
  "clean_manager = sample_manager\<lparr>mg_transport := (mg_transport sample_manager)\<lparr>wt_Remove := (\<lambda>lg h p. None)\<rparr>\<rparr>"

definition demo_runtime_env :: "ws_call list runtime_env" where
  "demo_runtime_env = \<lparr>rn_parsers = sample_parsers, rn_world = (\<lambda>n. sample_world (sample_file ''a'')),
     rn_client = (\<lambda>e k reqs req. Inr None), rn_view = (\<lambda>r. NewReader []),
     rn_newManager = (\<lambda>cfg. manager_controller sample_manager), rn_listen = (\<lambda>a. Inl ''address in use''),
     rn_splitHostPort = (\<lambda>a. Inl ''bad address''), rn_clock = (\<lambda>n. 0), rn_order = rev\<rparr>"

definition demo_options :: "int option \<Rightarrow> ws_call list runtime_options" where
  "demo_options port = \<lparr>ro_WorkflowPath = [], ro_Store = Some sample_store, ro_Reader = None,
     ro_Workspace = Some (manager_controller clean_manager), ro_MemoryItems = [finished_item],
     ro_ServerPortOverride = port\<rparr>"

declare listByStatesPage.simps [code]

text \<open>All the evaluations at once.\<close>

lemma demo_evaluations:
  "(case StartRuntime demo_runtime_env (demo_options None) [] of
     Some (Inr r, lg1) \<Rightarrow> removals lg1 = [(''h1'', ''/srv/ws/ENG_9''), (''h2'', ''/srv/ws/ENG_9'')]
       \<and> pv_Kind (st_Provider (rm_settings r)) \<noteq> ProviderLinear | _ \<Rightarrow> False)
   \<and> (case StartRuntime demo_runtime_env (demo_options (Some 80)) [] of Some (Inl (e, RuntimeLeft r), lg1) \<Rightarrow> True | _ \<Rightarrow> False)
   \<and> (case startupCleanup (PlainReader (NewReader [finished_item])) (manager_controller clean_manager) sample_settings [] of
       Some (None, lg1) \<Rightarrow> True | _ \<Rightarrow> False)
   \<and> map_option (map_sum id (map wi_ID)) (reader_ListByStates (PlainReader (NewReader [finished_item]))
        (pv_TerminalStates (st_Provider sample_settings))) = Some (Inr [''d''])"
  by code_simp

lemmas demo_starts = demo_evaluations [THEN conjunct1] demo_evaluations [THEN conjunct2, THEN conjunct1]

lemma started_case:
  assumes "case x of Some (Inr r, lg1) \<Rightarrow> P r lg1 | _ \<Rightarrow> False"
  obtains r lg1 where "x = Some (Inr r, lg1)" "P r lg1"
proof (cases x)
  case (Some a)
  then show ?thesis using assms that by (cases a; cases "fst a") auto
qed (use assms in simp)

lemma left_case:
  assumes "case x of Some (Inl (e, RuntimeLeft r), lg1) \<Rightarrow> True | _ \<Rightarrow> False"
  obtains e r lg1 where "x = Some (Inl (e, RuntimeLeft r), lg1)"
proof (cases x)
  case (Some a)
  obtain res lg1 where a: "a = (res, lg1)" by fastforce
  show ?thesis
  proof (cases res)
    case (Inl el)
    obtain e l where "el = (e, l)" by fastforce
    then show ?thesis using assms that Some a Inl by (cases l) auto
  qed (use assms Some a in simp)
qed (use assms in simp)




end
