(* ===== verification/Verify_Props.thy ===== *)
theory Verify_Props
  imports Verify_Commands Runtime_Props
begin

text \<open>
  What the verification commands promise: whatever fails, the store and the runtime they open are closed
  again, and a verification run works on the issue it was given and on no other.
\<close>

declare map_of_eq_Some_iff [simp del]

subsection \<open>Outcomes\<close>

lemma runRuntimeCommand_cases:
  assumes "runRuntimeCommand d args = Some (status, calls)"
  obtains (usage) m where "status = 1" "calls = [VerifyErr m]"
  | (unopened) path e m where "vd_openStore d path = Inl e" "status = 1" "calls = [OpenStore path, VerifyErr m]"
  | (refused) path store m where "vd_openStore d path = Inr store" "status = 1"
      "calls = [OpenStore path, VerifyErr m, CloseStore]"
  | (begun) parsed store reader where "parseRunArgs (vd_scaled d) args = Some parsed" "ra_ack parsed"
      "vd_openStore d (ra_workflowPath parsed) = Inr store" "\<exists>settings. vd_newLinearReader d settings = Inr reader"
      "\<exists>e m opts. opts = verify_options parsed (snd (store_CurrentSettings (fst (vd_worlds d)) (snd (vd_worlds d)) store)) reader
        \<and> ((vd_startRuntime d opts = Some (Inl e) \<and> status = 1
              \<and> calls = [OpenStore (ra_workflowPath parsed), StartCall opts, VerifyErr m, CloseStore])
           \<or> (\<exists>r closing. vd_startRuntime d opts = Some (Inr r) \<and> finish_run d (vd_wait d r) = (status, closing)
              \<and> calls = [OpenStore (ra_workflowPath parsed), StartCall opts, VerifyOut m] @ closing @ [CloseStore]))"
proof (cases "parseRunArgs (vd_scaled d) args")
  case None
  then have "status = 1" "calls = [VerifyErr (out_line verify_usage)]" using assms by (auto simp: runRuntimeCommand_def)
  then show ?thesis by (rule usage)
next
  case (Some parsed)
  note unf = assms [unfolded runRuntimeCommand_def Some option.case]
  show ?thesis
  proof (cases "ra_ack parsed \<and> ra_onlyIssue parsed \<noteq> []")
    case False
    then show ?thesis using unf usage by (auto split: if_splits)
  next
    case True
    show ?thesis
    proof (cases "vd_openStore d (ra_workflowPath parsed)")
      case (Inl e)
      then show ?thesis using unf True unopened by auto
    next
      case (Inr store)
      obtain cfg store1 where c: "store_CurrentSettings (fst (vd_worlds d)) (snd (vd_worlds d)) store = (cfg, store1)"
        by fastforce
      note u2 = unf [unfolded Inr sum.case c Let_def prod.case]
      show ?thesis
      proof (cases "pv_Kind (st_Provider cfg) = ProviderLinear \<and> (\<exists>reader. vd_newLinearReader d (st_Provider cfg) = Inr reader)")
        case False
        then show ?thesis using u2 True refused [OF Inr] by (auto split: if_splits sum.splits)
      next
        case linear: True
        then obtain reader where r: "vd_newLinearReader d (st_Provider cfg) = Inr reader" by blast
        show ?thesis
        proof (rule begun [OF Some _ Inr])
          show "\<exists>settings. vd_newLinearReader d settings = Inr reader" using r by blast
          show "ra_ack parsed" using True by blast
          show "\<exists>e m opts. opts = verify_options parsed (snd (store_CurrentSettings (fst (vd_worlds d)) (snd (vd_worlds d)) store)) reader
        \<and> ((vd_startRuntime d opts = Some (Inl e) \<and> status = 1
              \<and> calls = [OpenStore (ra_workflowPath parsed), StartCall opts, VerifyErr m, CloseStore])
           \<or> (\<exists>r closing. vd_startRuntime d opts = Some (Inr r) \<and> finish_run d (vd_wait d r) = (status, closing)
              \<and> calls = [OpenStore (ra_workflowPath parsed), StartCall opts, VerifyOut m] @ closing @ [CloseStore]))"
            using u2 True linear r unfolding c snd_conv
            by (auto split: option.splits sum.splits if_splits prod.splits)
        qed
      qed
    qed
  qed
qed

lemma finish_run_cases:
  assumes "finish_run d r = (status, closing)"
  obtains e m where "vd_Close d r = Some e" "status = 1" "closing = [CloseCall, VerifyErr m]"
  | m where "vd_Close d r = None" "status = 0" "closing = [CloseCall, VerifyOut m]"
  using assms by (auto simp: finish_run_def split: option.splits)

definition fails :: "'l verify_call \<Rightarrow> bool" where
  "fails c \<longleftrightarrow> (\<exists>m. c = VerifyErr m)"

definition releases :: "('r, 'l) verify_deps \<Rightarrow> int \<Rightarrow> 'l verify_call list \<Rightarrow> bool" where
  "releases d status calls \<longleftrightarrow>
     (CloseStore \<in> set calls \<longleftrightarrow> (\<exists>path s. OpenStore path \<in> set calls \<and> vd_openStore d path = Inr s))
   \<and> (CloseStore \<in> set calls \<longrightarrow> last calls = CloseStore)
   \<and> (CloseCall \<in> set calls \<longleftrightarrow> (\<exists>opts r. StartCall opts \<in> set calls \<and> vd_startRuntime d opts = Some (Inr r)))
   \<and> status = (if list_ex fails calls then 1 else 0)"

lemma runLinearCommand_releases: "releases d (fst (runLinearCommand d args)) (snd (runLinearCommand d args))"
  by (auto simp: runLinearCommand_def releases_def fails_def Let_def split: option.split sum.split)

lemma runRuntimeCommand_releases:
  assumes "runRuntimeCommand d args = Some (status, calls)"
  shows "releases d status calls"
  using assms
proof (cases rule: runRuntimeCommand_cases)
  case (begun parsed store reader)
  then show ?thesis
    by (auto simp: releases_def fails_def elim!: finish_run_cases)
qed (auto simp: releases_def fails_def)

text \<open>Every step of the verification commands may fail, and each failure is handled: whatever the
  arguments and whatever the store, the tracker and the runtime do, a command that ends has closed the
  store, last of all, exactly if it could open it, and the runtime exactly if it could start it; and the exit
  status is 1 exactly if an error was printed.
\<close>

theorem verify_main_releases:
  assumes "verify_main d args = Some (status, calls)"
  shows "(CloseStore \<in> set calls \<longleftrightarrow> (\<exists>path s. OpenStore path \<in> set calls \<and> vd_openStore d path = Inr s))
    \<and> (CloseStore \<in> set calls \<longrightarrow> last calls = CloseStore)
    \<and> (CloseCall \<in> set calls \<longleftrightarrow> (\<exists>opts r. StartCall opts \<in> set calls \<and> vd_startRuntime d opts = Some (Inr r)))
    \<and> status = (if list_ex fails calls then 1 else 0)"
proof -
  have "releases d status calls"
  proof (cases args)
    case (Cons cmd rest)
    then show ?thesis
      using assms runLinearCommand_releases [of d rest] runRuntimeCommand_releases [of d rest]
      by (auto simp: verify_main_def releases_def fails_def split: if_splits)
  qed (use assms in \<open>auto simp: verify_main_def releases_def fails_def\<close>)
  then show ?thesis by (simp add: releases_def)
qed

subsection \<open>A run on one issue\<close>

lemma take_value:
  assumes "(case args of [] \<Rightarrow> None | v # rest \<Rightarrow> (case f v of None \<Rightarrow> None | Some x \<Rightarrow> g rest x)) = Some res"
  shows "\<exists>v rest x. args = v # rest \<and> g rest x = Some res"
  using assms by (auto split: list.splits option.splits)

lemma take_inline: "(case f of None \<Rightarrow> None | Some x \<Rightarrow> g x) = Some res \<Longrightarrow> \<exists>x. g x = Some res"
  by (auto split: option.splits)

definition goes_on :: "(int \<Rightarrow> int \<Rightarrow> int \<Rightarrow> int) \<Rightarrow> string list \<Rightarrow> run_args \<Rightarrow> run_args \<times> string list \<Rightarrow> bool" where
  "goes_on scaled args parsed res \<longleftrightarrow> (\<exists>rest parsed' pos'. set rest \<subseteq> set args \<and> length rest \<le> length args
     \<and> ra_ack parsed' = ra_ack parsed \<and> run_args_loop scaled rest parsed' pos' = Some res)"

lemma goes_on_same: "run_args_loop scaled args parsed' pos' = Some res \<Longrightarrow> ra_ack parsed' = ra_ack parsed
    \<Longrightarrow> goes_on scaled args parsed res"
  unfolding goes_on_def by blast

lemma goes_on_next: "run_args_loop scaled rest parsed' pos' = Some res \<Longrightarrow> ra_ack parsed' = ra_ack parsed
    \<Longrightarrow> goes_on scaled (v # rest) parsed res"
  unfolding goes_on_def by (intro exI [of _ rest] exI [of _ parsed'] exI [of _ pos']) auto

lemma loop_value:
  assumes "(case args of [] \<Rightarrow> None | v # rest \<Rightarrow> (case f v of None \<Rightarrow> None
      | Some x \<Rightarrow> run_args_loop scaled rest (h x) pos)) = Some res" "\<And>x. ra_ack (h x) = ra_ack parsed"
  shows "goes_on scaled args parsed res"
  using take_value [OF assms(1)] assms(2) goes_on_next by blast

lemma loop_inline:
  assumes "(case f of None \<Rightarrow> None | Some x \<Rightarrow> run_args_loop scaled args (h x) pos) = Some res"
    "\<And>x. ra_ack (h x) = ra_ack parsed"
  shows "goes_on scaled args parsed res"
  using take_inline [OF assms(1)] assms(2) goes_on_same by blast

lemma run_args_step:
  assumes "run_args_loop scaled (arg # args) parsed pos = Some res" "arg \<noteq> ackFlag"
  shows "goes_on scaled args parsed res"
  using assms
  by (simp only: run_args_loop.simps if_False option.distinct split: if_split_asm)
    ((erule loop_value loop_inline goes_on_same; simp)+)

lemma run_args_acknowledged:
  "run_args_loop scaled args parsed pos = Some (p, ps) \<Longrightarrow> ra_ack p \<Longrightarrow> ra_ack parsed \<or> ackFlag \<in> set args"
proof (induction "length args" arbitrary: args parsed pos rule: less_induct)
  case less
  show ?case
  proof (cases args)
    case (Cons arg more)
    show ?thesis
    proof (cases "arg = ackFlag")
      case False
      from run_args_step [OF less.prems(1) [unfolded Cons] this] obtain rest parsed' pos' where
        "set rest \<subseteq> set more" "length rest \<le> length more" "ra_ack parsed' = ra_ack parsed"
        "run_args_loop scaled rest parsed' pos' = Some (p, ps)" unfolding goes_on_def by blast
      with less.hyps [of rest parsed' pos'] less.prems(2) Cons show ?thesis by auto
    qed (simp add: Cons)
  qed (use less.prems in auto)
qed

lemma parseRunArgs_acknowledged: "parseRunArgs scaled args = Some p \<Longrightarrow> ra_ack p \<Longrightarrow> ackFlag \<in> set args"
  using run_args_acknowledged by (fastforce simp: parseRunArgs_def split: option.splits prod.splits list.splits)

lemma filtered_refreshed:
  assumes "tr_RefreshByIDs (NewFilteredReader reader pattern) ids = Inr found" "item \<in> set found"
  shows "TrimSpace pattern \<noteq> []
    \<and> normalizeMatch pattern \<in> {normalizeMatch (wi_ID item), normalizeMatch (wi_Identifier item)}"
  using assms by (auto simp: NewFilteredReader_def filtered_methods_def filter_result_def
      filter_items_def normalizeMatch_def split: sum.splits if_splits)

lemma filtered_refresh_sound:
  assumes "refresh_sound (pool_deps reader)"
  shows "refresh_sound (pool_deps (NewFilteredReader reader pattern))"
  using assms
  by (auto simp: refresh_sound_def pool_deps_def runtime_deps_def NewFilteredReader_def filtered_methods_def
      filter_result_def filter_items_def split: sum.splits if_splits) 

lemma system_deps: "system_reachable cfg reader v p \<Longrightarrow> dp_refreshItems (vc_deps v) = dp_refreshItems (pool_deps reader)"
proof (induction rule: system_reachable.induct)
  case (sys_service v p w)
  then show ?case using vc_deps_step by simp
qed (simp_all add: newService_def Let_def)

text \<open>Every run of a system over a scoped reader is for an item that matches.\<close>

lemma scoped_system_starts:
  assumes "system_reachable cfg (NewFilteredReader reader pattern) v p" "refresh_sound (pool_deps reader)"
    and "CallStart q \<in> set (sd_calls (vc_state v))"
  shows "normalizeMatch pattern \<in> {normalizeMatch (wi_ID (sq_Item q)), normalizeMatch (wi_Identifier (sq_Item q))}"
proof -
  have "fresh_starts (vc_deps v) (vc_state v)"
    using system_reachable_inv [OF assms(1) filtered_refresh_sound [OF assms(2)]] by (simp add: system_inv_def svc_inv_def)
  moreover obtain cs1 cs2 where "sd_calls (vc_state v) = cs1 @ CallStart q # cs2"
    using assms(3) by (auto simp: in_set_conv_decomp)
  ultimately have "fresh_start (vc_deps v) (vc_state v) cs1 (sq_Item q)" by (simp add: fresh_starts_def)
  then obtain cs k f rest where f: "dp_refreshItems (vc_deps v) = Some f" "f cs [k] = Inr (sq_Item q # rest)"
    by (auto simp: fresh_start_def)
  then have "tr_RefreshByIDs (NewFilteredReader reader pattern) [k] = Inr (sq_Item q # rest)"
    using system_deps [OF assms(1)] by (auto simp: pool_deps_def runtime_deps_def)
  from filtered_refreshed [OF this, of "sq_Item q"] show ?thesis by simp
qed

lemma runLinearCommand_starts: "StartCall opts \<notin> set (snd (runLinearCommand d args))"
  by (auto simp: runLinearCommand_def Let_def split: option.split sum.split)


subsection \<open>Witnesses\<close>

text \<open>A workflow for Linear, and a Linear reader that shows the demo items.\<close>

definition linear_decode :: "gval \<Rightarrow> legacy_config \<Rightarrow> string + legacy_config" where
  "linear_decode v cfg = Inr (cfg\<lparr>lc_Tracker := (lc_Tracker cfg)\<lparr>lt_Kind := ''linear'', lt_APIKey := ''key'',
     lt_ProjectSlug := ''P''\<rparr>\<rparr>)"

definition verify_env :: "ws_call list runtime_env" where
  "verify_env = demo_runtime_env\<lparr>rn_parsers := sample_parsers\<lparr>pa_decode := linear_decode\<rparr>,
     rn_view := (\<lambda>l. NewReader demo_items)\<rparr>"

definition verify_deps_demo :: "(runtime, ws_call list) verify_deps" where
  "verify_deps_demo = realDeps verify_env (\<lambda>e. ''error'') (sample_world (sample_file ''a''), sample_world (sample_file ''a''))
     [] (\<lambda>r. r) None (\<lambda>f u s. f * u div s)"

definition verify_args :: "string list" where
  "verify_args = [''run'', ackFlag, ''--only-issue'', ''ENG-1'', ''--timeout=1s'', ''/w/WORKFLOW.md'']"

lemma some_case: "case x of Some (a, b) \<Rightarrow> P a b | None \<Rightarrow> False \<Longrightarrow> \<exists>a b. x = Some (a, b) \<and> P a b"
  by (auto split: option.splits prod.splits)

lemma verify_demo_runs:
  "case verify_main verify_deps_demo verify_args of
     Some (status, calls) \<Rightarrow> status = 0 \<and> list_ex (\<lambda>c. case c of StartCall opts \<Rightarrow>
         (case StartRuntime verify_env opts [] of Some (Inr r, lg1) \<Rightarrow> True | _ \<Rightarrow> False) | _ \<Rightarrow> False) calls
       \<and> list_ex (\<lambda>c. case c of CloseStore \<Rightarrow> True | _ \<Rightarrow> False) calls
   | None \<Rightarrow> False"
  by code_simp

theorem verify_main_releases_witness:
  "\<exists>status calls. verify_main verify_deps_demo verify_args = Some (status, calls) \<and> last calls = CloseStore
     \<and> \<not> list_ex fails calls"
proof -
  obtain status calls where r: "verify_main verify_deps_demo verify_args = Some (status, calls)" "status = 0"
    "list_ex (\<lambda>c. case c of CloseStore \<Rightarrow> True | _ \<Rightarrow> False) calls"
    using some_case [OF verify_demo_runs] by blast
  have "c = CloseStore" if "case c of CloseStore \<Rightarrow> True | _ \<Rightarrow> False" for c :: "ws_call list verify_call"
    using that by (cases c) simp_all
  then have "CloseStore \<in> set calls" using r(3) by (auto simp: list_ex_iff)
  with verify_main_releases [OF r(1)] r(1,2) show ?thesis by (auto split: if_splits)
qed


end
