(* ===== verification/Spec2Isabelle.thy ===== *)
theory Spec2Isabelle
  imports Orch_Props Scheduler_Order Tracker Store Workspace_Props Linear_Props Worker_Props
    Observability_Props Terminal_Props Tool_Bridge_Props Codex_Process_Props Web_Props Logging Verify_Props
begin

text \<open>
  A model of go-symphony, a daemon that polls an issue tracker and runs one coding agent per issue
  in a workspace of its own.

  \<^bold>\<open>The program.\<close> \<open>internal/config\<close> reads \<open>WORKFLOW.md\<close> (front matter and prompt) into settings and
  keeps the last good version in a store. \<open>internal/tracker\<close> and \<open>internal/trackers/*\<close> read work
  items. \<open>internal/orchestrator\<close> is the core: a scheduler state behind a mutex, driven by timers, which
  polls the tracker, starts and stops runs through injected functions, reconciles them with the
  tracker and retries failures with a back-off. \<open>internal/cli/runtime.go\<close> provides these functions: its
  worker manager runs one worker per run, which creates the workspace (\<open>internal/workspace\<close>, on hosts
  chosen and reached by \<open>internal/runner\<close>), drives a Codex process over JSON-RPC (\<open>internal/codex\<close>) with
  the tool of \<open>internal/toolbridge\<close>, and reports run events back to the orchestrator. The orchestrator's
  snapshot is shown by \<open>internal/httpapi\<close>, \<open>internal/observability\<close> and \<open>internal/dashboard\<close>, and
  \<open>internal/cli/main.go\<close> starts it all.

  \<^bold>\<open>The theories\<close>, in the order of their imports:
  \<^item> \<open>Prelude\<close>: Go maps as association lists with an explicit visiting order for \<open>range\<close>,
    \<open>sort.Slice\<close>, 64-bit wrap-around. \<open>Go_Strings\<close>, \<open>Go_Path\<close>, \<open>Go_Time\<close>, \<open>Go_Values\<close>, \<open>Go_Date\<close>,
    \<open>Go_Date_Format\<close>, \<open>Go_Json\<close>: the parts of the standard library the code calls (calendar dates and
    RFC 3339, indented JSON), and the helpers on decoded YAML and JSON values.
  \<^item> \<open>Domain\<close>: \<open>domain/types.go\<close>. \<open>Runner_Hosts\<close>: \<open>runner/host_selection.go\<close>, whose contract is the
    locale \<open>host_admission\<close>. \<open>Runner_Exec\<close>: \<open>runner/execution_host.go\<close> with a reading of POSIX shell
    words (\<open>sh_words\<close>) as the specification of the quoting.
  \<^item> \<open>Workflow_File\<close>, \<open>Settings\<close>, \<open>Store\<close>: \<open>config/workflow.go\<close>, \<open>settings.go\<close>, \<open>store.go\<close>.
    \<open>settings_ok\<close> specifies what validation accepts.
  \<^item> \<open>Scheduler\<close>: \<open>orchestrator/state.go\<close>, every operation. The record \<open>sched\<close> has the fields of
    \<open>schedulerState\<close>, the readings of the clock and a log of the calls to the injected functions, whose
    answers may depend on that log. \<open>Scheduler_Inv\<close>: the invariant \<open>sched_inv\<close> and its preservation by
    each operation. \<open>Scheduler_Calls\<close>: every start follows a refresh of the same item.
  \<^item> \<open>Orch_Service\<close>: \<open>orchestrator/service.go\<close> and \<open>public.go\<close>. The relation \<open>svc_step\<close> interleaves the
    expiry of timers, their callbacks and the public methods in any order. \<open>Orch_Inv\<close>: the service
    invariant \<open>svc_inv\<close>, kept by every step. \<open>Orch_Demo\<close>: a concrete run used by witnesses.
    \<open>Scheduler_Props\<close>, \<open>Scheduler_Order\<close>, \<open>Orch_Props\<close>: what the operations, the orders and the
    reachable states promise.
  \<^item> \<open>Tracker\<close>: \<open>tracker/filter.go\<close>, \<open>trackers/memory/reader.go\<close>. The locale \<open>tracker_contract\<close> is what
    the orchestrator relies on; both readers interpret it. \<open>Linear_Reader\<close>, \<open>Linear_Props\<close>:
    \<open>trackers/linear/reader.go\<close>, whose answers depend on the requests made before: paging is complete,
    refreshing in batches exact, the assignee filter and blocking relations reach the dispatch gate.
  \<^item> \<open>Workspace_Path\<close>, \<open>Workspace\<close>, \<open>Workspace_Props\<close>: \<open>workspace/manager.go\<close>, the path checks, the
    manager with its hooks, the local and remote transport, and its promises.
  \<^item> \<open>Codex_Session\<close>, \<open>Codex_Props\<close>: \<open>codex/session.go\<close>, the session with the process as a scripted
    transport: handshake, turns, approvals, tool calls, timeouts. \<open>Codex_Process\<close>, \<open>Codex_Process_Props\<close>: the
    transport over a child process in the same file; \<open>transport_step\<close> interleaves the child, the scanning
    goroutine and the callers, and lines are neither lost nor split.
  \<^item> \<open>Tool_Bridge\<close>, \<open>Tool_Bridge_Props\<close>: \<open>toolbridge/linear/bridge.go\<close> and \<open>workflow/*.go\<close>.
  \<^item> \<open>Worker\<close>, \<open>Worker_Props\<close>: the worker of one run in \<open>cli/runtime.go\<close>; the locale \<open>run_contract\<close> is what
    it relies on of a workspace controller, which the manager interprets. \<open>Runtime_Pool\<close>,
    \<open>Runtime_Pool_Props\<close>: the worker manager, with \<open>pool_step\<close> interleaving the scheduler's calls and the
    workers. \<open>Runtime_System\<close>: the orchestrator and the worker manager wired together. \<open>Runtime\<close>,
    \<open>Runtime_Props\<close>: start-up and shutdown.
  \<^item> \<open>Observability\<close>, \<open>Http_Api\<close>, \<open>Terminal\<close> and their \<open>_Props\<close>: the projection of a snapshot, the JSON API and
    the terminal dashboard. \<open>Web_Pages\<close>, \<open>Web_Props\<close>: \<open>web/handler.go\<close>, the dashboard page as fixed markup
    and escaped data.
  \<^item> \<open>Command_Line\<close>: \<open>cli/main.go\<close>. \<open>Logging\<close>: \<open>logging/logging.go\<close> and \<open>cli/log_file.go\<close>. \<open>Go_Duration\<close>,
    \<open>Verify_Commands\<close>, \<open>Verify_Props\<close>: \<open>cmd/symphony-verify\<close> and \<open>verify/linearprobe\<close>, from the arguments
    through \<open>StartRuntime\<close> to the runs of the orchestrator and the worker manager.
  \<^item> This theory: properties that span components.

  \<^bold>\<open>Conventions.\<close> A Go error is a value of the left side of a sum, or an optional message where the code
  only passes it on. The outside world (the file system, the tracker's answers, the Codex process, the
  network, the clock, third-party YAML decoding, \<open>encoding/json\<close> decoding) is an argument of the
  definitions, often a function of what was asked before. A loop over a Go map takes the visiting order as
  an argument, and the theorems hold for every order. A duration is an integer of nanoseconds, and wraps in
  64 bits where the code can overflow. Strings are lists of bytes.

  \<^bold>\<open>Termination.\<close> No definition has fuel; \<open>retry_delay_loop\<close> counts the doublings the Go loop makes and
  \<open>codex_turns\<close> the turns left of the budget. Loops that only the outside world ends are partial functions
  and \<open>None\<close> means that the code does not return: \<open>canonicalizePath\<close> follows symbolic links without a limit
  (\<open>validateLocalPath_returns\<close>, \<open>canonicalizePath_link_loop\<close>), \<open>listByStatesPage\<close> follows pages
  (\<open>ListByStates_complete\<close>, \<open>ListByStates_endless\<close>), \<open>awaitResponse\<close> and \<open>turn_loop\<close> read messages
  (\<open>session_returns\<close>, \<open>worker_returns\<close>).

  \<^bold>\<open>Not modelled\<close>: log messages, the filling of absent dependencies with the real ones
  (\<open>normalizeMainDeps\<close>, \<open>normalizeVerifyDeps\<close>, the default file operations of the store), signals and
  \<open>os.Exit\<close>, the bytes of the embedded assets, and the loaders of test fixtures. Of \<open>html/template\<close> only the
  escaping of the contexts the page has is followed; the rotation of the log file is lumberjack's. White
  space and letter case are those of ASCII, and throughput is computed with exact division where the code
  uses \<open>float64\<close>.
\<close>

declare map_of_eq_Some_iff [simp del]

subsection \<open>A scoped service\<close>

lemma filtered_refresh:
  assumes "tr_RefreshByIDs (NewFilteredReader (NewReader items) pattern) ids = Inr found" "item \<in> set found"
  shows "item \<in> set items \<and> TrimSpace pattern \<noteq> []
    \<and> normalizeMatch pattern \<in> {normalizeMatch (wi_ID item), normalizeMatch (wi_Identifier item)}"
proof -
  have "item' \<in> set items" if "tr_RefreshByIDs (NewReader items) ids = Inr its" "item' \<in> set its" for its item'
    using that by (auto simp: NewReader_def memory_refreshed set_map_filter dest: memory_index_id)
  then show ?thesis
    using assms by (auto simp: NewFilteredReader_def filtered_methods_def filter_result_def
        filter_items_def normalizeMatch_def split: sum.splits if_splits)
qed

text \<open>A service scoped to one item works on nothing else. With the scoped reader over the
  memory tracker, in every reachable state every run ever started is for an item of the tracker
  whose ID or identifier equals the pattern up to case and surrounding white space; with a blank
  pattern no run is ever started.\<close>

theorem scoped_service_starts:
  assumes "svc_reachable cfg (runtime_deps (NewFilteredReader (NewReader items) pattern) startRun stopRun) v"
    and "CallStart q \<in> set (sd_calls (vc_state v))"
  shows "sq_Item q \<in> set items \<and> TrimSpace pattern \<noteq> []
    \<and> normalizeMatch pattern \<in> {normalizeMatch (wi_ID (sq_Item q)), normalizeMatch (wi_Identifier (sq_Item q))}"
proof -
  let ?reader = "NewFilteredReader (NewReader items) pattern"
  let ?d = "runtime_deps ?reader startRun stopRun"
  have "fresh_starts (vc_deps v) (vc_state v)"
    using filtered_memory.runtime_inv [OF assms(1)] by (simp add: svc_inv_def)
  moreover obtain cs1 cs2 where "sd_calls (vc_state v) = cs1 @ CallStart q # cs2"
    using assms(2) by (auto simp: in_set_conv_decomp)
  ultimately have "fresh_start (vc_deps v) (vc_state v) cs1 (sq_Item q)"
    by (simp add: fresh_starts_def)
  then obtain cs k f rest where f: "dp_refreshItems (vc_deps v) = Some f" "f cs [k] = Inr (sq_Item q # rest)"
    by (auto simp: fresh_start_def)
  have "dp_refreshItems (vc_deps v) = Some (\<lambda>cs ids. tr_RefreshByIDs ?reader ids)"
    using reachable_deps [OF assms(1)] by (simp add: runtime_deps_def)
  with f(1) have "f = (\<lambda>cs ids. tr_RefreshByIDs ?reader ids)" by simp
  with f(2) have "tr_RefreshByIDs ?reader [k] = Inr (sq_Item q # rest)" by simp
  from filtered_refresh [OF this, of "sq_Item q"] show ?thesis by simp
qed

text \<open>Two items, the service scoped to the second by its identifier, and its first poll.\<close>

definition scoped_deps :: deps where
  "scoped_deps = runtime_deps (NewFilteredReader (NewReader demo_items) '' eng-1 '')
     (\<lambda>cs q. Inr \<lparr>sr_Handle = Some 7, sr_WorkerHost = [], sr_WorkspacePath = ''/w'', sr_SessionID = ''s''\<rparr>)
     (\<lambda>cs q. None)"

definition scoped_polled :: service where
  "scoped_polled = fire 1 (fire 0 (demo_start scoped_deps))"

lemma scoped_polled_reachable: "svc_reachable demo_settings scoped_deps scoped_polled"
  unfolding scoped_polled_def
  by (rule fire_reachable, rule fire_reachable [OF demo_start_reachable]; code_simp)

lemma scoped_polled_calls:
  "sd_calls (vc_state scoped_polled) = [CallListCandidates, CallRefresh [''a''],
     CallStart \<lparr>sq_Item = demo_item ''a'' ''ENG-1'', sq_Attempt = 0, sq_PreferredHost = []\<rparr>]"
  by code_simp

theorem scoped_service_starts_witness:
  "demo_item ''a'' ''ENG-1'' \<in> set demo_items \<and> normalizeMatch '' eng-1 '' \<in> {normalizeMatch ''a'', normalizeMatch ''ENG-1''}"
proof -
  let ?q = "\<lparr>sq_Item = demo_item ''a'' ''ENG-1'', sq_Attempt = 0, sq_PreferredHost = []\<rparr>"
  have "CallStart ?q \<in> set (sd_calls (vc_state scoped_polled))" by (simp add: scoped_polled_calls)
  from scoped_service_starts [OF scoped_polled_reachable [unfolded scoped_deps_def] this]
  show ?thesis by (simp add: demo_item_def empty_item_def)
qed

subsection \<open>From the workflow file to the running service\<close>

text \<open>From the configuration to the running service: for every workflow that \<open>ParseSettings\<close>
  accepts, and a service wired by the runtime to the memory tracker with these settings, every
  reachable state has at most the configured number of agents running, and that number is positive;
  and until the service is closed its poll loop has a pending timer.\<close>

theorem accepted_workflow_service:
  assumes "ParseSettings os decode ord ord' flow = Inr cfg" "order_ok ord'"
    and "svc_reachable cfg (runtime_deps (NewReader items) startRun stopRun) v"
  shows "0 < ag_MaxConcurrentAgents (st_Agent cfg)
    \<and> int (length (sd_running (vc_state v))) \<le> ag_MaxConcurrentAgents (st_Agent cfg)
    \<and> (\<not> vc_closed v \<longrightarrow> (\<exists>i < length (vc_timers v). pending (vc_timers v ! i)
          \<and> tm_callback (vc_timers v ! i) \<in> {PollTick (sd_pollNonce (vc_state v)), PollCycle (sd_pollNonce (vc_state v))}))"
proof -
  have pos: "0 < ag_MaxConcurrentAgents (st_Agent cfg)"
    using ParseSettings_ok [OF assms(1,2)] by (simp add: settings_ok_def)
  have inv: "svc_inv v" using memory.runtime_inv [OF assms(3)] .
  have "sd_maxConcurrent (vc_state v) = ag_MaxConcurrentAgents (st_Agent cfg)"
    using reachable_conf [OF assms(3) memory.deps_refresh_sound] by (simp add: conf_def)
  then have "int (length (sd_running (vc_state v))) \<le> ag_MaxConcurrentAgents (st_Agent cfg)"
    using inv pos by (simp add: svc_inv_def sched_inv_def within_capacity_def)
  moreover have "\<exists>i < length (vc_timers v). pending (vc_timers v ! i)
      \<and> tm_callback (vc_timers v ! i) \<in> {PollTick (sd_pollNonce (vc_state v)), PollCycle (sd_pollNonce (vc_state v))}"
    if "\<not> vc_closed v"
    using inv that unfolding svc_inv_def poll_inv_def poll_live_def cycle_pending_def tick_pending_def
    by (auto simp: tview_def split: if_splits)
  ultimately show ?thesis using pos by blast
qed

definition accepted_start :: service where
  "accepted_start = newService sample_settings (runtime_deps (NewReader demo_items) (\<lambda>cs q. Inl ''down'') (\<lambda>cs q. None))
     (\<lambda>n. 0) (\<lambda>ks. ks) (20 * millisecond)"

theorem accepted_workflow_service_witness:
  "int (length (sd_running (vc_state accepted_start))) \<le> ag_MaxConcurrentAgents (st_Agent sample_settings)
   \<and> \<not> vc_closed accepted_start"
proof
  have "svc_reachable sample_settings (runtime_deps (NewReader demo_items) (\<lambda>cs q. Inl ''down'') (\<lambda>cs q. None)) accepted_start"
    unfolding accepted_start_def by (rule reach_new) simp
  from accepted_workflow_service [OF sample_parse order_ok_rev this]
  show "int (length (sd_running (vc_state accepted_start))) \<le> ag_MaxConcurrentAgents (st_Agent sample_settings)"
    by blast
  show "\<not> vc_closed accepted_start" by code_simp
qed

end
